(* ===== verification/Prelude.thy ===== *)
theory Prelude
  imports Main "HOL-Library.Word"
begin

text \<open>
  What every component of the development shares: the collections of facts that the component
  proofs pass to the simplifier, Go's fixed-width integers, and the shape of a Go function that
  talks to the outside world and may return early with an error.

  A Go function \<open>f(ctx, ...) (T, error)\<close> becomes a HOL function that takes the state of the world
  last and returns \<open>Inl err\<close> or \<open>Inr value\<close> with the new world. \<open>andThen\<close> is the idiom
  \<open>x, err := f(); if err != nil { return err }\<close>, and \<open>runSteps\<close> is a sequence of such calls.
\<close>

named_theorems kube_defs "record constructors and small accessors that proofs unfold freely"
named_theorems emits_intros "composition rules for the calls a computation may issue"
named_theorems succeeds_intros "composition rules for computations that do not fail"
named_theorems keeps_intros "composition rules for the parts of the server a computation leaves alone"

section \<open>Go integers\<close>

type_synonym int32 = "32 word"
type_synonym int64 = "64 word"

text \<open>Go's built-in \<open>max\<close> and the comparisons on signed 32-bit values.\<close>

definition max32 :: "int32 \<Rightarrow> int32 \<Rightarrow> int32" where
  "max32 a b = (if a <s b then b else a)"

lemma sint_max32: "sint (max32 a b) = max (sint a) (sint b)"
  by (simp add: max32_def word_sless_alt)

lemma max32_ge_right: "sint b \<le> sint (max32 a b)"
  by (simp add: sint_max32)

lemma sint32_lower: "- (2 ^ 31) \<le> sint (w :: int32)"
  using sint_ge [of w] by simp

lemma sint32_upper: "sint (w :: int32) < 2 ^ 31"
  using sint_lt [of w] by simp

text \<open>A product of two 32-bit values that fits is the exact product.\<close>

lemma sint_mult_no_overflow:
  assumes "- (2 ^ 31) \<le> sint a * sint b" and "sint a * sint b < 2 ^ 31"
  shows "sint (a * b :: int32) = sint a * sint b"
  using assms by (simp add: sint_word_ariths signed_take_bit_int_eq_self)

lemma sint_add_no_overflow:
  assumes "- (2 ^ 31) \<le> sint a + sint b" and "sint a + sint b < 2 ^ 31"
  shows "sint (a + b :: int32) = sint a + sint b"
  using assms by (simp add: sint_word_ariths signed_take_bit_int_eq_self)

section \<open>Early returns\<close>

type_synonym ('w, 'e, 'a) io = "'w \<Rightarrow> ('e + 'a) \<times> 'w"

definition ret :: "'a \<Rightarrow> ('w, 'e, 'a) io" where
  "ret x w = (Inr x, w)"

definition fail :: "'e \<Rightarrow> ('w, 'e, 'a) io" where
  "fail e w = (Inl e, w)"

definition andThen :: "('w, 'e, 'a) io \<Rightarrow> ('a \<Rightarrow> ('w, 'e, 'b) io) \<Rightarrow> ('w, 'e, 'b) io" where
  "andThen m k w = (case m w of (Inl e, w') \<Rightarrow> (Inl e, w') | (Inr x, w') \<Rightarrow> k x w')"

text \<open>\<open>attempt m k\<close> runs \<open>m\<close> and hands its whole result, error included, to \<open>k\<close>.\<close>

definition attempt :: "('w \<Rightarrow> 'r \<times> 'w) \<Rightarrow> ('r \<Rightarrow> 'w \<Rightarrow> 'q \<times> 'w) \<Rightarrow> 'w \<Rightarrow> 'q \<times> 'w" where
  "attempt m k w = (case m w of (r, w') \<Rightarrow> k r w')"

fun runSteps :: "('w, 'e, unit) io list \<Rightarrow> ('w, 'e, unit) io" where
  "runSteps [] w = (Inr (), w)"
| "runSteps (m # ms) w = (case m w of (Inl e, w') \<Rightarrow> (Inl e, w') | (Inr _, w') \<Rightarrow> runSteps ms w')"

lemma attempt_eq: "m w = (r, w') \<Longrightarrow> attempt m k w = k r w'"
  by (simp add: attempt_def)

lemma andThen_attempt:
  "andThen m k = attempt m (\<lambda>r. case r of Inl e \<Rightarrow> fail e | Inr x \<Rightarrow> k x)"
  by (rule ext) (simp add: andThen_def attempt_def fail_def split: prod.splits sum.splits)

lemma ret_Inr [simp]: "ret x w = (Inr y, w') \<longleftrightarrow> x = y \<and> w = w'"
  by (auto simp: ret_def)

lemma ret_Inl [simp]: "ret x w \<noteq> (Inl e, w')"
  by (simp add: ret_def)

lemma fail_Inl [simp]: "fail e w = (Inl e', w') \<longleftrightarrow> e = e' \<and> w = w'"
  by (auto simp: fail_def)

lemma fail_Inr [simp]: "fail e w \<noteq> (Inr x, w')"
  by (simp add: fail_def)

lemma ret_andThen [simp]: "andThen (ret x) k = k x"
  by (rule ext) (simp add: andThen_def ret_def)

lemma fail_andThen [simp]: "andThen (fail e) k = fail e"
  by (rule ext) (simp add: andThen_def fail_def)

lemma andThen_assoc: "andThen (andThen m k) h = andThen m (\<lambda>x. andThen (k x) h)"
  by (rule ext) (simp add: andThen_def split: prod.splits sum.splits)

lemma andThen_Inr:
  "andThen m k w = (Inr y, w'') \<longleftrightarrow> (\<exists>x w'. m w = (Inr x, w') \<and> k x w' = (Inr y, w''))"
  by (auto simp: andThen_def split: prod.splits sum.splits)

lemma andThen_Inl:
  "andThen m k w = (Inl e, w'') \<longleftrightarrow>
     m w = (Inl e, w'') \<or> (\<exists>x w'. m w = (Inr x, w') \<and> k x w' = (Inl e, w''))"
  by (auto simp: andThen_def split: prod.splits sum.splits)

text \<open>
  A sequence of steps behaves as its prefix up to the first error: it fails exactly when some step
  fails after all the earlier ones succeeded, and then nothing after that step has run.
\<close>

lemma runSteps_append:
  "runSteps (ms @ ns) w =
     (case runSteps ms w of (Inl e, w') \<Rightarrow> (Inl e, w') | (Inr _, w') \<Rightarrow> runSteps ns w')"
  by (induction ms arbitrary: w) (simp_all split: prod.splits sum.splits)

lemma runSteps_fails_at:
  assumes "runSteps ms w = (Inl e, w')"
  shows "\<exists>k w1. k < length ms \<and> runSteps (take k ms) w = (Inr (), w1) \<and> (ms ! k) w1 = (Inl e, w')"
  using assms
proof (induction ms arbitrary: w)
  case Nil
  then show ?case by simp
next
  case (Cons m ms)
  obtain r w1 where m: "m w = (r, w1)" by fastforce
  show ?case
  proof (cases r)
    case (Inl e')
    with m Cons.prems show ?thesis by (intro exI [of _ 0] exI [of _ w]) simp
  next
    case (Inr u)
    with m Cons.prems have "runSteps ms w1 = (Inl e, w')" by simp
    then obtain k w2 where "k < length ms" "runSteps (take k ms) w1 = (Inr (), w2)"
      "(ms ! k) w2 = (Inl e, w')" using Cons.IH by blast
    with m Inr show ?thesis by (intro exI [of _ "Suc k"] exI [of _ w2]) simp
  qed
qed

lemma runSteps_ok_prefix:
  assumes "runSteps (ms @ ns) w = (Inr (), w')"
  shows "\<exists>w1. runSteps ms w = (Inr (), w1) \<and> runSteps ns w1 = (Inr (), w')"
  using assms by (auto simp: runSteps_append split: prod.splits sum.splits)

text \<open>
  What holds after a successful run: \<open>establishes Q m\<close> says that success of \<open>m\<close> gives \<open>Q\<close>, and
  \<open>stable Q m\<close> that success of \<open>m\<close> keeps \<open>Q\<close>.
\<close>

definition establishes :: "('w \<Rightarrow> bool) \<Rightarrow> ('w, 'e, 'a) io \<Rightarrow> bool" where
  "establishes Q m \<longleftrightarrow> (\<forall>w x w'. m w = (Inr x, w') \<longrightarrow> Q w')"

definition stable :: "('w \<Rightarrow> bool) \<Rightarrow> ('w, 'e, 'a) io \<Rightarrow> bool" where
  "stable Q m \<longleftrightarrow> (\<forall>w x w'. m w = (Inr x, w') \<longrightarrow> Q w \<longrightarrow> Q w')"

lemma establishesD: "establishes Q m \<Longrightarrow> m w = (Inr x, w') \<Longrightarrow> Q w'"
  unfolding establishes_def by blast

lemma stableD: "stable Q m \<Longrightarrow> m w = (Inr x, w') \<Longrightarrow> Q w \<Longrightarrow> Q w'"
  unfolding stable_def by blast

lemma stable_andThen: "stable Q m \<Longrightarrow> (\<And>x. stable Q (k x)) \<Longrightarrow> stable Q (andThen m k)"
  unfolding stable_def andThen_Inr by blast

lemma establishes_andThen_left:
  "establishes Q m \<Longrightarrow> (\<And>x. stable Q (k x)) \<Longrightarrow> establishes Q (andThen m k)"
  unfolding stable_def establishes_def andThen_Inr by blast

lemma establishes_andThen_right: "(\<And>x. establishes Q (k x)) \<Longrightarrow> establishes Q (andThen m k)"
  unfolding establishes_def andThen_Inr by blast

lemma runSteps_stable:
  "list_all (stable Q) ms \<Longrightarrow> runSteps ms w = (Inr u, w') \<Longrightarrow> Q w \<Longrightarrow> Q w'"
proof (induction ms arbitrary: w)
  case Nil
  then show ?case by simp
next
  case (Cons m ms)
  then obtain x w1 where m: "m w = (Inr x, w1)" and "runSteps ms w1 = (Inr u, w')"
    by (auto split: prod.splits sum.splits)
  moreover have "Q w1" using m Cons.prems by (auto dest: stableD)
  ultimately show ?case using Cons by simp
qed

text \<open>A sequence establishes what one of its steps establishes and the later ones keep.\<close>

lemma runSteps_establishes:
  assumes "runSteps (ms @ m # ns) w = (Inr u, w')" and "establishes Q m" and "list_all (stable Q) ns"
  shows "Q w'"
proof -
  from assms(1) obtain w1 x w2 where m: "m w1 = (Inr x, w2)" and ns: "runSteps ns w2 = (Inr u, w')"
    by (auto simp: runSteps_append split: prod.splits sum.splits)
  show ?thesis by (rule runSteps_stable [OF assms(3) ns establishesD [OF assms(2) m]])
qed

section \<open>Computations that do not fail\<close>

text \<open>\<open>succeeds P m\<close>: from a world in which \<open>P\<close> holds, \<open>m\<close> returns a value and keeps \<open>P\<close>.\<close>

definition succeeds :: "('w \<Rightarrow> bool) \<Rightarrow> ('w, 'e, 'a) io \<Rightarrow> bool" where
  "succeeds P m \<longleftrightarrow> (\<forall>w. P w \<longrightarrow> (\<exists>x w'. m w = (Inr x, w') \<and> P w'))"

lemma succeedsD: "succeeds P m \<Longrightarrow> P w \<Longrightarrow> \<exists>x w'. m w = (Inr x, w') \<and> P w'"
  by (simp add: succeeds_def)

lemma succeeds_ret [succeeds_intros]: "succeeds P (ret x)"
  by (simp add: succeeds_def)

lemma succeeds_andThen [succeeds_intros]:
  "succeeds P m \<Longrightarrow> (\<And>x. succeeds P (k x)) \<Longrightarrow> succeeds P (andThen m k)"
  unfolding succeeds_def andThen_Inr by blast

lemma succeeds_runSteps [succeeds_intros]:
  "(\<And>m. m \<in> set ms \<Longrightarrow> succeeds P m) \<Longrightarrow> succeeds P (runSteps ms)"
proof (induction ms)
  case Nil
  show ?case by (simp add: succeeds_def)
next
  case (Cons m ms)
  have "runSteps (m # ms) = andThen m (\<lambda>_. runSteps ms)"
    by (rule ext) (simp add: andThen_def)
  then show ?case using Cons by (auto intro: succeeds_andThen)
qed

lemma succeeds_if [succeeds_intros]:
  "(b \<Longrightarrow> succeeds P m) \<Longrightarrow> (\<not> b \<Longrightarrow> succeeds P n) \<Longrightarrow> succeeds P (if b then m else n)"
  by simp

lemma succeeds_case_option [succeeds_intros]:
  "(r = None \<Longrightarrow> succeeds P m) \<Longrightarrow> (\<And>x. r = Some x \<Longrightarrow> succeeds P (g x)) \<Longrightarrow>
     succeeds P (case r of None \<Rightarrow> m | Some x \<Rightarrow> g x)"
  by (cases r) auto

lemma succeeds_case_pair [succeeds_intros]:
  "(\<And>a b. succeeds P (f a b)) \<Longrightarrow> succeeds P (case p of (a, b) \<Rightarrow> f a b)"
  by (cases p) simp

lemma succeeds_attempt:
  assumes "\<And>w. P w \<Longrightarrow> P (snd (m w))" and "\<And>w. P w \<Longrightarrow> succeeds P (k (fst (m w)))"
  shows "succeeds P (attempt m k)"
  using assms unfolding succeeds_def attempt_def by (simp add: case_prod_unfold)

lemma succeeds_attempt_any:
  "succeeds P m \<Longrightarrow> (\<And>r. succeeds P (k r)) \<Longrightarrow> succeeds P (attempt m k)"
  unfolding succeeds_def by (metis attempt_eq)

end
