(* ===== verification/GoStrings.thy ===== *)
theory GoStrings
  imports Prelude "HOL-Library.Sublist" "HOL-Library.Char_ord" "HOL-Library.List_Lexorder"
begin

text \<open>
  The functions of Go's standard library the operator calls on strings: \<open>strings.Contains\<close>,
  \<open>strings.ReplaceAll\<close>, \<open>strings.Trim\<close>, \<open>strings.TrimSpace\<close>, \<open>strings.TrimSuffix\<close>,
  \<open>strings.TrimPrefix\<close>, \<open>strings.Index\<close>, \<open>strings.Split\<close>, \<open>strings.Join\<close>, a \<open>bufio.Scanner\<close> of lines,
  \<open>fmt\<close>'s \<open>%d\<close>, \<open>%t\<close> and \<open>%x\<close>, and \<open>strconv.ParseInt\<close>. A Go string is a sequence of bytes, which is
  what Isabelle's \<open>string\<close> is. Go compares strings byte by byte, which is the lexicographic order
  of HOL-Library.List_Lexorder over the order of HOL-Library.Char_ord.
\<close>

section \<open>Bytes\<close>

abbreviation byteOf :: "char \<Rightarrow> nat" where
  "byteOf c \<equiv> of_char c"

definition isLowerChar :: "char \<Rightarrow> bool" where
  "isLowerChar c \<longleftrightarrow> 97 \<le> byteOf c \<and> byteOf c \<le> 122"

definition isUpperChar :: "char \<Rightarrow> bool" where
  "isUpperChar c \<longleftrightarrow> 65 \<le> byteOf c \<and> byteOf c \<le> 90"

definition isDigitChar :: "char \<Rightarrow> bool" where
  "isDigitChar c \<longleftrightarrow> 48 \<le> byteOf c \<and> byteOf c \<le> 57"

text \<open>\<open>unicode.ToLower\<close> on an upper-case ASCII letter, the only use the operator makes of it.\<close>

definition toLowerChar :: "char \<Rightarrow> char" where
  "toLowerChar c = (if isUpperChar c then char_of (byteOf c + 32) else c)"

lemma byteOf_toLowerChar: "isUpperChar c \<Longrightarrow> byteOf (toLowerChar c) = byteOf c + 32"
  by (simp add: toLowerChar_def isUpperChar_def)

lemma toLowerChar_lower: "isUpperChar c \<Longrightarrow> isLowerChar (toLowerChar c)"
  by (simp add: byteOf_toLowerChar isLowerChar_def) (simp add: isUpperChar_def)

section \<open>Searching and replacing\<close>

fun stringContains :: "string \<Rightarrow> string \<Rightarrow> bool" where
  "stringContains [] sub \<longleftrightarrow> sub = []"
| "stringContains (c # cs) sub \<longleftrightarrow> prefix sub (c # cs) \<or> stringContains cs sub"

text \<open>\<open>strings.ReplaceAll(s, old, new)\<close> for a non-empty \<open>old\<close>: left to right, not overlapping.\<close>

function replaceAll :: "string \<Rightarrow> string \<Rightarrow> string \<Rightarrow> string" where
  "replaceAll [] old new = []"
| "replaceAll (c # cs) old new =
     (if old \<noteq> [] \<and> prefix old (c # cs) then new @ replaceAll (drop (length old - 1) cs) old new
      else c # replaceAll cs old new)"
  by pat_completeness auto
termination
  by (relation "measure (\<lambda>(s, old, new). length s)") auto

text \<open>\<open>strings.Trim(s, cutset)\<close> for a cutset of one ASCII character, and \<open>strings.TrimSuffix\<close>.\<close>

definition trimChar :: "char \<Rightarrow> string \<Rightarrow> string" where
  "trimChar d s = rev (dropWhile (\<lambda>c. c = d) (rev (dropWhile (\<lambda>c. c = d) s)))"

definition trimSuffix :: "string \<Rightarrow> string \<Rightarrow> string" where
  "trimSuffix s suf = (if suffix suf s then take (length s - length suf) s else s)"

text \<open>
  \<open>strings.TrimSpace\<close> removes the code points of \<open>unicode.IsSpace\<close> from both ends. Their UTF-8
  encodings are listed here; a prefix (suffix) that is one of them is exactly a first (last)
  space rune, also in a string that is not valid UTF-8.
\<close>

definition spaceEncodings :: "string list" where
  "spaceEncodings =
     map (map char_of)
       ([[9], [10], [11], [12], [13], [32], [194, 133], [194, 160], [225, 154, 128],
         [226, 128, 128], [226, 128, 129], [226, 128, 130], [226, 128, 131], [226, 128, 132],
         [226, 128, 133], [226, 128, 134], [226, 128, 135], [226, 128, 136], [226, 128, 137],
         [226, 128, 138], [226, 128, 168], [226, 128, 169], [226, 128, 175], [226, 129, 159],
         [227, 128, 128]] :: nat list list)"

function dropPrefixes :: "string list \<Rightarrow> string \<Rightarrow> string" where
  "dropPrefixes encs s =
     (case find (\<lambda>e. e \<noteq> [] \<and> prefix e s) encs of
        None \<Rightarrow> s
      | Some e \<Rightarrow> dropPrefixes encs (drop (length e) s))"
  by pat_completeness auto
termination
  by (relation "measure (\<lambda>(encs, s). length s)")
    (auto simp: find_Some_iff prefix_def)

declare dropPrefixes.simps [simp del]

definition trimSpace :: "string \<Rightarrow> string" where
  "trimSpace s =
     rev (dropPrefixes (map rev spaceEncodings) (rev (dropPrefixes spaceEncodings s)))"

text \<open>What is left never starts with one of the prefixes, and is a suffix of the input.\<close>

lemma dropPrefixes_clean: "e \<in> set encs \<Longrightarrow> e \<noteq> [] \<Longrightarrow> \<not> prefix e (dropPrefixes encs s)"
proof (induction encs s rule: dropPrefixes.induct)
  case (1 encs s)
  show ?case
  proof (cases "find (\<lambda>e. e \<noteq> [] \<and> prefix e s) encs")
    case None
    then have "\<not> prefix e s" using "1.prems" by (auto simp: find_None_iff)
    with None show ?thesis by (subst dropPrefixes.simps) simp
  next
    case (Some d)
    with "1.IH" "1.prems" have "\<not> prefix e (dropPrefixes encs (drop (length d) s))" by simp
    with Some show ?thesis by (subst dropPrefixes.simps) simp
  qed
qed

lemma dropPrefixes_suffix: "suffix (dropPrefixes encs s) s"
proof (induction encs s rule: dropPrefixes.induct)
  case (1 encs s)
  show ?case
  proof (cases "find (\<lambda>e. e \<noteq> [] \<and> prefix e s) encs")
    case None
    then show ?thesis by (subst dropPrefixes.simps) simp
  next
    case (Some d)
    with "1.IH" have "suffix (dropPrefixes encs (drop (length d) s)) (drop (length d) s)" by simp
    then have "suffix (dropPrefixes encs (drop (length d) s)) s"
      using suffix_drop suffix_order.trans by blast
    with Some show ?thesis by (subst dropPrefixes.simps) simp
  qed
qed

lemma length_trimSpace: "length (trimSpace s) \<le> length s"
proof -
  have "length (trimSpace s) \<le> length (dropPrefixes spaceEncodings s)"
    unfolding trimSpace_def using dropPrefixes_suffix
    by (metis length_rev suffix_length_le)
  also have "\<dots> \<le> length s" using dropPrefixes_suffix by (rule suffix_length_le)
  finally show ?thesis .
qed

section \<open>Lines\<close>

definition trimPrefix :: "string \<Rightarrow> string \<Rightarrow> string" where
  "trimPrefix s pre = (if prefix pre s then drop (length pre) s else s)"

text \<open>\<open>strings.Index\<close>; \<open>None\<close> stands for -1.\<close>

fun stringIndex :: "string \<Rightarrow> string \<Rightarrow> nat option" where
  "stringIndex [] sub = (if sub = [] then Some 0 else None)"
| "stringIndex (c # cs) sub = (if prefix sub (c # cs) then Some 0 else map_option Suc (stringIndex cs sub))"

fun joinStrings :: "string \<Rightarrow> string list \<Rightarrow> string" where
  "joinStrings sep [] = []"
| "joinStrings sep [x] = x"
| "joinStrings sep (x # y # xs) = x @ sep @ joinStrings sep (y # xs)"

abbreviation newline :: char where
  "newline \<equiv> CHR 0x0A"

text \<open>\<open>strings.Split(s, "\n")\<close>, which never returns an empty slice.\<close>

fun splitLines :: "string \<Rightarrow> string list" where
  "splitLines [] = [[]]"
| "splitLines (c # cs) =
     (if c = newline then [] # splitLines cs else (c # hd (splitLines cs)) # tl (splitLines cs))"

text \<open>
  The texts of the successive calls of \<open>Scan\<close> on a \<open>bufio.Scanner\<close> with the default split function:
  a last line that is empty is not returned, a carriage return at the end of a line is dropped, and
  a line that does not fit the buffer of 64 KiB ends the scan.
\<close>

definition dropCR :: "string \<Rightarrow> string" where
  "dropCR l = (if l \<noteq> [] \<and> last l = CHR 0x0D then butlast l else l)"

definition scanLines :: "string \<Rightarrow> string list" where
  "scanLines s =
     (let ls = splitLines s
      in map dropCR (takeWhile (\<lambda>l. length l < 65536) (if last ls = [] then butlast ls else ls)))"

lemma splitLines_nonempty [simp]: "splitLines s \<noteq> []"
  by (cases s) simp_all

lemma splitLines_last: "newline \<notin> set l \<Longrightarrow> splitLines l = [l]"
  by (induction l) auto

lemma splitLines_append: "newline \<notin> set l \<Longrightarrow> splitLines (l @ newline # s) = l # splitLines s"
  by (induction l) auto

lemma splitLines_join:
  assumes "ls \<noteq> []" and "list_all (\<lambda>l. newline \<notin> set l) ls"
  shows "splitLines (joinStrings [newline] ls) = ls"
    and "splitLines (joinStrings [newline] ls @ [newline]) = ls @ [[]]"
  using assms by (induction ls rule: induct_list012) (simp_all add: splitLines_last splitLines_append)

lemma join_splitLines: "joinStrings [newline] (splitLines s) = s"
proof (induction s)
  case (Cons c cs)
  obtain l ls where eq: "splitLines cs = l # ls" using splitLines_nonempty by (meson neq_Nil_conv)
  with Cons show ?case by (cases ls) auto
qed simp

text \<open>Lines that are joined, with or without a final newline, are scanned one by one.\<close>

lemma scanLines_join:
  assumes "ls \<noteq> []" and "list_all (\<lambda>l. newline \<notin> set l \<and> dropCR l = l \<and> length l < 65536) ls"
    and "nl = [newline] \<or> nl = [] \<and> last ls \<noteq> []"
  shows "scanLines (joinStrings [newline] ls @ nl) = ls"
proof -
  let ?ss = "splitLines (joinStrings [newline] ls @ nl)"
  have "list_all (\<lambda>l. newline \<notin> set l) ls" using assms(2) by (simp add: list_all_iff)
  note split = splitLines_join [OF assms(1) this]
  have "(if last ?ss = [] then butlast ?ss else ?ss) = ls" using assms(3) split by auto
  moreover have "takeWhile (\<lambda>l. length l < 65536) ls = ls" "map dropCR ls = ls"
    using assms(2) by (simp_all add: list_all_iff takeWhile_eq_all_conv map_idI)
  ultimately show ?thesis by (simp only: scanLines_def Let_def)
qed

section \<open>Formatting and parsing numbers\<close>

definition digitChar :: "nat \<Rightarrow> char" where
  "digitChar d = ''0123456789'' ! d"

fun showNat :: "nat \<Rightarrow> string" where
  "showNat n = (if n < 10 then [digitChar n] else showNat (n div 10) @ [digitChar (n mod 10)])"

declare showNat.simps [simp del]

text \<open>\<open>fmt.Sprintf("%d", i)\<close>; an \<open>int32\<close> prints its signed value.\<close>

definition showInt :: "int \<Rightarrow> string" where
  "showInt i = (if i < 0 then ''-'' @ showNat (nat (- i)) else showNat (nat i))"

definition showInt32 :: "int32 \<Rightarrow> string" where
  "showInt32 w = showInt (sint w)"

text \<open>\<open>fmt.Sprintf("%t", b)\<close> and \<open>fmt.Sprintf("%x", bytes)\<close>.\<close>

definition showBool :: "bool \<Rightarrow> string" where
  "showBool b = (if b then ''true'' else ''false'')"

definition hexChar :: "nat \<Rightarrow> char" where
  "hexChar d = ''0123456789abcdef'' ! d"

definition showHex :: "string \<Rightarrow> string" where
  "showHex bs = concat (map (\<lambda>c. [hexChar (byteOf c div 16), hexChar (byteOf c mod 16)]) bs)"

text \<open>
  \<open>strconv.ParseInt(s, 10, 32)\<close>: an optional sign, then at least one decimal digit and nothing
  else, and a value in the range of 32 bits. \<open>None\<close> stands for a non-nil error.
\<close>

definition digitVal :: "char \<Rightarrow> nat option" where
  "digitVal c = (if isDigitChar c then Some (byteOf c - 48) else None)"

fun parseDigits :: "nat \<Rightarrow> string \<Rightarrow> nat option" where
  "parseDigits acc [] = Some acc"
| "parseDigits acc (c # cs) =
     (case digitVal c of None \<Rightarrow> None | Some d \<Rightarrow> parseDigits (10 * acc + d) cs)"

definition parseNat :: "string \<Rightarrow> nat option" where
  "parseNat s = (if s = [] then None else parseDigits 0 s)"

definition parseInt32 :: "string \<Rightarrow> int option" where
  "parseInt32 s =
     (let neg = prefix ''-'' s;
          body = (if prefix ''-'' s \<or> prefix ''+'' s then drop 1 s else s)
      in case parseNat body of
           None \<Rightarrow> None
         | Some n \<Rightarrow>
             (if neg then (if n \<le> 2 ^ 31 then Some (- int n) else None)
              else (if n < 2 ^ 31 then Some (int n) else None)))"

lemma all_digits: "d < 10 \<Longrightarrow> d \<in> {0, 1, 2, 3, 4, 5, 6, 7, 8, 9 :: nat}"
  by auto

lemma digitVal_digitChar: "d < 10 \<Longrightarrow> digitVal (digitChar d) = Some d"
  by (drule all_digits) (auto simp: digitVal_def digitChar_def isDigitChar_def)

lemma digitChar_byte: "d < 10 \<Longrightarrow> byteOf (digitChar d) = 48 + d"
  by (drule all_digits) (auto simp: digitChar_def)

lemma parseDigits_append:
  "parseDigits acc (xs @ ys) =
     (case parseDigits acc xs of None \<Rightarrow> None | Some a \<Rightarrow> parseDigits a ys)"
  by (induction xs arbitrary: acc) (auto split: option.splits)

lemma parseDigits_showNat: "parseDigits 0 (showNat n) = Some n"
proof (induction n rule: showNat.induct)
  case (1 n)
  show ?case
  proof (cases "n < 10")
    case True
    then show ?thesis by (subst showNat.simps) (simp add: digitVal_digitChar)
  next
    case False
    with "1.IH" show ?thesis
      by (subst showNat.simps) (simp add: parseDigits_append digitVal_digitChar)
  qed
qed

lemma showNat_nonempty [simp]: "showNat n \<noteq> []"
  by (subst showNat.simps) simp

lemma showNat_digits: "c \<in> set (showNat n) \<Longrightarrow> isDigitChar c"
proof (induction n rule: showNat.induct)
  case (1 n)
  show ?case
  proof (cases "n < 10")
    case True
    then have "showNat n = [digitChar n]" by (subst showNat.simps) simp
    with True "1.prems" show ?thesis by (simp add: isDigitChar_def digitChar_byte)
  next
    case False
    then have "showNat n = showNat (n div 10) @ [digitChar (n mod 10)]"
      by (subst showNat.simps) simp
    with "1.IH" [OF False] "1.prems" show ?thesis
      by (auto simp: isDigitChar_def digitChar_byte)
  qed
qed

lemma showNat_no_sign: "\<not> prefix ''-'' (showNat n)" "\<not> prefix ''+'' (showNat n)"
proof -
  obtain c cs where eq: "showNat n = c # cs" using showNat_nonempty by (meson neq_Nil_conv)
  then have "isDigitChar c" using showNat_digits [of c n] by simp
  then have "c \<noteq> CHR ''-''" "c \<noteq> CHR ''+''" by (auto simp: isDigitChar_def)
  with eq show "\<not> prefix ''-'' (showNat n)" "\<not> prefix ''+'' (showNat n)" by auto
qed

lemma parseNat_showNat: "parseNat (showNat n) = Some n"
  by (simp add: parseNat_def parseDigits_showNat)

text \<open>Printing a 32-bit value and parsing it back gives the value.\<close>

lemma parseInt32_showInt32: "parseInt32 (showInt32 w) = Some (sint w)"
proof (cases "sint w < 0")
  case True
  then have "nat (- sint w) \<le> 2 ^ 31" using sint32_lower [of w] by simp
  with True show ?thesis
    by (simp add: parseInt32_def showInt32_def showInt_def parseNat_showNat Let_def)
next
  case False
  then have "nat (sint w) < 2 ^ 31" using sint32_upper [of w] by (simp add: nat_less_iff)
  with False show ?thesis
    by (simp add: parseInt32_def showInt32_def showInt_def parseNat_showNat Let_def
        showNat_no_sign)
qed

lemma showInt32_inj: "showInt32 v = showInt32 w \<Longrightarrow> v = w"
  using parseInt32_showInt32 by (metis option.inject signed_word_eqI)

end
