(* ===== verification/KubeTypes.thy ===== *)
theory KubeTypes
  imports GoStrings
begin

text \<open>
  The Kubernetes API types the operator reads and builds (\<open>metav1\<close>, \<open>corev1\<close>, \<open>batchv1\<close>,
  \<open>appsv1\<close>, \<open>rbacv1\<close>, the gateway, inference-extension, Istio and Prometheus types), with the
  fields the operator uses. Every API object is a \<open>kobj\<close>: its object metadata and a body that
  depends on the kind. A Go pointer to a scalar or struct is an \<open>option\<close>; a Go map that is only
  built, looked up and compared is a partial function; a nil and an empty list are the same
  list, as they are for the API server, except where the code itself tests for nil
  (\<open>rrRequests\<close>, \<open>rrLimits\<close>), which is an \<open>option\<close>.
\<close>

section \<open>Object metadata\<close>

type_synonym labels = "string \<rightharpoonup> string"

text \<open>A \<open>metav1.Time\<close> is a number of ticks; 0 is the zero time, for which \<open>IsZero\<close> holds.\<close>

type_synonym time = int

record ownerReference =
  orUID :: string
  orName :: string

record objectMeta =
  mName :: string
  mGenerateName :: string
  mNamespace :: string
  mLabels :: labels
  mAnnotations :: "string \<rightharpoonup> string"
  mUID :: string
  mGeneration :: int64
  mOwnerReferences :: "ownerReference list"
  mFinalizers :: "string list"
  mDeletionTimestamp :: "time option"

definition metaZero :: objectMeta where
  "metaZero = \<lparr>mName = '''', mGenerateName = '''', mNamespace = '''', mLabels = Map.empty,
     mAnnotations = Map.empty, mUID = '''', mGeneration = 0, mOwnerReferences = [],
     mFinalizers = [], mDeletionTimestamp = None\<rparr>"

record 'b kobj =
  ometa :: objectMeta
  obody :: 'b

abbreviation objName :: "'b kobj \<Rightarrow> string" where
  "objName x \<equiv> mName (ometa x)"

abbreviation objNamespace :: "'b kobj \<Rightarrow> string" where
  "objNamespace x \<equiv> mNamespace (ometa x)"

abbreviation objLabels :: "'b kobj \<Rightarrow> labels" where
  "objLabels x \<equiv> mLabels (ometa x)"

abbreviation objKey :: "'b kobj \<Rightarrow> string \<times> string" where
  "objKey x \<equiv> (objNamespace x, objName x)"

text \<open>\<open>existing.Labels = desired.Labels\<close> and \<open>existing.Annotations = desired.Annotations\<close>.\<close>

definition setLabels :: "labels \<Rightarrow> 'b kobj \<Rightarrow> 'b kobj" where
  "setLabels ls x = x\<lparr>ometa := (ometa x)\<lparr>mLabels := ls\<rparr>\<rparr>"

definition setAnnotations :: "(string \<rightharpoonup> string) \<Rightarrow> 'b kobj \<Rightarrow> 'b kobj" where
  "setAnnotations as x = x\<lparr>ometa := (ometa x)\<lparr>mAnnotations := as\<rparr>\<rparr>"

lemma setLabels_simps [simp]:
  "obody (setLabels ls x) = obody x"
  "ometa (setLabels ls x) = (ometa x)\<lparr>mLabels := ls\<rparr>"
  by (simp_all add: setLabels_def)

lemma setAnnotations_simps [simp]:
  "obody (setAnnotations as x) = obody x"
  "ometa (setAnnotations as x) = (ometa x)\<lparr>mAnnotations := as\<rparr>"
  by (simp_all add: setAnnotations_def)

text \<open>
  \<open>obj.GetDeletionTimestamp().IsZero()\<close>: a nil pointer or the zero time.
\<close>

definition timeIsZero :: "time option \<Rightarrow> bool" where
  "timeIsZero t = (case t of None \<Rightarrow> True | Some x \<Rightarrow> x = 0)"

abbreviation isLive :: "'b kobj \<Rightarrow> bool" where
  "isLive x \<equiv> timeIsZero (mDeletionTimestamp (ometa x))"

text \<open>
  A label selector selects a label set that carries all of its pairs: \<open>client.MatchingLabels\<close>, a
  Deployment's \<open>matchLabels\<close>, a Service's \<open>selector\<close>, an InferencePool's \<open>matchLabels\<close>.
\<close>

abbreviation selects :: "labels \<Rightarrow> labels \<Rightarrow> bool" where
  "selects sel ls \<equiv> sel \<subseteq>\<^sub>m ls"

section \<open>Conditions\<close>

datatype conditionStatus = ConditionTrue | ConditionFalse | ConditionUnknown

record condition =
  condType :: string
  condStatus :: conditionStatus
  condReason :: string
  condMessage :: string
  condObservedGeneration :: int64
  condLastTransitionTime :: time

section \<open>Resource quantities\<close>

text \<open>
  A \<open>resource.Quantity\<close> is kept as the expression that makes it: the literal given to
  \<open>resource.MustParse\<close> or the number given to \<open>resource.NewQuantity\<close>. Its printed form is the
  parameter \<open>quantityString\<close> of the definitions that print one.
\<close>

datatype quantity = MustParse string | NewQuantity int64

type_synonym resourceList = "string \<rightharpoonup> quantity"

record resourceRequirements =
  rrLimits :: "resourceList option"
  rrRequests :: "resourceList option"

definition resourcesZero :: resourceRequirements where
  "resourcesZero = \<lparr>rrLimits = None, rrRequests = None\<rparr>"

section \<open>Pods\<close>

datatype envSource =
    SecretKeyRef (skrName: string) (skrKey: string)
  | FieldRef (frAPIVersion: string) (frFieldPath: string)

record envVar =
  evName :: string
  evValue :: string
  evValueFrom :: "envSource option"

definition envValue :: "string \<Rightarrow> string \<Rightarrow> envVar" where
  "envValue n v = \<lparr>evName = n, evValue = v, evValueFrom = None\<rparr>"

definition envFrom :: "string \<Rightarrow> envSource \<Rightarrow> envVar" where
  "envFrom n s = \<lparr>evName = n, evValue = '''', evValueFrom = Some s\<rparr>"

lemma envValue_simps [simp]:
  "evName (envValue n v) = n" "evValue (envValue n v) = v" "evValueFrom (envValue n v) = None"
  by (simp_all add: envValue_def)

lemma envFrom_simps [simp]:
  "evName (envFrom n s) = n" "evValue (envFrom n s) = ''''" "evValueFrom (envFrom n s) = Some s"
  by (simp_all add: envFrom_def)

record volumeMount =
  vmName :: string
  vmMountPath :: string
  vmReadOnly :: bool

datatype volumeSource =
    PersistentVolumeClaimSource (claimName: string)
  | SecretSource (secretName: string) (secretItems: "(string \<times> string) list")
  | EmptyDir
  | ConfigMapSource (configMapName: string) (configMapOptional: "bool option")

record volume =
  volName :: string
  volSource :: volumeSource

record containerPort =
  cpName :: string
  cpPort :: int32
  cpProtocol :: string

record securityContext =
  scAllowPrivilegeEscalation :: "bool option"
  scDrop :: "string list"

text \<open>A \<open>corev1.Probe\<close> with a gRPC handler.\<close>

record probe =
  prPort :: int32
  prService :: "string option"
  prInitialDelaySeconds :: int32
  prPeriodSeconds :: int32

record container =
  ctName :: string
  ctImage :: string
  ctImagePullPolicy :: string
  ctCommand :: "string list"
  ctArgs :: "string list"
  ctEnv :: "envVar list"
  ctPorts :: "containerPort list"
  ctVolumeMounts :: "volumeMount list"
  ctResources :: resourceRequirements
  ctSecurityContext :: "securityContext option"
  ctRestartPolicy :: "string option"
  ctTerminationMessagePath :: string
  ctTerminationMessagePolicy :: string
  ctReadinessProbe :: "probe option"
  ctLivenessProbe :: "probe option"

definition containerZero :: container where
  "containerZero = \<lparr>ctName = '''', ctImage = '''', ctImagePullPolicy = '''', ctCommand = [],
     ctArgs = [], ctEnv = [], ctPorts = [], ctVolumeMounts = [], ctResources = resourcesZero,
     ctSecurityContext = None, ctRestartPolicy = None, ctTerminationMessagePath = '''',
     ctTerminationMessagePolicy = '''', ctReadinessProbe = None, ctLivenessProbe = None\<rparr>"

record podSecurityContext =
  pscRunAsNonRoot :: "bool option"
  pscFSGroup :: "int64 option"
  pscSeccompProfile :: "string option"

record podSpec =
  psInitContainers :: "container list"
  psContainers :: "container list"
  psVolumes :: "volume list"
  psImagePullSecrets :: "string list"
  psAutomountServiceAccountToken :: "bool option"
  psRestartPolicy :: string
  psSecurityContext :: "podSecurityContext option"
  psNodeSelector :: "string \<rightharpoonup> string"
  psTolerations :: "string list"
  psServiceAccountName :: string
  psTerminationGracePeriodSeconds :: "int64 option"

definition podSpecZero :: podSpec where
  "podSpecZero = \<lparr>psInitContainers = [], psContainers = [], psVolumes = [],
     psImagePullSecrets = [], psAutomountServiceAccountToken = None, psRestartPolicy = '''',
     psSecurityContext = None, psNodeSelector = Map.empty, psTolerations = [],
     psServiceAccountName = '''', psTerminationGracePeriodSeconds = None\<rparr>"

record podTemplate =
  ptLabels :: labels
  ptAnnotations :: "string \<rightharpoonup> string"
  ptSpec :: podSpec

lemmas zero_defs [kube_defs] = metaZero_def resourcesZero_def containerZero_def podSpecZero_def

text \<open>Every volume a container mounts is a volume of its Pod, and volume names are distinct.\<close>

definition mountsResolved :: "podSpec \<Rightarrow> bool" where
  "mountsResolved p \<longleftrightarrow>
     distinct (map volName (psVolumes p)) \<and>
     (\<forall>c \<in> set (psInitContainers p @ psContainers p). \<forall>m \<in> set (ctVolumeMounts c).
        vmName m \<in> volName ` set (psVolumes p))"

text \<open>A container drops every capability and may not gain privileges.\<close>

definition hardened :: "container \<Rightarrow> bool" where
  "hardened c \<longleftrightarrow>
     ctSecurityContext c = Some \<lparr>scAllowPrivilegeEscalation = Some False, scDrop = [''ALL'']\<rparr>"

end
