(* ===== verification/Labels.thy ===== *)
theory Labels
  imports KubeTypes
begin

text \<open>
  \<open>internal/labels/labels.go\<close>: the recommended Kubernetes labels of every resource the operator
  manages. \<open>Selector\<close> is what a lookup asks for, \<open>Standard\<close> is what a resource carries; the version
  label is only in the second. The locale \<open>labelScheme\<close> is the contract both have to keep for
  lookups to survive an upgrade of the operator, proved once and instantiated by each component.
\<close>

abbreviation labelName :: string where
  "labelName \<equiv> ''app.kubernetes.io/name''"

abbreviation labelComponent :: string where
  "labelComponent \<equiv> ''app.kubernetes.io/component''"

abbreviation labelPartOf :: string where
  "labelPartOf \<equiv> ''app.kubernetes.io/part-of''"

abbreviation labelManagedBy :: string where
  "labelManagedBy \<equiv> ''app.kubernetes.io/managed-by''"

abbreviation labelVersion :: string where
  "labelVersion \<equiv> ''app.kubernetes.io/version''"

abbreviation labelSystem :: string where
  "labelSystem \<equiv> ''otterscale-system''"

abbreviation labelOperator :: string where
  "labelOperator \<equiv> ''model-operator''"

definition Selector :: "string \<Rightarrow> string \<Rightarrow> labels" where
  "Selector name component = [labelName \<mapsto> name, labelComponent \<mapsto> component,
     labelPartOf \<mapsto> labelSystem, labelManagedBy \<mapsto> labelOperator]"

definition Standard :: "string \<Rightarrow> string \<Rightarrow> string \<Rightarrow> labels" where
  "Standard name component version =
     (let m = Selector name component
      in if version \<noteq> '''' then m(labelVersion \<mapsto> version) else m)"

section \<open>Facts about single labels\<close>

lemma Selector_simps [simp]:
  "Selector n c labelName = Some n"
  "Selector n c labelComponent = Some c"
  "Selector n c labelPartOf = Some labelSystem"
  "Selector n c labelManagedBy = Some labelOperator"
  "Selector n c labelVersion = None"
  by (simp_all add: Selector_def)

lemma dom_Selector: "dom (Selector n c) = {labelName, labelComponent, labelPartOf, labelManagedBy}"
  by (auto simp: Selector_def)

lemma Standard_not_version: "k \<noteq> labelVersion \<Longrightarrow> Standard n c v k = Selector n c k"
  by (simp add: Standard_def Let_def)

lemma Standard_version: "Standard n c v labelVersion = (if v = '''' then None else Some v)"
  by (simp add: Standard_def Let_def)

lemma Standard_simps [simp]:
  "Standard n c v labelName = Some n"
  "Standard n c v labelComponent = Some c"
  "Standard n c v labelPartOf = Some labelSystem"
  "Standard n c v labelManagedBy = Some labelOperator"
  by (simp_all add: Standard_not_version)

lemma Standard_restrict: "Standard n c v |` (- {labelVersion}) = Selector n c"
  by (rule ext) (simp add: restrict_map_def Standard_not_version)

lemma Selector_inj: "Selector n c = Selector n' c' \<longleftrightarrow> n = n' \<and> c = c'"
  by (metis Selector_simps(1,2) option.inject)

section \<open>The contract of a selector and the labels it has to find\<close>

text \<open>
  \<open>sel a\<close> is the lookup for the owner \<open>a\<close>, \<open>std a v\<close> the labels a resource of \<open>a\<close> gets from
  version \<open>v\<close> of the operator, and \<open>ident a\<close> the part of the owner that reaches the labels. The
  first law makes lookups independent of the version, the other two say that a selector names its
  owner's identity and nothing else of it.
\<close>

locale labelScheme =
  fixes sel :: "'o \<Rightarrow> labels"
    and std :: "'o \<Rightarrow> string \<Rightarrow> labels"
    and ident :: "'o \<Rightarrow> 'i"
  assumes std_restrict: "std a v |` (- {labelVersion}) = sel a"
    and sel_ident: "ident a = ident b \<Longrightarrow> sel a = sel b"
    and sel_separates: "selects (sel a) (sel b) \<Longrightarrow> ident a = ident b"
begin

lemma sel_version: "sel a labelVersion = None"
proof -
  have "(std a v |` (- {labelVersion})) labelVersion = None" for v
    by (simp add: restrict_map_def)
  then show ?thesis by (simp add: std_restrict)
qed

lemma std_not_version: "k \<noteq> labelVersion \<Longrightarrow> std a v k = sel a k"
  using std_restrict [of a v] by (metis ComplI restrict_in singletonD)

lemma finds_every_version: "selects (sel a) (std a v)"
  unfolding map_le_def using sel_version std_not_version by (metis domIff)

lemma finds_exactly: "selects (sel a) (std b v) \<longleftrightarrow> ident a = ident b"
proof
  assume found: "selects (sel a) (std b v)"
  have "selects (sel a) (sel b)"
    unfolding map_le_def
  proof
    fix k
    assume k: "k \<in> dom (sel a)"
    then have "k \<noteq> labelVersion" using sel_version by (metis domIff)
    with found k show "sel a k = sel b k"
      by (simp add: map_le_def std_not_version)
  qed
  then show "ident a = ident b" by (rule sel_separates)
next
  assume "ident a = ident b"
  then have "sel a = sel b" by (rule sel_ident)
  then show "selects (sel a) (std b v)" using finds_every_version by simp
qed

end

text \<open>The shared builder itself keeps the contract, with the whole (name, component) pair as the
  identity.\<close>

interpretation base: labelScheme
  "\<lambda>(n, c). Selector n c" "\<lambda>(n, c) v. Standard n c v" "\<lambda>nc. nc"
proof unfold_locales
  fix p p' :: "string \<times> string" and v :: string
  obtain n c n' c' where p: "p = (n, c)" "p' = (n', c')" by fastforce
  show "(case p of (n, c) \<Rightarrow> Standard n c) v |` (- {labelVersion}) = (case p of (n, c) \<Rightarrow> Selector n c)"
    by (simp add: p Standard_restrict)
  show "p = p' \<Longrightarrow> (case p of (n, c) \<Rightarrow> Selector n c) = (case p' of (n, c) \<Rightarrow> Selector n c)"
    by simp
  assume "selects (case p of (n, c) \<Rightarrow> Selector n c) (case p' of (n, c) \<Rightarrow> Selector n c)"
  then have "Selector n c labelName = Selector n' c' labelName"
    "Selector n c labelComponent = Selector n' c' labelComponent"
    by (auto simp: p map_le_def dom_Selector)
  then show "p = p'" by (simp add: p)
qed

end
