(* ===== verification/KubeObjects.thy ===== *)
theory KubeObjects
  imports KubeTypes
begin

text \<open>The bodies of the API objects the operator manages, one record or datatype per kind.\<close>

section \<open>Workloads\<close>

record pvcBody =
  pvcAccessModes :: "string list"
  pvcRequests :: resourceList
  pvcStorageClassName :: "string option"

type_synonym pvc = "pvcBody kobj"

record jobCondition =
  jcType :: string
  jcStatus :: string
  jcMessage :: string

record jobStatus =
  jsSucceeded :: int32
  jsFailed :: int32
  jsActive :: int32
  jsStartTime :: "time option"
  jsCompletionTime :: "time option"
  jsConditions :: "jobCondition list"

definition jobStatusZero :: jobStatus where
  "jobStatusZero = \<lparr>jsSucceeded = 0, jsFailed = 0, jsActive = 0, jsStartTime = None,
     jsCompletionTime = None, jsConditions = []\<rparr>"

record jobSpec =
  jobBackoffLimit :: "int32 option"
  jobTTLSecondsAfterFinished :: "int32 option"
  jobTemplate :: podTemplate

record jobBody =
  jobSpecOf :: jobSpec
  jobStatusOf :: jobStatus

type_synonym job = "jobBody kobj"

abbreviation jobStat :: "job \<Rightarrow> jobStatus" where
  "jobStat j \<equiv> jobStatusOf (obody j)"

abbreviation jobPodSpec :: "job \<Rightarrow> podSpec" where
  "jobPodSpec j \<equiv> ptSpec (jobTemplate (jobSpecOf (obody j)))"

text \<open>A terminated container's state: its message and the time it finished.\<close>

record terminated =
  termMessage :: string
  termFinishedAt :: time

text \<open>A Pod is read only for its container statuses: \<open>cs.State.Terminated\<close> of each.\<close>

record podBody =
  podContainerStatuses :: "terminated option list"

type_synonym pod = "podBody kobj"

record deploymentCondition =
  dcType :: string
  dcStatus :: string

record deploymentSpec =
  dsReplicas :: "int32 option"
  dsSelector :: labels
  dsStrategyType :: string
  dsTemplate :: podTemplate

record deploymentStat =
  dstReadyReplicas :: int32
  dstUpdatedReplicas :: int32
  dstConditions :: "deploymentCondition list"

definition deploymentStatZero :: deploymentStat where
  "deploymentStatZero = \<lparr>dstReadyReplicas = 0, dstUpdatedReplicas = 0, dstConditions = []\<rparr>"

record deploymentBody =
  depSpec :: deploymentSpec
  depStatus :: deploymentStat

type_synonym deployment = "deploymentBody kobj"

abbreviation depPodSpec :: "deployment \<Rightarrow> podSpec" where
  "depPodSpec d \<equiv> ptSpec (dsTemplate (depSpec (obody d)))"

abbreviation depPodLabels :: "deployment \<Rightarrow> labels" where
  "depPodLabels d \<equiv> ptLabels (dsTemplate (depSpec (obody d)))"

section \<open>Configuration, services and access control\<close>

record servicePort =
  spName :: string
  spPort :: int32
  spTargetPort :: int32
  spProtocol :: string

text \<open>\<open>svcClusterIP\<close> stands for the fields of a Service spec that the API server assigns.\<close>

record serviceBody =
  svcSelector :: labels
  svcPorts :: "servicePort list"
  svcClusterIP :: string

type_synonym service = "serviceBody kobj"

record configMapBody =
  cmData :: "(string \<times> string) list"

type_synonym configMap = "configMapBody kobj"

text \<open>\<open>secData\<close> is filled by the token controller for a service account token Secret.\<close>

record secretBody =
  secType :: string
  secData :: "(string \<times> string) list"

type_synonym secret = "secretBody kobj"

record serviceAccountBody =
  saSecrets :: "string list"

type_synonym serviceAccount = "serviceAccountBody kobj"

record policyRule =
  prAPIGroups :: "string list"
  prResources :: "string list"
  prNonResourceURLs :: "string list"
  prVerbs :: "string list"

definition resourceRule :: "string list \<Rightarrow> string list \<Rightarrow> string list \<Rightarrow> policyRule" where
  "resourceRule gs rs vs =
     \<lparr>prAPIGroups = gs, prResources = rs, prNonResourceURLs = [], prVerbs = vs\<rparr>"

record subject =
  sbKind :: string
  sbName :: string
  sbNamespace :: string

record roleRef =
  rfAPIGroup :: string
  rfKind :: string
  rfName :: string

record roleBody =
  roleRules :: "policyRule list"

record bindingBody =
  bndSubjects :: "subject list"
  bndRoleRef :: roleRef

text \<open>Role and ClusterRole (RoleBinding and ClusterRoleBinding) have the same body.\<close>

type_synonym role = "roleBody kobj"
type_synonym roleBinding = "bindingBody kobj"

section \<open>Routing and monitoring\<close>

record endpointPickerRef =
  eprGroup :: "string option"
  eprKind :: string
  eprName :: string
  eprPort :: "int32 option"
  eprFailureMode :: string

record inferencePoolBody =
  ipTargetPorts :: "int32 list"
  ipSelector :: labels
  ipEndpointPickerRef :: endpointPickerRef

type_synonym inferencePool = "inferencePoolBody kobj"

record parentReference =
  prfGroup :: "string option"
  prfKind :: "string option"
  prfName :: string
  prfNamespace :: "string option"

record headerMatch =
  hmType :: string
  hmName :: string
  hmValue :: string

record routeMatch =
  rmHeaders :: "headerMatch list"
  rmPathType :: string
  rmPathValue :: string

record backendRef =
  brGroup :: "string option"
  brKind :: "string option"
  brName :: string

record routeRule =
  rrMatches :: "routeMatch list"
  rrBackendRefs :: "backendRef list"

record httpRouteBody =
  hrParentRefs :: "parentReference list"
  hrHostnames :: "string list"
  hrRules :: "routeRule list"

type_synonym httpRoute = "httpRouteBody kobj"

text \<open>A DestinationRule with the traffic policy the operator sets (client TLS) and the two lists
  it clears.\<close>

record clientTLS =
  tlsMode :: string
  tlsInsecureSkipVerify :: "bool option"

record destinationRuleBody =
  drHost :: string
  drTrafficPolicy :: "clientTLS option"
  drSubsets :: "string list"
  drExportTo :: "string list"

type_synonym destinationRule = "destinationRuleBody kobj"

record relabelConfig =
  rcAction :: string
  rcSourceLabels :: "string list"
  rcTargetLabel :: string

record podMetricsEndpoint =
  pmePort :: "string option"
  pmePath :: string
  pmeInterval :: string
  pmeRelabelConfigs :: "relabelConfig list"

record podMonitorBody =
  pmSelector :: labels
  pmEndpoints :: "podMetricsEndpoint list"

type_synonym podMonitor = "podMonitorBody kobj"

text \<open>A ServiceMonitor endpoint: port name, interval, and the Secret (name, key) of its
  bearer token, if any.\<close>

record monitorEndpoint =
  mePort :: string
  meInterval :: string
  meAuthorization :: "(string \<times> string) option"

record serviceMonitorBody =
  smSelector :: labels
  smEndpoints :: "monitorEndpoint list"

type_synonym serviceMonitor = "serviceMonitorBody kobj"

end
