(* ===== verification/CrdTypes.thy ===== *)
theory CrdTypes
  imports KubeObjects
begin

text \<open>
  The custom resources \<open>ModelArtifact\<close> and \<open>ModelService\<close> (\<open>modelv1alpha1\<close>), with the fields the
  operator reads and writes. The types live in the module \<open>github.com/otterscale/api\<close>; their
  fields are known here from their uses in \<open>internal/\<close>. An optional struct is an \<open>option\<close>, an
  omitted string is empty and an omitted number is 0, as in Go.
\<close>

section \<open>ModelArtifact\<close>

record secretKeySelector =
  sksName :: string
  sksKey :: string

record huggingFaceSource =
  hfModel :: string
  hfRevision :: string
  hfTokenSecretRef :: "secretKeySelector option"

record ociTarget =
  otRegistry :: string
  otRepository :: string
  otTag :: string
  otInsecure :: bool
  otCredentialsSecretRef :: "string option"

record storageSpec =
  stSize :: quantity
  stStorageClassName :: "string option"

record maSpec =
  maHuggingFace :: "huggingFaceSource option"
  maTarget :: ociTarget
  maFormat :: string
  maStorage :: storageSpec

datatype maPhase = PhaseUnset | PhasePending | PhaseRunning | PhaseSucceeded | PhaseFailed

record maStatus =
  masPhase :: maPhase
  masObservedGeneration :: int64
  masDigest :: string
  masReference :: string
  masJobRef :: "(string \<times> string) option"
  masStartTime :: "time option"
  masCompletionTime :: "time option"
  masConditions :: "condition list"

record maBody =
  maSpecOf :: maSpec
  maStatusOf :: maStatus

type_synonym modelArtifact = "maBody kobj"

abbreviation maSp :: "modelArtifact \<Rightarrow> maSpec" where
  "maSp ma \<equiv> maSpecOf (obody ma)"

abbreviation maSt :: "modelArtifact \<Rightarrow> maStatus" where
  "maSt ma \<equiv> maStatusOf (obody ma)"

abbreviation maGeneration :: "modelArtifact \<Rightarrow> int64" where
  "maGeneration ma \<equiv> mGeneration (ometa ma)"

definition setMaStatus :: "maStatus \<Rightarrow> modelArtifact \<Rightarrow> modelArtifact" where
  "setMaStatus st ma = ma\<lparr>obody := (obody ma)\<lparr>maStatusOf := st\<rparr>\<rparr>"

lemma setMaStatus_simps [simp]:
  "ometa (setMaStatus st ma) = ometa ma"
  "maSt (setMaStatus st ma) = st"
  "maSp (setMaStatus st ma) = maSp ma"
  by (simp_all add: setMaStatus_def)

lemma setMaStatus_same [simp]: "setMaStatus (maSt ma) ma = ma"
  by (simp add: setMaStatus_def)

lemma setMaStatus_twice [simp]: "setMaStatus st (setMaStatus st' ma) = setMaStatus st ma"
  by (simp add: setMaStatus_def)

text \<open>A phase in which the pipeline is over.\<close>

definition terminalPhase :: "maPhase \<Rightarrow> bool" where
  "terminalPhase p \<longleftrightarrow> p = PhaseSucceeded \<or> p = PhaseFailed"

lemma terminalPhase_simps [simp]:
  "terminalPhase PhaseSucceeded" "terminalPhase PhaseFailed"
  "\<not> terminalPhase PhaseUnset" "\<not> terminalPhase PhasePending" "\<not> terminalPhase PhaseRunning"
  by (simp_all add: terminalPhase_def)

section \<open>ModelService\<close>

record modelSpec =
  mdName :: string
  mdImage :: string
  mdMountPath :: string
  mdImagePullSecrets :: "string list"

record engineSpec =
  enImage :: string
  enImagePullPolicy :: string
  enPort :: int32
  enArgs :: "string list"
  enEnv :: "envVar list"

datatype acceleratorType =
    AcceleratorNvidia | AcceleratorAMD | AcceleratorIntelGaudi | AcceleratorGoogle
  | AcceleratorCPU | AcceleratorOther string

record parallelismSpec =
  paTensor :: int32
  paData :: int32
  paDataLocal :: int32

record roleSpec =
  roReplicas :: "int32 option"
  roParallelism :: parallelismSpec
  roResources :: resourceRequirements
  roNodeSelector :: "string \<rightharpoonup> string"
  roTolerations :: "string list"
  roAnnotations :: "string \<rightharpoonup> string"

record routingProxySpec =
  rpImage :: string
  rpTargetPort :: int32
  rpConnector :: string
  rpZapEncoder :: string
  rpZapLogLevel :: string
  rpSecureProxy :: "bool option"
  rpPrefillerUseTLS :: "bool option"
  rpCertPath :: string

record endpointPickerSpec =
  epImage :: string
  epReplicas :: "int32 option"
  epPort :: int32
  epResources :: resourceRequirements
  epFailureMode :: string

text \<open>\<open>spec.inferencePool\<close> has one field the operator reads, its endpoint picker.\<close>

record inferencePoolSpec =
  ipsEndpointPicker :: endpointPickerSpec

record httpRouteSpec =
  htGatewayName :: string
  htGatewayNamespace :: string
  htHostnames :: "string list"

record podMonitorSpec =
  pmsEnabled :: bool
  pmsPortName :: string
  pmsPath :: string
  pmsInterval :: string

record monitoringSpec =
  monPodMonitor :: "podMonitorSpec option"

record msSpec =
  msModel :: modelSpec
  msEngine :: engineSpec
  msAccelerator :: acceleratorType
  msDecode :: roleSpec
  msPrefill :: "roleSpec option"
  msRoutingProxy :: "routingProxySpec option"
  msInferencePool :: "inferencePoolSpec option"
  msHTTPRoute :: "httpRouteSpec option"
  msMonitoring :: "monitoringSpec option"

datatype msPhase = ModelServiceUnset | ModelServicePending | ModelServiceRunning
  | ModelServiceReady | ModelServiceFailed

record msStatus =
  mssPhase :: msPhase
  mssObservedGeneration :: int64
  mssDecodeReady :: int32
  mssDecodeReplicas :: int32
  mssPrefillReady :: int32
  mssPrefillReplicas :: int32
  mssConditions :: "condition list"

record msBody =
  msSpecOf :: msSpec
  msStatusOf :: msStatus

type_synonym modelService = "msBody kobj"

abbreviation msSp :: "modelService \<Rightarrow> msSpec" where
  "msSp ms \<equiv> msSpecOf (obody ms)"

abbreviation msSt :: "modelService \<Rightarrow> msStatus" where
  "msSt ms \<equiv> msStatusOf (obody ms)"

definition setMsSpec :: "msSpec \<Rightarrow> modelService \<Rightarrow> modelService" where
  "setMsSpec sp ms = ms\<lparr>obody := (obody ms)\<lparr>msSpecOf := sp\<rparr>\<rparr>"

definition setMsStatus :: "msStatus \<Rightarrow> modelService \<Rightarrow> modelService" where
  "setMsStatus st ms = ms\<lparr>obody := (obody ms)\<lparr>msStatusOf := st\<rparr>\<rparr>"

lemma setMsSpec_simps [simp]:
  "ometa (setMsSpec sp ms) = ometa ms"
  "msSp (setMsSpec sp ms) = sp"
  "msSt (setMsSpec sp ms) = msSt ms"
  by (simp_all add: setMsSpec_def)

lemma setMsStatus_simps [simp]:
  "ometa (setMsStatus st ms) = ometa ms"
  "msSt (setMsStatus st ms) = st"
  "msSp (setMsStatus st ms) = msSp ms"
  by (simp_all add: setMsStatus_def)

end
