(* ===== verification/ArtifactJob.thy ===== *)
theory ArtifactJob
  imports Labels CrdTypes
begin

text \<open>
  \<open>internal/modelartifact/helpers.go\<close> and \<open>job.go\<close>: the names and labels of the resources of a
  ModelArtifact, and the builders of its workspace PVC and of the Job that runs the
  import, pack and push pipeline.
\<close>

section \<open>Names and labels (helpers.go)\<close>

abbreviation ComponentArtifact :: string where
  "ComponentArtifact \<equiv> ''model-artifact''"

abbreviation WorkspaceVolumeName :: string where
  "WorkspaceVolumeName \<equiv> ''workspace''"

abbreviation WorkspaceMountPath :: string where
  "WorkspaceMountPath \<equiv> ''/workspace''"

abbreviation PVCSuffix :: string where
  "PVCSuffix \<equiv> ''-workspace''"

abbreviation DockerConfigVolumeName :: string where
  "DockerConfigVolumeName \<equiv> ''docker-config''"

abbreviation DockerConfigMountPath :: string where
  "DockerConfigMountPath \<equiv> ''/.docker''"

definition DefaultJobTTLSeconds :: int32 where
  "DefaultJobTTLSeconds = 3600"

definition SelectorLabelsForArtifact :: "string \<Rightarrow> labels" where
  "SelectorLabelsForArtifact artifactName = Selector artifactName ComponentArtifact"

definition LabelsForArtifact :: "string \<Rightarrow> string \<Rightarrow> labels" where
  "LabelsForArtifact artifactName version = Standard artifactName ComponentArtifact version"

definition PVCName :: "string \<Rightarrow> string" where
  "PVCName artifactName = artifactName @ PVCSuffix"

interpretation artifact: labelScheme SelectorLabelsForArtifact LabelsForArtifact "\<lambda>n. n"
proof unfold_locales
  fix a b v :: string
  show "LabelsForArtifact a v |` (- {labelVersion}) = SelectorLabelsForArtifact a"
    by (simp add: LabelsForArtifact_def SelectorLabelsForArtifact_def Standard_restrict)
  show "a = b \<Longrightarrow> SelectorLabelsForArtifact a = SelectorLabelsForArtifact b" by simp
  assume "selects (SelectorLabelsForArtifact a) (SelectorLabelsForArtifact b)"
  then show "a = b"
    using base.sel_separates [of "(a, ComponentArtifact)" "(b, ComponentArtifact)"]
    by (simp add: SelectorLabelsForArtifact_def)
qed

lemma PVCName_inj: "PVCName a = PVCName b \<longleftrightarrow> a = b"
  by (simp add: PVCName_def)

section \<open>The pipeline Job and its workspace (job.go)\<close>

text \<open>The script, line by line; \<open>CHR 0x5C\<close> is the backslash of a continued line.\<close>

definition unlines :: "string list \<Rightarrow> string" where
  "unlines ls = concat (map (\<lambda>l. l @ [CHR 0x0A]) ls)"

definition pipelineScript :: string where
  \<open>pipelineScript = unlines
     [''set -euo pipefail'',
      ''cd /workspace'',
      '''',
      ''kit import "$HF_REPO" '' @ [CHR 0x5C],
      ''  ${HF_REVISION:+--ref "$HF_REVISION"} '' @ [CHR 0x5C],
      ''  ${HF_TOKEN:+--token "$HF_TOKEN"} '' @ [CHR 0x5C],
      ''  --tag model:latest'',
      '''',
      ''if [ "$FORMAT" = "ModelPack" ]; then'',
      ''  kit unpack -o model:latest -d /workspace'',
      ''  kit pack /workspace --use-model-pack -t "$OCI_TARGET"'',
      ''else'',
      ''  kit tag model:latest "$OCI_TARGET"'',
      ''fi'',
      '''',
      ''output=$(kit push ${PLAIN_HTTP:+--plain-http} "$OCI_TARGET" 2>&1)'',
      ''echo "$output" >&2'',
      ''digest=$(echo "$output" | grep -oE '' @ [CHR 0x27] @ ''sha256:[a-f0-9]{64}'' @ [CHR 0x27]
        @ '' | tail -1)'',
      ''echo -n "$digest" > /dev/termination-log'']\<close>

definition BuildPVC :: "modelArtifact \<Rightarrow> labels \<Rightarrow> pvc" where
  "BuildPVC artifact ls =
     \<lparr>ometa = metaZero\<lparr>mName := PVCName (objName artifact), mNamespace := objNamespace artifact,
        mLabels := ls\<rparr>,
      obody = \<lparr>pvcAccessModes = [''ReadWriteOnce''],
        pvcRequests = [''storage'' \<mapsto> stSize (maStorage (maSp artifact))],
        pvcStorageClassName = stStorageClassName (maStorage (maSp artifact))\<rparr>\<rparr>"

definition OCIReference :: "modelArtifact \<Rightarrow> string" where
  "OCIReference artifact =
     (let target = maTarget (maSp artifact);
          tag = (if otTag target = '''' then ''latest'' else otTag target)
      in otRegistry target @ ''/'' @ otRepository target @ '':'' @ tag)"

definition secretKey :: "secretKeySelector \<Rightarrow> string" where
  "secretKey r = (if sksKey r \<noteq> '''' then sksKey r else ''token'')"

definition buildEnvVars :: "modelArtifact \<Rightarrow> envVar list" where
  "buildEnvVars artifact =
     [envValue ''OCI_TARGET'' (OCIReference artifact),
      envValue ''FORMAT'' (maFormat (maSp artifact)),
      envValue ''DOCKER_CONFIG'' DockerConfigMountPath]
     @ (if otInsecure (maTarget (maSp artifact)) then [envValue ''PLAIN_HTTP'' ''true''] else [])
     @ (case maHuggingFace (maSp artifact) of
          None \<Rightarrow> []
        | Some hf \<Rightarrow>
            [envValue ''HF_REPO'' (hfModel hf)]
            @ (if hfRevision hf \<noteq> '''' then [envValue ''HF_REVISION'' (hfRevision hf)] else [])
            @ (case hfTokenSecretRef hf of
                 None \<Rightarrow> []
               | Some r \<Rightarrow> [envFrom ''HF_TOKEN'' (SecretKeyRef (sksName r) (secretKey r))]))"

text \<open>The local variables \<open>volumeMounts\<close> and \<open>volumes\<close> of \<open>BuildJob\<close>, and its one container.\<close>

definition jobVolumeMounts :: "modelArtifact \<Rightarrow> volumeMount list" where
  "jobVolumeMounts artifact =
     [\<lparr>vmName = WorkspaceVolumeName, vmMountPath = WorkspaceMountPath, vmReadOnly = False\<rparr>]
     @ (case otCredentialsSecretRef (maTarget (maSp artifact)) of
          None \<Rightarrow> []
        | Some cred \<Rightarrow> [\<lparr>vmName = DockerConfigVolumeName, vmMountPath = DockerConfigMountPath,
                         vmReadOnly = True\<rparr>])"

definition jobVolumes :: "modelArtifact \<Rightarrow> volume list" where
  "jobVolumes artifact =
     [\<lparr>volName = WorkspaceVolumeName,
       volSource = PersistentVolumeClaimSource (PVCName (objName artifact))\<rparr>]
     @ (case otCredentialsSecretRef (maTarget (maSp artifact)) of
          None \<Rightarrow> []
        | Some cred \<Rightarrow> [\<lparr>volName = DockerConfigVolumeName,
            volSource = SecretSource cred [(''.dockerconfigjson'', ''config.json'')]\<rparr>])"

definition kitContainer :: "modelArtifact \<Rightarrow> string \<Rightarrow> container" where
  "kitContainer artifact kitImage =
     \<lparr>ctName = ''kit'', ctImage = kitImage, ctImagePullPolicy = '''',
      ctCommand = [''/bin/sh'', ''-c''], ctArgs = [pipelineScript],
      ctEnv = buildEnvVars artifact, ctPorts = [], ctVolumeMounts = jobVolumeMounts artifact,
      ctResources = \<lparr>rrLimits = None,
        rrRequests = Some [''cpu'' \<mapsto> MustParse ''100m'', ''memory'' \<mapsto> MustParse ''256Mi'']\<rparr>,
      ctSecurityContext = Some \<lparr>scAllowPrivilegeEscalation = Some False, scDrop = [''ALL'']\<rparr>,
      ctRestartPolicy = None, ctTerminationMessagePath = ''/dev/termination-log'',
      ctTerminationMessagePolicy = ''File'', ctReadinessProbe = None, ctLivenessProbe = None\<rparr>"

definition jobPod :: "modelArtifact \<Rightarrow> string \<Rightarrow> podSpec" where
  "jobPod artifact kitImage =
     \<lparr>psInitContainers = [], psContainers = [kitContainer artifact kitImage],
      psVolumes = jobVolumes artifact, psImagePullSecrets = [],
      psAutomountServiceAccountToken = Some False, psRestartPolicy = ''Never'',
      psSecurityContext = Some \<lparr>pscRunAsNonRoot = Some True, pscFSGroup = Some 1000,
        pscSeccompProfile = Some ''RuntimeDefault''\<rparr>,
      psNodeSelector = Map.empty, psTolerations = [], psServiceAccountName = '''',
      psTerminationGracePeriodSeconds = None\<rparr>"

definition BuildJob :: "modelArtifact \<Rightarrow> string \<Rightarrow> labels \<Rightarrow> job" where
  "BuildJob artifact kitImage ls =
     \<lparr>ometa = metaZero\<lparr>mGenerateName := objName artifact @ ''-'',
        mNamespace := objNamespace artifact, mLabels := ls\<rparr>,
      obody = \<lparr>jobSpecOf = \<lparr>jobBackoffLimit = Some 0,
          jobTTLSecondsAfterFinished = Some DefaultJobTTLSeconds,
          jobTemplate = \<lparr>ptLabels = ls, ptAnnotations = Map.empty,
            ptSpec = jobPod artifact kitImage\<rparr>\<rparr>,
        jobStatusOf = jobStatusZero\<rparr>\<rparr>"

lemma BuildJob_simps [simp]:
  "objLabels (BuildJob a img ls) = ls"
  "objName (BuildJob a img ls) = ''''"
  "mGenerateName (ometa (BuildJob a img ls)) = objName a @ ''-''"
  "objNamespace (BuildJob a img ls) = objNamespace a"
  "mDeletionTimestamp (ometa (BuildJob a img ls)) = None"
  "jobPodSpec (BuildJob a img ls) = jobPod a img"
  by (simp_all add: BuildJob_def metaZero_def)

lemma BuildPVC_simps [simp]:
  "objName (BuildPVC a ls) = PVCName (objName a)"
  "objNamespace (BuildPVC a ls) = objNamespace a"
  "objLabels (BuildPVC a ls) = ls"
  by (simp_all add: BuildPVC_def metaZero_def)

section \<open>Properties\<close>

definition exampleMA :: modelArtifact where
  "exampleMA =
     \<lparr>ometa = metaZero\<lparr>mName := ''phi'', mNamespace := ''ml'', mUID := ''u1'', mGeneration := 1\<rparr>,
      obody = \<lparr>maSpecOf =
          \<lparr>maHuggingFace = Some \<lparr>hfModel = ''microsoft/phi-4'', hfRevision = '''',
             hfTokenSecretRef = Some \<lparr>sksName = ''hf'', sksKey = ''''\<rparr>\<rparr>,
           maTarget = \<lparr>otRegistry = ''ghcr.io:443'', otRepository = ''test/phi-4'', otTag = '''',
             otInsecure = False, otCredentialsSecretRef = Some ''reg''\<rparr>,
           maFormat = ''ModelPack'',
           maStorage = \<lparr>stSize = MustParse ''50Gi'', stStorageClassName = None\<rparr>\<rparr>,
        maStatusOf = \<lparr>masPhase = PhaseUnset, masObservedGeneration = 0, masDigest = '''',
           masReference = '''', masJobRef = None, masStartTime = None, masCompletionTime = None,
           masConditions = []\<rparr>\<rparr>\<rparr>"

definition effectiveTag :: "modelArtifact \<Rightarrow> string" where
  "effectiveTag a =
     (if otTag (maTarget (maSp a)) = '''' then ''latest'' else otTag (maTarget (maSp a)))"

lemma append_sep_inj:
  assumes "xs @ c # ys = xs' @ c # ys'" and "c \<notin> set xs" and "c \<notin> set xs'"
  shows "xs = xs' \<and> ys = ys'"
  using assms
proof (induction xs arbitrary: xs')
  case Nil
  then show ?case by (cases xs') auto
next
  case (Cons x xs)
  then obtain x' xs'' where "xs' = x' # xs''" by (cases xs') auto
  with Cons show ?case by auto
qed

lemma append_sep_inj_last:
  assumes "xs @ c # ys = xs' @ c # ys'" and "c \<notin> set ys" and "c \<notin> set ys'"
  shows "xs = xs' \<and> ys = ys'"
proof -
  have "rev ys @ c # rev xs = rev ys' @ c # rev xs'"
    using arg_cong [OF assms(1), of rev] by simp
  then have "rev ys = rev ys' \<and> rev xs = rev xs'"
    by (rule append_sep_inj) (use assms(2,3) in auto)
  then show ?thesis by simp
qed

theorem OCIReference_inj:
  assumes "OCIReference a = OCIReference b"
    and "CHR ''/'' \<notin> set (otRegistry (maTarget (maSp a)))"
    and "CHR ''/'' \<notin> set (otRegistry (maTarget (maSp b)))"
    and "CHR '':'' \<notin> set (otTag (maTarget (maSp a)))"
    and "CHR '':'' \<notin> set (otTag (maTarget (maSp b)))"
  shows "otRegistry (maTarget (maSp a)) = otRegistry (maTarget (maSp b)) \<and>
     otRepository (maTarget (maSp a)) = otRepository (maTarget (maSp b)) \<and>
     effectiveTag a = effectiveTag b"
proof -
  have tags: "CHR '':'' \<notin> set (effectiveTag a)" "CHR '':'' \<notin> set (effectiveTag b)"
    using assms(4,5) by (auto simp: effectiveTag_def)
  have ref: "OCIReference x = otRegistry (maTarget (maSp x)) @ CHR ''/'' #
      (otRepository (maTarget (maSp x)) @ CHR '':'' # effectiveTag x)" for x
    by (simp add: OCIReference_def effectiveTag_def Let_def)
  from assms(1) have "otRegistry (maTarget (maSp a)) = otRegistry (maTarget (maSp b)) \<and>
     otRepository (maTarget (maSp a)) @ CHR '':'' # effectiveTag a =
     otRepository (maTarget (maSp b)) @ CHR '':'' # effectiveTag b"
    unfolding ref by (rule append_sep_inj) (use assms in auto)
  with append_sep_inj_last [OF _ tags] show ?thesis by blast
qed

theorem OCIReference_inj_witness:
  "otRepository (maTarget (maSp exampleMA)) = ''test/phi-4'' \<and>
   effectiveTag exampleMA = effectiveTag (exampleMA\<lparr>obody := (obody exampleMA)\<lparr>maSpecOf :=
     (maSp exampleMA)\<lparr>maTarget := (maTarget (maSp exampleMA))\<lparr>otTag := ''latest''\<rparr>\<rparr>\<rparr>\<rparr>)"
  using OCIReference_inj [of exampleMA "exampleMA\<lparr>obody := (obody exampleMA)\<lparr>maSpecOf :=
     (maSp exampleMA)\<lparr>maTarget := (maTarget (maSp exampleMA))\<lparr>otTag := ''latest''\<rparr>\<rparr>\<rparr>\<rparr>"]
  by (simp add: exampleMA_def OCIReference_def)

theorem buildEnvVars_token_by_reference:
  "distinct (map evName (buildEnvVars a)) \<and>
   (\<forall>e \<in> set (buildEnvVars a). evName e = ''HF_TOKEN'' \<or> evValueFrom e \<noteq> None \<longrightarrow>
      (\<exists>hf r. maHuggingFace (maSp a) = Some hf \<and> hfTokenSecretRef hf = Some r \<and>
         e = envFrom ''HF_TOKEN'' (SecretKeyRef (sksName r) (secretKey r)))) \<and>
   (''HF_TOKEN'' \<in> evName ` set (buildEnvVars a) \<longleftrightarrow>
      (\<exists>hf. maHuggingFace (maSp a) = Some hf \<and> hfTokenSecretRef hf \<noteq> None))"
  by (auto simp: buildEnvVars_def image_iff split: option.splits)

theorem buildEnvVars_token_by_reference_witness:
  "envFrom ''HF_TOKEN'' (SecretKeyRef ''hf'' ''token'') \<in> set (buildEnvVars exampleMA) \<and>
   ''HF_TOKEN'' \<in> evName ` set (buildEnvVars exampleMA)"
  using buildEnvVars_token_by_reference [of exampleMA]
  by (simp add: exampleMA_def buildEnvVars_def secretKey_def)

theorem BuildJob_wiring:
  "mountsResolved (jobPodSpec (BuildJob a img ls)) \<and>
   (\<exists>c. psContainers (jobPodSpec (BuildJob a img ls)) = [c] \<and> hardened c \<and> ctImage c = img) \<and>
   psInitContainers (jobPodSpec (BuildJob a img ls)) = [] \<and>
   [claimName (volSource v). v \<leftarrow> psVolumes (jobPodSpec (BuildJob a img ls)),
      is_PersistentVolumeClaimSource (volSource v)] = [objName (BuildPVC a ls)] \<and>
   objNamespace (BuildJob a img ls) = objNamespace (BuildPVC a ls) \<and>
   psRestartPolicy (jobPodSpec (BuildJob a img ls)) = ''Never'' \<and>
   jobBackoffLimit (jobSpecOf (obody (BuildJob a img ls))) = Some 0"
proof -
  have "mountsResolved (jobPod a img)"
    by (simp add: mountsResolved_def jobPod_def kitContainer_def jobVolumes_def
        jobVolumeMounts_def split: option.splits)
  moreover have "[claimName (volSource v). v \<leftarrow> jobVolumes a,
      is_PersistentVolumeClaimSource (volSource v)] = [PVCName (objName a)]"
    by (cases "otCredentialsSecretRef (maTarget (maSp a))") (simp_all add: jobVolumes_def)
  ultimately show ?thesis
    by (simp add: jobPod_def kitContainer_def hardened_def) (simp add: BuildJob_def)
qed

theorem selector_finds_job_of_every_version:
  "selects (SelectorLabelsForArtifact n) (objLabels (BuildJob a img (LabelsForArtifact m v)))
     \<longleftrightarrow> n = m"
  by (simp add: artifact.finds_exactly)
end
