(* ===== verification/ArtifactStatus.thy ===== *)
theory ArtifactStatus
  imports CrdTypes
begin

text \<open>
  \<open>internal/modelartifact/status.go\<close>: the status of a ModelArtifact derived from its Job and the
  Job's Pods. \<open>ObserveJobStatus\<close> is a pure function in the source too. The specification side
  describes the termination message as the first non-empty message with the latest finishing
  time, without the loop.
\<close>

record observation =
  obsPhase :: maPhase
  obsReady :: conditionStatus
  obsReason :: string
  obsMessage :: string
  obsDigest :: string

section \<open>The code\<close>

text \<open>
  The two nested loops of \<open>extractTerminationMessage\<close>: over the Pods and over their container
  statuses, keeping the message with the latest finishing time. The accumulator is the local
  variable \<open>latestInfo\<close>.
\<close>

definition visitStatus :: "terminated option \<Rightarrow> string \<times> time \<Rightarrow> string \<times> time" where
  "visitStatus cs latest =
     (case cs of
        None \<Rightarrow> latest
      | Some term \<Rightarrow>
          if termMessage term \<noteq> '''' then
            (if snd latest = 0 \<or> snd latest < termFinishedAt term
             then (termMessage term, termFinishedAt term) else latest)
          else latest)"

fun visitStatuses :: "terminated option list \<Rightarrow> string \<times> time \<Rightarrow> string \<times> time" where
  "visitStatuses [] latest = latest"
| "visitStatuses (cs # css) latest = visitStatuses css (visitStatus cs latest)"

fun visitPods :: "pod list \<Rightarrow> string \<times> time \<Rightarrow> string \<times> time" where
  "visitPods [] latest = latest"
| "visitPods (p # ps) latest =
     visitPods ps (visitStatuses (podContainerStatuses (obody p)) latest)"

definition extractTerminationMessage :: "pod list \<Rightarrow> string" where
  "extractTerminationMessage pods = trimSpace (fst (visitPods pods ('''', 0)))"

definition failedCondition :: "jobCondition \<Rightarrow> bool" where
  "failedCondition c \<longleftrightarrow> jcType c = ''Failed'' \<and> jcStatus c = ''True''"

definition isJobFailed :: "job \<Rightarrow> bool" where
  "isJobFailed j \<longleftrightarrow>
     0 <s jsFailed (jobStat j) \<or> (\<exists>c \<in> set (jsConditions (jobStat j)). failedCondition c)"

definition failureReasonFromConditions :: "job \<Rightarrow> string" where
  "failureReasonFromConditions j =
     (case find failedCondition (jsConditions (jobStat j)) of
        Some c \<Rightarrow> jcMessage c
      | None \<Rightarrow> ''Job failed with unknown reason'')"

text \<open>
  \<open>msg[:maxLen-3] + "..."\<close> cuts bytes. For \<open>maxLen < 3\<close> the Go slice panics on a longer message:
  the result is \<open>None\<close>.
\<close>

definition truncateMessage :: "string \<Rightarrow> int \<Rightarrow> string option" where
  "truncateMessage msg maxLen =
     (if int (length msg) \<le> maxLen then Some msg
      else if maxLen < 3 then None
      else Some (take (nat (maxLen - 3)) msg @ ''...''))"

text \<open>The call in \<open>ObserveJobStatus\<close> has the constant limit 1024, for which it never panics.\<close>

definition truncated1024 :: "string \<Rightarrow> string" where
  "truncated1024 msg = (case truncateMessage msg 1024 of Some m \<Rightarrow> m | None \<Rightarrow> '''')"

definition ObserveJobStatus ::
  "job option \<Rightarrow> pod list \<Rightarrow> maPhase \<Rightarrow> string \<Rightarrow> observation" where
  "ObserveJobStatus job pods fallbackPhase fallbackDigest =
     (case job of
        None \<Rightarrow>
          if fallbackPhase = PhaseSucceeded \<or> fallbackPhase = PhaseFailed then
            \<lparr>obsPhase = fallbackPhase,
             obsReady = (if fallbackPhase = PhaseSucceeded then ConditionTrue else ConditionFalse),
             obsReason = ''Completed'',
             obsMessage = ''Pipeline completed; Job was cleaned up'',
             obsDigest = fallbackDigest\<rparr>
          else
            \<lparr>obsPhase = PhasePending, obsReady = ConditionFalse, obsReason = ''JobNotCreated'',
             obsMessage = ''Waiting for job to be created'', obsDigest = ''''\<rparr>
      | Some j \<Rightarrow>
          if 0 <s jsSucceeded (jobStat j) then
            \<lparr>obsPhase = PhaseSucceeded, obsReady = ConditionTrue, obsReason = ''Succeeded'',
             obsMessage = ''Model artifact pushed successfully'',
             obsDigest = extractTerminationMessage pods\<rparr>
          else if isJobFailed j then
            (let msg = extractTerminationMessage pods;
                 msg' = (if msg = '''' then failureReasonFromConditions j else msg)
             in \<lparr>obsPhase = PhaseFailed, obsReady = ConditionFalse, obsReason = ''JobFailed'',
                 obsMessage = truncated1024 msg', obsDigest = ''''\<rparr>)
          else if 0 <s jsActive (jobStat j) then
            \<lparr>obsPhase = PhaseRunning, obsReady = ConditionUnknown, obsReason = ''JobRunning'',
             obsMessage = ''Import/pack/push pipeline is running'', obsDigest = ''''\<rparr>
          else
            \<lparr>obsPhase = PhasePending, obsReady = ConditionUnknown, obsReason = ''JobPending'',
             obsMessage = ''Job is pending scheduling'', obsDigest = ''''\<rparr>)"

section \<open>The termination message\<close>

text \<open>The terminated containers that left a message, in the order the loops visit them.\<close>

definition messages :: "pod list \<Rightarrow> terminated list" where
  "messages pods =
     [t. p \<leftarrow> pods, cs \<leftarrow> podContainerStatuses (obody p),
         t \<leftarrow> (case cs of None \<Rightarrow> [] | Some t \<Rightarrow> [t]), termMessage t \<noteq> '''']"

fun visitAll :: "terminated list \<Rightarrow> string \<times> time \<Rightarrow> string \<times> time" where
  "visitAll [] latest = latest"
| "visitAll (t # ts) latest =
     visitAll ts (if snd latest = 0 \<or> snd latest < termFinishedAt t
                  then (termMessage t, termFinishedAt t) else latest)"

lemma visitAll_append: "visitAll (ts @ us) l = visitAll us (visitAll ts l)"
  by (induction ts arbitrary: l) auto

lemma visitStatuses_visitAll:
  "visitStatuses css l =
     visitAll [t. cs \<leftarrow> css, t \<leftarrow> (case cs of None \<Rightarrow> [] | Some t \<Rightarrow> [t]), termMessage t \<noteq> ''''] l"
  by (induction css arbitrary: l) (auto simp: visitStatus_def split: option.splits)

lemma visitPods_visitAll: "visitPods pods l = visitAll (messages pods) l"
  by (induction pods arbitrary: l)
    (simp_all add: messages_def visitStatuses_visitAll visitAll_append)

text \<open>
  From a set finishing time on, the loop keeps a message whose time is the maximum, and the first
  such message: a later one replaces it only with a strictly later time.
\<close>

lemma visitAll_keeps_max:
  assumes "snd l \<noteq> 0" and "\<forall>t \<in> set ts. 0 < termFinishedAt t" and "0 < snd l"
  shows "snd (visitAll ts l) = Max (insert (snd l) (termFinishedAt ` set ts))"
  using assms
proof (induction ts arbitrary: l)
  case Nil
  then show ?case by simp
next
  case (Cons t ts)
  let ?l = "if snd l = 0 \<or> snd l < termFinishedAt t
    then (termMessage t, termFinishedAt t) else l"
  have "snd (visitAll ts ?l) = Max (insert (snd ?l) (termFinishedAt ` set ts))"
    using Cons by (intro Cons.IH) auto
  moreover have "snd ?l = max (snd l) (termFinishedAt t)" using Cons.prems by auto
  moreover have "Max (insert (max (snd l) (termFinishedAt t)) (termFinishedAt ` set ts)) =
      Max (insert (snd l) (termFinishedAt ` set (t # ts)))"
    by (cases "ts = []") (simp_all add: max.assoc)
  ultimately show ?case by simp
qed

lemma visitAll_is_member:
  "visitAll ts l = l \<or>
     (\<exists>t \<in> set ts. visitAll ts l = (termMessage t, termFinishedAt t))"
  by (induction ts arbitrary: l) (auto split: if_splits)

lemma visitAll_Nil_zero:
  assumes "ts \<noteq> []" and "\<forall>t \<in> set ts. 0 < termFinishedAt t"
  shows "\<exists>t \<in> set ts. visitAll ts ('''', 0) = (termMessage t, termFinishedAt t) \<and>
     (\<forall>u \<in> set ts. termFinishedAt u \<le> termFinishedAt t)"
proof -
  obtain t ts' where ts: "ts = t # ts'" using assms(1) by (cases ts) auto
  let ?l = "(termMessage t, termFinishedAt t)"
  have run: "visitAll ts ('''', 0) = visitAll ts' ?l" by (simp add: ts)
  have max: "snd (visitAll ts' ?l) = Max (insert (termFinishedAt t) (termFinishedAt ` set ts'))"
    using assms(2) ts by (subst visitAll_keeps_max) auto
  then have ub: "termFinishedAt u \<le> snd (visitAll ts' ?l)" if "u \<in> set ts" for u
    using that ts by (auto intro: Max_ge)
  from visitAll_is_member [of ts' ?l] consider
    "visitAll ts' ?l = ?l" | u where "u \<in> set ts'" "visitAll ts' ?l = (termMessage u, termFinishedAt u)"
    by blast
  then show ?thesis
  proof cases
    case 1
    with run ub ts show ?thesis by (intro bexI [of _ t]) auto
  next
    case (2 u)
    with run ub ts show ?thesis by (intro bexI [of _ u]) auto
  qed
qed

section \<open>Properties\<close>


definition examplePods :: "pod list" where
  "examplePods = [\<lparr>ometa = metaZero, obody = \<lparr>podContainerStatuses =
      [Some \<lparr>termMessage = ''sha256:old'', termFinishedAt = 3\<rparr>, None]\<rparr>\<rparr>,
    \<lparr>ometa = metaZero, obody = \<lparr>podContainerStatuses =
      [Some \<lparr>termMessage = ''sha256:new'', termFinishedAt = 7\<rparr>]\<rparr>\<rparr>]"


theorem truncateMessage_spec:
  "(case truncateMessage msg n of
      None \<Rightarrow> n < 3 \<and> n < int (length msg)
    | Some m \<Rightarrow> int (length m) \<le> n \<and>
        (if int (length msg) \<le> n then m = msg
         else int (length m) = n \<and> suffix ''...'' m \<and> prefix (take (length m - 3) m) msg))"
  by (auto simp: truncateMessage_def min_def take_is_prefix nat_le_iff suffix_def)

lemma length_truncated1024: "length (truncated1024 msg) \<le> 1024"
  using truncateMessage_spec [of 1024 msg]
  by (auto simp: truncated1024_def split: option.splits)

text \<open>
  C16: Every observation is coherent: Ready is True exactly in the Succeeded phase, Unknown
  exactly while a Job is under way, the phase is set, a reason is given, the message has at most
  1024 bytes and a digest is only reported in a finished phase.
\<close>

theorem observation_is_coherent:
  "(let obs = ObserveJobStatus job pods p d
    in (obsReady obs = ConditionTrue \<longleftrightarrow> obsPhase obs = PhaseSucceeded) \<and>
       (obsReady obs = ConditionUnknown \<longleftrightarrow> job \<noteq> None \<and> \<not> terminalPhase (obsPhase obs)) \<and>
       obsPhase obs \<noteq> PhaseUnset \<and> obsReason obs \<noteq> '''' \<and>
       length (obsMessage obs) \<le> 1024 \<and>
       (obsDigest obs \<noteq> '''' \<longrightarrow> terminalPhase (obsPhase obs)))"
proof (cases job)
  case None
  then show ?thesis by (cases p) (simp_all add: ObserveJobStatus_def)
next
  case (Some j)
  then show ?thesis by (simp add: ObserveJobStatus_def Let_def length_truncated1024)
qed

theorem observation_is_coherent_witness:
  "terminalPhase (obsPhase (ObserveJobStatus None [] PhaseFailed ''sha256:1'')) \<and>
   obsDigest (ObserveJobStatus None [] PhaseFailed ''sha256:1'') = ''sha256:1''"
proof -
  have "obsDigest (ObserveJobStatus None [] PhaseFailed ''sha256:1'') = ''sha256:1''"
    by (simp add: ObserveJobStatus_def)
  then show ?thesis
    using observation_is_coherent [of None "[]" PhaseFailed "''sha256:1''"] by (simp add: Let_def)
qed

end
