(* ===== verification/KubeClient.thy ===== *)
theory KubeClient
  imports KubeObjects
begin

text \<open>
  The operator's side of the API server. The server is code outside the repository, so it is a
  parameter: a record \<open>kindApi\<close> per kind of object, whose operations act on a server state of any
  type \<open>'s\<close>, may answer anything, and may change the state in any way (other clients write
  concurrently). The world of a controller run is the server state together with the sequence of
  calls the operator has issued, so that a property can speak of what the operator does whatever
  the server answers. What a cooperative server does is the predicate \<open>lawfulApi\<close>.
\<close>

section \<open>Errors\<close>

datatype statusReason = ReasonNotFound | ReasonAlreadyExists | ReasonConflict | ReasonOther

datatype apiError =
    StatusError statusReason string
  | NoMatchError string
  | OtherError string

text \<open>An error as the operator returns it: an API error, possibly wrapped by \<open>fmt.Errorf\<close>.\<close>

datatype opError = ApiE apiError | Wrapf string opError

fun apiErrorText :: "apiError \<Rightarrow> string" where
  "apiErrorText (StatusError r m) = m"
| "apiErrorText (NoMatchError m) = m"
| "apiErrorText (OtherError m) = m"

text \<open>\<open>err.Error()\<close> of \<open>fmt.Errorf("msg: %w", err)\<close>.\<close>

fun errorText :: "opError \<Rightarrow> string" where
  "errorText (ApiE e) = apiErrorText e"
| "errorText (Wrapf m e) = m @ '': '' @ errorText e"

text \<open>\<open>apierrors.IsNotFound\<close>, \<open>apierrors.IsAlreadyExists\<close> and \<open>meta.IsNoMatchError\<close>.\<close>

fun isNotFound :: "apiError \<Rightarrow> bool" where
  "isNotFound (StatusError ReasonNotFound _) = True"
| "isNotFound _ = False"

fun isAlreadyExists :: "apiError \<Rightarrow> bool" where
  "isAlreadyExists (StatusError ReasonAlreadyExists _) = True"
| "isAlreadyExists _ = False"

fun isNoMatchError :: "apiError \<Rightarrow> bool" where
  "isNoMatchError (NoMatchError _) = True"
| "isNoMatchError _ = False"

section \<open>Calls\<close>

datatype verb = VGet | VList | VCreate | VUpdate | VDelete | VPatchStatus

text \<open>
  One entry of the history: an API call with the Go type of the object, its namespace and its name
  (empty for a list, and for a create with a generated name), or an event sent to the recorder.
\<close>

datatype apiCall =
    ApiCall (callVerb: verb) (callKind: string) (callNamespace: string) (callName: string)
  | EventCall (eventType: string) (eventReason: string) (eventNote: string)

record 's world =
  server :: 's
  calls :: "apiCall list"

text \<open>
  The API of one kind. \<open>apiCreate\<close>, \<open>apiUpdate\<close> and \<open>apiPatchStatus\<close> return the object as the
  server answered it, which the Go client writes back into its argument; \<open>apiPatchStatus base x\<close>
  sends the difference between \<open>base\<close> and \<open>x\<close> (\<open>client.MergeFrom(base)\<close>) to the status subresource;
  \<open>semEq\<close> is \<open>equality.Semantic.DeepEqual\<close> on objects of the kind; \<open>typeName\<close> is what
  \<open>fmt.Sprintf("%T", obj)\<close> prints.
\<close>

record ('s, 'b) kindApi =
  typeName :: string
  apiGet :: "string \<times> string \<Rightarrow> 's \<Rightarrow> (apiError + 'b kobj) \<times> 's"
  apiList :: "string \<Rightarrow> labels \<Rightarrow> 's \<Rightarrow> (apiError + 'b kobj list) \<times> 's"
  apiCreate :: "'b kobj \<Rightarrow> 's \<Rightarrow> (apiError + 'b kobj) \<times> 's"
  apiUpdate :: "'b kobj \<Rightarrow> 's \<Rightarrow> (apiError + 'b kobj) \<times> 's"
  apiDelete :: "'b kobj \<Rightarrow> 's \<Rightarrow> apiError option \<times> 's"
  apiPatchStatus :: "'b kobj \<Rightarrow> 'b kobj \<Rightarrow> 's \<Rightarrow> (apiError + 'b kobj) \<times> 's"
  semEq :: "'b kobj \<Rightarrow> 'b kobj \<Rightarrow> bool"

definition logCall :: "apiCall \<Rightarrow> 's \<Rightarrow> 's world \<Rightarrow> 's world" where
  "logCall c s w = w\<lparr>server := s, calls := calls w @ [c]\<rparr>"

lemma logCall_simps [simp]:
  "server (logCall c s w) = s" "calls (logCall c s w) = calls w @ [c]"
  by (simp_all add: logCall_def)

definition clientGet ::
  "('s, 'b) kindApi \<Rightarrow> string \<times> string \<Rightarrow> ('s world, apiError, 'b kobj) io" where
  "clientGet K key w =
     (case apiGet K key (server w) of (r, s) \<Rightarrow>
        (r, logCall (ApiCall VGet (typeName K) (fst key) (snd key)) s w))"

definition clientList ::
  "('s, 'b) kindApi \<Rightarrow> string \<Rightarrow> labels \<Rightarrow> ('s world, apiError, 'b kobj list) io" where
  "clientList K ns sel w =
     (case apiList K ns sel (server w) of (r, s) \<Rightarrow>
        (r, logCall (ApiCall VList (typeName K) ns '''') s w))"

definition clientCreate ::
  "('s, 'b) kindApi \<Rightarrow> 'b kobj \<Rightarrow> ('s world, apiError, 'b kobj) io" where
  "clientCreate K x w =
     (case apiCreate K x (server w) of (r, s) \<Rightarrow>
        (r, logCall (ApiCall VCreate (typeName K) (objNamespace x) (objName x)) s w))"

definition clientUpdate ::
  "('s, 'b) kindApi \<Rightarrow> 'b kobj \<Rightarrow> ('s world, apiError, 'b kobj) io" where
  "clientUpdate K x w =
     (case apiUpdate K x (server w) of (r, s) \<Rightarrow>
        (r, logCall (ApiCall VUpdate (typeName K) (objNamespace x) (objName x)) s w))"

definition clientDelete ::
  "('s, 'b) kindApi \<Rightarrow> 'b kobj \<Rightarrow> ('s world, apiError, unit) io" where
  "clientDelete K x w =
     (case apiDelete K x (server w) of (r, s) \<Rightarrow>
        (case r of None \<Rightarrow> Inr () | Some e \<Rightarrow> Inl e,
         logCall (ApiCall VDelete (typeName K) (objNamespace x) (objName x)) s w))"

definition clientPatchStatus ::
  "('s, 'b) kindApi \<Rightarrow> 'b kobj \<Rightarrow> 'b kobj \<Rightarrow> ('s world, apiError, 'b kobj) io" where
  "clientPatchStatus K base x w =
     (case apiPatchStatus K base x (server w) of (r, s) \<Rightarrow>
        (r, logCall (ApiCall VPatchStatus (typeName K) (objNamespace x) (objName x)) s w))"

text \<open>\<open>Recorder.Eventf\<close> returns nothing and the controllers never read it back.\<close>

definition recordEvent :: "string \<Rightarrow> string \<Rightarrow> string \<Rightarrow> 's world \<Rightarrow> unit \<times> 's world" where
  "recordEvent ty reason note w = ((), w\<lparr>calls := calls w @ [EventCall ty reason note]\<rparr>)"

lemmas client_defs [kube_defs] = clientGet_def clientList_def clientCreate_def clientUpdate_def
  clientDelete_def clientPatchStatus_def

section \<open>What a computation may issue\<close>

text \<open>
  \<open>emits P m\<close>: whatever the server answers, and from whatever world, every call \<open>m\<close> adds to the
  history satisfies \<open>P\<close>, and \<open>m\<close> never rewrites the history.
\<close>

definition emits :: "(apiCall \<Rightarrow> bool) \<Rightarrow> ('s world \<Rightarrow> 'r \<times> 's world) \<Rightarrow> bool" where
  "emits P m \<longleftrightarrow> (\<forall>w. \<exists>cs. calls (snd (m w)) = calls w @ cs \<and> list_all P cs)"

lemma emitsD: "emits P m \<Longrightarrow> m w = (r, w') \<Longrightarrow> \<exists>cs. calls w' = calls w @ cs \<and> list_all P cs"
  unfolding emits_def by (metis snd_conv)

lemma emits_mono: "emits P m \<Longrightarrow> (\<And>c. P c \<Longrightarrow> Q c) \<Longrightarrow> emits Q m"
  unfolding emits_def by (metis list.pred_mono_strong)

lemma emits_pure:
  assumes "\<And>w. calls (snd (m w)) = calls w"
  shows "emits P m"
  unfolding emits_def by (simp add: assms)

lemma emits_const [emits_intros]: "emits P (\<lambda>w. (x, w))"
  by (rule emits_pure) simp

lemma emits_Pair [emits_intros]: "emits P (Pair x)"
  by (rule emits_pure) simp

lemma emits_ret [emits_intros]: "emits P (ret x)"
  by (rule emits_pure) (simp add: ret_def)

lemma emits_fail [emits_intros]: "emits P (fail e)"
  by (rule emits_pure) (simp add: fail_def)

lemma emits_attempt [emits_intros]:
  assumes "emits P m" and "\<And>r. emits P (k r)"
  shows "emits P (attempt m k)"
  unfolding emits_def
proof
  fix w
  obtain r w1 where m: "m w = (r, w1)" by fastforce
  obtain q w2 where k: "k r w1 = (q, w2)" by fastforce
  obtain cs where "calls w1 = calls w @ cs" "list_all P cs"
    using emitsD [OF assms(1) m] by blast
  moreover obtain ds where "calls w2 = calls w1 @ ds" "list_all P ds"
    using emitsD [OF assms(2) k] by blast
  ultimately show "\<exists>cs. calls (snd (attempt m k w)) = calls w @ cs \<and> list_all P cs"
    by (intro exI [of _ "cs @ ds"]) (simp add: attempt_def m k)
qed

lemma emits_andThen [emits_intros]:
  assumes "emits P m" and "\<And>x. emits P (k x)"
  shows "emits P (andThen m k)"
  unfolding andThen_attempt
  by (rule emits_attempt) (auto intro: assms emits_fail split: sum.splits)

lemma emits_runSteps [emits_intros]:
  assumes "\<And>m. m \<in> set ms \<Longrightarrow> emits P m"
  shows "emits P (runSteps ms)"
  using assms
proof (induction ms)
  case Nil
  show ?case by (rule emits_pure) simp
next
  case (Cons m ms)
  have "runSteps (m # ms) = andThen m (\<lambda>_. runSteps ms)"
    by (rule ext) (simp add: andThen_def)
  then show ?case using Cons by (auto intro: emits_andThen)
qed

lemma emits_clientGet [emits_intros]:
  "P (ApiCall VGet (typeName K) (fst k) (snd k)) \<Longrightarrow> emits P (clientGet K k)"
  by (auto simp: emits_def clientGet_def split: prod.splits)

lemma emits_clientList [emits_intros]:
  "P (ApiCall VList (typeName K) ns '''') \<Longrightarrow> emits P (clientList K ns sel)"
  by (auto simp: emits_def clientList_def split: prod.splits)

lemma emits_clientCreate [emits_intros]:
  "P (ApiCall VCreate (typeName K) (objNamespace x) (objName x)) \<Longrightarrow> emits P (clientCreate K x)"
  by (auto simp: emits_def clientCreate_def split: prod.splits)

lemma emits_clientUpdate [emits_intros]:
  "P (ApiCall VUpdate (typeName K) (objNamespace x) (objName x)) \<Longrightarrow> emits P (clientUpdate K x)"
  by (auto simp: emits_def clientUpdate_def split: prod.splits)

lemma emits_clientDelete [emits_intros]:
  "P (ApiCall VDelete (typeName K) (objNamespace x) (objName x)) \<Longrightarrow> emits P (clientDelete K x)"
  by (auto simp: emits_def clientDelete_def split: prod.splits)

lemma emits_clientPatchStatus [emits_intros]:
  "P (ApiCall VPatchStatus (typeName K) (objNamespace x) (objName x)) \<Longrightarrow>
     emits P (clientPatchStatus K base x)"
  by (auto simp: emits_def clientPatchStatus_def split: prod.splits)

lemma emits_recordEvent [emits_intros]:
  "P (EventCall ty r n) \<Longrightarrow> emits P (recordEvent ty r n)"
  by (auto simp: emits_def recordEvent_def)

lemma emits_if [emits_intros]:
  "(b \<Longrightarrow> emits P m) \<Longrightarrow> (\<not> b \<Longrightarrow> emits P n) \<Longrightarrow> emits P (if b then m else n)"
  by simp

lemma emits_case_sum [emits_intros]:
  "(\<And>e. r = Inl e \<Longrightarrow> emits P (f e)) \<Longrightarrow> (\<And>x. r = Inr x \<Longrightarrow> emits P (g x)) \<Longrightarrow>
     emits P (case r of Inl e \<Rightarrow> f e | Inr x \<Rightarrow> g x)"
  by (cases r) auto

lemma emits_case_option [emits_intros]:
  "(r = None \<Longrightarrow> emits P m) \<Longrightarrow> (\<And>x. r = Some x \<Longrightarrow> emits P (g x)) \<Longrightarrow>
     emits P (case r of None \<Rightarrow> m | Some x \<Rightarrow> g x)"
  by (cases r) auto

section \<open>A cooperative server\<close>

text \<open>
  What the API server documents, for the objects of one kind as \<open>view\<close> sees them in the server
  state, when no other client writes during the run. Every law speaks of an answer the server
  gave, so it leaves the server free to fail any call. \<open>managed\<close> projects the fields the operator
  sets, which the server stores as sent (it may default all the others).
\<close>

type_synonym ('s, 'b) view = "'s \<Rightarrow> string \<times> string \<Rightarrow> 'b kobj option"

definition lawfulGet :: "('s, 'b) kindApi \<Rightarrow> ('s, 'b) view \<Rightarrow> bool" where
  "lawfulGet K view \<longleftrightarrow>
     (\<forall>k s x s'. apiGet K k s = (Inr x, s') \<longrightarrow> view s k = Some x \<and> objKey x = k \<and> s' = s) \<and>
     (\<forall>k s e s'. apiGet K k s = (Inl e, s') \<longrightarrow> (isNotFound e \<longrightarrow> view s k = None) \<and> s' = s)"

text \<open>A create is stored under its own name, or under a fresh name when the name is to be generated.\<close>

definition lawfulCreate ::
  "('s, 'b) kindApi \<Rightarrow> ('s, 'b) view \<Rightarrow> ('b kobj \<Rightarrow> 'm) \<Rightarrow> bool" where
  "lawfulCreate K view managed \<longleftrightarrow>
     (\<forall>x s x' s'. apiCreate K x s = (Inr x', s') \<longrightarrow>
        objNamespace x' = objNamespace x \<and> (objName x \<noteq> '''' \<longrightarrow> objName x' = objName x) \<and>
        managed x' = managed x \<and> view s (objKey x') = None \<and>
        view s' = (view s)(objKey x' \<mapsto> x'))"

definition lawfulUpdate ::
  "('s, 'b) kindApi \<Rightarrow> ('s, 'b) view \<Rightarrow> ('b kobj \<Rightarrow> 'm) \<Rightarrow> bool" where
  "lawfulUpdate K view managed \<longleftrightarrow>
     (\<forall>x s x' s'. apiUpdate K x s = (Inr x', s') \<longrightarrow>
        objKey x' = objKey x \<and> managed x' = managed x \<and> view s' = (view s)(objKey x \<mapsto> x')) \<and>
     (\<forall>x s e s'. apiUpdate K x s = (Inl e, s') \<longrightarrow> isNotFound e \<longrightarrow> view s' = view s)"

text \<open>A deleted object is gone, or stays with a deletion timestamp until its finalizers are done.\<close>

definition lawfulDelete :: "('s, 'b) kindApi \<Rightarrow> ('s, 'b) view \<Rightarrow> bool" where
  "lawfulDelete K view \<longleftrightarrow>
     (\<forall>x s s'. apiDelete K x s = (None, s') \<longrightarrow>
        (\<exists>left. view s' = (view s)(objKey x := left) \<and> (\<forall>y. left = Some y \<longrightarrow> \<not> isLive y))) \<and>
     (\<forall>x s e s'. apiDelete K x s = (Some e, s') \<longrightarrow> isNotFound e \<longrightarrow>
        view s (objKey x) = None \<and> view s' = view s)"

text \<open>A list returns the objects of the namespace that carry the labels, and changes nothing.\<close>

definition lawfulList :: "('s, 'b) kindApi \<Rightarrow> ('s, 'b) view \<Rightarrow> bool" where
  "lawfulList K view \<longleftrightarrow>
     (\<forall>ns sel s xs s'. apiList K ns sel s = (Inr xs, s') \<longrightarrow>
        s' = s \<and>
        set xs = {x. view s (objKey x) = Some x \<and> objNamespace x = ns \<and> selects sel (objLabels x)})"

text \<open>
  A status patch computed against the stored object stores exactly the new status: the argument
  \<open>x\<close> differs from \<open>base\<close> in its status only, which the callers guarantee.
\<close>

definition lawfulPatchStatus :: "('s, 'b) kindApi \<Rightarrow> ('s, 'b) view \<Rightarrow> bool" where
  "lawfulPatchStatus K view \<longleftrightarrow>
     (\<forall>base x s x' s'. view s (objKey base) = Some base \<longrightarrow> ometa x = ometa base \<longrightarrow>
        apiPatchStatus K base x s = (Inr x', s') \<longrightarrow> x' = x \<and> view s' = (view s)(objKey x \<mapsto> x))"

text \<open>\<open>equality.Semantic.DeepEqual\<close> decides equality of the modelled fields.\<close>

definition exactSemEq :: "('s, 'b) kindApi \<Rightarrow> bool" where
  "exactSemEq K \<longleftrightarrow> (\<forall>x y. semEq K x y \<longleftrightarrow> x = y)"

text \<open>
  \<open>ctrlutil.SetControllerReference(owner, obj, scheme)\<close> on an object without owners adds one owner
  reference, to the owner, and changes nothing else.
\<close>

definition lawfulOwnerRef :: "(objectMeta \<Rightarrow> objectMeta \<Rightarrow> apiError + objectMeta) \<Rightarrow> bool" where
  "lawfulOwnerRef f \<longleftrightarrow>
     (\<forall>own m m'. mOwnerReferences m = [] \<longrightarrow> f own m = Inr m' \<longrightarrow>
        (\<exists>r. orUID r = mUID own \<and> m' = m\<lparr>mOwnerReferences := [r]\<rparr>))"

lemma clientGet_api: "clientGet K k w = (r, w') \<Longrightarrow> apiGet K k (server w) = (r, server w')"
  by (auto simp: clientGet_def split: prod.splits)

lemma clientList_api: "clientList K ns sel w = (r, w') \<Longrightarrow> apiList K ns sel (server w) = (r, server w')"
  by (auto simp: clientList_def split: prod.splits)

lemma clientCreate_api: "clientCreate K x w = (r, w') \<Longrightarrow> apiCreate K x (server w) = (r, server w')"
  by (auto simp: clientCreate_def split: prod.splits)

lemma clientUpdate_api: "clientUpdate K x w = (r, w') \<Longrightarrow> apiUpdate K x (server w) = (r, server w')"
  by (auto simp: clientUpdate_def split: prod.splits)

lemma clientPatchStatus_api:
  "clientPatchStatus K b x w = (r, w') \<Longrightarrow> apiPatchStatus K b x (server w) = (r, server w')"
  by (auto simp: clientPatchStatus_def split: prod.splits)

lemma clientDelete_api:
  "clientDelete K x w = (Inr u, w') \<Longrightarrow> apiDelete K x (server w) = (None, server w')"
  "clientDelete K x w = (Inl e, w') \<Longrightarrow> apiDelete K x (server w) = (Some e, server w')"
  by (auto simp: clientDelete_def split: prod.splits option.splits)

lemma clientGet_Inr:
  "lawfulGet K v \<Longrightarrow> clientGet K k w = (Inr x, w') \<Longrightarrow>
     v (server w) k = Some x \<and> objKey x = k \<and> server w' = server w"
  unfolding lawfulGet_def by (drule clientGet_api) blast

lemma clientGet_Inl:
  "lawfulGet K v \<Longrightarrow> clientGet K k w = (Inl e, w') \<Longrightarrow>
     (isNotFound e \<longrightarrow> v (server w) k = None) \<and> server w' = server w"
  unfolding lawfulGet_def by (drule clientGet_api) blast

lemma clientList_Inr:
  "lawfulList K v \<Longrightarrow> clientList K ns sel w = (Inr xs, w') \<Longrightarrow>
     server w' = server w \<and>
     set xs = {x. v (server w) (objKey x) = Some x \<and> objNamespace x = ns \<and>
                  selects sel (objLabels x)}"
  by (auto simp: clientList_def lawfulList_def split: prod.splits)

lemma clientCreate_Inr:
  "lawfulCreate K v m \<Longrightarrow> clientCreate K x w = (Inr x', w') \<Longrightarrow>
     objNamespace x' = objNamespace x \<and> (objName x \<noteq> '''' \<longrightarrow> objName x' = objName x) \<and>
     m x' = m x \<and> v (server w) (objKey x') = None \<and>
     v (server w') = (v (server w))(objKey x' \<mapsto> x')"
  unfolding lawfulCreate_def by (drule clientCreate_api) blast

lemma clientPatchStatus_Inr:
  assumes "lawfulPatchStatus K v" and "clientPatchStatus K b x w = (Inr x', w')"
    and "v (server w) (objKey b) = Some b" and "ometa x = ometa b"
  shows "x' = x \<and> v (server w') = (v (server w))(objKey x \<mapsto> x)"
  using assms(1,3,4) clientPatchStatus_api [OF assms(2)] unfolding lawfulPatchStatus_def by blast

section \<open>Passing errors on\<close>

text \<open>\<open>if err != nil { return err }\<close> on a client call.\<close>

definition liftApi :: "('w, apiError, 'a) io \<Rightarrow> ('w, opError, 'a) io" where
  "liftApi m = attempt m (\<lambda>r. case r of Inl e \<Rightarrow> fail (ApiE e) | Inr x \<Rightarrow> ret x)"

text \<open>\<open>if err := f(); err != nil { return client.IgnoreNotFound(err) }\<close>.\<close>

definition ignoreNotFound :: "('w, apiError, unit) io \<Rightarrow> ('w, opError, unit) io" where
  "ignoreNotFound m = attempt m (\<lambda>r. case r of
     Inl e \<Rightarrow> (if isNotFound e then ret () else fail (ApiE e)) | Inr x \<Rightarrow> ret ())"

lemma emits_liftApi [emits_intros]: "emits P m \<Longrightarrow> emits P (liftApi m)"
  unfolding liftApi_def by (intro emits_intros)

lemma emits_ignoreNotFound [emits_intros]: "emits P m \<Longrightarrow> emits P (ignoreNotFound m)"
  unfolding ignoreNotFound_def by (intro emits_intros)

lemma liftApi_Inr: "liftApi m w = (Inr x, w') \<longleftrightarrow> m w = (Inr x, w')"
  by (auto simp: liftApi_def attempt_def fail_def ret_def split: prod.splits sum.splits)

lemma liftApi_Inl: "liftApi m w = (Inl e, w') \<longleftrightarrow> (\<exists>a. e = ApiE a \<and> m w = (Inl a, w'))"
  by (auto simp: liftApi_def attempt_def fail_def ret_def split: prod.splits sum.splits)

section \<open>Reading the clock and recording events\<close>

text \<open>Library functions that read the clock get the server state.\<close>

definition getServer :: "('s world, opError, 's) io" where
  "getServer w = (Inr (server w), w)"

lemma emits_getServer [emits_intros]: "emits P getServer"
  by (rule emits_pure) (simp add: getServer_def)

text \<open>An event, as a step that cannot fail.\<close>

definition eventStep :: "string \<Rightarrow> string \<Rightarrow> string \<Rightarrow> ('s world, 'e, unit) io" where
  "eventStep ty reason note = attempt (recordEvent ty reason note) (\<lambda>_. ret ())"

lemma emits_eventStep [emits_intros]:
  "P (EventCall ty reason note) \<Longrightarrow> emits P (eventStep ty reason note)"
  unfolding eventStep_def by (intro emits_intros)

lemma emits_case_pair [emits_intros]: "(\<And>a b. emits P (f a b)) \<Longrightarrow> emits P (case p of (a, b) \<Rightarrow> f a b)"
  by (cases p) simp

section \<open>Frames\<close>

text \<open>
  \<open>framed K v\<close>: the API of the kind \<open>K\<close> never changes what \<open>v\<close> reads of the server state, which is
  meant for the view of another kind. \<open>keeps v m\<close>: the computation \<open>m\<close> does not change it either.
\<close>

definition framed :: "('s, 'b) kindApi \<Rightarrow> ('s \<Rightarrow> 'v) \<Rightarrow> bool" where
  "framed K v \<longleftrightarrow>
     (\<forall>k s. v (snd (apiGet K k s)) = v s) \<and>
     (\<forall>ns sel s. v (snd (apiList K ns sel s)) = v s) \<and>
     (\<forall>x s. v (snd (apiCreate K x s)) = v s) \<and>
     (\<forall>x s. v (snd (apiUpdate K x s)) = v s) \<and>
     (\<forall>x s. v (snd (apiDelete K x s)) = v s) \<and>
     (\<forall>b x s. v (snd (apiPatchStatus K b x s)) = v s)"

definition keeps :: "('s \<Rightarrow> 'v) \<Rightarrow> ('s world \<Rightarrow> 'r \<times> 's world) \<Rightarrow> bool" where
  "keeps v m \<longleftrightarrow> (\<forall>w. v (server (snd (m w))) = v (server w))"

lemma keepsD: "keeps v m \<Longrightarrow> m w = (r, w') \<Longrightarrow> v (server w') = v (server w)"
  unfolding keeps_def by (metis snd_conv)

lemma keeps_ret [keeps_intros]: "keeps v (ret x)"
  by (simp add: keeps_def ret_def)

lemma keeps_fail [keeps_intros]: "keeps v (fail x)"
  by (simp add: keeps_def fail_def)

lemma keeps_attempt [keeps_intros]:
  "keeps v m \<Longrightarrow> (\<And>r. keeps v (k r)) \<Longrightarrow> keeps v (attempt m k)"
  by (auto simp: keeps_def attempt_def split: prod.splits) (metis snd_conv)

lemma keeps_andThen [keeps_intros]:
  "keeps v m \<Longrightarrow> (\<And>x. keeps v (k x)) \<Longrightarrow> keeps v (andThen m k)"
  unfolding andThen_attempt
  by (rule keeps_attempt) (auto intro: keeps_fail split: sum.splits)

lemma keeps_runSteps [keeps_intros]:
  assumes "\<And>m. m \<in> set ms \<Longrightarrow> keeps v m"
  shows "keeps v (runSteps ms)"
  using assms
proof (induction ms)
  case Nil
  show ?case by (simp add: keeps_def)
next
  case (Cons m ms)
  have "runSteps (m # ms) = andThen m (\<lambda>_. runSteps ms)"
    by (rule ext) (simp add: andThen_def)
  then show ?case using Cons by (auto intro: keeps_andThen)
qed

lemma keeps_if [keeps_intros]:
  "(b \<Longrightarrow> keeps v m) \<Longrightarrow> (\<not> b \<Longrightarrow> keeps v n) \<Longrightarrow> keeps v (if b then m else n)"
  by simp

lemma keeps_case_sum [keeps_intros]:
  "(\<And>e. r = Inl e \<Longrightarrow> keeps v (f e)) \<Longrightarrow> (\<And>x. r = Inr x \<Longrightarrow> keeps v (g x)) \<Longrightarrow>
     keeps v (case r of Inl e \<Rightarrow> f e | Inr x \<Rightarrow> g x)"
  by (cases r) auto

lemma keeps_case_option [keeps_intros]:
  "(r = None \<Longrightarrow> keeps v m) \<Longrightarrow> (\<And>x. r = Some x \<Longrightarrow> keeps v (g x)) \<Longrightarrow>
     keeps v (case r of None \<Rightarrow> m | Some x \<Rightarrow> g x)"
  by (cases r) auto

lemma keeps_case_pair [keeps_intros]: "(\<And>a b. keeps v (f a b)) \<Longrightarrow> keeps v (case p of (a, b) \<Rightarrow> f a b)"
  by (cases p) simp

lemma server_client:
  "server (snd (clientGet K k w)) = snd (apiGet K k (server w))"
  "server (snd (clientList K ns sel w)) = snd (apiList K ns sel (server w))"
  "server (snd (clientCreate K x w)) = snd (apiCreate K x (server w))"
  "server (snd (clientUpdate K x w)) = snd (apiUpdate K x (server w))"
  "server (snd (clientDelete K x w)) = snd (apiDelete K x (server w))"
  "server (snd (clientPatchStatus K b x w)) = snd (apiPatchStatus K b x (server w))"
  by (simp_all add: client_defs split: prod.split)

lemma keeps_client [keeps_intros]:
  assumes "framed K v"
  shows "keeps v (clientGet K k)" "keeps v (clientList K ns sel)" "keeps v (clientCreate K x)"
    "keeps v (clientUpdate K x)" "keeps v (clientDelete K x)" "keeps v (clientPatchStatus K b x)"
  using assms unfolding keeps_def framed_def server_client by blast+

lemma keeps_recordEvent [keeps_intros]: "keeps v (recordEvent ty r n)"
  by (simp add: keeps_def recordEvent_def)

lemma keeps_eventStep [keeps_intros]: "keeps v (eventStep ty r n)"
  unfolding eventStep_def by (intro keeps_intros)

lemma keeps_liftApi [keeps_intros]: "keeps v m \<Longrightarrow> keeps v (liftApi m)"
  unfolding liftApi_def by (intro keeps_intros)

lemma keeps_ignoreNotFound [keeps_intros]: "keeps v m \<Longrightarrow> keeps v (ignoreNotFound m)"
  unfolding ignoreNotFound_def by (intro keeps_intros)

section \<open>Calls that succeed\<close>

text \<open>\<open>obliging\<close>: the API of a kind fails no call but for the reasons the operator handles.\<close>

definition obliging :: "('s, 'b) kindApi \<Rightarrow> bool" where
  "obliging K \<longleftrightarrow>
     (\<forall>k s e. fst (apiGet K k s) = Inl e \<longrightarrow> isNotFound e) \<and>
     (\<forall>ns sel s e. fst (apiList K ns sel s) \<noteq> Inl e) \<and>
     (\<forall>x s e. fst (apiCreate K x s) = Inl e \<longrightarrow> isAlreadyExists e \<and> objName x \<noteq> '''') \<and>
     (\<forall>x s e. fst (apiDelete K x s) = Some e \<longrightarrow> isNotFound e)"

lemma fst_client:
  "fst (clientGet K k w) = fst (apiGet K k (server w))"
  "fst (clientList K ns sel w) = fst (apiList K ns sel (server w))"
  "fst (clientCreate K x w) = fst (apiCreate K x (server w))"
  "fst (clientDelete K x w) = (case fst (apiDelete K x (server w)) of None \<Rightarrow> Inr () | Some e \<Rightarrow> Inl e)"
  by (simp_all add: client_defs split: prod.split)

definition holds :: "('s \<Rightarrow> 'v) \<Rightarrow> 'v \<Rightarrow> 's world \<Rightarrow> bool" where
  "holds v a w \<longleftrightarrow> v (server w) = a"

lemma succeeds_clientList [succeeds_intros]:
  assumes "obliging K" and "framed K v"
  shows "succeeds (holds v a) (liftApi (clientList K ns sel))"
  unfolding succeeds_def
proof (intro allI impI)
  fix w
  assume "holds v a w"
  obtain r w' where r: "clientList K ns sel w = (r, w')" by fastforce
  with assms(1) obtain xs where "r = Inr xs"
    by (cases r) (auto simp: clientList_def obliging_def split: prod.splits, metis fst_conv)
  moreover have "holds v a w'"
    using keepsD [OF keeps_client(2) [OF assms(2)] r] \<open>holds v a w\<close> by (simp add: holds_def)
  ultimately show "\<exists>x w'. liftApi (clientList K ns sel) w = (Inr x, w') \<and> holds v a w'"
    using r by (auto simp: liftApi_Inr)
qed


lemma succeeds_ignoreNotFound_delete [succeeds_intros]:
  assumes "obliging K" and "framed K v"
  shows "succeeds (holds v a) (ignoreNotFound (clientDelete K x))"
  unfolding ignoreNotFound_def
proof (rule succeeds_attempt)
  fix w
  assume "holds v a w"
  then show "holds v a (snd (clientDelete K x w))"
    using keeps_client(5) [OF assms(2), of x] by (simp add: keeps_def holds_def)
  have "isNotFound e" if "fst (clientDelete K x w) = Inl e" for e
    using that assms(1) by (auto simp: fst_client obliging_def split: option.splits)
  then show "succeeds (holds v a) (case fst (clientDelete K x w) of
      Inl e \<Rightarrow> if isNotFound e then ret () else fail (ApiE e) | Inr x \<Rightarrow> ret ())"
    by (cases "fst (clientDelete K x w)") (simp_all add: succeeds_ret)
qed

lemma succeeds_keeps:
  assumes "keeps v m" and "\<And>(w :: 's world) e w'. m w \<noteq> (Inl e, w')"
  shows "succeeds (holds v a) m"
  unfolding succeeds_def holds_def
proof (intro allI impI)
  fix w :: "'s world"
  assume "v (server w) = a"
  obtain r w' where "m w = (r, w')" by fastforce
  with assms \<open>v (server w) = a\<close> show "\<exists>x w'. m w = (Inr x, w') \<and> v (server w') = a"
    using keepsD [of v m w r w'] by (cases r) auto
qed

definition ownable :: "(objectMeta \<Rightarrow> objectMeta \<Rightarrow> apiError + objectMeta) \<Rightarrow> bool" where
  "ownable f \<longleftrightarrow> lawfulOwnerRef f \<and> (\<forall>o' m e. f o' m \<noteq> Inl e)"

lemma ownableD:
  assumes "ownable f" and "mOwnerReferences m = []"
  shows "\<exists>r. f own m = Inr (m\<lparr>mOwnerReferences := [r]\<rparr>)"
  using assms unfolding ownable_def lawfulOwnerRef_def by (metis sum.exhaust)

lemma succeeds_create:
  assumes "obliging K" and "framed K v"
    and "\<And>x. succeeds (holds v a) (h (Inr x))"
    and "\<And>e. isAlreadyExists e \<Longrightarrow> objName x \<noteq> '''' \<Longrightarrow> succeeds (holds v a) (h (Inl e))"
  shows "succeeds (holds v a) (attempt (clientCreate K x) h)"
proof (rule succeeds_attempt)
  fix w
  assume "holds v a w"
  then show "holds v a (snd (clientCreate K x w))"
    using keeps_client(3) [OF assms(2), of x] by (simp add: keeps_def holds_def)
  have "isAlreadyExists e \<and> objName x \<noteq> ''''" if "fst (clientCreate K x w) = Inl e" for e
    using that assms(1) unfolding fst_client obliging_def by blast
  with assms(3,4) show "succeeds (holds v a) (h (fst (clientCreate K x w)))"
    by (cases "fst (clientCreate K x w)") simp_all
qed

lemma succeeds_eventStep [succeeds_intros]: "succeeds (holds v a) (eventStep ty r n)"
  by (rule succeeds_keeps) (simp_all add: keeps_intros eventStep_def attempt_def recordEvent_def)

lemma succeeds_getServer [succeeds_intros]: "succeeds (holds v a) getServer"
  by (simp add: succeeds_def getServer_def)

end
