(* ===== verification/ArtifactReconcile.thy ===== *)
theory ArtifactReconcile
  imports ArtifactJob ArtifactStatus KubeClient
begin

text \<open>
  \<open>internal/modelartifact/reconcile.go\<close>: the operations on the PVC and the Jobs of a ModelArtifact
  against the API server. The record \<open>maReconciler\<close> is the receiver of the controller's methods:
  its client (one API per kind), its scheme (\<open>maSetControllerReference\<close> is
  \<open>ctrlutil.SetControllerReference\<close> with that scheme, on the metadata of owner and object), the
  operator's version and the kit image, and the library functions its status update calls.
\<close>

record 's maReconciler =
  maApi :: "('s, maBody) kindApi"
  pvcApi :: "('s, pvcBody) kindApi"
  jobApi :: "('s, jobBody) kindApi"
  podApi :: "('s, podBody) kindApi"
  maSetControllerReference :: "objectMeta \<Rightarrow> objectMeta \<Rightarrow> apiError + objectMeta"
  maSetStatusCondition :: "'s \<Rightarrow> condition list \<Rightarrow> condition \<Rightarrow> condition list"
  maStatusSemEq :: "maStatus \<Rightarrow> maStatus \<Rightarrow> bool"
  maVersion :: string
  maKitImage :: string

section \<open>The operations\<close>

definition EnsurePVC ::
  "'s maReconciler \<Rightarrow> modelArtifact \<Rightarrow> labels \<Rightarrow> ('s world, opError, unit) io" where
  "EnsurePVC R ma ls =
     attempt (clientGet (pvcApi R) (objNamespace ma, PVCName (objName ma))) (\<lambda>r. case r of
       Inr existing \<Rightarrow> ret ()
     | Inl err \<Rightarrow>
         if \<not> isNotFound err then fail (ApiE err)
         else
           (let pvc = BuildPVC ma ls
            in case maSetControllerReference R (ometa ma) (ometa pvc) of
                 Inl e \<Rightarrow> fail (Wrapf ''setting PVC owner reference'' (ApiE e))
               | Inr m \<Rightarrow>
                   attempt (clientCreate (pvcApi R) (pvc\<lparr>ometa := m\<rparr>)) (\<lambda>r. case r of
                     Inr created \<Rightarrow> ret ()
                   | Inl e \<Rightarrow> if isAlreadyExists e then ret () else fail (ApiE e))))"

definition isOwnedBy :: "'b kobj \<Rightarrow> 'c kobj \<Rightarrow> bool" where
  "isOwnedBy obj own \<longleftrightarrow>
     (\<exists>r \<in> set (mOwnerReferences (ometa obj)). orUID r = mUID (ometa own))"

definition FindOwnedJob ::
  "'s maReconciler \<Rightarrow> string \<Rightarrow> labels \<Rightarrow> modelArtifact \<Rightarrow> ('s world, opError, job option) io" where
  "FindOwnedJob R namespace ls own =
     andThen (liftApi (clientList (jobApi R) namespace ls))
       (\<lambda>items. ret (find (\<lambda>j. isLive j \<and> isOwnedBy j own) items))"

definition EnsureJob ::
  "'s maReconciler \<Rightarrow> modelArtifact \<Rightarrow> string \<Rightarrow> labels \<Rightarrow> labels \<Rightarrow>
     ('s world, opError, job \<times> bool) io" where
  "EnsureJob R ma kitImage selectorLabels metadataLabels =
     andThen (FindOwnedJob R (objNamespace ma) selectorLabels ma) (\<lambda>found. case found of
       Some job \<Rightarrow> ret (job, False)
     | None \<Rightarrow>
         (let job = BuildJob ma kitImage metadataLabels
          in case maSetControllerReference R (ometa ma) (ometa job) of
               Inl e \<Rightarrow> fail (Wrapf ''setting Job owner reference'' (ApiE e))
             | Inr m \<Rightarrow>
                 andThen (liftApi (clientCreate (jobApi R) (job\<lparr>ometa := m\<rparr>)))
                   (\<lambda>created. ret (created, True))))"

definition deleteStaleJob ::
  "'s maReconciler \<Rightarrow> modelArtifact \<Rightarrow> job \<Rightarrow> ('s world, opError, unit) io" where
  "deleteStaleJob R ma j =
     (if \<not> isOwnedBy j ma \<or> \<not> isLive j then ret ()
      else ignoreNotFound (clientDelete (jobApi R) j))"

definition CleanupStaleJobs ::
  "'s maReconciler \<Rightarrow> modelArtifact \<Rightarrow> labels \<Rightarrow> ('s world, opError, unit) io" where
  "CleanupStaleJobs R ma ls =
     andThen (liftApi (clientList (jobApi R) (objNamespace ma) ls))
       (\<lambda>items. runSteps (map (deleteStaleJob R ma) items))"

definition DeletePVC :: "'s maReconciler \<Rightarrow> modelArtifact \<Rightarrow> ('s world, opError, unit) io" where
  "DeletePVC R ma =
     ignoreNotFound (clientDelete (pvcApi R)
       \<lparr>ometa = metaZero\<lparr>mName := PVCName (objName ma), mNamespace := objNamespace ma\<rparr>,
        obody = \<lparr>pvcAccessModes = [], pvcRequests = Map.empty, pvcStorageClassName = None\<rparr>\<rparr>)"

section \<open>What they issue\<close>

text \<open>\<open>isWrite k v\<close>: the call is a write of the given kind of verb to objects of type \<open>k\<close>.\<close>

definition callIs :: "verb \<Rightarrow> string \<Rightarrow> apiCall \<Rightarrow> bool" where
  "callIs v k c \<longleftrightarrow> (\<exists>ns n. c = ApiCall v k ns n)"

lemma callIs_simps [simp]:
  "callIs v k (ApiCall v' k' ns n) \<longleftrightarrow> v' = v \<and> k' = k"
  "\<not> callIs v k (EventCall t r m)"
  by (auto simp: callIs_def)

lemma emits_EnsurePVC [emits_intros]:
  assumes "\<And>ns n. P (ApiCall VGet (typeName (pvcApi R)) ns n)"
    and "\<And>ns n. P (ApiCall VCreate (typeName (pvcApi R)) ns n)"
  shows "emits P (EnsurePVC R ma ls)"
  unfolding EnsurePVC_def Let_def by (intro emits_intros assms)

lemma emits_FindOwnedJob [emits_intros]:
  assumes "\<And>ns n. P (ApiCall VList (typeName (jobApi R)) ns n)"
  shows "emits P (FindOwnedJob R ns ls ma)"
  unfolding FindOwnedJob_def by (intro emits_intros assms)

lemma emits_EnsureJob [emits_intros]:
  assumes "\<And>ns n. P (ApiCall VList (typeName (jobApi R)) ns n)"
    and "\<And>ns n. P (ApiCall VCreate (typeName (jobApi R)) ns n)"
  shows "emits P (EnsureJob R ma img sel ls)"
  unfolding EnsureJob_def Let_def by (intro emits_intros assms)

lemma emits_CleanupStaleJobs [emits_intros]:
  assumes "\<And>ns n. P (ApiCall VList (typeName (jobApi R)) ns n)"
    and "\<And>ns n. P (ApiCall VDelete (typeName (jobApi R)) ns n)"
  shows "emits P (CleanupStaleJobs R ma ls)"
proof -
  have "emits P (deleteStaleJob R ma j)" for j
    unfolding deleteStaleJob_def by (intro emits_intros assms)
  then show ?thesis
    unfolding CleanupStaleJobs_def by (intro emits_intros assms) auto
qed

lemma emits_DeletePVC [emits_intros]:
  assumes "\<And>ns n. P (ApiCall VDelete (typeName (pvcApi R)) ns n)"
  shows "emits P (DeletePVC R ma)"
  unfolding DeletePVC_def by (intro emits_intros assms)

text \<open>Operations on the PVC leave the views of other kinds alone, and so for the Jobs.\<close>

lemma keeps_DeletePVC [keeps_intros]: "framed (pvcApi R) v \<Longrightarrow> keeps v (DeletePVC R ma)"
  unfolding DeletePVC_def by (intro keeps_intros)

lemma keeps_CleanupStaleJobs [keeps_intros]: "framed (jobApi R) v \<Longrightarrow> keeps v (CleanupStaleJobs R ma ls)"
  unfolding CleanupStaleJobs_def deleteStaleJob_def by (rule keeps_intros | erule keeps_intros | auto intro!: keeps_intros)+

lemma keeps_FindOwnedJob [keeps_intros]: "framed (jobApi R) v \<Longrightarrow> keeps v (FindOwnedJob R ns ls ma)"
  unfolding FindOwnedJob_def by (intro keeps_intros)

lemma keeps_EnsureJob [keeps_intros]: "framed (jobApi R) v \<Longrightarrow> keeps v (EnsureJob R ma img sel ls)"
  unfolding EnsureJob_def Let_def by (intro keeps_intros)

lemma keeps_EnsurePVC [keeps_intros]: "framed (pvcApi R) v \<Longrightarrow> keeps v (EnsurePVC R ma ls)"
  unfolding EnsurePVC_def Let_def by (intro keeps_intros)

section \<open>The pipeline Jobs of an artifact\<close>

text \<open>
  The Jobs that count as the running pipeline of an artifact: in its namespace, under its selector,
  owned by it and not being deleted. This is what \<open>FindOwnedJob\<close> looks for.
\<close>

definition pipelineJobs ::
  "('s, jobBody) view \<Rightarrow> modelArtifact \<Rightarrow> 's \<Rightarrow> (string \<times> string) set" where
  "pipelineJobs v ma s =
     {k. \<exists>j. v s k = Some j \<and> objKey j = k \<and> objNamespace j = objNamespace ma \<and>
        selects (SelectorLabelsForArtifact (objName ma)) (objLabels j) \<and>
        isLive j \<and> isOwnedBy j ma}"

text \<open>The part of a Job the operator relies on being stored as sent.\<close>

definition jobManaged :: "job \<Rightarrow> labels \<times> ownerReference list \<times> time option" where
  "jobManaged j =
     (objLabels j, mOwnerReferences (ometa j), mDeletionTimestamp (ometa j))"

lemma FindOwnedJob_Inr:
  assumes "lawfulList (jobApi R) v"
    and "FindOwnedJob R (objNamespace ma) (SelectorLabelsForArtifact (objName ma)) ma w = (Inr f, w')"
  shows "server w' = server w \<and>
     (case f of None \<Rightarrow> pipelineJobs v ma (server w) = {}
      | Some j \<Rightarrow> objKey j \<in> pipelineJobs v ma (server w))"
proof -
  from assms(2) obtain xs where
    xs: "clientList (jobApi R) (objNamespace ma) (SelectorLabelsForArtifact (objName ma)) w = (Inr xs, w')"
    and f: "f = find (\<lambda>j. isLive j \<and> isOwnedBy j ma) xs"
    by (auto simp: FindOwnedJob_def andThen_Inr liftApi_Inr)
  note listed = clientList_Inr [OF assms(1) xs]
  show ?thesis
  proof (cases f)
    case None
    with f have "find (\<lambda>j. isLive j \<and> isOwnedBy j ma) xs = None" by simp
    then have "\<forall>j \<in> set xs. \<not> (isLive j \<and> isOwnedBy j ma)" by (simp add: find_None_iff)
    with listed None show ?thesis by (auto simp: pipelineJobs_def)
  next
    case (Some j)
    with f have "find (\<lambda>j. isLive j \<and> isOwnedBy j ma) xs = Some j" by simp
    then have "j \<in> set xs" "isLive j" "isOwnedBy j ma"
      by (auto simp: find_Some_iff)
    with listed Some show ?thesis by (auto simp: pipelineJobs_def)
  qed
qed

lemma pipelineJobs_create:
  assumes "v s (objKey j') = None" and "v s' = (v s)(objKey j' \<mapsto> j')"
  shows "pipelineJobs v ma s' = pipelineJobs v ma s \<union>
     (if objNamespace j' = objNamespace ma \<and>
         selects (SelectorLabelsForArtifact (objName ma)) (objLabels j') \<and> isLive j' \<and>
         isOwnedBy j' ma then {objKey j'} else {})"
  using assms by (auto simp: pipelineJobs_def split: if_splits)

lemma EnsureJob_exactly_one:
  assumes "lawfulList (jobApi R) v" and "lawfulCreate (jobApi R) v jobManaged"
    and "lawfulOwnerRef (maSetControllerReference R)"
    and "EnsureJob R ma img (SelectorLabelsForArtifact (objName ma))
           (LabelsForArtifact (objName ma) ver) w = (Inr (j, created), w')"
  shows "objKey j \<in> pipelineJobs v ma (server w') \<and>
     (if created
      then pipelineJobs v ma (server w) = {} \<and> pipelineJobs v ma (server w') = {objKey j}
      else server w' = server w)"
proof -
  from assms(4) obtain f w1 where
    f: "FindOwnedJob R (objNamespace ma) (SelectorLabelsForArtifact (objName ma)) ma w = (Inr f, w1)"
    and rest: "(case f of Some job \<Rightarrow> ret (job, False) | None \<Rightarrow>
       (let job = BuildJob ma img (LabelsForArtifact (objName ma) ver)
          in case maSetControllerReference R (ometa ma) (ometa job) of
               Inl e \<Rightarrow> fail (Wrapf ''setting Job owner reference'' (ApiE e))
             | Inr m \<Rightarrow>
                 andThen (liftApi (clientCreate (jobApi R) (job\<lparr>ometa := m\<rparr>)))
                   (\<lambda>created. ret (created, True)))) w1 = (Inr (j, created), w')"
    unfolding EnsureJob_def andThen_Inr by blast
  note found = FindOwnedJob_Inr [OF assms(1) f]
  show ?thesis
  proof (cases f)
    case (Some job)
    with rest found show ?thesis by auto
  next
    case None
    let ?job = "BuildJob ma img (LabelsForArtifact (objName ma) ver)"
    from None rest obtain m where m: "maSetControllerReference R (ometa ma) (ometa ?job) = Inr m"
      and c: "clientCreate (jobApi R) (?job\<lparr>ometa := m\<rparr>) w1 = (Inr j, w')" and created
      by (auto simp: andThen_Inr liftApi_Inr Let_def split: sum.splits)
    have "mOwnerReferences (ometa ?job) = []" by (simp add: BuildJob_def metaZero_def)
    with assms(3) m obtain r where r: "orUID r = mUID (ometa ma)"
      "m = (ometa ?job)\<lparr>mOwnerReferences := [r]\<rparr>"
      unfolding lawfulOwnerRef_def by blast
    note stored = clientCreate_Inr [OF assms(2) c]
    have "selects (SelectorLabelsForArtifact (objName ma)) (objLabels j)" "isLive j"
      "isOwnedBy j ma" "objNamespace j = objNamespace ma"
      using stored r by (auto simp: jobManaged_def isOwnedBy_def timeIsZero_def
          artifact.finds_every_version)
    with pipelineJobs_create [of v "server w1" j "server w'" ma] stored found None \<open>created\<close>
    show ?thesis by auto
  qed
qed

lemma deleteStaleJob_clears:
  assumes "lawfulDelete (jobApi R) v" and "deleteStaleJob R ma j w = (Inr (), w')"
    and True: "isOwnedBy j ma \<and> isLive j"
  shows "pipelineJobs v ma (server w') \<subseteq> pipelineJobs v ma (server w) - {objKey j}"
proof -
  from True assms(2) have "ignoreNotFound (clientDelete (jobApi R) j) w = (Inr (), w')"
    by (simp add: deleteStaleJob_def)
  then obtain r where r: "apiDelete (jobApi R) j (server w) = (r, server w')"
    "r = None \<or> (\<exists>e. r = Some e \<and> isNotFound e)"
    by (auto simp: ignoreNotFound_def attempt_def clientDelete_def split: prod.splits option.splits if_splits)
  then show ?thesis
  proof (cases r)
    case None
    with r assms(1) obtain left where "v (server w') = (v (server w))(objKey j := left)"
      "\<forall>y. left = Some y \<longrightarrow> \<not> isLive y"
      unfolding lawfulDelete_def by blast
    then show ?thesis by (auto simp: pipelineJobs_def split: if_splits)
  next
    case (Some e)
    with r assms(1) have "v (server w) (objKey j) = None" "v (server w') = v (server w)"
      unfolding lawfulDelete_def by blast+
    then show ?thesis by (auto simp: pipelineJobs_def)
  qed
qed
text \<open>Deleting every listed Job leaves no pipeline Job: each deletion removes one from the set and
  never adds one.\<close>

lemma runSteps_delete_clears:
  assumes "lawfulDelete (jobApi R) v"
    and "runSteps (map (deleteStaleJob R ma) xs) w = (Inr (), w')"
    and "pipelineJobs v ma (server w) \<subseteq> objKey ` {j \<in> set xs. isLive j \<and> isOwnedBy j ma}"
  shows "pipelineJobs v ma (server w') = {}"
  using assms(2,3)
proof (induction xs arbitrary: w)
  case Nil
  then show ?case by simp
next
  case (Cons j xs)
  then obtain w1 where step: "deleteStaleJob R ma j w = (Inr (), w1)"
    and rest: "runSteps (map (deleteStaleJob R ma) xs) w1 = (Inr (), w')"
    by (auto split: prod.splits sum.splits)
  show ?case
  proof (cases "isLive j \<and> isOwnedBy j ma")
    case True
    with deleteStaleJob_clears [OF assms(1) step] Cons.prems(2)
    have "pipelineJobs v ma (server w1) \<subseteq> objKey ` {j \<in> set xs. isLive j \<and> isOwnedBy j ma}"
      by auto
    with rest show ?thesis by (rule Cons.IH)
  next
    case False
    with step have "server w1 = server w" by (auto simp: deleteStaleJob_def)
    with False Cons.prems(2)
    have "pipelineJobs v ma (server w1) \<subseteq> objKey ` {j \<in> set xs. isLive j \<and> isOwnedBy j ma}"
      by auto
    with rest show ?thesis by (rule Cons.IH)
  qed
qed

lemma CleanupStaleJobs_clears:
  assumes "lawfulList (jobApi R) v" and "lawfulDelete (jobApi R) v"
    and "CleanupStaleJobs R ma (SelectorLabelsForArtifact (objName ma)) w = (Inr (), w')"
  shows "pipelineJobs v ma (server w') = {}"
proof -
  from assms(3) obtain xs w1 where
    xs: "clientList (jobApi R) (objNamespace ma) (SelectorLabelsForArtifact (objName ma)) w = (Inr xs, w1)"
    and rest: "runSteps (map (deleteStaleJob R ma) xs) w1 = (Inr (), w')"
    by (auto simp: CleanupStaleJobs_def andThen_Inr liftApi_Inr)
  from clientList_Inr [OF assms(1) xs]
  have "pipelineJobs v ma (server w1) \<subseteq> objKey ` {j \<in> set xs. isLive j \<and> isOwnedBy j ma}"
    by (force simp: pipelineJobs_def)
  with assms(2) rest show ?thesis by (rule runSteps_delete_clears)
qed

text \<open>A deletion touches the key of a Job it was given, and only if the artifact owns it.\<close>

lemma deleteStaleJob_others:
  assumes "lawfulDelete (jobApi R) v" and "deleteStaleJob R ma j w = (Inr (), w')"
    and "k \<noteq> objKey j \<or> \<not> (isLive j \<and> isOwnedBy j ma)"
  shows "v (server w') k = v (server w) k"
proof (cases "isLive j \<and> isOwnedBy j ma")
  case False
  with assms(2) show ?thesis by (auto simp: deleteStaleJob_def)
next
  case True
  with assms(2) have "ignoreNotFound (clientDelete (jobApi R) j) w = (Inr (), w')"
    by (simp add: deleteStaleJob_def)
  then obtain r where r: "apiDelete (jobApi R) j (server w) = (r, server w')"
    "r = None \<or> (\<exists>e. r = Some e \<and> isNotFound e)"
    by (auto simp: ignoreNotFound_def attempt_def clientDelete_def split: prod.splits option.splits if_splits)
  show ?thesis
  proof (cases r)
    case None
    with r assms(1) obtain left where "v (server w') = (v (server w))(objKey j := left)"
      unfolding lawfulDelete_def by blast
    with assms(3) True show ?thesis by simp
  next
    case (Some e)
    with r assms(1) show ?thesis unfolding lawfulDelete_def by fastforce
  qed
qed

lemma runSteps_delete_others:
  assumes "lawfulDelete (jobApi R) v"
    and "runSteps (map (deleteStaleJob R ma) xs) w = (Inr (), w')"
    and "k \<notin> objKey ` {j \<in> set xs. isLive j \<and> isOwnedBy j ma}"
  shows "v (server w') k = v (server w) k"
  using assms(2,3)
proof (induction xs arbitrary: w)
  case Nil
  then show ?case by simp
next
  case (Cons j xs)
  then obtain w1 where step: "deleteStaleJob R ma j w = (Inr (), w1)"
    and rest: "runSteps (map (deleteStaleJob R ma) xs) w1 = (Inr (), w')"
    by (auto split: prod.splits sum.splits)
  have "v (server w1) k = v (server w) k"
    using Cons.prems(2) by (intro deleteStaleJob_others [OF assms(1) step]) auto
  moreover have "v (server w') k = v (server w1) k"
    using rest Cons.prems(2) by (intro Cons.IH) auto
  ultimately show ?case by simp
qed

text \<open>
  C14: A successful cleanup removes every pipeline Job of the artifact and touches no other Job.
\<close>

theorem CleanupStaleJobs_exactly_the_pipeline:
  assumes "lawfulList (jobApi R) v" and "lawfulDelete (jobApi R) v"
    and "CleanupStaleJobs R ma (SelectorLabelsForArtifact (objName ma)) w = (Inr (), w')"
  shows "pipelineJobs v ma (server w') = {} \<and>
     (\<forall>k. k \<notin> pipelineJobs v ma (server w) \<longrightarrow> v (server w') k = v (server w) k)"
proof (intro conjI allI impI)
  show "pipelineJobs v ma (server w') = {}" using assms by (rule CleanupStaleJobs_clears)
  fix k
  assume k: "k \<notin> pipelineJobs v ma (server w)"
  from assms(3) obtain xs w1 where
    xs: "clientList (jobApi R) (objNamespace ma) (SelectorLabelsForArtifact (objName ma)) w = (Inr xs, w1)"
    and rest: "runSteps (map (deleteStaleJob R ma) xs) w1 = (Inr (), w')"
    by (auto simp: CleanupStaleJobs_def andThen_Inr liftApi_Inr)
  note listed = clientList_Inr [OF assms(1) xs]
  with k have "k \<notin> objKey ` {j \<in> set xs. isLive j \<and> isOwnedBy j ma}"
    by (auto simp: pipelineJobs_def)
  from runSteps_delete_others [OF assms(2) rest this] listed
  show "v (server w') k = v (server w) k" by simp
qed

end
