(* ===== verification/Conditions.thy ===== *)
theory Conditions
  imports KubeTypes
begin

text \<open>
  Status conditions. Both controllers write them with \<open>meta.SetStatusCondition\<close>, a library function
  that is a parameter of the model (it reads the clock, here the server state), and then sort them
  by type with \<open>slices.SortFunc\<close>. Its documented behaviour is \<open>lawfulSetStatusCondition\<close>; the list of
  conditions is keyed by type, so sorting by type has only one result and \<open>sort_key\<close> models it.
\<close>

text \<open>Two conditions that differ at most in the transition time.\<close>

definition sameCondition :: "condition \<Rightarrow> condition \<Rightarrow> bool" where
  "sameCondition x y \<longleftrightarrow>
     x\<lparr>condLastTransitionTime := 0\<rparr> = y\<lparr>condLastTransitionTime := 0\<rparr>"

lemma sameCondition_iff:
  "sameCondition x y \<longleftrightarrow> condType x = condType y \<and> condStatus x = condStatus y \<and>
     condReason x = condReason y \<and> condMessage x = condMessage y \<and>
     condObservedGeneration x = condObservedGeneration y"
  by (cases x; cases y) (auto simp: sameCondition_def)

definition lawfulSetStatusCondition ::
  "('s \<Rightarrow> condition list \<Rightarrow> condition \<Rightarrow> condition list) \<Rightarrow> bool" where
  "lawfulSetStatusCondition f \<longleftrightarrow>
     (\<forall>s cs c. distinct (map condType cs) \<longrightarrow>
        distinct (map condType (f s cs c)) \<and>
        (\<exists>x \<in> set (f s cs c). sameCondition x c) \<and>
        {x \<in> set (f s cs c). condType x \<noteq> condType c} = {x \<in> set cs. condType x \<noteq> condType c} \<and>
        ((\<exists>x \<in> set cs. sameCondition x c) \<longrightarrow> f s cs c = cs))"

text \<open>The conditions after a set and a sort: what both status updates store.\<close>

definition storedConditions ::
  "('s \<Rightarrow> condition list \<Rightarrow> condition \<Rightarrow> condition list) \<Rightarrow> 's \<Rightarrow> condition list \<Rightarrow> condition \<Rightarrow>
     condition list" where
  "storedConditions f s cs c = sort_key condType (f s cs c)"

definition conditionsOk :: "condition list \<Rightarrow> bool" where
  "conditionsOk cs \<longleftrightarrow> distinct (map condType cs) \<and> sorted (map condType cs)"

lemma storedConditions_ok:
  assumes "lawfulSetStatusCondition f" and "distinct (map condType cs)"
  shows "conditionsOk (storedConditions f s cs c)"
    and "\<exists>x \<in> set (storedConditions f s cs c). sameCondition x c"
    and "{x \<in> set (storedConditions f s cs c). condType x \<noteq> condType c} =
         {x \<in> set cs. condType x \<noteq> condType c}"
proof -
  have "distinct (map condType (f s cs c))"
    using assms by (simp add: lawfulSetStatusCondition_def)
  then have "distinct (map condType (sort_key condType (f s cs c)))"
    by (simp add: distinct_map)
  then show "conditionsOk (storedConditions f s cs c)"
    by (simp add: conditionsOk_def storedConditions_def)
  show "\<exists>x \<in> set (storedConditions f s cs c). sameCondition x c"
    using assms by (simp add: lawfulSetStatusCondition_def storedConditions_def)
  show "{x \<in> set (storedConditions f s cs c). condType x \<noteq> condType c} =
         {x \<in> set cs. condType x \<noteq> condType c}"
    using assms unfolding lawfulSetStatusCondition_def storedConditions_def set_sort by blast
qed

text \<open>The one condition of the given type says what was set.\<close>

lemma conditionsOk_unique:
  assumes "conditionsOk cs" and "x \<in> set cs" and "y \<in> set cs" and "condType x = condType y"
  shows "x = y"
  using assms by (auto simp: conditionsOk_def distinct_map inj_on_def)

lemma storedConditions_settled:
  assumes "lawfulSetStatusCondition f" and "conditionsOk cs" and "\<exists>x \<in> set cs. sameCondition x c"
  shows "storedConditions f s cs c = cs"
proof -
  have "f s cs c = cs"
    using assms by (simp add: lawfulSetStatusCondition_def conditionsOk_def)
  with assms(2) show ?thesis
    by (simp add: storedConditions_def conditionsOk_def sort_key_id_if_sorted)
qed

section \<open>A concrete instance\<close>

text \<open>Replace the condition of the type in place, keeping its time when the status stays, or append
  it: the laws can hold. The clock always shows 1.\<close>

fun memSetCondition :: "condition list \<Rightarrow> condition \<Rightarrow> condition list" where
  "memSetCondition [] c = [c\<lparr>condLastTransitionTime := 1\<rparr>]"
| "memSetCondition (x # xs) c =
     (if condType x = condType c
      then c\<lparr>condLastTransitionTime :=
             (if condStatus x = condStatus c then condLastTransitionTime x else 1)\<rparr> # xs
      else x # memSetCondition xs c)"

lemma memSetCondition_types:
  "set (map condType (memSetCondition cs c)) = insert (condType c) (set (map condType cs))"
  by (induction cs) auto

lemma memSetCondition_distinct:
  "distinct (map condType cs) \<Longrightarrow> distinct (map condType (memSetCondition cs c))"
proof (induction cs)
  case Nil
  then show ?case by simp
next
  case (Cons x xs)
  have "condType ` set (memSetCondition xs c) = insert (condType c) (condType ` set xs)"
    using memSetCondition_types [of xs c] by simp
  with Cons show ?case by auto
qed

lemma memSetCondition_others:
  "distinct (map condType cs) \<Longrightarrow>
   {x \<in> set (memSetCondition cs c). condType x \<noteq> condType c} = {x \<in> set cs. condType x \<noteq> condType c}"
  by (induction cs) auto

lemma memSetCondition_sets: "\<exists>x \<in> set (memSetCondition cs c). sameCondition x c"
  by (induction cs) (auto simp: sameCondition_iff)

lemma memSetCondition_same:
  assumes "distinct (map condType cs)" and "x \<in> set cs" and "sameCondition x c"
  shows "memSetCondition cs c = cs"
  using assms
proof (induction cs)
  case Nil
  then show ?case by simp
next
  case (Cons y ys)
  show ?case
  proof (cases "condType y = condType c")
    case True
    with Cons.prems(3) have "condType x = condType y" by (simp add: sameCondition_iff)
    moreover from Cons.prems(1) have "inj_on condType (set (y # ys))" by (simp only: distinct_map)
    ultimately have "x = y" using Cons.prems(2) by (meson inj_onD list.set_intros(1))
    with Cons.prems(3) have "sameCondition y c" by simp
    then show ?thesis
      by (cases y; cases c) (auto simp: sameCondition_def)
  next
    case False
    with Cons show ?thesis by (auto simp: sameCondition_iff)
  qed
qed

lemma lawful_memSetCondition: "lawfulSetStatusCondition (\<lambda>s. memSetCondition)"
  unfolding lawfulSetStatusCondition_def
  using memSetCondition_distinct memSetCondition_sets memSetCondition_others memSetCondition_same
  by blast

end
