(* ===== verification/Rbac.thy ===== *)
theory Rbac
  imports KubeClient
begin

text \<open>
  The permissions the operator asks for. Each controller file lists them in \<open>+kubebuilder:rbac\<close>
  markers, from which \<open>config/rbac/role.yaml\<close> is generated; a marker is one \<open>rbacRule\<close> here.
  \<open>granted\<close> decides whether a call of the history is covered, so that \<open>emits (granted ...) m\<close> says
  that \<open>m\<close> never issues a request the API server would refuse for lack of a permission.
\<close>

record rbacRule =
  rbGroups :: "string list"
  rbResources :: "string list"
  rbVerbs :: "string list"

definition rbac :: "string list \<Rightarrow> string list \<Rightarrow> string list \<Rightarrow> rbacRule" where
  "rbac gs rs vs = \<lparr>rbGroups = gs, rbResources = rs, rbVerbs = vs\<rparr>"

text \<open>The API group and resource behind a Go type: a row of the scheme's REST mapping.\<close>

record kindResource =
  krType :: string
  krGroup :: string
  krResource :: string

definition kindRow :: "string \<Rightarrow> string \<Rightarrow> string \<Rightarrow> kindResource" where
  "kindRow ty g r = \<lparr>krType = ty, krGroup = g, krResource = r\<rparr>"

text \<open>The verb and subresource of a request; events go out through \<open>events.k8s.io\<close>.\<close>

fun verbName :: "verb \<Rightarrow> string" where
  "verbName VGet = ''get''"
| "verbName VList = ''list''"
| "verbName VCreate = ''create''"
| "verbName VUpdate = ''update''"
| "verbName VDelete = ''delete''"
| "verbName VPatchStatus = ''patch''"

fun subresource :: "verb \<Rightarrow> string" where
  "subresource VPatchStatus = ''/status''"
| "subresource _ = ''''"

definition allows :: "rbacRule list \<Rightarrow> string \<Rightarrow> string \<Rightarrow> string \<Rightarrow> bool" where
  "allows rules g r v \<longleftrightarrow>
     list_ex (\<lambda>x. g \<in> set (rbGroups x) \<and> r \<in> set (rbResources x) \<and> v \<in> set (rbVerbs x)) rules"

definition granted :: "rbacRule list \<Rightarrow> kindResource list \<Rightarrow> apiCall \<Rightarrow> bool" where
  "granted rules kinds c =
     (case c of
        EventCall _ _ _ \<Rightarrow> allows rules ''events.k8s.io'' ''events'' ''create''
      | ApiCall v k _ _ \<Rightarrow>
          list_ex (\<lambda>row. krType row = k \<and>
             allows rules (krGroup row) (krResource row @ subresource v) (verbName v)) kinds)"

lemmas granted_simps = granted_def allows_def rbac_def kindRow_def

end
