(* ===== verification/ArtifactController.thy ===== *)
theory ArtifactController
  imports ArtifactReconcile Conditions Rbac
begin

text \<open>
  \<open>internal/controller/modelartifact_controller.go\<close>: the reconcile loop of ModelArtifact. The
  resource sync, the status update, the error path and the loop itself are modelled with every
  call they make; logging is not. A reconcile returns an error or the requeue delay in seconds
  (0: no requeue).
\<close>

abbreviation ConditionTypeReadyMA :: string where
  "ConditionTypeReadyMA \<equiv> ''Ready''"

section \<open>Resource sync\<close>

text \<open>The skip of a finished artifact, and the test for a changed spec.\<close>

definition settledMA :: "modelArtifact \<Rightarrow> bool" where
  "settledMA ma \<longleftrightarrow>
     (masPhase (maSt ma) = PhaseSucceeded \<or> masPhase (maSt ma) = PhaseFailed) \<and>
     masObservedGeneration (maSt ma) = maGeneration ma"

definition specChangedMA :: "modelArtifact \<Rightarrow> bool" where
  "specChangedMA ma \<longleftrightarrow>
     masObservedGeneration (maSt ma) \<noteq> 0 \<and> masObservedGeneration (maSt ma) <s maGeneration ma"

definition announceJobMA :: "job \<times> bool \<Rightarrow> ('s world, opError, unit) io" where
  "announceJobMA = (\<lambda>(job, created).
     if created
     then eventStep ''Normal'' ''JobCreated'' (''Created pipeline job '' @ objName job)
     else ret ())"

definition reconcileResourcesMA ::
  "'s maReconciler \<Rightarrow> modelArtifact \<Rightarrow> ('s world, opError, unit) io" where
  "reconcileResourcesMA R ma =
     (if settledMA ma then ret ()
      else
        (let selectorLabels = SelectorLabelsForArtifact (objName ma);
             metadataLabels = LabelsForArtifact (objName ma) (maVersion R)
         in if specChangedMA ma then
              andThen (CleanupStaleJobs R ma selectorLabels) (\<lambda>_. DeletePVC R ma)
            else
              andThen (EnsurePVC R ma metadataLabels) (\<lambda>_.
              andThen (EnsureJob R ma (maKitImage R) selectorLabels metadataLabels)
                announceJobMA)))"

section \<open>Status\<close>

text \<open>\<open>setReadyConditionFalse\<close>: the patch may fail, which is only logged.\<close>

definition setReadyConditionFalseMA ::
  "'s maReconciler \<Rightarrow> modelArtifact \<Rightarrow> string \<Rightarrow> string \<Rightarrow> ('s world, opError, unit) io" where
  "setReadyConditionFalseMA R ma reason message =
     andThen getServer (\<lambda>s.
       let conds = maSetStatusCondition R s (masConditions (maSt ma))
             \<lparr>condType = ConditionTypeReadyMA, condStatus = ConditionFalse, condReason = reason,
              condMessage = message, condObservedGeneration = maGeneration ma,
              condLastTransitionTime = 0\<rparr>;
           ma' = setMaStatus ((maSt ma)\<lparr>masConditions := conds,
             masObservedGeneration := maGeneration ma\<rparr>) ma
       in attempt (clientPatchStatus (maApi R) ma ma') (\<lambda>_. ret ()))"

definition handleReconcileErrorMA ::
  "'s maReconciler \<Rightarrow> modelArtifact \<Rightarrow> opError \<Rightarrow> ('s world, opError, int) io" where
  "handleReconcileErrorMA R ma err =
     andThen (setReadyConditionFalseMA R ma ''ReconcileError'' (errorText err)) (\<lambda>_.
     andThen (eventStep ''Warning'' ''ReconcileError'' (errorText err)) (\<lambda>_. fail err))"

definition listJobPods ::
  "'s maReconciler \<Rightarrow> job option \<Rightarrow> ('s world, opError, pod list) io" where
  "listJobPods R job =
     (case job of
        None \<Rightarrow> ret []
      | Some j \<Rightarrow> liftApi (clientList (podApi R) (objNamespace j)
                   [''batch.kubernetes.io/job-name'' \<mapsto> objName j]))"

text \<open>The new status computed by \<open>updateStatus\<close> (before the comparison with the old one): first
  every field but the conditions, then the Ready condition, sorted in.\<close>

definition statusFieldsMA :: "modelArtifact \<Rightarrow> job option \<Rightarrow> observation \<Rightarrow> maStatus" where
  "statusFieldsMA ma job obs =
     (let st0 = (maSt ma)\<lparr>masObservedGeneration := maGeneration ma, masPhase := obsPhase obs\<rparr>;
          st1 = (if obsDigest obs \<noteq> ''''
                 then st0\<lparr>masDigest := obsDigest obs, masReference := OCIReference ma\<rparr> else st0)
      in case job of
           None \<Rightarrow> st1
         | Some j \<Rightarrow>
             (let st = st1\<lparr>masJobRef := Some (objNamespace j, objName j)\<rparr>;
                  st' = (if jsStartTime (jobStat j) \<noteq> None
                         then st\<lparr>masStartTime := jsStartTime (jobStat j)\<rparr> else st)
              in if jsCompletionTime (jobStat j) \<noteq> None
                 then st'\<lparr>masCompletionTime := jsCompletionTime (jobStat j)\<rparr> else st'))"

definition readyConditionMA :: "modelArtifact \<Rightarrow> observation \<Rightarrow> condition" where
  "readyConditionMA ma obs =
     \<lparr>condType = ConditionTypeReadyMA, condStatus = obsReady obs, condReason = obsReason obs,
      condMessage = obsMessage obs, condObservedGeneration = maGeneration ma,
      condLastTransitionTime = 0\<rparr>"

definition newStatusMA ::
  "'s maReconciler \<Rightarrow> 's \<Rightarrow> modelArtifact \<Rightarrow> job option \<Rightarrow> observation \<Rightarrow> maStatus" where
  "newStatusMA R s ma job obs =
     (let st = statusFieldsMA ma job obs
      in st\<lparr>masConditions := storedConditions (maSetStatusCondition R) s (masConditions st)
              (readyConditionMA ma obs)\<rparr>)"

text \<open>The events after a successful patch.\<close>

definition phaseEventMA :: "observation \<Rightarrow> ('s world, opError, unit) io" where
  "phaseEventMA obs =
     (if obsPhase obs = PhaseSucceeded
      then eventStep ''Normal'' ''Succeeded'' ''Artifact pushed successfully''
      else if obsPhase obs = PhaseFailed
      then eventStep ''Warning'' ''Failed'' (''Artifact pipeline failed: '' @ obsMessage obs)
      else ret ())"

text \<open>
  \<open>updateStatus\<close> returns the observation and the artifact as the server answered the patch, which
  the Go client decodes into \<open>ma\<close>.
\<close>

definition updateStatusMA ::
  "'s maReconciler \<Rightarrow> modelArtifact \<Rightarrow> ('s world, opError, observation \<times> modelArtifact) io" where
  "updateStatusMA R ma =
     andThen (FindOwnedJob R (objNamespace ma) (SelectorLabelsForArtifact (objName ma)) ma) (\<lambda>job.
     andThen (listJobPods R job) (\<lambda>pods.
     andThen getServer (\<lambda>s.
       let obs = ObserveJobStatus job pods (masPhase (maSt ma)) (masDigest (maSt ma));
           st = newStatusMA R s ma job obs
       in if maStatusSemEq R (maSt ma) st then ret (obs, ma)
          else
            andThen (liftApi (clientPatchStatus (maApi R) ma (setMaStatus st ma))) (\<lambda>ma'.
            andThen (phaseEventMA obs) (\<lambda>_. ret (obs, ma'))))))"

section \<open>The loop\<close>

text \<open>After the status: release the workspace of a finished pipeline (a failure is only logged),
  and poll again for a digest that is not there yet.\<close>

definition finishMA ::
  "'s maReconciler \<Rightarrow> observation \<Rightarrow> modelArtifact \<Rightarrow> ('s world, opError, int) io" where
  "finishMA R obs ma =
     andThen
       (if obsPhase obs = PhaseSucceeded \<or> obsPhase obs = PhaseFailed
        then attempt (DeletePVC R ma) (\<lambda>_. ret ()) else ret ())
       (\<lambda>_. ret (if obsPhase obs = PhaseSucceeded \<and> obsDigest obs = '''' then 10 else 0))"

text \<open>The body of the loop once the artifact has been read.\<close>

definition reconcileFoundMA ::
  "'s maReconciler \<Rightarrow> modelArtifact \<Rightarrow> ('s world, opError, int) io" where
  "reconcileFoundMA R ma =
     attempt (reconcileResourcesMA R ma) (\<lambda>r. case r of
       Inl e \<Rightarrow> handleReconcileErrorMA R ma e
     | Inr _ \<Rightarrow> andThen (updateStatusMA R ma) (\<lambda>(obs, ma'). finishMA R obs ma'))"

definition ReconcileMA ::
  "'s maReconciler \<Rightarrow> string \<times> string \<Rightarrow> ('s world, opError, int) io" where
  "ReconcileMA R req =
     attempt (clientGet (maApi R) req) (\<lambda>r. case r of
       Inl e \<Rightarrow> if isNotFound e then ret 0 else fail (ApiE e)
     | Inr ma \<Rightarrow> reconcileFoundMA R ma)"

text \<open>The permission markers above \<open>Reconcile\<close>, and the kinds the controller talks to.\<close>

definition rbacMA :: "rbacRule list" where
  "rbacMA =
    [rbac [''model.otterscale.io''] [''modelartifacts''] [''get'', ''list'', ''watch''],
     rbac [''model.otterscale.io''] [''modelartifacts/status''] [''get'', ''update'', ''patch''],
     rbac [''''] [''secrets''] [''get''],
     rbac [''''] [''persistentvolumeclaims''] [''get'', ''list'', ''watch'', ''create'', ''delete''],
     rbac [''''] [''pods''] [''get'', ''list''],
     rbac [''batch''] [''jobs''] [''get'', ''list'', ''watch'', ''create'', ''delete''],
     rbac [''events.k8s.io''] [''events''] [''create'', ''patch'']]"

definition kindsMA :: "'s maReconciler \<Rightarrow> kindResource list" where
  "kindsMA R =
    [kindRow (typeName (maApi R)) ''model.otterscale.io'' ''modelartifacts'',
     kindRow (typeName (pvcApi R)) '''' ''persistentvolumeclaims'',
     kindRow (typeName (jobApi R)) ''batch'' ''jobs'',
     kindRow (typeName (podApi R)) '''' ''pods'']"

section \<open>What the loop issues\<close>

lemma emits_setReadyConditionFalseMA [emits_intros]:
  assumes "\<And>ns n. P (ApiCall VPatchStatus (typeName (maApi R)) ns n)"
  shows "emits P (setReadyConditionFalseMA R ma reason message)"
  unfolding setReadyConditionFalseMA_def Let_def by (intro emits_intros assms)

lemma emits_handleReconcileErrorMA [emits_intros]:
  assumes "\<And>ns n. P (ApiCall VPatchStatus (typeName (maApi R)) ns n)"
    and "\<And>t r n. P (EventCall t r n)"
  shows "emits P (handleReconcileErrorMA R ma err)"
  unfolding handleReconcileErrorMA_def by (intro emits_intros assms)

lemma emits_updateStatusMA [emits_intros]:
  assumes "\<And>ns n. P (ApiCall VPatchStatus (typeName (maApi R)) ns n)"
    and "\<And>ns n. P (ApiCall VList (typeName (jobApi R)) ns n)"
    and "\<And>ns n. P (ApiCall VList (typeName (podApi R)) ns n)"
    and "\<And>t r n. P (EventCall t r n)"
  shows "emits P (updateStatusMA R ma)"
  unfolding updateStatusMA_def listJobPods_def phaseEventMA_def Let_def
  by (intro emits_intros assms)

lemma emits_finishMA [emits_intros]:
  assumes "\<And>ns n. P (ApiCall VDelete (typeName (pvcApi R)) ns n)"
  shows "emits P (finishMA R obs ma)"
  unfolding finishMA_def by (intro emits_intros assms)

lemma emits_reconcileResourcesMA [emits_intros]:
  assumes "\<And>ns n. P (ApiCall VGet (typeName (pvcApi R)) ns n)"
    and "\<And>ns n. P (ApiCall VList (typeName (jobApi R)) ns n)"
    and "\<And>ns n. settledMA ma \<or> P (ApiCall VDelete (typeName (pvcApi R)) ns n)"
    and "\<And>ns n. settledMA ma \<or> P (ApiCall VDelete (typeName (jobApi R)) ns n)"
    and "\<And>ns n. settledMA ma \<or> specChangedMA ma \<or> P (ApiCall VCreate (typeName (pvcApi R)) ns n)"
    and "\<And>ns n. settledMA ma \<or> specChangedMA ma \<or> P (ApiCall VCreate (typeName (jobApi R)) ns n)"
    and "\<And>t r n. P (EventCall t r n)"
  shows "emits P (reconcileResourcesMA R ma)"
proof -
  consider "settledMA ma" | "\<not> settledMA ma" "specChangedMA ma" | "\<not> settledMA ma" "\<not> specChangedMA ma"
    by blast
  then show ?thesis
  proof cases
    case 1
    then show ?thesis unfolding reconcileResourcesMA_def by (simp add: emits_intros)
  next
    case 2
    with assms have "emits P (andThen (CleanupStaleJobs R ma sel) (\<lambda>_. DeletePVC R ma))" for sel
      by (intro emits_intros) blast+
    with 2 show ?thesis unfolding reconcileResourcesMA_def by (simp add: Let_def)
  next
    case 3
    with assms show ?thesis unfolding reconcileResourcesMA_def announceJobMA_def Let_def
      by (intro emits_intros) blast+
  qed
qed

section \<open>What the loop leaves alone\<close>

lemma keeps_announceJobMA [keeps_intros]: "keeps v (announceJobMA jc)"
  unfolding announceJobMA_def by (intro keeps_intros)

lemma keeps_phaseEventMA [keeps_intros]: "keeps v (phaseEventMA obs)"
  unfolding phaseEventMA_def by (intro keeps_intros)

lemma keeps_finishMA [keeps_intros]: "framed (pvcApi R) v \<Longrightarrow> keeps v (finishMA R obs ma)"
  unfolding finishMA_def by (intro keeps_intros)

lemma keeps_listJobPods [keeps_intros]: "framed (podApi R) v \<Longrightarrow> keeps v (listJobPods R j)"
  unfolding listJobPods_def by (intro keeps_intros)

lemma keeps_reconcileResourcesMA [keeps_intros]:
  "framed (pvcApi R) v \<Longrightarrow> framed (jobApi R) v \<Longrightarrow> keeps v (reconcileResourcesMA R ma)"
  unfolding reconcileResourcesMA_def announceJobMA_def Let_def by (intro keeps_intros)

end
