(* ===== verification/MemServer.thy ===== *)
theory MemServer
  imports KubeClient
begin

text \<open>
  A server that keeps the objects of each kind in a list. No property depends on it: it shows that
  the laws of a cooperative server can hold together, and it is the server the witnesses run on.
  A kind's objects sit in a component of the server state that \<open>get\<close> reads and \<open>upd\<close> updates.
\<close>

type_synonym 'b memStore = "((string \<times> string) \<times> 'b kobj) list"

definition memLookup :: "'b memStore \<Rightarrow> string \<times> string \<Rightarrow> 'b kobj option" where
  "memLookup st k =
     (case map_of st k of Some x \<Rightarrow> (if objKey x = k then Some x else None) | None \<Rightarrow> None)"

definition memView :: "('s \<Rightarrow> 'b memStore) \<Rightarrow> ('s, 'b) view" where
  "memView get s = memLookup (get s)"

lemma memLookup_key: "memLookup st k = Some x \<Longrightarrow> objKey x = k"
  by (auto simp: memLookup_def split: option.splits if_splits)

lemma memLookup_set: "memLookup st k = Some x \<Longrightarrow> (k, x) \<in> set st"
  by (auto simp: memLookup_def dest: map_of_SomeD split: option.splits if_splits)

lemma memLookup_Nil [simp]: "memLookup [] = Map.empty"
  by (simp add: memLookup_def fun_eq_iff)

lemma memLookup_Cons [simp]:
  "objKey x = k \<Longrightarrow> memLookup ((k, x) # st) = (memLookup st)(k \<mapsto> x)"
  by (auto simp: memLookup_def fun_eq_iff)

lemma memLookup_filter:
  "memLookup (filter (\<lambda>e. fst e \<noteq> k) st) = (memLookup st)(k := None)"
proof -
  have "map_of (filter (\<lambda>e. fst e \<noteq> k) st) = (map_of st)(k := None)"
    by (induction st) (auto simp: fun_eq_iff)
  then show ?thesis by (auto simp: memLookup_def fun_eq_iff)
qed

text \<open>A generated name is longer than every stored name.\<close>

definition freshName :: "'b memStore \<Rightarrow> string \<Rightarrow> string" where
  "freshName st p =
     p @ replicate (Suc (sum_list (map (\<lambda>e. length (snd (fst e))) st))) (CHR ''x'')"

lemma freshName_fresh: "memLookup st (ns, freshName st p) = None"
proof -
  have "length n \<le> sum_list (map (\<lambda>e. length (snd (fst e))) st)"
    if "((ns, n), x) \<in> set st" for n x
    using member_le_sum_list [of "length n" "map (\<lambda>e. length (snd (fst e))) st"] that by force
  then have "((ns, freshName st p), x) \<notin> set st" for x
    by (fastforce simp: freshName_def)
  then show ?thesis by (metis memLookup_set not_None_eq)
qed

lemma freshName_nonempty: "freshName st p \<noteq> ''''"
  by (simp add: freshName_def)

definition memNamed :: "'b memStore \<Rightarrow> 'b kobj \<Rightarrow> 'b kobj" where
  "memNamed st x =
     (if objName x = ''''
      then x\<lparr>ometa := (ometa x)\<lparr>mName := freshName st (mGenerateName (ometa x))\<rparr>\<rparr> else x)"

lemma memNamed_simps [simp]:
  "obody (memNamed st x) = obody x"
  "objNamespace (memNamed st x) = objNamespace x"
  "objLabels (memNamed st x) = objLabels x"
  "mAnnotations (ometa (memNamed st x)) = mAnnotations (ometa x)"
  "mOwnerReferences (ometa (memNamed st x)) = mOwnerReferences (ometa x)"
  "mDeletionTimestamp (ometa (memNamed st x)) = mDeletionTimestamp (ometa x)"
  "objName x \<noteq> '''' \<Longrightarrow> memNamed st x = x"
  by (simp_all add: memNamed_def)

definition memApi ::
  "string \<Rightarrow> ('s \<Rightarrow> 'b memStore) \<Rightarrow> (('b memStore \<Rightarrow> 'b memStore) \<Rightarrow> 's \<Rightarrow> 's) \<Rightarrow> ('s, 'b) kindApi" where
  "memApi ty get upd =
     \<lparr>typeName = ty,
      apiGet = (\<lambda>k s. (case memLookup (get s) k of
        Some x \<Rightarrow> (Inr x, s) | None \<Rightarrow> (Inl (StatusError ReasonNotFound ''not found''), s))),
      apiList = (\<lambda>ns sel s.
        (Inr [x. (k, x) \<leftarrow> get s, memLookup (get s) (objKey x) = Some x \<and> objNamespace x = ns \<and>
                 selects sel (objLabels x)], s)),
      apiCreate = (\<lambda>x s.
        (let x' = memNamed (get s) x
         in case memLookup (get s) (objKey x') of
              Some _ \<Rightarrow> (Inl (StatusError ReasonAlreadyExists ''already exists''), s)
            | None \<Rightarrow> (Inr x', upd (\<lambda>st. (objKey x', x') # st) s))),
      apiUpdate = (\<lambda>x s. (case memLookup (get s) (objKey x) of
        None \<Rightarrow> (Inl (StatusError ReasonNotFound ''not found''), s)
      | Some _ \<Rightarrow> (Inr x, upd (\<lambda>st. (objKey x, x) # st) s))),
      apiDelete = (\<lambda>x s. (case memLookup (get s) (objKey x) of
        None \<Rightarrow> (Some (StatusError ReasonNotFound ''not found''), s)
      | Some _ \<Rightarrow> (None, upd (filter (\<lambda>e. fst e \<noteq> objKey x)) s))),
      apiPatchStatus = (\<lambda>base x s. (case memLookup (get s) (objKey x) of
        None \<Rightarrow> (Inl (StatusError ReasonNotFound ''not found''), s)
      | Some y \<Rightarrow> (let x' = x\<lparr>ometa := ometa y\<rparr>
                  in (Inr x', upd (\<lambda>st. (objKey x, x') # st) s)))),
      semEq = (=)\<rparr>"

lemma memApi_simps [simp]: "typeName (memApi ty get upd) = ty" "semEq (memApi ty get upd) = (=)"
  by (simp_all add: memApi_def)

lemma memApi_framed: "(\<And>f s. v (upd f s) = v s) \<Longrightarrow> framed (memApi ty get upd) v"
  by (auto simp: framed_def memApi_def Let_def split: option.splits)

lemma memApi_obliging: "obliging (memApi ty get upd)"
  by (auto simp: obliging_def memApi_def Let_def memNamed_def freshName_fresh split: option.splits if_splits)

section \<open>It keeps the laws\<close>

locale memLens =
  fixes get :: "'s \<Rightarrow> 'b memStore"
    and upd :: "('b memStore \<Rightarrow> 'b memStore) \<Rightarrow> 's \<Rightarrow> 's"
  assumes get_upd: "get (upd f s) = f (get s)"
begin

lemma lawful_get: "lawfulGet (memApi ty get upd) (memView get)"
  by (auto simp: lawfulGet_def memApi_def memView_def dest: memLookup_key split: option.splits)

lemma lawful_update: "lawfulUpdate (memApi ty get upd) (memView get) managed"
  by (auto simp: lawfulUpdate_def memApi_def memView_def get_upd split: option.splits)

lemma lawful_create:
  assumes "\<And>st x. managed (memNamed st x) = managed x"
  shows "lawfulCreate (memApi ty get upd) (memView get) managed"
  using assms
  by (auto simp: lawfulCreate_def memApi_def memView_def get_upd Let_def
      split: option.splits)

lemma lawful_delete: "lawfulDelete (memApi ty get upd) (memView get)"
  by (auto simp: lawfulDelete_def memApi_def memView_def get_upd memLookup_filter
      split: option.splits)

lemma lawful_list: "lawfulList (memApi ty get upd) (memView get)"
  by (auto simp: lawfulList_def memApi_def memView_def dest: memLookup_set)

lemma lawful_patch: "lawfulPatchStatus (memApi ty get upd) (memView get)"
proof -
  have "x\<lparr>ometa := m\<rparr> = x" if "ometa x = m" for x :: "'b kobj" and m
    using that by (cases x) simp
  then show ?thesis
    by (auto simp: lawfulPatchStatus_def memApi_def memView_def get_upd Let_def split: option.splits)
qed

lemma exact_semEq: "exactSemEq (memApi ty get upd)"
  by (simp add: exactSemEq_def)

end

text \<open>\<open>SetControllerReference\<close> that always succeeds.\<close>

definition memOwnerRef :: "objectMeta \<Rightarrow> objectMeta \<Rightarrow> apiError + objectMeta" where
  "memOwnerRef own m =
     Inr (m\<lparr>mOwnerReferences := mOwnerReferences m @ [\<lparr>orUID = mUID own, orName = mName own\<rparr>]\<rparr>)"

lemma lawful_memOwnerRef: "lawfulOwnerRef memOwnerRef"
  unfolding lawfulOwnerRef_def memOwnerRef_def
proof (intro allI impI)
  fix own m m' :: objectMeta
  assume "mOwnerReferences m = []" and
    "Inr (m\<lparr>mOwnerReferences := mOwnerReferences m @ [\<lparr>orUID = mUID own, orName = mName own\<rparr>]\<rparr>) =
       (Inr m' :: apiError + objectMeta)"
  then show "\<exists>r. orUID r = mUID own \<and> m' = m\<lparr>mOwnerReferences := [r]\<rparr>"
    by (intro exI [of _ "\<lparr>orUID = mUID own, orName = mName own\<rparr>"]) simp
qed

end
