(* ===== verification/ArtifactMem.thy ===== *)
theory ArtifactMem
  imports ArtifactController MemServer
begin

text \<open>
  The reconciler of ModelArtifact on the in-memory server, for the witnesses: four stores, one per
  kind the controller touches, and library functions that do what their documentation says.
\<close>

record memMA =
  memArtifacts :: "maBody memStore"
  memPvcs :: "pvcBody memStore"
  memJobs :: "jobBody memStore"
  memPods :: "podBody memStore"

definition memR :: "memMA maReconciler" where
  "memR = \<lparr>maApi = memApi ''*v1alpha1.ModelArtifact'' memArtifacts memArtifacts_update,
     pvcApi = memApi ''*v1.PersistentVolumeClaim'' memPvcs memPvcs_update,
     jobApi = memApi ''*v1.Job'' memJobs memJobs_update,
     podApi = memApi ''*v1.Pod'' memPods memPods_update,
     maSetControllerReference = memOwnerRef,
     maSetStatusCondition = (\<lambda>s. memSetCondition),
     maStatusSemEq = (=), maVersion = ''v1'', maKitImage = ''kit''\<rparr>"

lemma memR_simps [simp]:
  "maApi memR = memApi ''*v1alpha1.ModelArtifact'' memArtifacts memArtifacts_update"
  "pvcApi memR = memApi ''*v1.PersistentVolumeClaim'' memPvcs memPvcs_update"
  "jobApi memR = memApi ''*v1.Job'' memJobs memJobs_update"
  "podApi memR = memApi ''*v1.Pod'' memPods memPods_update"
  "maSetControllerReference memR = memOwnerRef"
  "maSetStatusCondition memR = (\<lambda>s. memSetCondition)"
  "maStatusSemEq memR = (=)" "maVersion memR = ''v1''" "maKitImage memR = ''kit''"
  by (simp_all add: memR_def)

interpretation memA: memLens memArtifacts memArtifacts_update by unfold_locales simp
interpretation memP: memLens memPvcs memPvcs_update by unfold_locales simp
interpretation memJ: memLens memJobs memJobs_update by unfold_locales simp
interpretation memD: memLens memPods memPods_update by unfold_locales simp

lemma memNamed_jobManaged: "jobManaged (memNamed st j) = jobManaged j"
  by (simp add: jobManaged_def)

text \<open>A world that holds one artifact and nothing else.\<close>

definition worldWith :: "modelArtifact \<Rightarrow> memMA world" where
  "worldWith ma = \<lparr>server = \<lparr>memArtifacts = [(objKey ma, ma)], memPvcs = [], memJobs = [],
     memPods = []\<rparr>, calls = []\<rparr>"

lemma worldWith_simps [simp]:
  "server (worldWith ma) = \<lparr>memArtifacts = [(objKey ma, ma)], memPvcs = [], memJobs = [],
     memPods = []\<rparr>"
  "calls (worldWith ma) = []"
  by (simp_all add: worldWith_def)

end
