(* ===== verification/ArtifactLoop.thy ===== *)
theory ArtifactLoop
  imports ArtifactMem
begin

text \<open>
  The properties of the reconcile loop of ModelArtifact as a whole: what a run may ask of the
  server, that it only fails when the server does, that it runs one pipeline per artifact, and
  what becomes of a changed spec. The laws a cooperative server keeps are hypotheses
  (\<open>quietMA\<close>, \<open>obligingMA\<close>); the witnesses discharge them for the server of \<open>MemServer\<close>.
\<close>

section \<open>Runs that return\<close>

lemma succeeds_CleanupStaleJobs [succeeds_intros]:
  assumes "obliging (jobApi R)" and "framed (jobApi R) v"
  shows "succeeds (holds v a) (CleanupStaleJobs R ma ls)"
proof -
  have "succeeds (holds v a) (deleteStaleJob R ma j)" for j
    unfolding deleteStaleJob_def by (intro succeeds_intros assms)
  then show ?thesis
    unfolding CleanupStaleJobs_def by (intro succeeds_intros assms) auto
qed

lemma succeeds_DeletePVC [succeeds_intros]:
  "obliging (pvcApi R) \<Longrightarrow> framed (pvcApi R) v \<Longrightarrow> succeeds (holds v a) (DeletePVC R ma)"
  unfolding DeletePVC_def by (intro succeeds_intros)

lemma succeeds_FindOwnedJob [succeeds_intros]:
  "obliging (jobApi R) \<Longrightarrow> framed (jobApi R) v \<Longrightarrow> succeeds (holds v a) (FindOwnedJob R ns ls ma)"
  unfolding FindOwnedJob_def by (intro succeeds_intros)

lemma succeeds_listJobPods [succeeds_intros]:
  "obliging (podApi R) \<Longrightarrow> framed (podApi R) v \<Longrightarrow> succeeds (holds v a) (listJobPods R j)"
  unfolding listJobPods_def by (intro succeeds_intros)

lemma succeeds_EnsurePVC [succeeds_intros]:
  assumes "obliging (pvcApi R)" and "framed (pvcApi R) v" and "ownable (maSetControllerReference R)"
  shows "succeeds (holds v a) (EnsurePVC R ma ls)"
  unfolding EnsurePVC_def
proof (rule succeeds_attempt)
  fix w
  let ?get = "clientGet (pvcApi R) (objNamespace ma, PVCName (objName ma))"
  assume "holds v a w"
  then show "holds v a (snd (?get w))"
    using keeps_client(1) [OF assms(2)] by (simp add: keeps_def holds_def)
  have get: "isNotFound e" if "fst (?get w) = Inl e" for e
    using that assms(1) unfolding fst_client obliging_def by blast
  have "mOwnerReferences (ometa (BuildPVC ma ls)) = []" by (simp add: BuildPVC_def metaZero_def)
  from ownableD [OF assms(3) this]
  obtain r where own: "maSetControllerReference R (ometa ma) (ometa (BuildPVC ma ls)) =
    Inr ((ometa (BuildPVC ma ls))\<lparr>mOwnerReferences := [r]\<rparr>)" by blast
  show "succeeds (holds v a) (case fst (?get w) of
      Inr existing \<Rightarrow> ret ()
    | Inl err \<Rightarrow>
        if \<not> isNotFound err then fail (ApiE err)
        else
          (let pvc = BuildPVC ma ls
           in case maSetControllerReference R (ometa ma) (ometa pvc) of
                Inl e \<Rightarrow> fail (Wrapf ''setting PVC owner reference'' (ApiE e))
              | Inr m \<Rightarrow>
                  attempt (clientCreate (pvcApi R) (pvc\<lparr>ometa := m\<rparr>)) (\<lambda>r. case r of
                    Inr created \<Rightarrow> ret ()
                  | Inl e \<Rightarrow> if isAlreadyExists e then ret () else fail (ApiE e))))"
    by (cases "fst (?get w)")
      (use get in \<open>simp_all add: succeeds_ret own Let_def succeeds_create [OF assms(1,2)]\<close>)
qed

lemma succeeds_EnsureJob [succeeds_intros]:
  assumes "obliging (jobApi R)" and "framed (jobApi R) v" and "ownable (maSetControllerReference R)"
  shows "succeeds (holds v a) (EnsureJob R ma img sel ls)"
proof -
  have "mOwnerReferences (ometa (BuildJob ma img ls)) = []" by (simp add: BuildJob_def metaZero_def)
  from ownableD [OF assms(3) this]
  obtain r where own: "maSetControllerReference R (ometa ma) (ometa (BuildJob ma img ls)) =
    Inr ((ometa (BuildJob ma img ls))\<lparr>mOwnerReferences := [r]\<rparr>)" by blast
  have "objName (BuildJob ma img ls) = ''''" by (simp add: BuildJob_def metaZero_def)
  then have "succeeds (holds v a) (liftApi (clientCreate (jobApi R) ((BuildJob ma img ls)
      \<lparr>ometa := (ometa (BuildJob ma img ls))\<lparr>mOwnerReferences := [r]\<rparr>\<rparr>)))"
    unfolding liftApi_def by (intro succeeds_create assms) (simp_all add: succeeds_ret)
  then show ?thesis
    unfolding EnsureJob_def Let_def own by (auto intro!: succeeds_intros assms)
qed

text \<open>A server that answers every call of the controller while the artifact \<open>key\<close> exists.\<close>

definition obligingMA :: "'s maReconciler \<Rightarrow> ('s, maBody) view \<Rightarrow> bool" where
  "obligingMA R va \<longleftrightarrow>
     obliging (pvcApi R) \<and> obliging (jobApi R) \<and> obliging (podApi R) \<and>
     framed (pvcApi R) va \<and> framed (jobApi R) va \<and> framed (podApi R) va \<and>
     ownable (maSetControllerReference R) \<and> lawfulGet (maApi R) va \<and>
     (\<forall>k s e. fst (apiGet (maApi R) k s) = Inl e \<longrightarrow> isNotFound e) \<and>
     (\<forall>b x s. va s (objKey x) \<noteq> None \<longrightarrow>
        (\<exists>x' s'. apiPatchStatus (maApi R) b x s = (Inr x', s') \<and> va s' (objKey x) \<noteq> None))"

abbreviation present :: "('s, maBody) view \<Rightarrow> string \<times> string \<Rightarrow> 's world \<Rightarrow> bool" where
  "present va key \<equiv> holds (\<lambda>s. va s key \<noteq> None) True"

lemma framed_present: "framed K va \<Longrightarrow> framed K (\<lambda>s. va s key \<noteq> None)"
  by (simp add: framed_def)

lemma succeeds_patch:
  assumes "obligingMA R va" and "objKey x = key"
  shows "succeeds (present va key) (liftApi (clientPatchStatus (maApi R) b x))"
  unfolding succeeds_def
proof (intro allI impI)
  fix w
  assume "present va key w"
  with assms obtain x' s' where "apiPatchStatus (maApi R) b x (server w) = (Inr x', s')" "va s' key \<noteq> None"
    unfolding obligingMA_def holds_def by metis
  then show "\<exists>y w'. liftApi (clientPatchStatus (maApi R) b x) w = (Inr y, w') \<and> present va key w'"
    by (simp add: liftApi_Inr clientPatchStatus_def holds_def)
qed

lemma succeeds_reconcileFoundMA:
  assumes "obligingMA R va" and "objKey ma = key"
  shows "succeeds (present va key) (reconcileFoundMA R ma)"
proof -
  note ok = assms(1) [unfolded obligingMA_def]
  have res: "succeeds (present va key) (reconcileResourcesMA R ma)"
    unfolding reconcileResourcesMA_def announceJobMA_def Let_def
    using ok by (intro succeeds_intros framed_present) auto
  have upd: "succeeds (present va key) (updateStatusMA R ma)"
    unfolding updateStatusMA_def phaseEventMA_def Let_def
    using ok assms(2) by (intro succeeds_intros framed_present succeeds_patch [OF assms(1)]) auto
  have fin: "succeeds (present va key) (finishMA R obs ma')" for obs ma'
    unfolding finishMA_def using ok by (intro succeeds_intros succeeds_attempt_any framed_present) auto
  show ?thesis
    unfolding succeeds_def
  proof (intro allI impI)
    fix w
    assume "present va key w"
    from succeedsD [OF res this] obtain u w1
      where w1: "reconcileResourcesMA R ma w = (Inr u, w1)" "present va key w1" by blast
    have "succeeds (present va key) (andThen (updateStatusMA R ma) (\<lambda>(obs, ma'). finishMA R obs ma'))"
      by (intro succeeds_intros upd fin)
    from succeedsD [OF this w1(2)] w1(1)
    show "\<exists>x w'. reconcileFoundMA R ma w = (Inr x, w') \<and> present va key w'"
      by (simp add: reconcileFoundMA_def attempt_def)
  qed
qed

lemma ReconcileMA_returns:
  assumes "obligingMA R va"
  shows "\<exists>d w'. ReconcileMA R req w = (Inr d, w')"
proof -
  obtain r w1 where r: "clientGet (maApi R) req w = (r, w1)" by fastforce
  note api = clientGet_api [OF r]
  show ?thesis
  proof (cases r)
    case (Inl e)
    with assms api have "isNotFound e" unfolding obligingMA_def by (metis fst_conv)
    with r Inl show ?thesis by (simp add: ReconcileMA_def attempt_def ret_def)
  next
    case (Inr ma)
    have "lawfulGet (maApi R) va" using assms by (simp add: obligingMA_def)
    with api Inr have "va (server w) req = Some ma" "objKey ma = req" "server w1 = server w"
      unfolding lawfulGet_def by blast+
    then have "objKey ma = req" "present va req w1" by (simp_all add: holds_def)
    then obtain d w' where "reconcileFoundMA R ma w1 = (Inr d, w')"
      using succeedsD [OF succeeds_reconcileFoundMA [OF assms]] by blast
    with r Inr show ?thesis by (simp add: ReconcileMA_def attempt_def)
  qed
qed


lemma obliging_memR: "obligingMA memR (memView memArtifacts)"
  unfolding obligingMA_def memR_simps
  by (intro conjI memApi_obliging memA.lawful_get memApi_framed)
    (auto simp: memView_def ownable_def lawful_memOwnerRef memOwnerRef_def memApi_def Let_def
      dest: memLookup_key split: option.splits)

section \<open>Permissions\<close>

text \<open>
  C10: Whatever the server answers, every request a reconcile of an artifact sends is covered by
  the permissions the controller declares.
\<close>

theorem ReconcileMA_within_rbac:
  "emits (granted rbacMA (kindsMA R)) (ReconcileMA R req)"
  unfolding ReconcileMA_def reconcileFoundMA_def
  by (intro emits_intros disjI2) (simp_all add: granted_simps rbacMA_def kindsMA_def)

section \<open>A finished artifact\<close>

text \<open>
  C22: The loop of a finished artifact whose spec did not change sends only lists, a status patch
  and the release of the workspace: it creates nothing and deletes no Job.
\<close>

theorem settled_artifact_left_alone:
  assumes "settledMA ma"
  shows "emits (\<lambda>c. \<forall>v k ns n. c = ApiCall v k ns n \<longrightarrow>
      (v = VList \<and> k \<in> {typeName (jobApi R), typeName (podApi R)}) \<or>
      (v = VPatchStatus \<and> k = typeName (maApi R)) \<or>
      (v = VDelete \<and> k = typeName (pvcApi R)))
    (reconcileFoundMA R ma)"
  using assms unfolding reconcileFoundMA_def reconcileResourcesMA_def
  by (simp, intro emits_intros) auto

section \<open>A changed spec\<close>

theorem spec_change_creates_nothing:
  assumes "specChangedMA ma"
  shows "emits (\<lambda>c. \<forall>k ns n. c \<noteq> ApiCall VCreate k ns n \<and> c \<noteq> ApiCall VUpdate k ns n)
    (reconcileFoundMA R ma)"
  using assms unfolding reconcileFoundMA_def
  by (intro emits_intros) auto

lemma finishMA_Inr:
  assumes "finishMA R obs ma w = (Inr d, w')"
  shows "d = (if obsPhase obs = PhaseSucceeded \<and> obsDigest obs = '''' then 10 else 0)"
  using assms unfolding finishMA_def by (auto simp: andThen_Inr)

lemma updateStatusMA_Inr:
  assumes laws: "lawfulList (jobApi R) vj" "lawfulPatchStatus (maApi R) va"
    and frames: "framed (jobApi R) va" "framed (podApi R) va" "framed (podApi R) vj" "framed (maApi R) vj"
    and exact: "\<And>x y. maStatusSemEq R x y \<longleftrightarrow> x = y"
    and stored: "va (server w) (objKey ma) = Some ma"
    and run: "updateStatusMA R ma w = (Inr (obs, ma'), w')"
  shows "\<exists>job pods s. obs = ObserveJobStatus job pods (masPhase (maSt ma)) (masDigest (maSt ma)) \<and>
     ma' = setMaStatus (newStatusMA R s ma job obs) ma \<and>
     va (server w') (objKey ma) = Some ma' \<and> vj (server w') = vj (server w) \<and>
     (case job of None \<Rightarrow> pipelineJobs vj ma (server w) = {}
      | Some j \<Rightarrow> objKey j \<in> pipelineJobs vj ma (server w))"
proof -
  from run obtain job w1 pods w2 where
    job: "FindOwnedJob R (objNamespace ma) (SelectorLabelsForArtifact (objName ma)) ma w = (Inr job, w1)"
    and pods: "listJobPods R job w1 = (Inr pods, w2)"
    and rest: "(let obs = ObserveJobStatus job pods (masPhase (maSt ma)) (masDigest (maSt ma));
           st = newStatusMA R (server w2) ma job obs
       in if maStatusSemEq R (maSt ma) st then ret (obs, ma)
          else
            andThen (liftApi (clientPatchStatus (maApi R) ma (setMaStatus st ma))) (\<lambda>ma'.
            andThen (phaseEventMA obs) (\<lambda>_. ret (obs, ma')))) w2 = (Inr (obs, ma'), w')"
    by (auto simp: updateStatusMA_def andThen_Inr getServer_def Let_def)
  note found = FindOwnedJob_Inr [OF laws(1) job]
  have w1: "server w1 = server w" using found by simp
  have w2: "va (server w2) = va (server w)" "vj (server w2) = vj (server w)"
    using keepsD [OF keeps_listJobPods pods] frames w1 by metis+
  let ?obs = "ObserveJobStatus job pods (masPhase (maSt ma)) (masDigest (maSt ma))"
  let ?st = "newStatusMA R (server w2) ma job ?obs"
  show ?thesis
  proof (cases "maSt ma = ?st")
    case True
    with rest exact have "obs = ?obs" "ma' = ma" "w' = w2" by (auto simp: Let_def)
    moreover from True have "setMaStatus ?st ma = ma" by (metis setMaStatus_same)
    ultimately show ?thesis using found w2 stored
      by (intro exI [of _ job] exI [of _ pods] exI [of _ "server w2"]) simp
  next
    case False
    with rest exact obtain w3 where obs: "obs = ?obs"
      and patch: "clientPatchStatus (maApi R) ma (setMaStatus ?st ma) w2 = (Inr ma', w3)"
      and ev: "phaseEventMA obs w3 = (Inr (), w')"
      by (auto simp: Let_def andThen_Inr liftApi_Inr)
    have "va (server w2) (objKey ma) = Some ma" using w2 stored by simp
    from clientPatchStatus_Inr [OF laws(2) patch this]
    have p: "ma' = setMaStatus ?st ma" "va (server w3) = (va (server w2))(objKey ma \<mapsto> ma')"
      by simp_all
    have "vj (server w3) = vj (server w2)"
      using keepsD [OF keeps_client(6) [OF frames(4)] patch] .
    moreover have "server w' = server w3" using keepsD [OF keeps_phaseEventMA [of id] ev] by simp
    ultimately show ?thesis using obs p found w2 by (intro exI [of _ job] exI [of _ pods] exI [of _ "server w2"]) simp
  qed
qed

lemma statusFieldsMA_simps:
  "masObservedGeneration (statusFieldsMA ma job obs) = maGeneration ma"
  "masPhase (statusFieldsMA ma job obs) = obsPhase obs"
  "masDigest (statusFieldsMA ma job obs) =
     (if obsDigest obs = '''' then masDigest (maSt ma) else obsDigest obs)"
  "masReference (statusFieldsMA ma job obs) =
     (if obsDigest obs = '''' then masReference (maSt ma) else OCIReference ma)"
  "masJobRef (statusFieldsMA ma job obs) =
     (case job of None \<Rightarrow> masJobRef (maSt ma) | Some j \<Rightarrow> Some (objNamespace j, objName j))"
  "masStartTime (statusFieldsMA ma job obs) =
     (case Option.bind job (\<lambda>j. jsStartTime (jobStat j)) of None \<Rightarrow> masStartTime (maSt ma) | t \<Rightarrow> t)"
  "masCompletionTime (statusFieldsMA ma job obs) =
     (case Option.bind job (\<lambda>j. jsCompletionTime (jobStat j)) of
        None \<Rightarrow> masCompletionTime (maSt ma) | t \<Rightarrow> t)"
  "masConditions (statusFieldsMA ma job obs) = masConditions (maSt ma)"
  by (cases job; simp add: statusFieldsMA_def Let_def split: option.split)+

lemma newStatusMA_simps [simp]:
  "masObservedGeneration (newStatusMA R s ma job obs) = maGeneration ma"
  "masPhase (newStatusMA R s ma job obs) = obsPhase obs"
  "masDigest (newStatusMA R s ma job obs) =
     (if obsDigest obs = '''' then masDigest (maSt ma) else obsDigest obs)"
  "masJobRef (newStatusMA R s ma job obs) =
     (case job of None \<Rightarrow> masJobRef (maSt ma) | Some j \<Rightarrow> Some (objNamespace j, objName j))"
  by (simp_all add: newStatusMA_def statusFieldsMA_simps Let_def)


lemma reconcileFoundMA_Inr:
  assumes "reconcileFoundMA R ma w = (Inr d, w')"
  shows "\<exists>w1 obs ma' w2. reconcileResourcesMA R ma w = (Inr (), w1) \<and>
     updateStatusMA R ma w1 = (Inr (obs, ma'), w2) \<and> finishMA R obs ma' w2 = (Inr d, w')"
proof -
  obtain r w1 where r: "reconcileResourcesMA R ma w = (r, w1)" by fastforce
  show ?thesis
  proof (cases r)
    case (Inl e)
    with assms r have "handleReconcileErrorMA R ma e w1 = (Inr d, w')"
      by (simp add: reconcileFoundMA_def attempt_def)
    then show ?thesis by (auto simp: handleReconcileErrorMA_def andThen_Inr)
  next
    case (Inr u)
    with assms r show ?thesis by (auto simp: reconcileFoundMA_def attempt_def andThen_Inr)
  qed
qed

lemma ReconcileMA_Inr_found:
  assumes "lawfulGet (maApi R) va" and "ReconcileMA R req w = (Inr d, w')"
    and "va (server w) req = Some ma"
  shows "\<exists>w0. server w0 = server w \<and> reconcileFoundMA R ma w0 = (Inr d, w') \<and> objKey ma = req"
proof -
  obtain r w0 where r: "clientGet (maApi R) req w = (r, w0)" by fastforce
  note api = clientGet_api [OF r]
  show ?thesis
  proof (cases r)
    case (Inl e)
    with assms r have "isNotFound e" by (auto simp: ReconcileMA_def attempt_def split: if_splits)
    with assms(1,3) api Inl show ?thesis unfolding lawfulGet_def by fastforce
  next
    case (Inr x)
    with assms(1) api have "va (server w) req = Some x" "objKey x = req" "server w0 = server w"
      unfolding lawfulGet_def by blast+
    with assms(2,3) r Inr show ?thesis by (auto simp: ReconcileMA_def attempt_def)
  qed
qed

text \<open>The laws the properties of the loop share: a cooperative server without other writers.\<close>

definition quietMA ::
  "'s maReconciler \<Rightarrow> ('s, maBody) view \<Rightarrow> ('s, jobBody) view \<Rightarrow> bool" where
  "quietMA R va vj \<longleftrightarrow>
     lawfulGet (maApi R) va \<and> lawfulPatchStatus (maApi R) va \<and>
     lawfulList (jobApi R) vj \<and> lawfulCreate (jobApi R) vj jobManaged \<and>
     lawfulDelete (jobApi R) vj \<and> lawfulOwnerRef (maSetControllerReference R) \<and>
     framed (maApi R) vj \<and> framed (pvcApi R) vj \<and> framed (podApi R) vj \<and>
     framed (jobApi R) va \<and> framed (pvcApi R) va \<and> framed (podApi R) va \<and>
     (\<forall>x y. maStatusSemEq R x y \<longleftrightarrow> x = y)"

text \<open>
  C19: A spec change of a finished artifact is not acted on: a successful reconcile removes the
  old Jobs, keeps the finished phase and the old digest and marks the new generation as observed,
  so the artifact counts as settled and its new spec is never run.
\<close>

theorem respec_after_completion_is_lost:
  assumes "quietMA R va vj"
    and "va (server w) req = Some ma" and "terminalPhase (masPhase (maSt ma))"
    and "specChangedMA ma"
    and "ReconcileMA R req w = (Inr d, w')"
  shows "\<exists>ma'. va (server w') req = Some ma' \<and> settledMA ma' \<and> maSp ma' = maSp ma \<and>
     masPhase (maSt ma') = masPhase (maSt ma) \<and> masDigest (maSt ma') = masDigest (maSt ma) \<and>
     pipelineJobs vj ma (server w') = {}"
proof -
  note q = assms(1) [unfolded quietMA_def]
  obtain w0 where w0: "server w0 = server w" "reconcileFoundMA R ma w0 = (Inr d, w')"
    and key: "objKey ma = req"
    using ReconcileMA_Inr_found [of R va req w d w' ma] q assms(2,5) by blast
  obtain w1 obs ma' w2 where res: "reconcileResourcesMA R ma w0 = (Inr (), w1)"
    and upd: "updateStatusMA R ma w1 = (Inr (obs, ma'), w2)"
    and fin: "finishMA R obs ma' w2 = (Inr d, w')"
    using reconcileFoundMA_Inr [OF w0(2)] by blast
  have "\<not> settledMA ma" using assms(4) by (auto simp: settledMA_def specChangedMA_def word_sless_alt)
  with res assms(4) obtain wc where
    clean: "CleanupStaleJobs R ma (SelectorLabelsForArtifact (objName ma)) w0 = (Inr (), wc)"
    and del: "DeletePVC R ma wc = (Inr (), w1)"
    by (auto simp: reconcileResourcesMA_def Let_def andThen_Inr)
  have none: "pipelineJobs vj ma (server w1) = {}"
    using CleanupStaleJobs_clears [of R vj ma w0 wc] q clean keepsD [OF keeps_DeletePVC del, of vj]
    by (simp add: pipelineJobs_def)
  have va1: "va (server w1) (objKey ma) = Some ma"
    using keepsD [OF keeps_reconcileResourcesMA res, of va] q assms(2) w0 key by simp
  obtain job pods s where obs: "obs = ObserveJobStatus job pods (masPhase (maSt ma)) (masDigest (maSt ma))"
    and ma': "ma' = setMaStatus (newStatusMA R s ma job obs) ma"
    and stored: "va (server w2) (objKey ma) = Some ma'" and vj2: "vj (server w2) = vj (server w1)"
    and job: "case job of None \<Rightarrow> pipelineJobs vj ma (server w1) = {}
      | Some j \<Rightarrow> objKey j \<in> pipelineJobs vj ma (server w1)"
    using updateStatusMA_Inr [of R vj va w1 ma obs ma' w2] q va1 upd by blast
  from job none have "job = None" by (cases job) auto
  have "va (server w') = va (server w2)" "vj (server w') = vj (server w2)"
    using keepsD [OF keeps_finishMA fin] q by blast+
  moreover have "settledMA ma'" "masPhase (maSt ma') = masPhase (maSt ma)"
    "masDigest (maSt ma') = masDigest (maSt ma)"
    using assms(3) \<open>job = None\<close> unfolding ma' obs
    by (auto simp: settledMA_def ObserveJobStatus_def terminalPhase_def)
  ultimately show ?thesis using stored key ma' none vj2 by (auto simp: pipelineJobs_def)
qed

section \<open>A first reconcile\<close>

lemma ReconcileMA_one:
  assumes "quietMA R va vj"
    and "va (server w) req = Some ma" and "\<not> settledMA ma" and "\<not> specChangedMA ma"
    and "ReconcileMA R req w = (Inr d, w')"
  shows "\<exists>ma' k. va (server w') req = Some ma' \<and>
     masObservedGeneration (maSt ma') = maGeneration ma \<and>
     masJobRef (maSt ma') = Some k \<and> k \<in> pipelineJobs vj ma (server w') \<and>
     (pipelineJobs vj ma (server w) = {} \<longrightarrow> pipelineJobs vj ma (server w') = {k}) \<and>
     (pipelineJobs vj ma (server w) \<noteq> {} \<longrightarrow>
        pipelineJobs vj ma (server w') = pipelineJobs vj ma (server w))"
proof -
  note q = assms(1) [unfolded quietMA_def]
  obtain w0 where w0: "server w0 = server w" "reconcileFoundMA R ma w0 = (Inr d, w')"
    and key: "objKey ma = req"
    using ReconcileMA_Inr_found [of R va req w d w' ma] q assms(2,5) by blast
  obtain w1 obs ma' w2 where res: "reconcileResourcesMA R ma w0 = (Inr (), w1)"
    and upd: "updateStatusMA R ma w1 = (Inr (obs, ma'), w2)"
    and fin: "finishMA R obs ma' w2 = (Inr d, w')"
    using reconcileFoundMA_Inr [OF w0(2)] by blast
  from res assms(3,4) obtain wp jc wj where
    pvc: "EnsurePVC R ma (LabelsForArtifact (objName ma) (maVersion R)) w0 = (Inr (), wp)"
    and job: "EnsureJob R ma (maKitImage R) (SelectorLabelsForArtifact (objName ma))
      (LabelsForArtifact (objName ma) (maVersion R)) wp = (Inr jc, wj)"
    and ev: "announceJobMA jc wj = (Inr (), w1)"
    by (simp add: reconcileResourcesMA_def Let_def andThen_Inr) blast
  obtain j created where jc: "jc = (j, created)" by fastforce
  have vjp: "vj (server wp) = vj (server w)"
    using keepsD [OF keeps_EnsurePVC pvc, of vj] q w0 by simp
  have w1: "server w1 = server wj"
    using keepsD [OF keeps_announceJobMA ev, of id] by simp
  have ens: "objKey j \<in> pipelineJobs vj ma (server wj)"
    "if created then pipelineJobs vj ma (server wp) = {} \<and> pipelineJobs vj ma (server wj) = {objKey j}
     else server wj = server wp"
    using EnsureJob_exactly_one [OF _ _ _ job [unfolded jc], of vj] q by blast+
  have va1: "va (server w1) (objKey ma) = Some ma"
    using keepsD [OF keeps_reconcileResourcesMA res, of va] q assms(2) w0 key by simp
  obtain job' pods s where obs: "obs = ObserveJobStatus job' pods (masPhase (maSt ma)) (masDigest (maSt ma))"
    and ma': "ma' = setMaStatus (newStatusMA R s ma job' obs) ma"
    and stored: "va (server w2) (objKey ma) = Some ma'" and vj2: "vj (server w2) = vj (server w1)"
    and job': "case job' of None \<Rightarrow> pipelineJobs vj ma (server w1) = {}
      | Some j \<Rightarrow> objKey j \<in> pipelineJobs vj ma (server w1)"
    using updateStatusMA_Inr [of R vj va w1 ma obs ma' w2] q va1 upd by blast
  from job' ens w1 obtain j' where j': "job' = Some j'" "objKey j' \<in> pipelineJobs vj ma (server w1)"
    by (cases job') auto
  have "va (server w') = va (server w2)" "vj (server w') = vj (server w2)"
    using keepsD [OF keeps_finishMA fin] q by blast+
  then have "va (server w') req = Some ma'"
    and pj: "pipelineJobs vj ma (server w') = pipelineJobs vj ma (server wj)"
    and pj0: "pipelineJobs vj ma (server wp) = pipelineJobs vj ma (server w)"
    using stored key vj2 w1 vjp by (simp_all add: pipelineJobs_def)
  moreover have "masObservedGeneration (maSt ma') = maGeneration ma"
    "masJobRef (maSt ma') = Some (objKey j')"
    by (simp_all add: ma' j')
  moreover have "pipelineJobs vj ma (server w) = {} \<longrightarrow> pipelineJobs vj ma (server w') = {objKey j'}"
    using ens j' w1 pj pj0 by (simp split: if_splits) blast
  moreover have "pipelineJobs vj ma (server w) \<noteq> {} \<longrightarrow>
      pipelineJobs vj ma (server w') = pipelineJobs vj ma (server w)"
    using ens pj pj0 by (simp split: if_splits)
  moreover have "objKey j' \<in> pipelineJobs vj ma (server w')" using j' w1 pj by simp
  ultimately show ?thesis by (intro exI [of _ ma'] exI [of _ "objKey j'"]) simp
qed

text \<open>
  C2: On a cooperative server, a successful reconcile of an artifact that is neither finished nor
  respecified leaves exactly one pipeline Job when there was none, leaves existing ones alone,
  and records one of them as the Job reference of the stored status, at the current generation.
\<close>

theorem reconcile_runs_one_pipeline:
  assumes "quietMA R va vj"
    and "va (server w) req = Some ma" and "\<not> settledMA ma" and "\<not> specChangedMA ma"
    and "ReconcileMA R req w = (Inr d, w')"
  shows "\<exists>ma' k. va (server w') req = Some ma' \<and>
     masObservedGeneration (maSt ma') = maGeneration ma \<and>
     masJobRef (maSt ma') = Some k \<and> k \<in> pipelineJobs vj ma (server w') \<and>
     (pipelineJobs vj ma (server w) = {} \<longrightarrow> pipelineJobs vj ma (server w') = {k}) \<and>
     (pipelineJobs vj ma (server w) \<noteq> {} \<longrightarrow>
        pipelineJobs vj ma (server w') = pipelineJobs vj ma (server w))"
  by (rule ReconcileMA_one [OF assms])

section \<open>The error path\<close>


section \<open>Status converges\<close>

lemma OCIReference_setMaStatus [simp]: "OCIReference (setMaStatus st ma) = OCIReference ma"
  by (simp add: OCIReference_def)

lemma statusFieldsMA_again:
  "statusFieldsMA (setMaStatus ((statusFieldsMA ma job obs)\<lparr>masConditions := cs\<rparr>) ma) job obs =
     (statusFieldsMA ma job obs)\<lparr>masConditions := cs\<rparr>"
  by (rule maStatus.equality)
    (simp_all add: statusFieldsMA_simps split: option.split)

lemma ObserveJobStatus_again:
  fixes job pods p d
  defines "obs \<equiv> ObserveJobStatus job pods p d"
  shows "ObserveJobStatus job pods (obsPhase obs) (if obsDigest obs = '''' then d else obsDigest obs) = obs"
proof (cases job)
  case None
  then show ?thesis unfolding obs_def by (cases p) (simp_all add: ObserveJobStatus_def)
next
  case (Some j)
  then have "ObserveJobStatus job pods p' d' = obs" for p' d'
    unfolding obs_def by (simp add: ObserveJobStatus_def)
  then show ?thesis .
qed

text \<open>
  C21: Observing the same Job and Pods again after the status was stored gives the same
  observation and the same status, so the second reconcile sends no patch.
\<close>

theorem status_is_a_fixed_point:
  assumes "lawfulSetStatusCondition (maSetStatusCondition R)"
    and "distinct (map condType (masConditions (maSt ma)))"
    and "obs = ObserveJobStatus job pods (masPhase (maSt ma)) (masDigest (maSt ma))"
    and "st = newStatusMA R s ma job obs" and "ma' = setMaStatus st ma"
  shows "ObserveJobStatus job pods (masPhase st) (masDigest st) = obs \<and>
     newStatusMA R s' ma' job obs = st"
proof
  show "ObserveJobStatus job pods (masPhase st) (masDigest st) = obs"
    unfolding assms(3,4) newStatusMA_simps by (rule ObserveJobStatus_again)
  have "storedConditions (maSetStatusCondition R) s' (masConditions st) (readyConditionMA ma obs) =
      masConditions st"
    unfolding assms(4) newStatusMA_def Let_def statusFieldsMA_simps(8)
    using storedConditions_ok(1,2) [OF assms(1,2)] storedConditions_settled [OF assms(1)] by simp
  then show "newStatusMA R s' ma' job obs = st"
    unfolding assms(4,5)
    by (simp add: newStatusMA_def Let_def statusFieldsMA_again readyConditionMA_def)
qed

section \<open>A deleted artifact\<close>

theorem deleted_artifact_is_ignored:
  assumes "apiGet (maApi R) req (server w) = (Inl e, s)" and "isNotFound e"
  shows "ReconcileMA R req w =
    (Inr 0, w\<lparr>server := s, calls := calls w @ [ApiCall VGet (typeName (maApi R)) (fst req) (snd req)]\<rparr>)"
  using assms by (simp add: ReconcileMA_def attempt_def clientGet_def logCall_def ret_def)

section \<open>Witnesses\<close>

lemma quiet_memR: "quietMA memR (memView memArtifacts) (memView memJobs)"
  unfolding quietMA_def memR_simps
  by (intro conjI allI memA.lawful_get memA.lawful_patch memJ.lawful_list memJ.lawful_create
      memJ.lawful_delete lawful_memOwnerRef memNamed_jobManaged memApi_framed)
    (simp_all add: memView_def)

definition respecMA :: modelArtifact where
  "respecMA = exampleMA\<lparr>ometa := (ometa exampleMA)\<lparr>mGeneration := 2\<rparr>,
     obody := (obody exampleMA)\<lparr>maStatusOf := (maSt exampleMA)\<lparr>masPhase := PhaseSucceeded,
       masObservedGeneration := 1, masDigest := ''sha256:1''\<rparr>\<rparr>\<rparr>"

lemma respecMA_simps [simp]: "masPhase (maSt respecMA) = PhaseSucceeded" 
  "masObservedGeneration (maSt respecMA) = 1" "maGeneration respecMA = 2" "masDigest (maSt respecMA) = ''sha256:1''"
  by (simp_all add: respecMA_def exampleMA_def)

lemma exampleMA_simps [simp]:
  "masPhase (maSt exampleMA) = PhaseUnset" "masObservedGeneration (maSt exampleMA) = 0"
  "maGeneration exampleMA = 1" "masConditions (maSt exampleMA) = []"
  by (simp_all add: exampleMA_def)

lemma worldWith_view: "memView memArtifacts (server (worldWith ma)) (objKey ma) = Some ma"
  by (simp add: memView_def)

lemma settledMA_example: "\<not> settledMA exampleMA" "\<not> specChangedMA exampleMA" "specChangedMA respecMA"
  "settledMA (respecMA\<lparr>ometa := (ometa respecMA)\<lparr>mGeneration := 1\<rparr>\<rparr>)"
  by (simp_all add: settledMA_def specChangedMA_def word_sless_alt)


theorem respec_after_completion_is_lost_witness:
  "\<exists>d w' ma'. ReconcileMA memR (objKey respecMA) (worldWith respecMA) = (Inr d, w') \<and>
     memView memArtifacts (server w') (objKey respecMA) = Some ma' \<and> settledMA ma' \<and>
     masDigest (maSt ma') = ''sha256:1''"
proof -
  obtain d w' where run: "ReconcileMA memR (objKey respecMA) (worldWith respecMA) = (Inr d, w')"
    using ReconcileMA_returns [OF obliging_memR] by blast
  have "terminalPhase (masPhase (maSt respecMA))" by simp
  from respec_after_completion_is_lost [OF quiet_memR worldWith_view this settledMA_example(3) run] run
  show ?thesis by auto
qed

theorem reconcile_runs_one_pipeline_witness:
  "\<exists>d w' k. ReconcileMA memR (objKey exampleMA) (worldWith exampleMA) = (Inr d, w') \<and>
     pipelineJobs (memView memJobs) exampleMA (server w') = {k}"
proof -
  obtain d w' where run: "ReconcileMA memR (objKey exampleMA) (worldWith exampleMA) = (Inr d, w')"
    using ReconcileMA_returns [OF obliging_memR] by blast
  have "pipelineJobs (memView memJobs) exampleMA (server (worldWith exampleMA)) = {}"
    by (simp add: pipelineJobs_def memView_def)
  with reconcile_runs_one_pipeline [OF quiet_memR worldWith_view settledMA_example(1,2) run] run
  show ?thesis by auto
qed

theorem settled_artifact_left_alone_witness:
  "emits (\<lambda>c. \<forall>v k ns n. c = ApiCall v k ns n \<longrightarrow>
      (v = VList \<and> k \<in> {''*v1.Job'', ''*v1.Pod''}) \<or>
      (v = VPatchStatus \<and> k = ''*v1alpha1.ModelArtifact'') \<or>
      (v = VDelete \<and> k = ''*v1.PersistentVolumeClaim''))
    (reconcileFoundMA memR (respecMA\<lparr>ometa := (ometa respecMA)\<lparr>mGeneration := 1\<rparr>\<rparr>))"
  using settled_artifact_left_alone [OF settledMA_example(4), of memR] by simp

theorem spec_change_creates_nothing_witness:
  "emits (\<lambda>c. \<forall>k ns n. c \<noteq> ApiCall VCreate k ns n \<and> c \<noteq> ApiCall VUpdate k ns n)
    (reconcileFoundMA memR respecMA)"
  by (rule spec_change_creates_nothing [OF settledMA_example(3)])

text \<open>The same reconciler with a server that cannot list Jobs.\<close>

definition listlessR :: "memMA maReconciler" where
  "listlessR = memR\<lparr>jobApi := (jobApi memR)\<lparr>apiList := \<lambda>ns sel s. (Inl (OtherError ''timeout''), s)\<rparr>\<rparr>"


theorem status_is_a_fixed_point_witness:
  "let s = server (worldWith exampleMA); obs = ObserveJobStatus None [] PhaseUnset '''';
       st = newStatusMA memR s exampleMA None obs
   in newStatusMA memR s (setMaStatus st exampleMA) None obs = st \<and> masPhase st = PhasePending"
proof -
  let ?s = "server (worldWith exampleMA)"
  let ?obs = "ObserveJobStatus None [] PhaseUnset ''''"
  have "?obs = ObserveJobStatus None [] (masPhase (maSt exampleMA)) (masDigest (maSt exampleMA))"
    by (simp add: ObserveJobStatus_def)
  moreover have "lawfulSetStatusCondition (maSetStatusCondition memR)"
    "distinct (map condType (masConditions (maSt exampleMA)))"
    by (simp_all add: lawful_memSetCondition)
  ultimately have "newStatusMA memR ?s (setMaStatus (newStatusMA memR ?s exampleMA None ?obs) exampleMA)
      None ?obs = newStatusMA memR ?s exampleMA None ?obs"
    using status_is_a_fixed_point [of memR exampleMA ?obs None "[]"] by blast
  then show ?thesis by (simp add: Let_def ObserveJobStatus_def)
qed

theorem deleted_artifact_is_ignored_witness:
  "\<exists>w'. ReconcileMA memR (''ml'', ''gone'') (worldWith exampleMA) = (Inr 0, w')"
proof -
  have "apiGet (maApi memR) (''ml'', ''gone'') (server (worldWith exampleMA)) =
      (Inl (StatusError ReasonNotFound ''not found''), server (worldWith exampleMA))"
    by (simp add: memApi_def exampleMA_def)
  from deleted_artifact_is_ignored [OF this] show ?thesis by simp
qed

text \<open>A Job of the example artifact from an earlier generation.\<close>

definition oldJob :: job where
  "oldJob = (BuildJob exampleMA ''kit'' (LabelsForArtifact ''phi'' ''v0''))
     \<lparr>ometa := (ometa (BuildJob exampleMA ''kit'' (LabelsForArtifact ''phi'' ''v0'')))
        \<lparr>mName := ''old'', mOwnerReferences := [\<lparr>orUID = ''u1'', orName = ''phi''\<rparr>]\<rparr>\<rparr>"

lemma oldJob_simps [simp]:
  "objKey oldJob = (''ml'', ''old'')" "objNamespace oldJob = ''ml''" "objName oldJob = ''old''"
  "isLive oldJob" "isOwnedBy oldJob exampleMA"
  "objLabels oldJob = LabelsForArtifact ''phi'' ''v0''"
  by (simp_all add: oldJob_def BuildJob_def exampleMA_def timeIsZero_def metaZero_def isOwnedBy_def)

definition worldWithJob :: "memMA world" where
  "worldWithJob = \<lparr>server = \<lparr>memArtifacts = [(objKey exampleMA, exampleMA)], memPvcs = [],
     memJobs = [(objKey oldJob, oldJob)], memPods = []\<rparr>, calls = []\<rparr>"

theorem CleanupStaleJobs_exactly_the_pipeline_witness:
  "\<exists>w'. CleanupStaleJobs memR exampleMA (SelectorLabelsForArtifact (objName exampleMA)) worldWithJob =
      (Inr (), w') \<and> pipelineJobs (memView memJobs) exampleMA (server w') = {} \<and>
    (''ml'', ''old'') \<in> pipelineJobs (memView memJobs) exampleMA (server worldWithJob)"
proof -
  have name: "objName exampleMA = ''phi''" "objNamespace exampleMA = ''ml''" by (simp_all add: exampleMA_def)
  have "\<exists>w'. CleanupStaleJobs memR exampleMA (SelectorLabelsForArtifact (objName exampleMA)) worldWithJob =
      (Inr (), w')"
    using succeedsD [OF succeeds_CleanupStaleJobs [of memR "\<lambda>_. ()" "()"]]
    by (simp add: holds_def memApi_obliging memApi_framed)
  then obtain w' where run: "CleanupStaleJobs memR exampleMA
    (SelectorLabelsForArtifact (objName exampleMA)) worldWithJob = (Inr (), w')" by blast
  have "lawfulList (jobApi memR) (memView memJobs)" "lawfulDelete (jobApi memR) (memView memJobs)"
    by (simp_all add: memJ.lawful_list memJ.lawful_delete)
  from CleanupStaleJobs_exactly_the_pipeline [OF this run] run
  have "CleanupStaleJobs memR exampleMA (SelectorLabelsForArtifact (objName exampleMA)) worldWithJob =
      (Inr (), w') \<and> pipelineJobs (memView memJobs) exampleMA (server w') = {}" by blast
  moreover have "(''ml'', ''old'') \<in> pipelineJobs (memView memJobs) exampleMA (server worldWithJob)"
    by (simp add: pipelineJobs_def worldWithJob_def memView_def name artifact.finds_every_version)
  ultimately show ?thesis by blast
qed

end
