(* ===== verification/ArtifactSystem.thy ===== *)
theory ArtifactSystem
  imports ArtifactLoop
begin

text \<open>
  The controller of ModelArtifact in its environment: any number of artifacts, reconciled in any
  order, by operators of any version, between steps of users, of the Job controller and of the
  garbage collector. A call that fails may or may not have been carried out, so an operator that is
  stopped in the middle of a reconcile is covered: all its later calls fail without effect.
\<close>

section \<open>At most one pipeline\<close>

definition onePipeline :: "('s, jobBody) view \<Rightarrow> 's \<Rightarrow> bool" where
  "onePipeline v s \<longleftrightarrow> (\<forall>ma. \<forall>k \<in> pipelineJobs v ma s. \<forall>k' \<in> pipelineJobs v ma s. k = k')"

lemma onePipeline_subset:
  assumes "onePipeline v s" and "\<And>ma. pipelineJobs v ma s' \<subseteq> pipelineJobs v ma s"
  shows "onePipeline v s'"
  using assms unfolding onePipeline_def by blast

lemma onePipeline_cong: "v s' = v s \<Longrightarrow> onePipeline v s' = onePipeline v s"
  unfolding onePipeline_def pipelineJobs_def by simp

text \<open>What a failed call may have done: nothing, or what its success does.\<close>

definition timely :: "('s, 'b) kindApi \<Rightarrow> ('s, 'b) view \<Rightarrow> ('b kobj \<Rightarrow> 'm) \<Rightarrow> bool" where
  "timely K v managed \<longleftrightarrow>
     (\<forall>ns sel s. v (snd (apiList K ns sel s)) = v s) \<and>
     (\<forall>x s. v (snd (apiCreate K x s)) = v s \<or>
        (\<exists>x'. objNamespace x' = objNamespace x \<and> managed x' = managed x \<and> v s (objKey x') = None \<and>
           v (snd (apiCreate K x s)) = (v s)(objKey x' \<mapsto> x'))) \<and>
     (\<forall>x s. v (snd (apiDelete K x s)) = v s \<or>
        (\<exists>left. v (snd (apiDelete K x s)) = (v s)(objKey x := left) \<and> (\<forall>y. left = Some y \<longrightarrow> \<not> isLive y)))"

lemma timely_create:
  assumes "timely K v managed"
  shows "v (snd (apiCreate K x s)) = v s \<or>
    (\<exists>x'. objNamespace x' = objNamespace x \<and> managed x' = managed x \<and> v s (objKey x') = None \<and>
       v (snd (apiCreate K x s)) = (v s)(objKey x' \<mapsto> x'))"
  using assms unfolding timely_def by (elim conjE) (erule allE, erule allE)

lemma timely_list: "timely K v managed \<Longrightarrow> v (snd (apiList K ns sel s)) = v s"
  unfolding timely_def by simp

text \<open>
  \<open>preserves Q m\<close>: the computation \<open>m\<close>, whatever it returns, does not take the server out of \<open>Q\<close>.
\<close>

definition preserves :: "('s \<Rightarrow> bool) \<Rightarrow> ('s world \<Rightarrow> 'r \<times> 's world) \<Rightarrow> bool" where
  "preserves Q m \<longleftrightarrow> (\<forall>w. Q (server w) \<longrightarrow> Q (server (snd (m w))))"

named_theorems preserves_intros "composition rules for computations that preserve a state predicate"

lemma preservesD: "preserves Q m \<Longrightarrow> m w = (r, w') \<Longrightarrow> Q (server w) \<Longrightarrow> Q (server w')"
  unfolding preserves_def by (metis snd_conv)

lemma preserves_keeps:
  assumes "keeps v m" and "\<And>s s'. v s' = v s \<Longrightarrow> Q s' = Q s"
  shows "preserves Q m"
  using assms unfolding preserves_def keeps_def by blast

lemma preserves_same: "(\<And>w. server (snd (m w)) = server w) \<Longrightarrow> preserves Q m"
  by (simp add: preserves_def)

lemma preserves_attempt [preserves_intros]:
  assumes "preserves Q m" and "\<And>r. preserves Q (k r)"
  shows "preserves Q (attempt m k)"
  unfolding preserves_def attempt_def case_prod_unfold
proof (intro allI impI)
  fix w :: "'a world"
  assume "Q (server w)"
  then have "Q (server (snd (m w)))" using assms(1) unfolding preserves_def by blast
  then show "Q (server (snd (k (fst (m w)) (snd (m w)))))"
    using assms(2) [of "fst (m w)"] unfolding preserves_def by blast
qed

lemma preserves_ret [preserves_intros]: "preserves Q (ret x)" "preserves Q (fail e)"
  by (rule preserves_same, simp add: ret_def fail_def)+

lemma preserves_case_sum [preserves_intros]:
  "(\<And>e. preserves Q (f e)) \<Longrightarrow> (\<And>x. preserves Q (g x)) \<Longrightarrow>
     preserves Q (case r of Inl e \<Rightarrow> f e | Inr x \<Rightarrow> g x)"
  by (cases r) auto

lemma preserves_andThen [preserves_intros]:
  "preserves Q m \<Longrightarrow> (\<And>x. preserves Q (k x)) \<Longrightarrow> preserves Q (andThen m k)"
  unfolding andThen_attempt by (intro preserves_intros)

lemma preserves_runSteps [preserves_intros]:
  "(\<And>m. m \<in> set ms \<Longrightarrow> preserves Q m) \<Longrightarrow> preserves Q (runSteps ms)"
proof (induction ms)
  case Nil
  show ?case by (simp add: preserves_def)
next
  case (Cons m ms)
  have "runSteps (m # ms) = andThen m (\<lambda>_. runSteps ms)" by (rule ext) (simp add: andThen_def)
  then show ?case using Cons by (auto intro: preserves_andThen)
qed

lemma preserves_if [preserves_intros]:
  "(b \<Longrightarrow> preserves Q m) \<Longrightarrow> (\<not> b \<Longrightarrow> preserves Q n) \<Longrightarrow> preserves Q (if b then m else n)"
  by simp

lemma preserves_case_pair [preserves_intros]:
  "(\<And>a b. preserves Q (f a b)) \<Longrightarrow> preserves Q (case p of (a, b) \<Rightarrow> f a b)"
  by (cases p) simp

lemma preserves_eventStep [preserves_intros]: "preserves Q (eventStep ty reason note)"
  by (rule preserves_same) (simp add: eventStep_def attempt_def recordEvent_def ret_def)

text \<open>\<open>prudent v m\<close>: the computation \<open>m\<close> never starts a second pipeline.\<close>

abbreviation prudent :: "('s, jobBody) view \<Rightarrow> ('s world \<Rightarrow> 'r \<times> 's world) \<Rightarrow> bool" where
  "prudent v \<equiv> preserves (onePipeline v)"

lemma prudent_keeps: "keeps v m \<Longrightarrow> prudent v m"
  by (erule preserves_keeps) (rule onePipeline_cong)

lemma prudent_delete:
  assumes "timely K v managed"
  shows "prudent v (clientDelete K x)"
  unfolding preserves_def server_client
proof (intro allI impI)
  fix w
  assume one: "onePipeline v (server w)"
  from assms consider "v (snd (apiDelete K x (server w))) = v (server w)"
    | left where "v (snd (apiDelete K x (server w))) = (v (server w))(objKey x := left)" "\<forall>y. left = Some y \<longrightarrow> \<not> isLive y"
    unfolding timely_def by blast
  then show "onePipeline v (snd (apiDelete K x (server w)))"
    by cases (rule onePipeline_subset [OF one], auto simp: pipelineJobs_def split: if_splits)+
qed

lemma pipelineJobs_cong:
  assumes "objNamespace ma = objNamespace ma'" and "objName ma = objName ma'" and "mUID (ometa ma) = mUID (ometa ma')"
  shows "pipelineJobs v ma s = pipelineJobs v ma' s"
  using assms by (simp add: pipelineJobs_def isOwnedBy_def)

lemma prudent_EnsureJob:
  fixes R :: "'s maReconciler"
  assumes laws: "lawfulList (jobApi R) v" "timely (jobApi R) v jobManaged"
    and own: "lawfulOwnerRef (maSetControllerReference R)"
  shows "prudent v (EnsureJob R ma img (SelectorLabelsForArtifact (objName ma)) (LabelsForArtifact (objName ma) ver))"
  unfolding preserves_def
proof (intro allI impI)
  fix w :: "'s world"
  let ?m = "EnsureJob R ma img (SelectorLabelsForArtifact (objName ma)) (LabelsForArtifact (objName ma) ver)"
  let ?job = "BuildJob ma img (LabelsForArtifact (objName ma) ver)"
  assume one: "onePipeline v (server w)"
  obtain r w1 where r: "FindOwnedJob R (objNamespace ma) (SelectorLabelsForArtifact (objName ma)) ma w = (r, w1)"
    by fastforce
  have "keeps v (FindOwnedJob R (objNamespace ma) (SelectorLabelsForArtifact (objName ma)) ma)"
    using laws(2) unfolding FindOwnedJob_def liftApi_def
    by (intro keeps_andThen keeps_attempt keeps_case_sum keeps_ret keeps_fail)
      (simp add: keeps_def server_client timely_list)
  note w1 = keepsD [OF this r]
  have one1: "onePipeline v (server w1)" using one onePipeline_cong [of v, OF w1] by simp
  show "onePipeline v (server (snd (?m w)))"
  proof (cases "r = Inr None")
    case False
    then consider e where "r = Inl e" | j where "r = Inr (Some j)" by (cases r) fastforce+
    then have "snd (?m w) = w1" by cases (simp_all add: EnsureJob_def andThen_def r ret_def)
    with one1 show ?thesis by simp
  next
    case True
    from FindOwnedJob_Inr [OF laws(1) r [unfolded True]] w1
    have none: "pipelineJobs v ma (server w1) = {}" by simp
    show ?thesis
    proof (cases "maSetControllerReference R (ometa ma) (ometa ?job)")
      case (Inl e)
      with r True one1 show ?thesis by (simp add: EnsureJob_def andThen_def Let_def fail_def)
    next
      case (Inr m)
      have "mOwnerReferences (ometa ?job) = []" by (simp add: BuildJob_def metaZero_def)
      with own Inr obtain q where q: "orUID q = mUID (ometa ma)" "m = (ometa ?job)\<lparr>mOwnerReferences := [q]\<rparr>"
        unfolding lawfulOwnerRef_def by blast
      let ?s' = "snd (apiCreate (jobApi R) (?job\<lparr>ometa := m\<rparr>) (server w1))"
      have s': "server (snd (?m w)) = ?s'"
        using r True Inr
        by (auto simp: EnsureJob_def andThen_def Let_def liftApi_def attempt_def ret_def fail_def clientCreate_def
            split: prod.splits sum.splits)
      have ns: "objNamespace (?job\<lparr>ometa := m\<rparr>) = objNamespace ma" by (simp add: q(2) BuildJob_def metaZero_def)
      from timely_create [OF laws(2), of "?job\<lparr>ometa := m\<rparr>" "server w1", unfolded ns] consider "v ?s' = v (server w1)"
        | x' where "objNamespace x' = objNamespace ma" "jobManaged x' = jobManaged (?job\<lparr>ometa := m\<rparr>)"
            "v (server w1) (objKey x') = None" "v ?s' = (v (server w1))(objKey x' \<mapsto> x')"
        by (elim disjE exE conjE)
      then have "onePipeline v ?s'"
      proof cases
        case 1
        with one1 onePipeline_cong [of v, OF 1] show ?thesis by simp
      next
        case 2
        have "pipelineJobs v other (server w1) = {}"
          if "objNamespace x' = objNamespace other"
            "selects (SelectorLabelsForArtifact (objName other)) (objLabels x')" "isOwnedBy x' other" for other
        proof -
          from 2(2) q have "objLabels x' = LabelsForArtifact (objName ma) ver" "mOwnerReferences (ometa x') = [q]"
            by (simp_all add: jobManaged_def BuildJob_def metaZero_def)
          with that 2(1) q(1) have "pipelineJobs v other (server w1) = pipelineJobs v ma (server w1)"
            by (intro pipelineJobs_cong) (auto simp: isOwnedBy_def artifact.finds_exactly)
          with none show ?thesis by simp
        qed
        with pipelineJobs_create [OF 2(3,4)] one1 show ?thesis
          unfolding onePipeline_def by (auto split: if_splits)
      qed
      with s' show ?thesis by simp
    qed
  qed
qed

section \<open>The loop\<close>

text \<open>The laws of the server, and of the library function that sets the owner of a new Job.\<close>

definition operatesMA :: "'s maReconciler \<Rightarrow> ('s, jobBody) view \<Rightarrow> bool" where
  "operatesMA R v \<longleftrightarrow>
     lawfulList (jobApi R) v \<and> timely (jobApi R) v jobManaged \<and>
     lawfulOwnerRef (maSetControllerReference R) \<and>
     framed (maApi R) v \<and> framed (pvcApi R) v \<and> framed (podApi R) v"

lemma operatesMA_D:
  assumes "operatesMA R v"
  shows "lawfulList (jobApi R) v" "timely (jobApi R) v jobManaged" "lawfulOwnerRef (maSetControllerReference R)"
    "framed (maApi R) v" "framed (pvcApi R) v" "framed (podApi R) v"
  using assms by (simp_all add: operatesMA_def)

lemma keeps_jobList: "timely (jobApi R) v managed \<Longrightarrow> keeps v (liftApi (clientList (jobApi R) ns sel))"
  by (intro keeps_liftApi) (simp add: keeps_def server_client timely_list)

lemma prudent_CleanupStaleJobs:
  assumes "timely (jobApi R) v managed"
  shows "prudent v (CleanupStaleJobs R ma ls)"
proof -
  have "prudent v (deleteStaleJob R ma j)" for j
    unfolding deleteStaleJob_def ignoreNotFound_def
    by (intro preserves_intros prudent_delete [OF assms])
  then show ?thesis
    unfolding CleanupStaleJobs_def
    by (intro preserves_intros prudent_keeps [OF keeps_jobList [OF assms]]) auto
qed

lemma prudent_reconcileResourcesMA:
  assumes "operatesMA R v"
  shows "prudent v (reconcileResourcesMA R ma)"
proof -
  note ops = operatesMA_D [OF assms]
  have "prudent v (announceJobMA p)" for p
    unfolding announceJobMA_def by (cases p) (simp add: prudent_keeps keeps_eventStep keeps_ret)
  then show ?thesis
    unfolding reconcileResourcesMA_def Let_def
    by (intro preserves_intros prudent_CleanupStaleJobs [OF ops(2)] prudent_EnsureJob [OF ops(1-3)]
        prudent_keeps [OF keeps_DeletePVC] prudent_keeps [OF keeps_EnsurePVC] ops)
qed

lemma keeps_statusMA:
  assumes "operatesMA R v"
  shows "keeps v (updateStatusMA R ma)" and "keeps v (finishMA R obs ma)" and "keeps v (handleReconcileErrorMA R ma e)"
proof -
  note ops = operatesMA_D [OF assms]
  have get: "keeps v getServer" by (simp add: keeps_def getServer_def)
  have find: "keeps v (FindOwnedJob R ns ls ma)" for ns ls ma
    unfolding FindOwnedJob_def by (intro keeps_andThen keeps_jobList [OF ops(2)] keeps_ret)
  show "keeps v (updateStatusMA R ma)"
    unfolding updateStatusMA_def Let_def
    by (intro keeps_andThen find keeps_listJobPods get keeps_if keeps_ret keeps_liftApi keeps_client
        keeps_phaseEventMA ops)
  show "keeps v (finishMA R obs ma)"
    unfolding finishMA_def by (intro keeps_intros ops)
  show "keeps v (handleReconcileErrorMA R ma e)"
    unfolding handleReconcileErrorMA_def setReadyConditionFalseMA_def Let_def by (intro keeps_intros get ops)
qed

lemma prudent_ReconcileMA:
  assumes "operatesMA R v"
  shows "prudent v (ReconcileMA R req)"
  unfolding ReconcileMA_def reconcileFoundMA_def
  by (intro preserves_intros prudent_reconcileResourcesMA [OF assms]
      prudent_keeps [OF keeps_client(1)] keeps_statusMA [OF assms, THEN prudent_keeps] operatesMA_D [OF assms])

section \<open>The system\<close>

text \<open>
  Others may do anything to artifacts and claims and may update or delete Jobs, but they do not
  create Jobs that look like pipelines of an artifact.
\<close>

definition addsNoPipeline :: "('s, jobBody) view \<Rightarrow> 's \<Rightarrow> 's \<Rightarrow> bool" where
  "addsNoPipeline v s s' \<longleftrightarrow> (\<forall>ma. pipelineJobs v ma s' \<subseteq> pipelineJobs v ma s)"

inductive artifactSystem :: "('s, jobBody) view \<Rightarrow> 's world \<Rightarrow> bool" for v where
  start: "(\<And>ma. pipelineJobs v ma (server w) = {}) \<Longrightarrow> artifactSystem v w"
| reconciled: "artifactSystem v w \<Longrightarrow> operatesMA R v \<Longrightarrow> ReconcileMA R req w = (r, w') \<Longrightarrow> artifactSystem v w'"
| other: "artifactSystem v w \<Longrightarrow> addsNoPipeline v (server w) s \<Longrightarrow> artifactSystem v (w\<lparr>server := s\<rparr>)"

text \<open>
  C4: In every state that is reached by reconciles of any artifacts in any order, by any version
  of the operator, complete or failing at any call, between steps of others who create no
  pipelines, an artifact has at most one pipeline Job, as long as lists show the Jobs of the
  moment.
\<close>

theorem one_pipeline_in_every_state:
  assumes "artifactSystem v w" and "k \<in> pipelineJobs v ma (server w)" and "k' \<in> pipelineJobs v ma (server w)"
  shows "k = k'"
proof -
  have "onePipeline v (server w)"
    using assms(1)
  proof induction
    case (start w)
    then show ?case by (simp add: onePipeline_def)
  next
    case (reconciled w R req r w')
    with preservesD [OF prudent_ReconcileMA] show ?case by blast
  next
    case (other w s)
    then show ?case using onePipeline_subset unfolding addsNoPipeline_def by fastforce
  qed
  with assms(2,3) show ?thesis unfolding onePipeline_def by blast
qed

section \<open>A list that lags behind\<close>

text \<open>
  The laws above take a list to show the Jobs of the moment. A client that lists from a cache may
  miss a Job created by the reconcile before, and the generated name lets a second one in.
\<close>


section \<open>Witnesses\<close>

lemma memApi_timely:
  assumes "memLens get upd" and "\<And>st x. managed (memNamed st x) = managed x"
  shows "timely (memApi ty get upd) (memView get) managed"
  using assms
  by (auto simp: timely_def memApi_def memView_def memLens_def memLookup_filter Let_def
      split: option.splits intro!: exI [of _ "memNamed (get s) x" for s x])

lemma operates_memR: "operatesMA memR (memView memJobs)"
  unfolding operatesMA_def memR_simps
  by (intro conjI memJ.lawful_list memApi_timely memJ.memLens_axioms memNamed_jobManaged lawful_memOwnerRef memApi_framed)
    (simp_all add: memView_def)

theorem one_pipeline_in_every_state_witness:
  "\<exists>d w' k. ReconcileMA memR (objKey exampleMA) (worldWith exampleMA) = (Inr d, w') \<and>
     k \<in> pipelineJobs (memView memJobs) exampleMA (server w') \<and>
     (\<forall>k'. k' \<in> pipelineJobs (memView memJobs) exampleMA (server w') \<longrightarrow> k' = k)"
proof -
  obtain d w' where run: "ReconcileMA memR (objKey exampleMA) (worldWith exampleMA) = (Inr d, w')"
    using ReconcileMA_returns [OF obliging_memR] by blast
  have "artifactSystem (memView memJobs) (worldWith exampleMA)"
    by (rule artifactSystem.start) (simp add: pipelineJobs_def memView_def)
  from artifactSystem.reconciled [OF this operates_memR run]
  have "artifactSystem (memView memJobs) w'" .
  moreover obtain k where "k \<in> pipelineJobs (memView memJobs) exampleMA (server w')"
    using ReconcileMA_one [OF quiet_memR worldWith_view settledMA_example(1,2) run] by blast
  ultimately show ?thesis using one_pipeline_in_every_state run by metis
qed

definition laggingR :: "memMA maReconciler" where
  "laggingR = memR\<lparr>jobApi := (jobApi memR)\<lparr>apiList := \<lambda>ns sel s. (Inr [], s)\<rparr>\<rparr>"

lemma laggingR_simps [simp]:
  "apiList (jobApi laggingR) ns sel s = (Inr [], s)"
  "apiCreate (jobApi laggingR) = apiCreate (jobApi memR)" "maSetControllerReference laggingR = memOwnerRef"
  by (simp_all add: laggingR_def)

text \<open>A cluster with the pipeline Job of the example.\<close>

definition runningJob :: job where
  "runningJob = (BuildJob exampleMA ''kit'' (LabelsForArtifact (objName exampleMA) ''v1''))\<lparr>ometa :=
     (ometa (BuildJob exampleMA ''kit'' (LabelsForArtifact (objName exampleMA) ''v1'')))\<lparr>mName := ''phi-1'',
       mOwnerReferences := [\<lparr>orUID = mUID (ometa exampleMA), orName = objName exampleMA\<rparr>]\<rparr>\<rparr>"


end
