(* ===== verification/ArtifactFinal.thy ===== *)
theory ArtifactFinal
  imports ArtifactSystem
begin

text \<open>
  The outcome of an artifact is final: once its phase is Succeeded or Failed, no reconcile, of this
  artifact or another, by any version of the operator, complete or cut short, changes the phase, as
  long as users leave the spec alone and the outcome of a finished Job does not change.
\<close>

section \<open>Finished artifacts\<close>

text \<open>What a Job says about the phase of its artifact.\<close>

definition jobOutcome :: "job \<Rightarrow> maPhase" where
  "jobOutcome j = obsPhase (ObserveJobStatus (Some j) [] PhaseUnset '''')"

lemma observed_outcome: "obsPhase (ObserveJobStatus (Some j) pods p d) = jobOutcome j"
  by (simp add: jobOutcome_def ObserveJobStatus_def Let_def)

text \<open>The artifact is stored as finished with phase \<open>p\<close>, and every pipeline it still has ended so.\<close>

definition finishedAs ::
  "('s, maBody) view \<Rightarrow> ('s, jobBody) view \<Rightarrow> string \<times> string \<Rightarrow> maPhase \<Rightarrow> string \<Rightarrow> 's \<Rightarrow> bool" where
  "finishedAs va vj key p d s \<longleftrightarrow>
     (\<exists>ma. va s key = Some ma \<and> objKey ma = key \<and> settledMA ma \<and> masPhase (maSt ma) = p \<and>
        (d = '''' \<or> masDigest (maSt ma) \<noteq> '''') \<and>
        (\<forall>k \<in> pipelineJobs vj ma s. \<forall>j. vj s k = Some j \<longrightarrow> jobOutcome j = p))"

text \<open>Calls on artifacts: a patch changes the one object, and leaves the old or the new status.\<close>

definition timelyStatus :: "('s, 'b) kindApi \<Rightarrow> ('s, 'b) view \<Rightarrow> bool" where
  "timelyStatus K v \<longleftrightarrow>
     (\<forall>b x s k. k \<noteq> objKey x \<longrightarrow> v (snd (apiPatchStatus K b x s)) k = v s k) \<and>
     (\<forall>b x s. v s (objKey b) = Some b \<longrightarrow> ometa x = ometa b \<longrightarrow>
        v (snd (apiPatchStatus K b x s)) (objKey x) \<in> {Some b, Some x})"

definition operatesFinal :: "'s maReconciler \<Rightarrow> ('s, maBody) view \<Rightarrow> ('s, jobBody) view \<Rightarrow> bool" where
  "operatesFinal R va vj \<longleftrightarrow>
     operatesMA R vj \<and> lawfulGet (maApi R) va \<and> timelyStatus (maApi R) va \<and>
     framed (jobApi R) va \<and> framed (pvcApi R) va \<and> framed (podApi R) va"

lemma operatesFinal_D:
  assumes "operatesFinal R va vj"
  shows "operatesMA R vj" "lawfulGet (maApi R) va" "timelyStatus (maApi R) va"
    "framed (jobApi R) va" "framed (pvcApi R) va" "framed (podApi R) va"
  using assms by (simp_all add: operatesFinal_def)

section \<open>Jobs\<close>

lemma finishedAs_subset:
  assumes "finishedAs va vj key p d s" and "va s' key = va s key"
    and "\<And>ma k j. va s key = Some ma \<Longrightarrow> objKey ma = key \<Longrightarrow> k \<in> pipelineJobs vj ma s' \<Longrightarrow> vj s' k = Some j \<Longrightarrow>
      k \<in> pipelineJobs vj ma s \<and> vj s k = Some j"
  shows "finishedAs va vj key p d s'"
  using assms unfolding finishedAs_def by (metis (no_types, lifting))

lemma finishedAs_stored:
  assumes "finishedAs va vj key p d s" and "va s key = Some ma" and "vj s' = vj s" and "va s' key = Some x"
    and "ometa x = ometa ma" and "settledMA x" and "masPhase (maSt x) = p" and "d = '''' \<or> masDigest (maSt x) \<noteq> ''''"
  shows "finishedAs va vj key p d s'"
proof -
  have "pipelineJobs vj x s' = pipelineJobs vj ma s"
    using assms(3,5) by (simp add: pipelineJobs_def isOwnedBy_def)
  with assms show ?thesis unfolding finishedAs_def by simp
qed

lemma preserves_finished_keeps:
  assumes "keeps va m" and "keeps vj m"
  shows "preserves (finishedAs va vj key p d) m"
  using assms unfolding preserves_def keeps_def finishedAs_def pipelineJobs_def by simp

lemma finished_delete:
  assumes "operatesFinal R va vj"
  shows "preserves (finishedAs va vj key p d) (clientDelete (jobApi R) x)"
  unfolding preserves_def server_client
proof (intro allI impI)
  fix w
  note ops = operatesFinal_D [OF assms]
  assume fin: "finishedAs va vj key p d (server w)"
  have va: "va (snd (apiDelete (jobApi R) x (server w))) = va (server w)" using ops(4) by (simp add: framed_def)
  from operatesMA_D(2) [OF ops(1)] consider "vj (snd (apiDelete (jobApi R) x (server w))) = vj (server w)"
    | left where "vj (snd (apiDelete (jobApi R) x (server w))) = (vj (server w))(objKey x := left)" "\<forall>y. left = Some y \<longrightarrow> \<not> isLive y"
    unfolding timely_def by blast
  then show "finishedAs va vj key p d (snd (apiDelete (jobApi R) x (server w)))"
    by cases (rule finishedAs_subset [OF fin], use va in \<open>auto simp: pipelineJobs_def split: if_splits\<close>)+
qed

lemma finished_list:
  assumes "operatesFinal R va vj"
  shows "preserves (finishedAs va vj key p d) (liftApi (clientList (jobApi R) ns sel))"
  using operatesFinal_D [OF assms]
  by (intro preserves_finished_keeps [OF _ keeps_jobList [OF operatesMA_D(2)]] keeps_liftApi keeps_client(2))

lemma finished_CleanupStaleJobs:
  assumes "operatesFinal R va vj"
  shows "preserves (finishedAs va vj key p d) (CleanupStaleJobs R ma ls)"
proof -
  have "preserves (finishedAs va vj key p d) (deleteStaleJob R ma j)" for j
    unfolding deleteStaleJob_def ignoreNotFound_def
    by (intro preserves_intros finished_delete [OF assms])
  then show ?thesis
    unfolding CleanupStaleJobs_def by (intro preserves_intros finished_list [OF assms]) auto
qed

text \<open>A Job of another artifact is no pipeline of this one, whoever owns it.\<close>

lemma finished_create:
  assumes "operatesFinal R va vj" and "objLabels x = LabelsForArtifact n ver" and "(objNamespace x, n) \<noteq> key"
  shows "preserves (finishedAs va vj key p d) (clientCreate (jobApi R) x)"
  unfolding preserves_def server_client
proof (intro allI impI)
  fix w
  note ops = operatesFinal_D [OF assms(1)]
  let ?s' = "snd (apiCreate (jobApi R) x (server w))"
  assume fin: "finishedAs va vj key p d (server w)"
  have va: "va ?s' = va (server w)" using ops(4) by (simp add: framed_def)
  from timely_create [OF operatesMA_D(2) [OF ops(1)], of x "server w"] consider "vj ?s' = vj (server w)"
    | x' where "objNamespace x' = objNamespace x" "jobManaged x' = jobManaged x" "vj ?s' = (vj (server w))(objKey x' \<mapsto> x')"
    by (elim disjE exE conjE)
  then show "finishedAs va vj key p d ?s'"
  proof cases
    case 1
    show ?thesis by (rule finishedAs_subset [OF fin]) (use va 1 in \<open>simp_all add: pipelineJobs_def\<close>)
  next
    case 2
    then have "objLabels x' = LabelsForArtifact n ver" using assms(2) by (simp add: jobManaged_def)
    then have foreign: "\<not> selects (SelectorLabelsForArtifact (objName ma)) (objLabels x')"
      if "objKey ma = key" "objNamespace x' = objNamespace ma" for ma :: modelArtifact
      using that 2(1) assms(3) by (auto simp: artifact.finds_exactly)
    have "k \<in> pipelineJobs vj ma (server w) \<and> vj (server w) k = Some j"
      if "objKey ma = key" "k \<in> pipelineJobs vj ma ?s'" "vj ?s' k = Some j" for ma k j
    proof -
      from that(2,3) have j: "objKey j = k" "objNamespace j = objNamespace ma" "isLive j" "isOwnedBy j ma"
        "selects (SelectorLabelsForArtifact (objName ma)) (objLabels j)"
        unfolding pipelineJobs_def by auto
      with foreign [OF that(1)] have "j \<noteq> x'" by metis
      with that(3) 2(3) j(1) have "vj (server w) k = Some j" by (auto split: if_splits)
      with j show ?thesis unfolding pipelineJobs_def by blast
    qed
    then show ?thesis by (intro finishedAs_subset [OF fin]) (simp add: va, blast)
  qed
qed

lemma finished_EnsureJob:
  assumes "operatesFinal R va vj" and "objKey ma \<noteq> key"
  shows "preserves (finishedAs va vj key p d) (EnsureJob R ma img sel (LabelsForArtifact (objName ma) ver))"
proof -
  let ?job = "BuildJob ma img (LabelsForArtifact (objName ma) ver)"
  have "preserves (finishedAs va vj key p d) (FindOwnedJob R ns sel ma)" for ns
    unfolding FindOwnedJob_def by (intro preserves_intros finished_list [OF assms(1)])
  moreover have "preserves (finishedAs va vj key p d) (clientCreate (jobApi R) (?job\<lparr>ometa := m\<rparr>))"
    if "maSetControllerReference R (ometa ma) (ometa ?job) = Inr m" for m
  proof -
    have "mOwnerReferences (ometa ?job) = []" by (simp add: BuildJob_def metaZero_def)
    with operatesMA_D(3) [OF operatesFinal_D(1) [OF assms(1)]] that obtain r where
      "m = (ometa ?job)\<lparr>mOwnerReferences := [r]\<rparr>" unfolding lawfulOwnerRef_def by blast
    with assms(2) show ?thesis by (intro finished_create [OF assms(1)]) simp_all
  qed
  ultimately show ?thesis
    unfolding EnsureJob_def liftApi_def
    by (auto simp: Let_def intro!: preserves_intros split: option.split sum.split)
qed

section \<open>Reconciles of other artifacts\<close>

lemma finished_patch_other:
  assumes "operatesFinal R va vj" and "objKey x \<noteq> key"
  shows "preserves (finishedAs va vj key p d) (clientPatchStatus (maApi R) b x)"
  unfolding preserves_def server_client
proof (intro allI impI)
  fix w
  note ops = operatesFinal_D [OF assms(1)]
  let ?s' = "snd (apiPatchStatus (maApi R) b x (server w))"
  assume fin: "finishedAs va vj key p d (server w)"
  have "va ?s' key = va (server w) key" using ops(3) assms(2) unfolding timelyStatus_def by metis
  moreover have "vj ?s' = vj (server w)" using operatesMA_D(4) [OF ops(1)] by (simp add: framed_def)
  ultimately show "finishedAs va vj key p d ?s'"
    by (intro finishedAs_subset [OF fin]) (simp_all add: pipelineJobs_def)
qed

lemma preserves_getServer: "preserves Q getServer"
  by (rule preserves_same) (simp add: getServer_def)

lemma finished_reads:
  assumes "operatesFinal R va vj"
  shows "preserves (finishedAs va vj key p d) (FindOwnedJob R ns sel ma)"
    and "preserves (finishedAs va vj key p d) (listJobPods R j)"
    and "preserves (finishedAs va vj key p d) (DeletePVC R ma)"
    and "preserves (finishedAs va vj key p d) (EnsurePVC R ma ls)"
    and "preserves (finishedAs va vj key p d) (finishMA R obs ma)"
    and "preserves (finishedAs va vj key p d) (clientGet (maApi R) req)"
proof -
  note ops = operatesFinal_D [OF assms] and opsj = operatesMA_D [OF operatesFinal_D(1) [OF assms]]
  show "preserves (finishedAs va vj key p d) (FindOwnedJob R ns sel ma)"
    unfolding FindOwnedJob_def by (intro preserves_intros finished_list [OF assms])
  show "preserves (finishedAs va vj key p d) (listJobPods R j)"
    by (intro preserves_finished_keeps keeps_listJobPods ops opsj)
  show "preserves (finishedAs va vj key p d) (DeletePVC R ma)"
    by (intro preserves_finished_keeps keeps_DeletePVC ops opsj)
  show "preserves (finishedAs va vj key p d) (EnsurePVC R ma ls)"
    by (intro preserves_finished_keeps keeps_EnsurePVC ops opsj)
  show "preserves (finishedAs va vj key p d) (finishMA R obs ma)"
    by (intro preserves_finished_keeps keeps_finishMA ops opsj)
  have "keeps va (clientGet (maApi R) req)"
    using clientGet_Inr [OF ops(2)] clientGet_Inl [OF ops(2)] unfolding keeps_def
    by (metis (no_types, opaque_lifting) prod.collapse sum.exhaust_sel)
  then show "preserves (finishedAs va vj key p d) (clientGet (maApi R) req)"
    by (rule preserves_finished_keeps) (rule keeps_client(1) [OF opsj(4)])
qed

lemma finished_reconcileFound_other:
  assumes "operatesFinal R va vj" and "objKey ma \<noteq> key"
  shows "preserves (finishedAs va vj key p d) (reconcileFoundMA R ma)"
proof -
  note parts = preserves_intros preserves_getServer finished_reads [OF assms(1)] finished_CleanupStaleJobs [OF assms(1)]
    finished_EnsureJob [OF assms] finished_patch_other [OF assms(1)]
  have key: "objKey (setMaStatus st ma) \<noteq> key" for st using assms(2) by simp
  have "preserves (finishedAs va vj key p d) (reconcileResourcesMA R ma)"
    unfolding reconcileResourcesMA_def announceJobMA_def Let_def by (intro parts)
  moreover have "preserves (finishedAs va vj key p d) (handleReconcileErrorMA R ma e)" for e
    unfolding handleReconcileErrorMA_def setReadyConditionFalseMA_def Let_def by (intro parts key)
  moreover have "preserves (finishedAs va vj key p d) (updateStatusMA R ma)"
    unfolding updateStatusMA_def phaseEventMA_def liftApi_def Let_def by (intro parts key)
  ultimately show ?thesis
    unfolding reconcileFoundMA_def by (intro parts)
qed

section \<open>The reconcile of the finished artifact\<close>

lemma FindOwnedJob_stored:
  assumes "lawfulList (jobApi R) v" and "FindOwnedJob R ns sel ma w = (Inr (Some j), w')"
  shows "v (server w) (objKey j) = Some j"
proof -
  from assms(2) obtain xs where xs: "clientList (jobApi R) ns sel w = (Inr xs, w')"
    and "find (\<lambda>j. isLive j \<and> isOwnedBy j ma) xs = Some j"
    by (auto simp: FindOwnedJob_def andThen_Inr liftApi_Inr)
  then have "j \<in> set xs" by (auto simp: find_Some_iff)
  with clientList_Inr [OF assms(1) xs] show ?thesis by blast
qed

lemma finished_status:
  assumes ops: "operatesFinal R va vj" and fin: "finishedAs va vj key p d (server w)"
    and ma: "va (server w) key = Some ma" and run: "updateStatusMA R ma w = (r, w')"
  shows "finishedAs va vj key p d (server w')"
proof -
  note laws = operatesFinal_D [OF ops] and lawsj = operatesMA_D [OF operatesFinal_D(1) [OF ops]]
  from fin ma have ma': "objKey ma = key" "settledMA ma" "masPhase (maSt ma) = p" "d = '''' \<or> masDigest (maSt ma) \<noteq> ''''"
    and jobs: "\<And>k j. k \<in> pipelineJobs vj ma (server w) \<Longrightarrow> vj (server w) k = Some j \<Longrightarrow> jobOutcome j = p"
    unfolding finishedAs_def by auto
  obtain rj w1 where rj: "FindOwnedJob R (objNamespace ma) (SelectorLabelsForArtifact (objName ma)) ma w = (rj, w1)" by fastforce
  have fin1: "finishedAs va vj key p d (server w1)" by (rule preservesD [OF finished_reads(1) [OF ops] rj fin])
  show ?thesis
  proof (cases rj)
    case (Inl e)
    with run rj fin1 show ?thesis by (simp add: updateStatusMA_def andThen_def)
  next
    case (Inr job)
    note found = FindOwnedJob_Inr [OF lawsj(1) rj [unfolded Inr]]
    have outcome: "obsPhase (ObserveJobStatus job pods p dg) = p" for pods dg
    proof (cases job)
      case None
      with ma' show ?thesis by (auto simp: ObserveJobStatus_def settledMA_def)
    next
      case (Some j)
      with found jobs FindOwnedJob_stored [OF lawsj(1) rj [unfolded Inr Some]] show ?thesis
        by (simp add: observed_outcome) blast
    qed
    obtain rp w2 where rp: "listJobPods R job w1 = (rp, w2)" by fastforce
    have fin2: "finishedAs va vj key p d (server w2)" by (rule preservesD [OF finished_reads(2) [OF ops] rp fin1])
    have va2: "va (server w2) (objKey ma) = Some ma"
      using keepsD [OF keeps_listJobPods [OF laws(6)] rp] found ma ma'(1) by simp
    show ?thesis
    proof (cases rp)
      case (Inl e)
      with run rj \<open>rj = Inr job\<close> rp fin2 show ?thesis by (simp add: updateStatusMA_def andThen_def)
    next
      case (Inr pods)
      let ?obs = "ObserveJobStatus job pods (masPhase (maSt ma)) (masDigest (maSt ma))"
      let ?ma = "setMaStatus (newStatusMA R (server w2) ma job ?obs) ma"
      have settled: "settledMA ?ma" "masPhase (maSt ?ma) = p" "d = '''' \<or> masDigest (maSt ?ma) \<noteq> ''''"
        using ma' outcome by (simp_all add: settledMA_def)
      let ?s3 = "snd (apiPatchStatus (maApi R) ma ?ma (server w2))"
      have vj3: "vj ?s3 = vj (server w2)" using lawsj(4) by (simp add: framed_def)
      have "va ?s3 (objKey ?ma) \<in> {Some ma, Some ?ma}"
        using laws(3) va2 unfolding timelyStatus_def by simp
      then consider "va ?s3 key = Some ma" | "va ?s3 key = Some ?ma" using ma'(1) by auto
      then have "finishedAs va vj key p d ?s3"
      proof cases
        case 1
        from finishedAs_stored [OF fin2 va2 [unfolded ma'(1)] vj3 this refl ma'(2-4)] show ?thesis .
      next
        case 2
        from finishedAs_stored [OF fin2 va2 [unfolded ma'(1)] vj3 this _ settled] show ?thesis by simp
      qed
      moreover from run rj \<open>rj = Inr job\<close> rp Inr have "server w' \<in> {server w2, ?s3}"
        by (auto simp: updateStatusMA_def andThen_def getServer_def Let_def ret_def liftApi_def attempt_def fail_def
            clientPatchStatus_def phaseEventMA_def eventStep_def recordEvent_def split: prod.splits sum.splits if_splits)
      ultimately show ?thesis using fin2 by auto
    qed
  qed
qed

lemma finished_ReconcileMA:
  fixes R :: "'a maReconciler"
  assumes "operatesFinal R va vj"
  shows "preserves (finishedAs va vj key p d) (ReconcileMA R req)"
  unfolding preserves_def
proof (intro allI impI)
  fix w :: "'a world"
  assume fin: "finishedAs va vj key p d (server w)"
  obtain r w1 where r: "clientGet (maApi R) req w = (r, w1)" by fastforce
  have fin1: "finishedAs va vj key p d (server w1)" by (rule preservesD [OF finished_reads(6) [OF assms] r fin])
  show "finishedAs va vj key p d (server (snd (ReconcileMA R req w)))"
  proof (cases r)
    case (Inl e)
    with r fin1 show ?thesis by (simp add: ReconcileMA_def attempt_def ret_def fail_def)
  next
    case (Inr ma)
    note got = clientGet_Inr [OF operatesFinal_D(2) [OF assms] r [unfolded Inr]]
    have "finishedAs va vj key p d (server (snd (reconcileFoundMA R ma w1)))"
    proof (cases "req = key")
      case False
      with got preservesD [OF finished_reconcileFound_other [OF assms] _ fin1] show ?thesis by (metis prod.collapse)
    next
      case True
      with got fin1 have ma: "va (server w1) key = Some ma" "settledMA ma" unfolding finishedAs_def by auto
      then have "reconcileResourcesMA R ma = ret ()" by (simp add: reconcileResourcesMA_def)
      then have "reconcileFoundMA R ma w1 = andThen (updateStatusMA R ma) (\<lambda>(obs, ma'). finishMA R obs ma') w1"
        by (simp add: reconcileFoundMA_def attempt_def ret_def)
      moreover obtain u w2 where u: "updateStatusMA R ma w1 = (u, w2)" by fastforce
      have "finishedAs va vj key p d (server w2)" by (rule finished_status [OF assms fin1 ma(1) u])
      moreover have "finishedAs va vj key p d (server (snd (finishMA R obs ma' w2)))" for obs ma'
        using preservesD [OF finished_reads(5) [OF assms]] calculation(2) by (metis prod.collapse)
      ultimately show ?thesis using u by (simp add: andThen_def split: sum.split)
    qed
    with r Inr show ?thesis by (simp add: ReconcileMA_def attempt_def)
  qed
qed

section \<open>Every later state\<close>

text \<open>
  What others may do to a finished artifact: everything but a change of its spec (its generation), of
  its status, or of the outcome of a Job that has ended. They may delete its Jobs.
\<close>

definition leavesFinished ::
  "('s, maBody) view \<Rightarrow> ('s, jobBody) view \<Rightarrow> string \<times> string \<Rightarrow> 's \<Rightarrow> 's \<Rightarrow> bool" where
  "leavesFinished va vj key s s' \<longleftrightarrow>
     (\<forall>ma. va s key = Some ma \<longrightarrow>
        (\<exists>ma'. va s' key = Some ma' \<and> objKey ma' = objKey ma \<and> mUID (ometa ma') = mUID (ometa ma) \<and>
           maGeneration ma' = maGeneration ma \<and> maSt ma' = maSt ma) \<and>
        (\<forall>k \<in> pipelineJobs vj ma s'. k \<in> pipelineJobs vj ma s \<and>
           (\<forall>j j'. vj s k = Some j \<longrightarrow> vj s' k = Some j' \<longrightarrow> terminalPhase (jobOutcome j) \<longrightarrow>
              jobOutcome j' = jobOutcome j)))"

inductive finishedRun :: "('s, maBody) view \<Rightarrow> ('s, jobBody) view \<Rightarrow> string \<times> string \<Rightarrow> 's \<Rightarrow> 's \<Rightarrow> bool"
  for va vj key s where
  start: "finishedRun va vj key s s"
| reconciled: "finishedRun va vj key s (server w) \<Longrightarrow> operatesFinal R va vj \<Longrightarrow> ReconcileMA R req w = (r, w') \<Longrightarrow>
     finishedRun va vj key s (server w')"
| other: "finishedRun va vj key s s1 \<Longrightarrow> leavesFinished va vj key s1 s2 \<Longrightarrow> finishedRun va vj key s s2"

lemma finished_other:
  assumes "finishedAs va vj key p d s" and "leavesFinished va vj key s s'"
  shows "finishedAs va vj key p d s'"
proof -
  from assms(1) obtain ma where ma: "va s key = Some ma" "objKey ma = key" "settledMA ma" "masPhase (maSt ma) = p"
    "d = '''' \<or> masDigest (maSt ma) \<noteq> ''''"
    and jobs: "\<And>k j. k \<in> pipelineJobs vj ma s \<Longrightarrow> vj s k = Some j \<Longrightarrow> jobOutcome j = p"
    unfolding finishedAs_def by blast
  from assms(2) ma(1) obtain ma' where ma': "va s' key = Some ma'" "objKey ma' = objKey ma"
    "mUID (ometa ma') = mUID (ometa ma)" "maGeneration ma' = maGeneration ma" "maSt ma' = maSt ma"
    and left: "\<And>k. k \<in> pipelineJobs vj ma s' \<Longrightarrow> k \<in> pipelineJobs vj ma s \<and>
      (\<forall>j j'. vj s k = Some j \<longrightarrow> vj s' k = Some j' \<longrightarrow> terminalPhase (jobOutcome j) \<longrightarrow> jobOutcome j' = jobOutcome j)"
    unfolding leavesFinished_def by blast
  have same: "pipelineJobs vj ma' s' = pipelineJobs vj ma s'" by (rule pipelineJobs_cong) (use ma'(2,3) in simp_all)
  have "terminalPhase p" using ma(3,4) by (auto simp: settledMA_def)
  moreover have "\<exists>j. vj s k = Some j" if "k \<in> pipelineJobs vj ma s" for k
    using that unfolding pipelineJobs_def by blast
  ultimately have "jobOutcome j' = p" if "k \<in> pipelineJobs vj ma' s'" "vj s' k = Some j'" for k j'
    using left jobs that unfolding same by metis
  with ma ma' show ?thesis unfolding finishedAs_def by (auto simp: settledMA_def)
qed


section \<open>Witness\<close>

lemma operatesFinal_memR: "operatesFinal memR (memView memArtifacts) (memView memJobs)"
proof -
  have "memLookup ((objKey x, x\<lparr>ometa := ometa y\<rparr>) # st) = (memLookup st)(objKey x \<mapsto> x\<lparr>ometa := ometa y\<rparr>)"
    if "memLookup st (objKey x) = Some y" for st and x y :: modelArtifact
    using memLookup_key [OF that] by (intro memLookup_Cons) simp
  then have "timelyStatus (maApi memR) (memView memArtifacts)"
    by (auto simp: timelyStatus_def memApi_def memView_def Let_def split: option.split)
  then show ?thesis
    using operates_memR quiet_memR by (simp add: operatesFinal_def quietMA_def)
qed

definition finishedMA :: modelArtifact where
  "finishedMA = setMaStatus ((maSt exampleMA)\<lparr>masPhase := PhaseSucceeded, masObservedGeneration := 1,
     masDigest := ''sha256:1''\<rparr>) exampleMA"


end
