(* ===== verification/ServiceHelpers.thy ===== *)
theory ServiceHelpers
  imports CrdTypes Labels
begin

text \<open>
  \<open>internal/modelservice/helpers.go\<close>, \<open>defaults.go\<close> and \<open>epp_config.go\<close>: the names, labels, GPU
  resources and image defaults of a ModelService. A selector finds the pods of one role of one
  service whatever the operator's version, which is the contract \<open>labelScheme\<close> instantiated
  here for the serving roles and for the endpoint picker (EPP).
\<close>

section \<open>Operator-level settings\<close>

record defaultImages =
  diEngine :: string
  diEPP :: string
  diRoutingProxy :: string

record tracingConfig =
  tcEnabled :: bool
  tcOtelExporterEndpoint :: string
  tcSampler :: string
  tcSamplerArg :: string

text \<open>\<open>ecFlags\<close> is a Go map: its entries in the order an iteration visits them, with distinct keys.\<close>

record eppConfig =
  ecProvider :: string
  ecFlags :: "(string \<times> string) list"
  ecMetricsEndpointAuth :: bool
  ecDefaultGatewayName :: string
  ecTracing :: tracingConfig

abbreviation ProviderIstio :: string where "ProviderIstio \<equiv> ''istio''"
abbreviation ProviderGKE :: string where "ProviderGKE \<equiv> ''gke''"

abbreviation eppGRPCHealthPort :: int32 where "eppGRPCHealthPort \<equiv> 9003"

text \<open>The nested struct updates of \<open>ApplyImageDefaults\<close>, on the copy its caller passes.\<close>

definition ApplyImageDefaults :: "defaultImages \<Rightarrow> modelService \<Rightarrow> modelService" where
  "ApplyImageDefaults d ms =
     (let sp = msSp ms;
          sp1 = (if enImage (msEngine sp) = ''''
                 then sp\<lparr>msEngine := (msEngine sp)\<lparr>enImage := diEngine d\<rparr>\<rparr> else sp);
          sp2 = (case msRoutingProxy sp1 of
                   None \<Rightarrow> sp1
                 | Some p \<Rightarrow>
                     (if rpImage p = ''''
                      then sp1\<lparr>msRoutingProxy := Some (p\<lparr>rpImage := diRoutingProxy d\<rparr>)\<rparr> else sp1));
          sp3 = (case msInferencePool sp2 of
                   None \<Rightarrow> sp2
                 | Some p \<Rightarrow>
                     (let e = ipsEndpointPicker p
                      in if epImage e = ''''
                         then sp2\<lparr>msInferencePool := Some (p\<lparr>ipsEndpointPicker := e\<lparr>epImage := diEPP d\<rparr>\<rparr>)\<rparr>
                         else sp2))
      in setMsSpec sp3 ms)"

section \<open>GPUs\<close>

definition GPUResourceName :: "acceleratorType \<Rightarrow> string" where
  "GPUResourceName a =
     (case a of
        AcceleratorNvidia \<Rightarrow> ''nvidia.com/gpu''
      | AcceleratorAMD \<Rightarrow> ''amd.com/gpu''
      | AcceleratorIntelGaudi \<Rightarrow> ''habana.ai/gaudi''
      | AcceleratorGoogle \<Rightarrow> ''google.com/tpu''
      | AcceleratorCPU \<Rightarrow> ''''
      | AcceleratorOther _ \<Rightarrow> '''')"

definition GPUCount :: "parallelismSpec \<Rightarrow> int32" where
  "GPUCount p = max32 (paTensor p) 1 * max32 (paDataLocal p) 1"

text \<open>\<open>quantityString\<close> is \<open>Quantity.String\<close>, the canonical form of a quantity.\<close>

definition intToString :: "(quantity \<Rightarrow> string) \<Rightarrow> int32 \<Rightarrow> string" where
  "intToString quantityString i = quantityString (NewQuantity (scast i))"

definition setResource :: "string \<Rightarrow> quantity \<Rightarrow> resourceList option \<Rightarrow> resourceList option" where
  "setResource n q l = Some ((case l of None \<Rightarrow> Map.empty | Some m \<Rightarrow> m)(n \<mapsto> q))"

definition InjectGPUResources ::
  "(quantity \<Rightarrow> string) \<Rightarrow> resourceRequirements \<Rightarrow> acceleratorType \<Rightarrow> int32 \<Rightarrow> resourceRequirements" where
  "InjectGPUResources quantityString res accel count =
     (if accel = AcceleratorCPU \<or> count = 0 then res
      else if GPUResourceName accel = '''' then res
      else
        (let qty = MustParse (intToString quantityString count)
         in res\<lparr>rrLimits := setResource (GPUResourceName accel) qty (rrLimits res),
                rrRequests := setResource (GPUResourceName accel) qty (rrRequests res)\<rparr>))"

definition DefaultReplicas :: "int32 option \<Rightarrow> int32" where
  "DefaultReplicas replicas = (case replicas of Some r \<Rightarrow> r | None \<Rightarrow> 1)"

section \<open>Names\<close>

definition DecodeName :: "string \<Rightarrow> string" where
  "DecodeName msName = msName @ ''-decode''"

definition PrefillName :: "string \<Rightarrow> string" where
  "PrefillName msName = msName @ ''-prefill''"

definition InferencePoolName :: "string \<Rightarrow> string" where
  "InferencePoolName msName = msName"

definition HTTPRouteName :: "string \<Rightarrow> string" where
  "HTTPRouteName msName = msName"

text \<open>
  The switch on the runes of the input, byte by byte: a byte below 128 is a rune of its own, and
  the bytes of every other rune (or of an invalid encoding) match no case and are dropped.
\<close>

definition sanitizeChar :: "char \<Rightarrow> string" where
  "sanitizeChar c =
     (if isLowerChar c \<or> isDigitChar c then [c]
      else if isUpperChar c then [toLowerChar c]
      else if c = CHR ''.'' \<or> c = CHR ''_'' \<or> c = CHR ''-'' then ''-'' else '''')"

lemma length_replaceAll_le: "length new \<le> length old \<Longrightarrow> length (replaceAll s old new) \<le> length s"
proof (induction s old new rule: replaceAll.induct)
  case (1 old new)
  then show ?case by simp
next
  case (2 c cs old new)
  show ?case
  proof (cases "old \<noteq> [] \<and> prefix old (c # cs)")
    case True
    then have "length old \<le> Suc (length cs)" using prefix_length_le by fastforce
    moreover have "length (replaceAll (drop (length old - 1) cs) old new) \<le> length (drop (length old - 1) cs)"
      using 2 True by blast
    ultimately show ?thesis using True 2(3) by simp
  next
    case False
    with 2 show ?thesis by auto
  qed
qed

lemma length_replaceAll_less:
  "length new < length old \<Longrightarrow> stringContains s old \<Longrightarrow> length (replaceAll s old new) < length s"
proof (induction s old new rule: replaceAll.induct)
  case (1 old new)
  then show ?case by simp
next
  case (2 c cs old new)
  show ?case
  proof (cases "old \<noteq> [] \<and> prefix old (c # cs)")
    case True
    then have "length old \<le> Suc (length cs)" using prefix_length_le by fastforce
    moreover have "length (replaceAll (drop (length old - 1) cs) old new) \<le> length (drop (length old - 1) cs)"
      using 2(3) by (intro length_replaceAll_le) simp
    ultimately show ?thesis using True 2(3) by simp
  next
    case False
    with 2 show ?thesis by auto
  qed
qed

text \<open>\<open>for strings.Contains(s, "--") { s = strings.ReplaceAll(s, "--", "-") }\<close>.\<close>

function collapseDashes :: "string \<Rightarrow> string" where
  "collapseDashes s =
     (if stringContains s ''--'' then collapseDashes (replaceAll s ''--'' ''-'') else s)"
  by pat_completeness auto
termination
  by (relation "measure length") (auto intro: length_replaceAll_less)

declare collapseDashes.simps [simp del]

definition SanitizeDNS1035Label :: "string \<Rightarrow> string" where
  "SanitizeDNS1035Label str =
     (let s = collapseDashes (trimChar (CHR ''-'') (concat (map sanitizeChar str)))
      in if s = '''' then ''modelservice''
         else
           (let s1 = (if isDigitChar (hd s) then ''m-'' @ s else s)
            in if s1 \<noteq> [] \<and> last s1 = CHR ''-'' then trimSuffix s1 ''-'' else s1))"

definition EPPName :: "string \<Rightarrow> string" where
  "EPPName msName = SanitizeDNS1035Label msName @ ''-epp''"

definition EPPNameForService :: "string \<Rightarrow> string" where
  "EPPNameForService msName = EPPName msName"

definition EPPConfigMapName :: "string \<Rightarrow> string" where
  "EPPConfigMapName msName = EPPName msName @ ''-config''"

definition EPPSecretName :: "string \<Rightarrow> string" where
  "EPPSecretName msName = EPPName msName @ ''-sa-metrics-reader-secret''"

definition EPPServiceMonitorName :: "string \<Rightarrow> string" where
  "EPPServiceMonitorName msName = EPPName msName"

definition EPPClusterRBACName :: "string \<Rightarrow> string \<Rightarrow> string" where
  "EPPClusterRBACName namespace msName = namespace @ ''-'' @ EPPName msName"

definition PodMonitorName :: "string \<Rightarrow> string \<Rightarrow> string" where
  "PodMonitorName msName role = msName @ ''-'' @ role"

section \<open>Labels\<close>

abbreviation ComponentDecode :: string where "ComponentDecode \<equiv> ''model-decode''"
abbreviation ComponentPrefill :: string where "ComponentPrefill \<equiv> ''model-prefill''"
abbreviation ComponentEPP :: string where "ComponentEPP \<equiv> ''epp''"
abbreviation LabelRole :: string where "LabelRole \<equiv> ''llm-d.ai/role''"
abbreviation LabelInferenceServer :: string where
  "LabelInferenceServer \<equiv> ''llm-d.ai/inference-serving''"
abbreviation LabelInferenceServing :: string where
  "LabelInferenceServing \<equiv> ''llm-d.ai/inferenceServing''"
abbreviation LabelModel :: string where "LabelModel \<equiv> ''llm-d.ai/model''"
abbreviation LabelInferencePool :: string where "LabelInferencePool \<equiv> ''inferencepool''"
abbreviation LabelValueTrue :: string where "LabelValueTrue \<equiv> ''true''"
abbreviation RoleDecode :: string where "RoleDecode \<equiv> ''decode''"
abbreviation RolePrefill :: string where "RolePrefill \<equiv> ''prefill''"
abbreviation FinalizerClusterRBAC :: string where
  "FinalizerClusterRBAC \<equiv> ''model.otterscale.io/epp-cluster-rbac''"

definition HTTPRouteLabels :: "string \<Rightarrow> string \<Rightarrow> labels" where
  "HTTPRouteLabels msName version = Standard (HTTPRouteName msName) ComponentEPP version"

definition SelectorLabelsForRole :: "string \<Rightarrow> string \<Rightarrow> string \<Rightarrow> labels" where
  "SelectorLabelsForRole msName component role =
     (Selector msName component)(LabelInferenceServing \<mapsto> LabelValueTrue, LabelModel \<mapsto> msName,
        LabelRole \<mapsto> role)"

definition LabelsForRole :: "string \<Rightarrow> string \<Rightarrow> string \<Rightarrow> labels" where
  "LabelsForRole msName component version =
     (Standard msName component version)(LabelInferenceServer \<mapsto> LabelValueTrue)"

definition PodLabelsForRole :: "string \<Rightarrow> string \<Rightarrow> string \<Rightarrow> string \<Rightarrow> labels" where
  "PodLabelsForRole msName component version role =
     ((LabelsForRole msName component version)(LabelInferenceServer := None))
       (LabelInferenceServing \<mapsto> LabelValueTrue, LabelRole \<mapsto> role, LabelModel \<mapsto> msName)"

definition InferencePoolLabels :: "string \<Rightarrow> string \<Rightarrow> labels" where
  "InferencePoolLabels msName version = Standard (InferencePoolName msName) ComponentEPP version"

definition InferencePoolSelectorLabels :: "string \<Rightarrow> labels" where
  "InferencePoolSelectorLabels msName =
     ((Selector msName ComponentDecode)(labelComponent := None))
       (LabelInferenceServing \<mapsto> LabelValueTrue, LabelModel \<mapsto> msName)"

definition EPPLabels :: "string \<Rightarrow> string \<Rightarrow> labels" where
  "EPPLabels msName version = Standard (EPPName msName) ComponentEPP version"

definition EPPSelectorLabels :: "string \<Rightarrow> labels" where
  "EPPSelectorLabels msName = Selector (EPPName msName) ComponentEPP"

section \<open>Validity\<close>

definition labelChar :: "char \<Rightarrow> bool" where
  "labelChar c \<longleftrightarrow> isLowerChar c \<or> isDigitChar c \<or> c = CHR ''-''"

text \<open>The grammar \<open>[a-z]([-a-z0-9]*[a-z0-9])?\<close> of a DNS-1035 label (without its length limit).\<close>

definition dns1035 :: "string \<Rightarrow> bool" where
  "dns1035 s \<longleftrightarrow> s \<noteq> [] \<and> isLowerChar (hd s) \<and> last s \<noteq> CHR ''-'' \<and> list_all labelChar s"

text \<open>Between the trim and the last steps: no dash at either end.\<close>

definition trimmed :: "string \<Rightarrow> bool" where
  "trimmed s \<longleftrightarrow> list_all labelChar s \<and> (s \<noteq> [] \<longrightarrow> hd s \<noteq> CHR ''-'' \<and> last s \<noteq> CHR ''-'')"

lemma labelChar_sanitizeChar: "list_all labelChar (sanitizeChar c)"
  by (auto simp: sanitizeChar_def labelChar_def dest: toLowerChar_lower)

lemma list_all_concat_map: "(\<And>c. list_all P (f c)) \<Longrightarrow> list_all P (concat (map f s))"
  by (induction s) auto

lemma list_all_dropWhile: "list_all P xs \<Longrightarrow> list_all P (dropWhile Q xs)"
  by (induction xs) auto

lemma hd_of_append: "xs = ys @ zs \<Longrightarrow> ys \<noteq> [] \<Longrightarrow> xs \<noteq> [] \<and> hd ys = hd xs"
  by simp

lemma trimChar_ends:
  assumes "trimChar d s \<noteq> []"
  shows "hd (trimChar d s) \<noteq> d \<and> last (trimChar d s) \<noteq> d"
proof -
  define a where "a = dropWhile (\<lambda>c. c = d) s"
  define b where "b = dropWhile (\<lambda>c. c = d) (rev a)"
  have t: "trimChar d s = rev b" by (simp add: trimChar_def a_def b_def)
  with assms have b: "b \<noteq> []" by simp
  then have "hd b \<noteq> d" unfolding b_def using hd_dropWhile [of "\<lambda>c. c = d" "rev a"] by blast
  then have "last (rev b) \<noteq> d" using b by (simp add: last_rev)
  moreover have "suffix b (rev a)" unfolding b_def by (rule suffix_dropWhile)
  then obtain p where "rev a = p @ b" by (auto simp: suffix_def)
  then have "a = rev b @ rev p" by (metis rev_append rev_rev_ident)
  from hd_of_append [OF this] b have "a \<noteq> []" "hd (rev b) = hd a" by simp_all
  moreover have "hd a \<noteq> d"
    using \<open>a \<noteq> []\<close> hd_dropWhile [of "\<lambda>c. c = d" s] unfolding a_def by blast
  ultimately show ?thesis by (simp add: t)
qed

lemma trimChar_trimmed: "list_all labelChar s \<Longrightarrow> trimmed (trimChar (CHR ''-'') s)"
  using trimChar_ends [of "CHR ''-''" s]
  by (auto simp: trimmed_def) (simp add: trimChar_def list_all_dropWhile)

lemma replaceAll_nonempty: "s \<noteq> [] \<Longrightarrow> new \<noteq> [] \<Longrightarrow> replaceAll s old new \<noteq> []"
  by (cases s) auto

lemma replaceAll_dashes_all: "list_all labelChar s \<Longrightarrow> list_all labelChar (replaceAll s ''--'' ''-'')"
proof (induction s "''--''" "''-''" rule: replaceAll.induct)
  case 1
  then show ?case by simp
next
  case (2 c cs)
  have dash: "labelChar (CHR ''-'')" by (simp add: labelChar_def)
  have "list_all labelChar (drop (Suc 0) cs)"
    using 2(3) by (auto simp: list_all_iff dest: in_set_dropD)
  with 2 dash show ?case by (cases "prefix ''--'' (c # cs)") auto
qed

lemma replaceAll_dashes_hd:
  "s \<noteq> [] \<Longrightarrow> hd s \<noteq> CHR ''-'' \<Longrightarrow> hd (replaceAll s ''--'' ''-'') = hd s"
  by (cases s) auto

lemma replaceAll_dashes_last:
  "s \<noteq> [] \<Longrightarrow> last s \<noteq> CHR ''-'' \<Longrightarrow> last (replaceAll s ''--'' ''-'') = last s"
proof (induction s "''--''" "''-''" rule: replaceAll.induct)
  case 1
  then show ?case by simp
next
  case (2 c cs)
  show ?case
  proof (cases "prefix ''--'' (c # cs)")
    case True
    then obtain cs' where cs: "c = CHR ''-''" "cs = CHR ''-'' # cs'" by (auto simp: prefix_def)
    with 2(4) have "cs' \<noteq> []" by auto
    with 2(1,4) cs True show ?thesis by (simp add: replaceAll_nonempty)
  next
    case False
    with 2(2,3,4) show ?thesis by (cases cs) (auto simp: replaceAll_nonempty)
  qed
qed

lemma collapseDashes_trimmed: "trimmed s \<Longrightarrow> trimmed (collapseDashes s)"
proof (induction s rule: collapseDashes.induct)
  case (1 s)
  have "trimmed (replaceAll s ''--'' ''-'')"
    using "1.prems" replaceAll_dashes_all [of s] replaceAll_dashes_hd [of s] replaceAll_dashes_last [of s]
    by (cases "s = []") (auto simp: trimmed_def)
  with 1 show ?case by (subst collapseDashes.simps) simp
qed

lemma collapseDashes_clean: "\<not> stringContains (collapseDashes s) ''--''"
proof (induction s rule: collapseDashes.induct)
  case (1 s)
  then show ?case by (subst collapseDashes.simps) simp
qed

lemma SanitizeDNS1035Label_eq:
  "SanitizeDNS1035Label str =
     (let s = collapseDashes (trimChar (CHR ''-'') (concat (map sanitizeChar str)))
      in if s = '''' then ''modelservice'' else if isDigitChar (hd s) then ''m-'' @ s else s)"
proof -
  have "trimmed (collapseDashes (trimChar (CHR ''-'') (concat (map sanitizeChar str))))"
    by (intro collapseDashes_trimmed trimChar_trimmed list_all_concat_map labelChar_sanitizeChar)
  then show ?thesis by (auto simp: SanitizeDNS1035Label_def Let_def trimmed_def)
qed

lemma sanitized_dns1035:
  "dns1035 (SanitizeDNS1035Label str) \<and> \<not> stringContains (SanitizeDNS1035Label str) ''--''"
proof -
  define s where "s = collapseDashes (trimChar (CHR ''-'') (concat (map sanitizeChar str)))"
  have t: "trimmed s" "\<not> stringContains s ''--''"
    unfolding s_def
    by (intro collapseDashes_trimmed trimChar_trimmed list_all_concat_map labelChar_sanitizeChar)
      (rule collapseDashes_clean)
  have eq: "SanitizeDNS1035Label str =
      (if s = '''' then ''modelservice'' else if isDigitChar (hd s) then ''m-'' @ s else s)"
    unfolding s_def SanitizeDNS1035Label_eq by (simp add: Let_def)
  consider "s = ''''" | "s \<noteq> ''''" "isDigitChar (hd s)" | "s \<noteq> ''''" "\<not> isDigitChar (hd s)" by blast
  then show ?thesis
  proof cases
    case 1
    then show ?thesis
      by (simp add: eq dns1035_def labelChar_def isLowerChar_def isDigitChar_def)
  next
    case 2
    then obtain c cs where s: "s = c # cs" by (cases s) auto
    with 2 t show ?thesis
      by (auto simp: eq dns1035_def trimmed_def labelChar_def isLowerChar_def isDigitChar_def)
  next
    case 3
    then obtain c cs where s: "s = c # cs" by (cases s) auto
    with 3 t show ?thesis
      by (auto simp: eq dns1035_def trimmed_def labelChar_def)
  qed
qed

lemma concat_sanitize_id: "list_all labelChar s \<Longrightarrow> concat (map sanitizeChar s) = s"
  by (induction s) (auto simp: labelChar_def sanitizeChar_def isUpperChar_def isDigitChar_def isLowerChar_def)

lemma trimChar_id: "s \<noteq> [] \<Longrightarrow> hd s \<noteq> d \<Longrightarrow> last s \<noteq> d \<Longrightarrow> trimChar d s = s"
proof -
  assume s: "s \<noteq> []" "hd s \<noteq> d" "last s \<noteq> d"
  then have "dropWhile (\<lambda>c. c = d) s = s" "dropWhile (\<lambda>c. c = d) (rev s) = rev s"
    by (simp_all add: dropWhile_eq_self_iff hd_rev)
  then show ?thesis by (simp add: trimChar_def)
qed

text \<open>A label without a double dash is left alone.\<close>

lemma sanitize_id:
  assumes "dns1035 s" and "\<not> stringContains s ''--''"
  shows "SanitizeDNS1035Label s = s"
proof -
  have "hd s \<noteq> CHR ''-''" "\<not> isDigitChar (hd s)" "last s \<noteq> CHR ''-''" "s \<noteq> []"
    using assms(1) by (auto simp: dns1035_def isLowerChar_def isDigitChar_def)
  moreover have "collapseDashes s = s" using assms(2) by (subst collapseDashes.simps) simp
  moreover have "concat (map sanitizeChar s) = s"
    using assms(1) by (simp add: dns1035_def concat_sanitize_id)
  ultimately show ?thesis by (simp add: SanitizeDNS1035Label_eq trimChar_id)
qed

theorem SanitizeDNS1035Label_valid:
  "dns1035 (SanitizeDNS1035Label s) \<and>
   SanitizeDNS1035Label (SanitizeDNS1035Label s) = SanitizeDNS1035Label s"
  using sanitized_dns1035 sanitize_id by blast
section \<open>Selectors find their pods\<close>

interpretation role: labelScheme
  "\<lambda>(n, c, r). SelectorLabelsForRole n c r" "\<lambda>(n, c, r) v. PodLabelsForRole n c v r" "\<lambda>x. x"
proof unfold_locales
  fix a b :: "string \<times> string \<times> string" and v :: string
  obtain n c r n' c' r' where ab: "a = (n, c, r)" "b = (n', c', r')" by (metis prod_cases3)
  show "(\<lambda>(n, c, r) v. PodLabelsForRole n c v r) a v |` (- {labelVersion}) =
      (\<lambda>(n, c, r). SelectorLabelsForRole n c r) a"
    by (rule ext)
      (auto simp: ab PodLabelsForRole_def LabelsForRole_def SelectorLabelsForRole_def restrict_map_def
        Standard_not_version Selector_def)
  show "a = b \<Longrightarrow> (case a of (n, c, r) \<Rightarrow> SelectorLabelsForRole n c r) =
      (case b of (n, c, r) \<Rightarrow> SelectorLabelsForRole n c r)" by simp
  assume le: "selects (case a of (n, c, r) \<Rightarrow> SelectorLabelsForRole n c r)
      (case b of (n, c, r) \<Rightarrow> SelectorLabelsForRole n c r)"
  have "SelectorLabelsForRole n c r k = SelectorLabelsForRole n' c' r' k"
    if "SelectorLabelsForRole n c r k \<noteq> None" for k
    using le that unfolding ab map_le_def by auto
  from this [of labelName] this [of labelComponent] this [of LabelRole]
  show "a = b" by (simp add: ab SelectorLabelsForRole_def)
qed

interpretation epp: labelScheme EPPSelectorLabels EPPLabels EPPName
proof unfold_locales
  fix a b v :: string
  show "EPPLabels a v |` (- {labelVersion}) = EPPSelectorLabels a"
    by (simp add: EPPLabels_def EPPSelectorLabels_def Standard_restrict)
  show "EPPName a = EPPName b \<Longrightarrow> EPPSelectorLabels a = EPPSelectorLabels b"
    by (simp add: EPPSelectorLabels_def)
  assume "selects (EPPSelectorLabels a) (EPPSelectorLabels b)"
  then show "EPPName a = EPPName b"
    using base.sel_separates [of "(EPPName a, ComponentEPP)" "(EPPName b, ComponentEPP)"]
    by (simp add: EPPSelectorLabels_def)
qed

end
