(* ===== verification/ServiceDeployment.thy ===== *)
theory ServiceDeployment
  imports ServiceHelpers
begin

text \<open>
  \<open>internal/modelservice/deployment.go\<close>: the Deployment of a serving role (decode or prefill). Its
  pods unpack the model with an init container, run vLLM, and on decode pods a routing proxy in
  front of it. \<open>quantityString\<close> (\<open>Quantity.String\<close>) is the one library function it depends on.
\<close>

abbreviation defaultMountPath :: string where "defaultMountPath \<equiv> ''/models''"
abbreviation ModelVolumeName :: string where "ModelVolumeName \<equiv> ''model''"
abbreviation ModelTmpVolumeName :: string where "ModelTmpVolumeName \<equiv> ''model-tmp''"
abbreviation ModelTmpMountPath :: string where "ModelTmpMountPath \<equiv> ''/tmp/model-oci''"
abbreviation DockerConfigVolumeName :: string where "DockerConfigVolumeName \<equiv> ''docker-config''"
abbreviation DockerConfigMountPath :: string where "DockerConfigMountPath \<equiv> ''/.docker''"

abbreviation hardenedContext :: securityContext where
  "hardenedContext \<equiv> \<lparr>scAllowPrivilegeEscalation = Some False, scDrop = [''ALL'']\<rparr>"

section \<open>Ports and paths\<close>

definition enginePort :: "modelService \<Rightarrow> int32" where
  "enginePort ms = (if 0 <s enPort (msEngine (msSp ms)) then enPort (msEngine (msSp ms)) else 8000)"

definition routingProxyTargetPort :: "modelService \<Rightarrow> int32" where
  "routingProxyTargetPort ms =
     (case msRoutingProxy (msSp ms) of
        Some p \<Rightarrow> (if 0 <s rpTargetPort p then rpTargetPort p else 8200)
      | None \<Rightarrow> 8200)"

definition mountPathOf :: "modelService \<Rightarrow> string" where
  "mountPathOf ms =
     (if mdMountPath (msModel (msSp ms)) = '''' then defaultMountPath else mdMountPath (msModel (msSp ms)))"

section \<open>The vLLM container\<close>

definition buildVLLMArgs :: "modelService \<Rightarrow> roleSpec \<Rightarrow> int32 \<Rightarrow> string list" where
  "buildVLLMArgs ms role vllmPort =
     (let tensor = max32 (paTensor (roParallelism role)) 1;
          data = max32 (paData (roParallelism role)) 1;
          dataLocal = max32 (paDataLocal (roParallelism role)) 1
      in [mountPathOf ms, ''--port'', showInt32 vllmPort,
          ''--served-model-name'', mdName (msModel (msSp ms))] @
         (if 1 <s tensor then [''--tensor-parallel-size'', showInt32 tensor] else []) @
         (if 1 <s data then [''--data-parallel-size'', showInt32 data] else []) @
         (if 1 <s dataLocal then [''--data-parallel-size-local'', showInt32 dataLocal] else []) @
         enArgs (msEngine (msSp ms)))"

definition buildVLLMEnv :: "modelService \<Rightarrow> roleSpec \<Rightarrow> envVar list" where
  "buildVLLMEnv ms role =
     [envValue ''TP_SIZE'' (showInt32 (max32 (paTensor (roParallelism role)) 1)),
      envValue ''DP_SIZE'' (showInt32 (max32 (paData (roParallelism role)) 1)),
      envValue ''DP_SIZE_LOCAL'' (showInt32 (max32 (paDataLocal (roParallelism role)) 1))] @
     enEnv (msEngine (msSp ms))"

text \<open>
  The NIXL side channel: the first variable of that name, if its value is a number in the range
  of a port; 0 stands for none. The conversion \<open>int32(p)\<close> is exact there.
\<close>

definition nixlPort :: "envVar list \<Rightarrow> int32" where
  "nixlPort env =
     (case find (\<lambda>e. evName e = ''VLLM_NIXL_SIDE_CHANNEL_PORT'') env of
        None \<Rightarrow> 0
      | Some e \<Rightarrow>
          (case parseInt32 (evValue e) of
             None \<Rightarrow> 0
           | Some p \<Rightarrow> (if 0 < p \<and> p \<le> 65535 then word_of_int p else 0)))"

definition addNixlPort :: "int32 \<Rightarrow> containerPort list \<Rightarrow> containerPort list" where
  "addNixlPort nixl ports =
     (if nixl = 0 \<or> list_ex (\<lambda>p. cpPort p = nixl \<and> cpProtocol p = ''TCP'') ports then ports
      else ports @ [\<lparr>cpName = ''nixl-side'', cpPort = nixl, cpProtocol = ''TCP''\<rparr>])"

definition buildVLLMContainer ::
  "(quantity \<Rightarrow> string) \<Rightarrow> modelService \<Rightarrow> roleSpec \<Rightarrow> bool \<Rightarrow> container" where
  "buildVLLMContainer quantityString ms role isDecodeRole =
     (let vllmPort = (if isDecodeRole \<and> msRoutingProxy (msSp ms) \<noteq> None
                      then routingProxyTargetPort ms else enginePort ms)
      in containerZero\<lparr>ctName := ''vllm'',
           ctImage := enImage (msEngine (msSp ms)),
           ctImagePullPolicy := enImagePullPolicy (msEngine (msSp ms)),
           ctCommand := [''vllm'', ''serve''],
           ctArgs := buildVLLMArgs ms role vllmPort,
           ctEnv := buildVLLMEnv ms role,
           ctPorts := addNixlPort (nixlPort (enEnv (msEngine (msSp ms))))
             [\<lparr>cpName = ''http'', cpPort = vllmPort, cpProtocol = ''TCP''\<rparr>],
           ctVolumeMounts := [\<lparr>vmName = ModelVolumeName, vmMountPath = mountPathOf ms, vmReadOnly = True\<rparr>],
           ctResources := InjectGPUResources quantityString (roResources role)
             (msAccelerator (msSp ms)) (GPUCount (roParallelism role)),
           ctSecurityContext := Some hardenedContext\<rparr>)"

section \<open>The init containers\<close>

definition modelUnpackScript :: string where
  "modelUnpackScript = concat (map (\<lambda>l. l @ [CHR 0x0A])
     [''set -euo pipefail'',
      ''export KITOPS_HOME=\"${KITOPS_HOME:-/tmp/model-oci}\"'',
      ''mkdir -p \"$KITOPS_HOME\"'',
      ''kit unpack \"$OCI_MODEL_IMAGE\" --plain-http -o -d \"$MODEL_MOUNT_PATH\"''])"

definition buildModelUnpackInitContainer :: "modelService \<Rightarrow> string \<Rightarrow> string \<Rightarrow> container option" where
  "buildModelUnpackInitContainer ms mountPath kitImage =
     (if kitImage = '''' \<or> mdImage (msModel (msSp ms)) = '''' then None
      else
        (let secrets = (mdImagePullSecrets (msModel (msSp ms)) \<noteq> [])
         in Some (containerZero\<lparr>ctName := ''model-unpack'', ctImage := kitImage,
              ctCommand := [''/bin/sh'', ''-c''],
              ctArgs := [modelUnpackScript],
              ctEnv :=
                [envValue ''OCI_MODEL_IMAGE'' (mdImage (msModel (msSp ms))),
                 envValue ''MODEL_MOUNT_PATH'' mountPath,
                 envValue ''KITOPS_HOME'' ModelTmpMountPath] @
                (if secrets then [envValue ''DOCKER_CONFIG'' DockerConfigMountPath] else []),
              ctVolumeMounts :=
                [\<lparr>vmName = ModelTmpVolumeName, vmMountPath = ModelTmpMountPath, vmReadOnly = False\<rparr>,
                 \<lparr>vmName = ModelVolumeName, vmMountPath = mountPath, vmReadOnly = False\<rparr>] @
                (if secrets
                 then [\<lparr>vmName = DockerConfigVolumeName, vmMountPath = DockerConfigMountPath,
                        vmReadOnly = True\<rparr>] else []),
              ctSecurityContext := Some hardenedContext\<rparr>)))"

definition proxyArgs :: "modelService \<Rightarrow> routingProxySpec \<Rightarrow> string list" where
  "proxyArgs ms proxy =
     [''--port'', showInt32 (enginePort ms),
      ''--vllm-port'', showInt32 (routingProxyTargetPort ms),
      ''--connector'', rpConnector proxy] @
     (if rpZapEncoder proxy \<noteq> '''' then [''--zap-encoder'', rpZapEncoder proxy] else []) @
     (if rpZapLogLevel proxy \<noteq> '''' then [''--zap-log-level'', rpZapLogLevel proxy] else []) @
     [''--secure-proxy='' @ showBool (rpSecureProxy proxy = Some True)] @
     (case rpPrefillerUseTLS proxy of
        Some b \<Rightarrow> [''--prefiller-use-tls='' @ showBool b] | None \<Rightarrow> []) @
     (if rpCertPath proxy \<noteq> '''' then [''--cert-path'', rpCertPath proxy] else [])"

definition proxyEnv :: "tracingConfig \<Rightarrow> envVar list" where
  "proxyEnv tracing =
     (if tcEnabled tracing then
        [envValue ''OTEL_SERVICE_NAME'' ''llm-d-routing-sidecar'',
         envValue ''OTEL_EXPORTER_OTLP_ENDPOINT'' (tcOtelExporterEndpoint tracing),
         envValue ''OTEL_TRACES_EXPORTER'' ''otlp''] @
        (if tcSampler tracing \<noteq> '''' then [envValue ''OTEL_TRACES_SAMPLER'' (tcSampler tracing)] else []) @
        (if tcSamplerArg tracing \<noteq> ''''
         then [envValue ''OTEL_TRACES_SAMPLER_ARG'' (tcSamplerArg tracing)] else [])
      else [])"

definition proxyContainer :: "modelService \<Rightarrow> routingProxySpec \<Rightarrow> tracingConfig \<Rightarrow> container" where
  "proxyContainer ms proxy tracing =
     containerZero\<lparr>ctName := ''routing-proxy'', ctImage := rpImage proxy,
       ctArgs := proxyArgs ms proxy, ctEnv := proxyEnv tracing,
       ctPorts := [\<lparr>cpName = ''proxy'', cpPort = enginePort ms, cpProtocol = ''TCP''\<rparr>],
       ctRestartPolicy := Some ''Always'',
       ctSecurityContext := Some hardenedContext\<rparr>"

definition buildInitContainers :: "modelService \<Rightarrow> bool \<Rightarrow> tracingConfig \<Rightarrow> string \<Rightarrow> container list" where
  "buildInitContainers ms isDecodeRole tracing kitImage =
     (let inits = (case buildModelUnpackInitContainer ms (mountPathOf ms) kitImage of
                     None \<Rightarrow> [] | Some c \<Rightarrow> [c])
      in case msRoutingProxy (msSp ms) of
           None \<Rightarrow> inits
         | Some proxy \<Rightarrow>
             (if \<not> isDecodeRole then inits
              else inits @ [proxyContainer ms proxy tracing]))"

section \<open>The Deployment\<close>

definition buildVolumes :: "modelService \<Rightarrow> volume list" where
  "buildVolumes ms =
     [\<lparr>volName = ModelVolumeName, volSource = EmptyDir\<rparr>,
      \<lparr>volName = ModelTmpVolumeName, volSource = EmptyDir\<rparr>] @
     (case mdImagePullSecrets (msModel (msSp ms)) of
        [] \<Rightarrow> []
      | s # _ \<Rightarrow> [\<lparr>volName = DockerConfigVolumeName,
                   volSource = SecretSource s [(''.dockerconfigjson'', ''config.json'')]\<rparr>])"

definition BuildDeployment ::
  "(quantity \<Rightarrow> string) \<Rightarrow> modelService \<Rightarrow> roleSpec \<Rightarrow> string \<Rightarrow> string \<Rightarrow> labels \<Rightarrow> labels \<Rightarrow> labels \<Rightarrow>
     tracingConfig \<Rightarrow> string \<Rightarrow> deployment" where
  "BuildDeployment quantityString ms role roleName deployName podLabels metadataLabels
     selectorLabels tracing kitImage =
     (let isDecodeRole = (roleName = RoleDecode)
      in \<lparr>ometa = metaZero\<lparr>mName := deployName, mNamespace := objNamespace ms, mLabels := metadataLabels\<rparr>,
          obody = \<lparr>depSpec =
            \<lparr>dsReplicas = Some (DefaultReplicas (roReplicas role)),
             dsSelector = selectorLabels,
             dsStrategyType = '''',
             dsTemplate = \<lparr>ptLabels = podLabels, ptAnnotations = roAnnotations role,
               ptSpec = podSpecZero\<lparr>
                 psInitContainers := buildInitContainers ms isDecodeRole tracing kitImage,
                 psContainers := [buildVLLMContainer quantityString ms role isDecodeRole],
                 psVolumes := buildVolumes ms,
                 psImagePullSecrets := mdImagePullSecrets (msModel (msSp ms)),
                 psAutomountServiceAccountToken := Some False,
                 psSecurityContext := Some \<lparr>pscRunAsNonRoot = Some True, pscFSGroup = None,
                   pscSeccompProfile = Some ''RuntimeDefault''\<rparr>,
                 psNodeSelector := roNodeSelector role,
                 psTolerations := roTolerations role\<rparr>\<rparr>\<rparr>,
            depStatus = deploymentStatZero\<rparr>\<rparr>)"

section \<open>Properties\<close>

lemma buildVLLMContainer_simps [simp]:
  "ctSecurityContext (buildVLLMContainer q ms role d) = Some hardenedContext"
  "ctVolumeMounts (buildVLLMContainer q ms role d) =
     [\<lparr>vmName = ModelVolumeName, vmMountPath = mountPathOf ms, vmReadOnly = True\<rparr>]"
  "ctImage (buildVLLMContainer q ms role d) = enImage (msEngine (msSp ms))"
  "ctResources (buildVLLMContainer q ms role d) = InjectGPUResources q (roResources role)
     (msAccelerator (msSp ms)) (GPUCount (roParallelism role))"
  "ctPorts (buildVLLMContainer q ms role d) = addNixlPort (nixlPort (enEnv (msEngine (msSp ms))))
     [\<lparr>cpName = ''http'',
       cpPort = (if d \<and> msRoutingProxy (msSp ms) \<noteq> None then routingProxyTargetPort ms else enginePort ms),
       cpProtocol = ''TCP''\<rparr>]"
  by (simp_all add: buildVLLMContainer_def Let_def containerZero_def)

lemma proxyContainer_simps [simp]:
  "ctSecurityContext (proxyContainer ms proxy tr) = Some hardenedContext"
  "ctVolumeMounts (proxyContainer ms proxy tr) = []"
  "ctPorts (proxyContainer ms proxy tr) =
     [\<lparr>cpName = ''proxy'', cpPort = enginePort ms, cpProtocol = ''TCP''\<rparr>]"
  "ctArgs (proxyContainer ms proxy tr) = proxyArgs ms proxy"
  by (simp_all add: proxyContainer_def containerZero_def)

lemma buildInitContainers_proxy:
  "msRoutingProxy (msSp ms) = Some proxy \<Longrightarrow>
     \<exists>inits. buildInitContainers ms True tr kit = inits @ [proxyContainer ms proxy tr]"
  by (simp add: buildInitContainers_def Let_def)

lemma BuildDeployment_simps [simp]:
  "objNamespace (BuildDeployment q ms role rn dn pl ml sl tr kit) = objNamespace ms"
  "objName (BuildDeployment q ms role rn dn pl ml sl tr kit) = dn"
  "objLabels (BuildDeployment q ms role rn dn pl ml sl tr kit) = ml"
  "depPodLabels (BuildDeployment q ms role rn dn pl ml sl tr kit) = pl"
  "dsSelector (depSpec (obody (BuildDeployment q ms role rn dn pl ml sl tr kit))) = sl"
  "psContainers (depPodSpec (BuildDeployment q ms role rn dn pl ml sl tr kit)) =
     [buildVLLMContainer q ms role (rn = RoleDecode)]"
  "psInitContainers (depPodSpec (BuildDeployment q ms role rn dn pl ml sl tr kit)) =
     buildInitContainers ms (rn = RoleDecode) tr kit"
  "psVolumes (depPodSpec (BuildDeployment q ms role rn dn pl ml sl tr kit)) = buildVolumes ms"
  "psAutomountServiceAccountToken (depPodSpec (BuildDeployment q ms role rn dn pl ml sl tr kit)) = Some False"
  "mOwnerReferences (ometa (BuildDeployment q ms role rn dn pl ml sl tr kit)) = []"
  by (simp_all add: BuildDeployment_def Let_def metaZero_def podSpecZero_def)

lemma addNixlPort_keeps: "set ports \<subseteq> set (addNixlPort n ports)"
  by (auto simp: addNixlPort_def)

lemma addNixlPort_adds: "n \<noteq> 0 \<Longrightarrow> \<exists>p \<in> set (addNixlPort n ports). cpPort p = n \<and> cpProtocol p = ''TCP''"
  by (auto simp: addNixlPort_def list_ex_iff)

lemma serving_mounts: "mountsResolved (depPodSpec (BuildDeployment q ms role rn dn pl ml sl tr kit))"
  by (simp add: mountsResolved_def buildVolumes_def buildInitContainers_def buildModelUnpackInitContainer_def
      Let_def containerZero_def split: option.split list.split)

theorem serving_pod_wiring:
  "(let p = depPodSpec (BuildDeployment q ms role rn dn pl ml sl tr kit)
    in mountsResolved p \<and>
       (\<forall>c \<in> set (psInitContainers p @ psContainers p). hardened c) \<and>
       psAutomountServiceAccountToken p = Some False \<and>
       (\<forall>c \<in> set (psContainers p). \<forall>m \<in> set (ctVolumeMounts c). vmReadOnly m))"
  using serving_mounts [of q ms role rn dn pl ml sl tr kit]
  by (simp add: Let_def hardened_def buildInitContainers_def buildModelUnpackInitContainer_def
      containerZero_def split: option.split)

definition listensOn :: "int32 \<Rightarrow> container \<Rightarrow> bool" where
  "listensOn n c \<longleftrightarrow> list_ex (\<lambda>p. cpPort p = n \<and> cpProtocol p = ''TCP'') (ctPorts c)"

text \<open>\<open>argPair f v args\<close>: the flag \<open>f\<close> followed by the value \<open>v\<close>.\<close>

definition argPair :: "string \<Rightarrow> string \<Rightarrow> string list \<Rightarrow> bool" where
  "argPair f v args \<longleftrightarrow> sublist [f, v] args"

text \<open>The port vLLM listens on: behind the proxy on decode pods, the engine port elsewhere.\<close>

definition vllmPortOf :: "modelService \<Rightarrow> bool \<Rightarrow> int32" where
  "vllmPortOf ms isDecodeRole =
     (if isDecodeRole \<and> msRoutingProxy (msSp ms) \<noteq> None then routingProxyTargetPort ms else enginePort ms)"

lemma vllm_listens: "listensOn (vllmPortOf ms d) (buildVLLMContainer q ms role d)"
proof -
  let ?p = "\<lparr>cpName = ''http'', cpPort = vllmPortOf ms d, cpProtocol = ''TCP''\<rparr>"
  let ?ps = "addNixlPort (nixlPort (enEnv (msEngine (msSp ms)))) [?p]"
  have "?p \<in> set ?ps" using addNixlPort_keeps [of "[?p]"] by (meson in_mono list.set_intros(1))
  moreover have "ctPorts (buildVLLMContainer q ms role d) = ?ps" by (simp add: vllmPortOf_def)
  ultimately show ?thesis by (simp add: listensOn_def list_ex_iff bexI [of _ ?p])
qed

theorem engine_port_is_served:
  "(let p = depPodSpec (BuildDeployment q ms role rn dn pl ml sl tr kit)
    in list_ex (listensOn (enginePort ms)) (psInitContainers p @ psContainers p) \<and>
       0 <s enginePort ms)"
proof -
  have port: "0 <s enginePort ms" by (simp add: enginePort_def word_sless_alt)
  let ?v = "buildVLLMContainer q ms role (rn = RoleDecode)"
  show ?thesis
  proof (cases "rn = RoleDecode \<and> msRoutingProxy (msSp ms) \<noteq> None")
    case True
    then obtain proxy inits where rn: "rn = RoleDecode"
      and "buildInitContainers ms True tr kit = inits @ [proxyContainer ms proxy tr]"
      using buildInitContainers_proxy by blast
    moreover have "listensOn (enginePort ms) (proxyContainer ms proxy tr)"
      by (simp add: listensOn_def)
    ultimately show ?thesis using port by (simp add: Let_def)
  next
    case False
    then have "listensOn (enginePort ms) ?v"
      using vllm_listens [of ms "rn = RoleDecode" q role] by (simp add: vllmPortOf_def split: if_splits)
    with port show ?thesis by (simp add: Let_def)
  qed
qed

lemma argPair_at: "args = pre @ f # v # post \<Longrightarrow> argPair f v args"
  unfolding argPair_def sublist_def by (rule exI [of _ pre], rule exI [of _ post]) simp


lemma find_first: "find P xs = Some x \<Longrightarrow> x \<in> set xs \<and> P x"
  by (auto simp: find_Some_iff)

theorem nixl_port_is_exposed:
  assumes "find (\<lambda>e. evName e = ''VLLM_NIXL_SIDE_CHANNEL_PORT'') (enEnv (msEngine (msSp ms))) =
      Some (envValue ''VLLM_NIXL_SIDE_CHANNEL_PORT'' (showInt32 n))"
    and "0 < sint n" and "sint n \<le> 65535"
  shows "listensOn n (buildVLLMContainer q ms role d) \<and>
     envValue ''VLLM_NIXL_SIDE_CHANNEL_PORT'' (showInt32 n) \<in> set (ctEnv (buildVLLMContainer q ms role d))"
proof -
  have "nixlPort (enEnv (msEngine (msSp ms))) = n"
    using assms by (simp add: nixlPort_def parseInt32_showInt32)
  moreover have "n \<noteq> 0" using assms(2) by auto
  ultimately have "listensOn n (buildVLLMContainer q ms role d)"
    using addNixlPort_adds [of n] by (auto simp: listensOn_def list_ex_iff)
  moreover have "envValue ''VLLM_NIXL_SIDE_CHANNEL_PORT'' (showInt32 n) \<in> set (ctEnv (buildVLLMContainer q ms role d))"
    using find_first [OF assms(1)] by (simp add: buildVLLMContainer_def Let_def buildVLLMEnv_def)
  ultimately show ?thesis ..
qed

text \<open>
  C29: When tensor times local data parallelism fits 32 bits, the requested and the limiting
  number of GPUs of the accelerator is exactly this product, and no other resource changes.
\<close>

theorem gpu_request_matches_parallelism:
  assumes "GPUResourceName accel \<noteq> ''''"
    and "max (sint (paTensor p)) 1 * max (sint (paDataLocal p)) 1 < 2 ^ 31"
  shows "(let res' = InjectGPUResources q res accel (GPUCount p);
              n = MustParse (q (NewQuantity (word_of_int (max (sint (paTensor p)) 1 * max (sint (paDataLocal p)) 1))))
          in Option.bind (rrLimits res') (\<lambda>m. m (GPUResourceName accel)) = Some n \<and>
             Option.bind (rrRequests res') (\<lambda>m. m (GPUResourceName accel)) = Some n \<and>
             (\<forall>k. k \<noteq> GPUResourceName accel \<longrightarrow>
                Option.bind (rrLimits res') (\<lambda>m. m k) = Option.bind (rrLimits res) (\<lambda>m. m k) \<and>
                Option.bind (rrRequests res') (\<lambda>m. m k) = Option.bind (rrRequests res) (\<lambda>m. m k)))"
proof -
  let ?a = "max32 (paTensor p) 1" and ?b = "max32 (paDataLocal p) 1"
  have a: "1 \<le> sint ?a" "1 \<le> sint ?b" by (simp_all add: sint_max32)
  then have "1 * 1 \<le> sint ?a * sint ?b" by (intro mult_mono) auto
  with a assms(2) have count: "sint (GPUCount p) = max (sint (paTensor p)) 1 * max (sint (paDataLocal p)) 1"
    by (simp add: GPUCount_def sint_mult_no_overflow sint_max32)
  with \<open>1 * 1 \<le> sint ?a * sint ?b\<close> have "GPUCount p \<noteq> 0" by (auto simp: sint_max32)
  moreover have "accel \<noteq> AcceleratorCPU" using assms(1) by (auto simp: GPUResourceName_def)
  moreover have "(scast (GPUCount p) :: int64) = word_of_int (max (sint (paTensor p)) 1 * max (sint (paDataLocal p)) 1)"
    by (simp add: count [symmetric])
  ultimately show ?thesis
    using assms(1) by (simp add: InjectGPUResources_def setResource_def Let_def intToString_def split: option.split)
qed

section \<open>An example\<close>

definition exampleRole :: roleSpec where
  "exampleRole = \<lparr>roReplicas = Some 2,
     roParallelism = \<lparr>paTensor = 4, paData = 0, paDataLocal = 2\<rparr>,
     roResources = resourcesZero, roNodeSelector = Map.empty, roTolerations = [],
     roAnnotations = Map.empty\<rparr>"

definition exampleMS :: modelService where
  "exampleMS =
     \<lparr>ometa = metaZero\<lparr>mName := ''qwen'', mNamespace := ''ml'', mUID := ''u2'', mGeneration := 1\<rparr>,
      obody = \<lparr>msSpecOf =
        \<lparr>msModel = \<lparr>mdName = ''qwen3'', mdImage = ''ghcr.io/m/qwen3:1'', mdMountPath = '''',
           mdImagePullSecrets = [''reg'']\<rparr>,
         msEngine = \<lparr>enImage = '''', enImagePullPolicy = '''', enPort = 0, enArgs = [],
           enEnv = [envValue ''VLLM_NIXL_SIDE_CHANNEL_PORT'' ''5600'']\<rparr>,
         msAccelerator = AcceleratorNvidia,
         msDecode = exampleRole, msPrefill = Some exampleRole,
         msRoutingProxy = Some \<lparr>rpImage = '''', rpTargetPort = 0, rpConnector = ''nixlv2'',
           rpZapEncoder = '''', rpZapLogLevel = '''', rpSecureProxy = None,
           rpPrefillerUseTLS = Some False, rpCertPath = ''''\<rparr>,
         msInferencePool = Some \<lparr>ipsEndpointPicker = \<lparr>epImage = '''', epReplicas = Some 2,
           epPort = 0, epResources = resourcesZero, epFailureMode = ''''\<rparr>\<rparr>,
         msHTTPRoute = None, msMonitoring = None\<rparr>,
       msStatusOf = \<lparr>mssPhase = ModelServiceUnset, mssObservedGeneration = 0, mssDecodeReady = 0,
         mssDecodeReplicas = 0, mssPrefillReady = 0, mssPrefillReplicas = 0,
         mssConditions = []\<rparr>\<rparr>\<rparr>"

definition exampleTracing :: tracingConfig where
  "exampleTracing = \<lparr>tcEnabled = False, tcOtelExporterEndpoint = '''', tcSampler = '''', tcSamplerArg = ''''\<rparr>"

lemma show_5600: "showInt32 5600 = ''5600''"
  by (simp add: showInt32_def showInt_def showNat.simps digitChar_def)

theorem serving_pod_wiring_witness:
  "hardened (buildVLLMContainer (\<lambda>q. ''8'') exampleMS exampleRole True) \<and>
   psVolumes (depPodSpec (BuildDeployment (\<lambda>q. ''8'') exampleMS exampleRole RoleDecode ''qwen-decode''
     Map.empty Map.empty Map.empty exampleTracing ''kit'')) \<noteq> []"
  using serving_pod_wiring [of "\<lambda>q. ''8''" exampleMS exampleRole RoleDecode "''qwen-decode''"
      Map.empty Map.empty Map.empty exampleTracing "''kit''"]
  by (simp add: Let_def buildVolumes_def)


theorem nixl_port_is_exposed_witness:
  "listensOn 5600 (buildVLLMContainer (\<lambda>q. ''8'') exampleMS exampleRole False)"
proof -
  have "find (\<lambda>e. evName e = ''VLLM_NIXL_SIDE_CHANNEL_PORT'') (enEnv (msEngine (msSp exampleMS))) =
      Some (envValue ''VLLM_NIXL_SIDE_CHANNEL_PORT'' (showInt32 5600))"
    by (simp add: exampleMS_def show_5600)
  from nixl_port_is_exposed [OF this] show ?thesis by simp
qed

theorem gpu_request_matches_parallelism_witness:
  "Option.bind (rrLimits (InjectGPUResources (\<lambda>q. ''8'') resourcesZero AcceleratorNvidia
     (GPUCount (roParallelism exampleRole)))) (\<lambda>m. m ''nvidia.com/gpu'') = Some (MustParse ''8'')"
  using gpu_request_matches_parallelism [of AcceleratorNvidia "roParallelism exampleRole" "\<lambda>q. ''8''" resourcesZero]
  by (simp add: GPUResourceName_def exampleRole_def Let_def)

end
