(* ===== verification/ServiceEPP.thy ===== *)
theory ServiceEPP
  imports ServiceDeployment
begin

text \<open>
  The endpoint picker (EPP) of a ModelService: \<open>epp_deployment.go\<close>, \<open>epp_configmap.go\<close>,
  \<open>epp_service.go\<close>, \<open>epp_serviceaccount.go\<close>, \<open>epp_secret.go\<close>, \<open>epp_rbac.go\<close>,
  \<open>epp_cluster_rbac.go\<close> and \<open>epp_service_monitor.go\<close> of \<open>internal/modelservice\<close>. \<open>sha256\<close> is the
  library hash of a byte string. A builder that dereferences \<open>spec.inferencePool\<close> takes the
  endpoint picker spec as an argument: its callers guarantee that the pointer is not nil.
\<close>

abbreviation eppMetricsPort :: int32 where "eppMetricsPort \<equiv> 9090"
abbreviation eppExtProcPortName :: string where "eppExtProcPortName \<equiv> ''grpc-ext-proc''"
abbreviation eppMetricsPortName :: string where "eppMetricsPortName \<equiv> ''http-metrics''"
abbreviation eppHealthPortName :: string where "eppHealthPortName \<equiv> ''grpc-health''"
abbreviation eppConfigVolume :: string where "eppConfigVolume \<equiv> ''epp-config''"
abbreviation eppConfigMountPath :: string where "eppConfigMountPath \<equiv> ''/config''"
abbreviation PoolGroupAPIGroup :: string where "PoolGroupAPIGroup \<equiv> ''inference.networking.k8s.io''"
abbreviation DefaultEPPExtProcPort :: int32 where "DefaultEPPExtProcPort \<equiv> 9002"

definition textLines :: "string list \<Rightarrow> string" where
  "textLines ls = concat (map (\<lambda>l. l @ [CHR 0x0A]) ls)"

section \<open>Plugin configuration\<close>

abbreviation DefaultPluginsConfigFile :: string where
  "DefaultPluginsConfigFile \<equiv> ''default-plugins.yaml''"
abbreviation PDPluginsConfigFile :: string where "PDPluginsConfigFile \<equiv> ''pd-config.yaml''"

definition defaultPluginsConfig :: string where
  "defaultPluginsConfig = textLines
     [''apiVersion: inference.networking.x-k8s.io/v1alpha1'',
      ''kind: EndpointPickerConfig'',
      ''plugins:'',
      ''- type: queue-scorer'',
      ''- type: kv-cache-utilization-scorer'',
      ''- type: prefix-cache-scorer'',
      ''schedulingProfiles:'',
      ''- name: default'',
      ''  plugins:'',
      ''  - pluginRef: queue-scorer'',
      ''    weight: 2'',
      ''  - pluginRef: kv-cache-utilization-scorer'',
      ''    weight: 2'',
      ''  - pluginRef: prefix-cache-scorer'',
      ''    weight: 3'']"

definition pdPluginsConfig :: string where
  "pdPluginsConfig = textLines
     [''apiVersion: inference.networking.x-k8s.io/v1alpha1'',
      ''kind: EndpointPickerConfig'',
      ''featureGates:'',
      ''- prepareDataPlugins'',
      ''plugins:'',
      ''- type: prefill-header-handler'',
      ''- type: prefix-cache-scorer'',
      ''  parameters:'',
      ''    maxPrefixBlocksToMatch: 256'',
      ''    lruCapacityPerServer: 31250'',
      ''- type: queue-scorer'',
      ''- type: prefill-filter'',
      ''- type: decode-filter'',
      ''- type: max-score-picker'',
      ''- type: prefix-based-pd-decider'',
      ''  parameters:'',
      ''    nonCachedTokens: 16'',
      ''- type: pd-profile-handler'',
      ''  parameters:'',
      ''    primaryPort: 0'',
      ''    deciderPluginName: prefix-based-pd-decider'',
      ''schedulingProfiles:'',
      ''- name: prefill'',
      ''  plugins:'',
      ''  - pluginRef: prefill-filter'',
      ''  - pluginRef: max-score-picker'',
      ''  - pluginRef: prefix-cache-scorer'',
      ''    weight: 2'',
      ''  - pluginRef: queue-scorer'',
      ''    weight: 1'',
      ''- name: decode'',
      ''  plugins:'',
      ''  - pluginRef: decode-filter'',
      ''  - pluginRef: max-score-picker'',
      ''  - pluginRef: prefix-cache-scorer'',
      ''    weight: 2'',
      ''  - pluginRef: queue-scorer'',
      ''    weight: 1'']"

definition PluginsConfigFile :: "modelService \<Rightarrow> string" where
  "PluginsConfigFile ms =
     (if msPrefill (msSp ms) \<noteq> None then PDPluginsConfigFile else DefaultPluginsConfigFile)"

text \<open>The map \<open>data\<close> has one entry, so its list form has no order to choose.\<close>

definition BuildEPPConfigMap :: "modelService \<Rightarrow> labels \<Rightarrow> configMap" where
  "BuildEPPConfigMap ms metadataLabels =
     \<lparr>ometa = metaZero\<lparr>mName := EPPConfigMapName (objName ms), mNamespace := objNamespace ms,
        mLabels := metadataLabels\<rparr>,
      obody = \<lparr>cmData =
        (if msPrefill (msSp ms) \<noteq> None then [(PDPluginsConfigFile, pdPluginsConfig)]
         else [(DefaultPluginsConfigFile, defaultPluginsConfig)])\<rparr>\<rparr>"

definition ConfigMapHash :: "(string \<Rightarrow> string) \<Rightarrow> modelService \<Rightarrow> string" where
  "ConfigMapHash sha256 ms =
     (let data = sort_key fst (cmData (obody (BuildEPPConfigMap ms Map.empty)))
      in showHex (sha256 (concat (map (\<lambda>(k, v). k @ v) data))))"

section \<open>The Deployment\<close>

definition buildEPPArgs ::
  "string \<Rightarrow> string \<Rightarrow> string \<Rightarrow> int32 \<Rightarrow> int32 \<Rightarrow> eppConfig \<Rightarrow> string list" where
  "buildEPPArgs poolName namespace pluginsConfigFile extProcPort replicas cfg =
     [''--pool-name='' @ poolName, ''--pool-namespace='' @ namespace,
      ''--pool-group='' @ PoolGroupAPIGroup,
      ''--config-file='' @ eppConfigMountPath @ ''/'' @ pluginsConfigFile,
      ''--grpc-port='' @ showInt32 extProcPort, ''--zap-encoder=json''] @
     (if 1 <s replicas then [''--ha-enable-leader-election''] else []) @
     (if tcEnabled (ecTracing cfg) then [''--tracing=true''] else [''--tracing=false'']) @
     (if \<not> ecMetricsEndpointAuth cfg then [''--metrics-endpoint-auth=false''] else []) @
     map (\<lambda>k. ''--'' @ k @ ''='' @ (case map_of (ecFlags cfg) k of Some v \<Rightarrow> v | None \<Rightarrow> ''''))
       (sort (map fst (ecFlags cfg)))"

definition buildEPPEnv :: "eppConfig \<Rightarrow> envVar list" where
  "buildEPPEnv cfg =
     (let tr = ecTracing cfg
      in [envFrom ''NAMESPACE'' (FieldRef '''' ''metadata.namespace''),
          envFrom ''POD_NAME'' (FieldRef '''' ''metadata.name'')] @
         (if tcEnabled tr then
            [envValue ''OTEL_SERVICE_NAME'' ''gateway-api-inference-extension'',
             envValue ''OTEL_EXPORTER_OTLP_ENDPOINT'' (tcOtelExporterEndpoint tr),
             envValue ''OTEL_TRACES_EXPORTER'' ''otlp'',
             envFrom ''OTEL_RESOURCE_ATTRIBUTES_NODE_NAME'' (FieldRef ''v1'' ''spec.nodeName''),
             envFrom ''OTEL_RESOURCE_ATTRIBUTES_POD_NAME'' (FieldRef ''v1'' ''metadata.name''),
             envValue ''OTEL_RESOURCE_ATTRIBUTES''
               ''k8s.namespace.name=$(NAMESPACE),k8s.node.name=$(OTEL_RESOURCE_ATTRIBUTES_NODE_NAME),k8s.pod.name=$(OTEL_RESOURCE_ATTRIBUTES_POD_NAME)''] @
            (if tcSampler tr \<noteq> '''' then [envValue ''OTEL_TRACES_SAMPLER'' (tcSampler tr)] else []) @
            (if tcSamplerArg tr \<noteq> '''' then [envValue ''OTEL_TRACES_SAMPLER_ARG'' (tcSamplerArg tr)] else [])
          else []))"

definition grpcProbe :: "int32 \<Rightarrow> string \<Rightarrow> int32 \<Rightarrow> int32 \<Rightarrow> probe" where
  "grpcProbe port service initialDelay period =
     \<lparr>prPort = port, prService = (if service \<noteq> '''' then Some service else None),
      prInitialDelaySeconds = initialDelay, prPeriodSeconds = period\<rparr>"

definition defaultEPPResources :: resourceRequirements where
  "defaultEPPResources =
     \<lparr>rrLimits = Some [''memory'' \<mapsto> MustParse ''16Gi''],
      rrRequests = Some [''cpu'' \<mapsto> MustParse ''4'', ''memory'' \<mapsto> MustParse ''8Gi'']\<rparr>"

text \<open>\<open>mergeMaps\<close>: a later map overwrites an earlier one.\<close>

definition mergeMaps :: "labels list \<Rightarrow> labels" where
  "mergeMaps ms = foldl (++) Map.empty ms"

definition eppExtProcPort :: "endpointPickerSpec \<Rightarrow> int32" where
  "eppExtProcPort spec = (if 0 <s epPort spec then epPort spec else 9002)"

definition eppContainer :: "modelService \<Rightarrow> endpointPickerSpec \<Rightarrow> eppConfig \<Rightarrow> container" where
  "eppContainer ms spec cfg =
     (let replicas = (case epReplicas spec of Some r \<Rightarrow> r | None \<Rightarrow> 1);
          resources = (if rrRequests (epResources spec) \<noteq> None \<or> rrLimits (epResources spec) \<noteq> None
                       then epResources spec else defaultEPPResources)
      in containerZero\<lparr>ctName := ''epp'', ctImage := epImage spec, ctImagePullPolicy := ''IfNotPresent'',
           ctArgs := buildEPPArgs (InferencePoolName (objName ms)) (objNamespace ms)
             (PluginsConfigFile ms) (eppExtProcPort spec) replicas cfg,
           ctEnv := buildEPPEnv cfg,
           ctResources := resources,
           ctPorts :=
             [\<lparr>cpName = eppExtProcPortName, cpPort = eppExtProcPort spec, cpProtocol = ''TCP''\<rparr>,
              \<lparr>cpName = eppHealthPortName, cpPort = eppGRPCHealthPort, cpProtocol = ''TCP''\<rparr>,
              \<lparr>cpName = eppMetricsPortName, cpPort = eppMetricsPort, cpProtocol = ''TCP''\<rparr>],
           ctVolumeMounts :=
             [\<lparr>vmName = eppConfigVolume, vmMountPath = eppConfigMountPath, vmReadOnly = True\<rparr>],
           ctReadinessProbe := Some (grpcProbe eppGRPCHealthPort
             (if 1 <s replicas then ''readiness'' else ''inference-extension'') 0 2),
           ctLivenessProbe := Some (grpcProbe eppGRPCHealthPort
             (if 1 <s replicas then ''liveness'' else ''inference-extension'') 5 10),
           ctSecurityContext := Some hardenedContext\<rparr>)"

definition BuildEPPDeployment ::
  "modelService \<Rightarrow> endpointPickerSpec \<Rightarrow> eppConfig \<Rightarrow> labels \<Rightarrow> labels \<Rightarrow> string \<Rightarrow> deployment" where
  "BuildEPPDeployment ms spec cfg metadataLabels selectorLabels configHash =
     (let name = EPPName (objName ms)
      in \<lparr>ometa = metaZero\<lparr>mName := name, mNamespace := objNamespace ms, mLabels := metadataLabels\<rparr>,
          obody = \<lparr>depSpec =
            \<lparr>dsReplicas = (case epReplicas spec of Some r \<Rightarrow> Some r | None \<Rightarrow> Some 1),
             dsSelector = mergeMaps [selectorLabels, [LabelInferencePool \<mapsto> name]],
             dsStrategyType = ''Recreate'',
             dsTemplate =
               \<lparr>ptLabels = mergeMaps [selectorLabels, metadataLabels, [LabelInferencePool \<mapsto> name]],
                ptAnnotations = (if configHash \<noteq> '''' then [''checksum/config'' \<mapsto> configHash] else Map.empty),
                ptSpec = podSpecZero\<lparr>psServiceAccountName := name,
                  psTerminationGracePeriodSeconds := Some 130,
                  psSecurityContext := Some \<lparr>pscRunAsNonRoot = Some True, pscFSGroup = None,
                    pscSeccompProfile = Some ''RuntimeDefault''\<rparr>,
                  psContainers := [eppContainer ms spec cfg],
                  psVolumes := [\<lparr>volName = eppConfigVolume,
                    volSource = ConfigMapSource (EPPConfigMapName (objName ms)) (Some True)\<rparr>]\<rparr>\<rparr>\<rparr>,
            depStatus = deploymentStatZero\<rparr>\<rparr>)"

section \<open>Service, accounts and permissions\<close>

definition BuildEPPService :: "modelService \<Rightarrow> labels \<Rightarrow> labels \<Rightarrow> service" where
  "BuildEPPService ms metadataLabels selectorLabels =
     (let extProcPort = (case msInferencePool (msSp ms) of
            None \<Rightarrow> DefaultEPPExtProcPort
          | Some p \<Rightarrow> (if 0 <s epPort (ipsEndpointPicker p) then epPort (ipsEndpointPicker p)
                       else DefaultEPPExtProcPort))
      in \<lparr>ometa = metaZero\<lparr>mName := EPPNameForService (objName ms), mNamespace := objNamespace ms,
            mLabels := metadataLabels\<rparr>,
          obody = \<lparr>svcSelector = selectorLabels,
            svcPorts =
              [\<lparr>spName = eppExtProcPortName, spPort = extProcPort, spTargetPort = extProcPort,
                spProtocol = ''TCP''\<rparr>,
               \<lparr>spName = eppMetricsPortName, spPort = eppMetricsPort, spTargetPort = eppMetricsPort,
                spProtocol = ''TCP''\<rparr>],
            svcClusterIP = ''''\<rparr>\<rparr>)"

definition BuildEPPServiceAccount :: "modelService \<Rightarrow> labels \<Rightarrow> serviceAccount" where
  "BuildEPPServiceAccount ms metadataLabels =
     \<lparr>ometa = metaZero\<lparr>mName := EPPName (objName ms), mNamespace := objNamespace ms,
        mLabels := metadataLabels\<rparr>,
      obody = \<lparr>saSecrets = []\<rparr>\<rparr>"

definition BuildEPPSATokenSecret :: "modelService \<Rightarrow> labels \<Rightarrow> secret" where
  "BuildEPPSATokenSecret ms metadataLabels =
     \<lparr>ometa = metaZero\<lparr>mName := EPPSecretName (objName ms), mNamespace := objNamespace ms,
        mLabels := metadataLabels,
        mAnnotations := [''kubernetes.io/service-account.name'' \<mapsto> EPPName (objName ms)]\<rparr>,
      obody = \<lparr>secType = ''kubernetes.io/service-account-token'', secData = []\<rparr>\<rparr>"

definition BuildEPPRBAC :: "modelService \<Rightarrow> labels \<Rightarrow> int32 \<Rightarrow> role \<times> roleBinding" where
  "BuildEPPRBAC ms metadataLabels replicas =
     (let name = EPPName (objName ms);
          om = metaZero\<lparr>mName := name, mNamespace := objNamespace ms, mLabels := metadataLabels\<rparr>;
          rules =
            [resourceRule [''''] [''pods''] [''get'', ''watch'', ''list''],
             resourceRule [''inference.networking.x-k8s.io'']
               [''inferenceobjectives'', ''inferencemodelrewrites''] [''get'', ''watch'', ''list''],
             resourceRule [''inference.networking.k8s.io''] [''inferencepools'']
               [''get'', ''watch'', ''list'']] @
            (if 1 <s replicas then
               [resourceRule [''coordination.k8s.io''] [''leases'']
                  [''get'', ''list'', ''watch'', ''create'', ''update'', ''patch'', ''delete''],
                resourceRule [''''] [''events''] [''create'', ''patch'']]
             else [])
      in (\<lparr>ometa = om, obody = \<lparr>roleRules = rules\<rparr>\<rparr>,
          \<lparr>ometa = om, obody = \<lparr>
             bndSubjects = [\<lparr>sbKind = ''ServiceAccount'', sbName = name, sbNamespace = objNamespace ms\<rparr>],
             bndRoleRef = \<lparr>rfAPIGroup = ''rbac.authorization.k8s.io'', rfKind = ''Role'', rfName = name\<rparr>\<rparr>\<rparr>))"

definition BuildEPPClusterRBAC :: "modelService \<Rightarrow> labels \<Rightarrow> role \<times> roleBinding" where
  "BuildEPPClusterRBAC ms metadataLabels =
     (let name = EPPClusterRBACName (objNamespace ms) (objName ms);
          om = metaZero\<lparr>mName := name, mLabels := metadataLabels\<rparr>
      in (\<lparr>ometa = om, obody = \<lparr>roleRules =
            [resourceRule [''authentication.k8s.io''] [''tokenreviews''] [''create''],
             resourceRule [''authorization.k8s.io''] [''subjectaccessreviews''] [''create''],
             \<lparr>prAPIGroups = [], prResources = [], prNonResourceURLs = [''/metrics''], prVerbs = [''get'']\<rparr>]\<rparr>\<rparr>,
          \<lparr>ometa = om, obody = \<lparr>
             bndSubjects = [\<lparr>sbKind = ''ServiceAccount'', sbName = EPPName (objName ms),
                sbNamespace = objNamespace ms\<rparr>],
             bndRoleRef = \<lparr>rfAPIGroup = ''rbac.authorization.k8s.io'', rfKind = ''ClusterRole'',
                rfName = name\<rparr>\<rparr>\<rparr>))"

definition BuildEPPServiceMonitor :: "modelService \<Rightarrow> eppConfig \<Rightarrow> labels \<Rightarrow> serviceMonitor" where
  "BuildEPPServiceMonitor ms cfg metadataLabels =
     \<lparr>ometa = metaZero\<lparr>mName := EPPServiceMonitorName (objName ms), mNamespace := objNamespace ms,
        mLabels := metadataLabels\<rparr>,
      obody = \<lparr>smSelector = EPPSelectorLabels (objName ms),
        smEndpoints = [\<lparr>mePort = eppMetricsPortName, meInterval = ''30s'',
          meAuthorization = (if ecMetricsEndpointAuth cfg
            then Some (EPPSecretName (objName ms), ''token'') else None)\<rparr>]\<rparr>\<rparr>"

end
