(* ===== verification/ServiceRouting.thy ===== *)
theory ServiceRouting
  imports ServiceEPP "HOL-Library.Multiset"
begin

text \<open>
  Routing and monitoring of a ModelService: \<open>inferencepool.go\<close>, \<open>httproute.go\<close>,
  \<open>destination_rule.go\<close> and \<open>podmonitor.go\<close> of \<open>internal/modelservice\<close>.
\<close>

section \<open>InferencePool\<close>

definition BuildDefaultInferencePool :: "modelService \<Rightarrow> labels \<Rightarrow> inferencePool" where
  "BuildDefaultInferencePool ms metadataLabels =
     \<lparr>ometa = metaZero\<lparr>mName := InferencePoolName (objName ms), mNamespace := objNamespace ms,
        mLabels := metadataLabels\<rparr>,
      obody = \<lparr>ipTargetPorts = [enginePort ms],
        ipSelector = InferencePoolSelectorLabels (objName ms),
        ipEndpointPickerRef = \<lparr>eprGroup = Some '''', eprKind = ''Service'', eprName = EPPName (objName ms),
          eprPort = Some 9002, eprFailureMode = ''FailClose''\<rparr>\<rparr>\<rparr>"

definition BuildInferencePool :: "modelService \<Rightarrow> endpointPickerSpec \<Rightarrow> labels \<Rightarrow> inferencePool" where
  "BuildInferencePool ms pool metadataLabels =
     \<lparr>ometa = metaZero\<lparr>mName := InferencePoolName (objName ms), mNamespace := objNamespace ms,
        mLabels := metadataLabels\<rparr>,
      obody = \<lparr>ipTargetPorts = [enginePort ms],
        ipSelector = InferencePoolSelectorLabels (objName ms),
        ipEndpointPickerRef = \<lparr>eprGroup = Some '''', eprKind = ''Service'', eprName = EPPName (objName ms),
          eprPort = Some (if epPort pool = 0 then 9002 else epPort pool),
          eprFailureMode = (if epFailureMode pool = '''' then ''FailClose'' else epFailureMode pool)\<rparr>\<rparr>\<rparr>"

section \<open>HTTPRoute\<close>

abbreviation HeaderOtterScaleModelName :: string where
  "HeaderOtterScaleModelName \<equiv> ''OtterScale-Model-Name''"

definition modelRouteMatch :: "string \<Rightarrow> routeMatch" where
  "modelRouteMatch modelName =
     \<lparr>rmHeaders = [\<lparr>hmType = ''Exact'', hmName = HeaderOtterScaleModelName, hmValue = modelName\<rparr>],
      rmPathType = ''PathPrefix'', rmPathValue = ''/''\<rparr>"

definition poolBackend :: "string \<Rightarrow> backendRef" where
  "poolBackend poolName =
     \<lparr>brGroup = Some ''inference.networking.k8s.io'', brKind = Some ''InferencePool'', brName = poolName\<rparr>"

definition BuildDefaultHTTPRoute :: "modelService \<Rightarrow> labels \<Rightarrow> string \<Rightarrow> string \<Rightarrow> httpRoute" where
  "BuildDefaultHTTPRoute ms metadataLabels gatewayName poolName =
     \<lparr>ometa = metaZero\<lparr>mName := HTTPRouteName (objName ms), mNamespace := objNamespace ms,
        mLabels := metadataLabels\<rparr>,
      obody = \<lparr>hrParentRefs = [\<lparr>prfGroup = Some ''gateway.networking.k8s.io'', prfKind = Some ''Gateway'',
          prfName = gatewayName, prfNamespace = Some ''llm-d''\<rparr>],
        hrHostnames = [],
        hrRules = [\<lparr>rrMatches = [modelRouteMatch (objName ms)],
          rrBackendRefs = [poolBackend poolName]\<rparr>]\<rparr>\<rparr>"

definition BuildHTTPRoute :: "modelService \<Rightarrow> httpRouteSpec \<Rightarrow> labels \<Rightarrow> httpRoute" where
  "BuildHTTPRoute ms route metadataLabels =
     (let gwNamespace = (if htGatewayNamespace route = '''' then objNamespace ms
                         else htGatewayNamespace route)
      in \<lparr>ometa = metaZero\<lparr>mName := HTTPRouteName (objName ms), mNamespace := objNamespace ms,
            mLabels := metadataLabels\<rparr>,
          obody = \<lparr>hrParentRefs = [\<lparr>prfGroup = None, prfKind = None, prfName = htGatewayName route,
              prfNamespace = (if gwNamespace \<noteq> objNamespace ms then Some gwNamespace else None)\<rparr>],
            hrHostnames = htHostnames route,
            hrRules = [\<lparr>rrMatches = [modelRouteMatch (objName ms)],
              rrBackendRefs = [poolBackend (InferencePoolName (objName ms))]\<rparr>]\<rparr>\<rparr>)"

section \<open>DestinationRule and PodMonitor\<close>

definition BuildDestinationRule :: "modelService \<Rightarrow> labels \<Rightarrow> destinationRule" where
  "BuildDestinationRule ms metadataLabels =
     \<lparr>ometa = metaZero\<lparr>mName := EPPName (objName ms), mNamespace := objNamespace ms,
        mLabels := metadataLabels\<rparr>,
      obody = \<lparr>drHost = EPPName (objName ms) @ ''.'' @ objNamespace ms @ ''.svc.cluster.local'',
        drTrafficPolicy = Some \<lparr>tlsMode = ''SIMPLE'', tlsInsecureSkipVerify = Some True\<rparr>,
        drSubsets = [], drExportTo = []\<rparr>\<rparr>"

definition BuildPodMonitor :: "modelService \<Rightarrow> string \<Rightarrow> labels \<Rightarrow> labels \<Rightarrow> podMonitor" where
  "BuildPodMonitor ms roleName selectorLabels metadataLabels =
     (let mon = Option.bind (msMonitoring (msSp ms)) monPodMonitor;
          pick = (\<lambda>f d. case mon of Some m \<Rightarrow> (if f m \<noteq> '''' then f m else d) | None \<Rightarrow> d)
      in \<lparr>ometa = metaZero\<lparr>mName := PodMonitorName (objName ms) roleName, mNamespace := objNamespace ms,
            mLabels := metadataLabels\<rparr>,
          obody = \<lparr>pmSelector = selectorLabels,
            pmEndpoints = [\<lparr>pmePort = Some (pick pmsPortName ''http''),
              pmePath = pick pmsPath ''/metrics'', pmeInterval = pick pmsInterval ''30s'',
              pmeRelabelConfigs = [\<lparr>rcAction = ''replace'',
                rcSourceLabels = [''__meta_kubernetes_pod_label_app_kubernetes_io_name''],
                rcTargetLabel = ''model_service''\<rparr>]\<rparr>]\<rparr>\<rparr>)"

section \<open>Labels and selectors\<close>

lemma mergeMaps_simps [simp]:
  "mergeMaps [a, b] = a ++ b" "mergeMaps [a, b, c] = a ++ b ++ c"
  by (simp_all add: mergeMaps_def)

text \<open>
  C31: The selector of an InferencePool matches the serving pods of its own service, of every
  role and version, and no pods of another service.
\<close>

theorem pool_selects_exactly_the_service:
  "selects (InferencePoolSelectorLabels n) (PodLabelsForRole n' c v r) \<longleftrightarrow> n = n'"
proof
  assume le: "selects (InferencePoolSelectorLabels n) (PodLabelsForRole n' c v r)"
  have "InferencePoolSelectorLabels n LabelModel = Some n"
    by (simp add: InferencePoolSelectorLabels_def)
  with le have "PodLabelsForRole n' c v r LabelModel = Some n"
    by (auto simp: map_le_def dom_def)
  then show "n = n'" by (simp add: PodLabelsForRole_def)
next
  assume n: "n = n'"
  have "PodLabelsForRole n' c v r k = Some x" if "InferencePoolSelectorLabels n k = Some x" for k x
    using that unfolding n InferencePoolSelectorLabels_def PodLabelsForRole_def LabelsForRole_def
    by (auto simp: Selector_def split: if_splits)
  then show "selects (InferencePoolSelectorLabels n) (PodLabelsForRole n' c v r)"
    by (auto simp: map_le_def dom_def)
qed

text \<open>
  C30: The selector of a serving Deployment matches the pods of another exactly when service,
  component and role are the same, whatever the operator version.
\<close>

theorem role_selector_finds_exactly_its_pods:
  "selects (SelectorLabelsForRole n c r) (PodLabelsForRole n' c' v r') \<longleftrightarrow> n = n' \<and> c = c' \<and> r = r'"
  using role.finds_exactly [of "(n, c, r)" "(n', c', r')" v] by simp

lemma BuildEPPDeployment_simps [simp]:
  "objNamespace (BuildEPPDeployment ms spec cfg ml sl h) = objNamespace ms"
  "objName (BuildEPPDeployment ms spec cfg ml sl h) = EPPName (objName ms)"
  "objLabels (BuildEPPDeployment ms spec cfg ml sl h) = ml"
  "mOwnerReferences (ometa (BuildEPPDeployment ms spec cfg ml sl h)) = []"
  "psContainers (depPodSpec (BuildEPPDeployment ms spec cfg ml sl h)) = [eppContainer ms spec cfg]"
  "psInitContainers (depPodSpec (BuildEPPDeployment ms spec cfg ml sl h)) = []"
  "psServiceAccountName (depPodSpec (BuildEPPDeployment ms spec cfg ml sl h)) = EPPName (objName ms)"
  "psVolumes (depPodSpec (BuildEPPDeployment ms spec cfg ml sl h)) = [\<lparr>volName = eppConfigVolume,
     volSource = ConfigMapSource (EPPConfigMapName (objName ms)) (Some True)\<rparr>]"
  "dsSelector (depSpec (obody (BuildEPPDeployment ms spec cfg ml sl h))) =
     sl(LabelInferencePool \<mapsto> EPPName (objName ms))"
  "depPodLabels (BuildEPPDeployment ms spec cfg ml sl h) = (sl ++ ml)(LabelInferencePool \<mapsto> EPPName (objName ms))"
  by (simp_all add: BuildEPPDeployment_def Let_def metaZero_def podSpecZero_def)

lemma eppContainer_simps [simp]:
  "ctPorts (eppContainer ms spec cfg) =
     [\<lparr>cpName = eppExtProcPortName, cpPort = eppExtProcPort spec, cpProtocol = ''TCP''\<rparr>,
      \<lparr>cpName = eppHealthPortName, cpPort = eppGRPCHealthPort, cpProtocol = ''TCP''\<rparr>,
      \<lparr>cpName = eppMetricsPortName, cpPort = eppMetricsPort, cpProtocol = ''TCP''\<rparr>]"
  "ctVolumeMounts (eppContainer ms spec cfg) =
     [\<lparr>vmName = eppConfigVolume, vmMountPath = eppConfigMountPath, vmReadOnly = True\<rparr>]"
  "ctSecurityContext (eppContainer ms spec cfg) = Some hardenedContext"
  "ctArgs (eppContainer ms spec cfg) = buildEPPArgs (InferencePoolName (objName ms)) (objNamespace ms)
     (PluginsConfigFile ms) (eppExtProcPort spec)
     (case epReplicas spec of Some r \<Rightarrow> r | None \<Rightarrow> 1) cfg"
  by (simp_all add: eppContainer_def Let_def containerZero_def)

lemma EPPSelectorLabels_dom: "EPPSelectorLabels n LabelInferencePool = None"
  by (simp add: EPPSelectorLabels_def Selector_def)

lemma EPPLabels_dom: "EPPLabels n v LabelInferencePool = None"
  by (simp add: EPPLabels_def Standard_not_version Selector_def)

text \<open>The selector of the EPP Deployment, of its Service and of its ServiceMonitor.\<close>

lemma selects_merged:
  assumes "selects sl ml" and "sl k = None"
  shows "selects (sl(k \<mapsto> x)) ((sl ++ ml)(k \<mapsto> x))" "selects sl ((sl ++ ml)(k \<mapsto> x))"
  using assms by (auto simp: map_le_def map_add_def split: option.split)

text \<open>
  C32: The EPP Deployment selects its own pods, the EPP Service selects them too, and the
  ServiceMonitor selects the Service, also across operator versions.
\<close>

theorem epp_selectors_agree:
  "(let svc = BuildEPPService ms (EPPLabels (objName ms) v) (EPPSelectorLabels (objName ms));
        d = BuildEPPDeployment ms spec cfg (EPPLabels (objName ms) v) (EPPSelectorLabels (objName ms)) h;
        d' = BuildEPPDeployment ms spec' cfg' (EPPLabels (objName ms) v') (EPPSelectorLabels (objName ms)) h'
    in selects (dsSelector (depSpec (obody d))) (depPodLabels d') \<and>
       selects (svcSelector (obody svc)) (depPodLabels d') \<and>
       selects (smSelector (obody (BuildEPPServiceMonitor ms cfg ml))) (objLabels svc))"
  using selects_merged [OF epp.finds_every_version EPPSelectorLabels_dom]
  by (simp add: Let_def BuildEPPService_def BuildEPPServiceMonitor_def epp.finds_every_version)


theorem epp_config_file_exists:
  "(\<exists>f content. (f, content) \<in> set (cmData (obody (BuildEPPConfigMap ms ml))) \<and>
      (\<exists>c. psContainers (depPodSpec (BuildEPPDeployment ms spec cfg ml' sl h)) = [c] \<and>
         ''--config-file='' @ eppConfigMountPath @ ''/'' @ f \<in> set (ctArgs c) \<and> hardened c)) \<and>
   mountsResolved (depPodSpec (BuildEPPDeployment ms spec cfg ml' sl h)) \<and>
   map (configMapName \<circ> volSource) (psVolumes (depPodSpec (BuildEPPDeployment ms spec cfg ml' sl h))) =
     [objName (BuildEPPConfigMap ms ml)] \<and>
   objNamespace (BuildEPPConfigMap ms ml) = objNamespace (BuildEPPDeployment ms spec cfg ml' sl h)"
  by (auto simp: BuildEPPConfigMap_def buildEPPArgs_def PluginsConfigFile_def hardened_def
      mountsResolved_def)

theorem epp_flags_order_irrelevant:
  assumes "mset fs = mset gs" and "distinct (map fst fs)"
  shows "buildEPPArgs pool ns file port n (cfg\<lparr>ecFlags := fs\<rparr>) =
     buildEPPArgs pool ns file port n (cfg\<lparr>ecFlags := gs\<rparr>)"
proof -
  have keys: "mset (map fst fs) = mset (map fst gs)" using assms(1) by simp
  then have "sort (map fst fs) = sort (map fst gs)" by (metis properties_for_sort mset_sort sorted_sort)
  moreover have "set fs = set gs" "distinct (map fst gs)"
    using assms keys mset_eq_setD mset_eq_imp_distinct_iff by blast+
  then have "map_of fs = map_of gs" using assms(2) map_of_inject_set by blast
  ultimately show ?thesis by (simp add: buildEPPArgs_def)
qed




section \<open>Names\<close>

lemma dns1035_simple:
  "dns1035 ''c'' \<and> \<not> stringContains ''c'' ''--''" "dns1035 ''b-c'' \<and> \<not> stringContains ''b-c'' ''--''"
  "dns1035 ''a-b'' \<and> \<not> stringContains ''a-b'' ''--''" "dns1035 ''foo'' \<and> \<not> stringContains ''foo'' ''--''"
  by (simp_all add: dns1035_def labelChar_def isLowerChar_def isDigitChar_def)

theorem epp_names_distinguish_services:
  assumes "dns1035 n" and "dns1035 n'" and "\<not> stringContains n ''--''" and "\<not> stringContains n' ''--''"
  shows "(EPPName n = EPPName n' \<longleftrightarrow> n = n') \<and>
     (EPPClusterRBACName ns n = EPPClusterRBACName ns n' \<longleftrightarrow> n = n')"
  using assms by (simp add: EPPName_def EPPClusterRBACName_def sanitize_id)

theorem epp_names_distinguish_services_witness:
  "EPPName ''b-c'' \<noteq> EPPName ''c''"
  using epp_names_distinguish_services [of "''b-c''" "''c''"] dns1035_simple by simp

theorem cluster_rbac_names_collide:
  "EPPClusterRBACName ''a'' ''b-c'' = EPPClusterRBACName ''a-b'' ''c''"
  using dns1035_simple by (simp add: EPPClusterRBACName_def EPPName_def sanitize_id)

theorem epp_names_collide:
  "EPPName ''a.b'' = EPPName ''a-b'' \<and> EPPName ''foo'' = InferencePoolName ''foo-epp''"
proof -
  have "SanitizeDNS1035Label ''a.b'' = ''a-b''"
    by (simp add: SanitizeDNS1035Label_eq sanitizeChar_def isLowerChar_def isDigitChar_def isUpperChar_def
        trimChar_def collapseDashes.simps Let_def)
  then show ?thesis using dns1035_simple by (simp add: EPPName_def sanitize_id InferencePoolName_def)
qed

section \<open>Witnesses\<close>

definition exampleEPP :: endpointPickerSpec where
  "exampleEPP = ipsEndpointPicker (the (msInferencePool (msSp exampleMS)))"

definition exampleEPPConfig :: eppConfig where
  "exampleEPPConfig = \<lparr>ecProvider = ''istio'', ecFlags = [(''v'', ''4''), (''a'', ''1'')],
     ecMetricsEndpointAuth = True, ecDefaultGatewayName = ''gw'', ecTracing = exampleTracing\<rparr>"


theorem epp_flags_order_irrelevant_witness:
  "buildEPPArgs ''p'' ''ns'' ''f'' 9002 1 (exampleEPPConfig\<lparr>ecFlags := [(''v'', ''4''), (''a'', ''1'')]\<rparr>) =
   buildEPPArgs ''p'' ''ns'' ''f'' 9002 1 (exampleEPPConfig\<lparr>ecFlags := [(''a'', ''1''), (''v'', ''4'')]\<rparr>)"
  by (rule epp_flags_order_irrelevant) simp_all



end
