(* ===== verification/EnsureResource.thy ===== *)
theory EnsureResource
  imports KubeClient
begin

text \<open>
  The create-or-update and delete operations that \<open>internal/modelservice/reconcile.go\<close> shares
  between the kinds (\<open>ensureResource\<close>, \<open>ensureClusterResource\<close>, \<open>cleanupTyped\<close>,
  \<open>cleanupClusterTyped\<close>). What they rely on of a kind's \<open>mutateFn\<close> is the locale \<open>managedKind\<close>:
  it makes the managed part of the object the desired one and touches nothing else. The lemmas on
  convergence are proved there once and used for every kind through its interpretation.
\<close>

section \<open>The operations\<close>

text \<open>
  \<open>fmt.Sprintf("%T", obj)\<close> of an Istio DestinationRule, by which \<open>ensureResource\<close>'s type test
  recognizes it. An object the operator builds has no type metadata, so \<open>kind\<close> in the error
  messages is the Go type as well.
\<close>

abbreviation destinationRuleType :: string where
  "destinationRuleType \<equiv> ''*v1beta1.DestinationRule''"

definition wrapApi :: "string \<Rightarrow> ('w, apiError, 'a) io \<Rightarrow> ('w, opError, unit) io" where
  "wrapApi msg m = attempt m (\<lambda>r. case r of Inl e \<Rightarrow> fail (Wrapf msg (ApiE e)) | Inr _ \<Rightarrow> ret ())"

text \<open>Update, and create again if the object vanished between the read and the update.\<close>

definition updateOrRecreate ::
  "('s, 'b) kindApi \<Rightarrow> 'b kobj \<Rightarrow> 'b kobj \<Rightarrow> ('s world, opError, unit) io" where
  "updateOrRecreate K existing desired =
     attempt (clientUpdate K existing) (\<lambda>r. case r of
       Inr _ \<Rightarrow> ret ()
     | Inl e \<Rightarrow>
         if isNotFound e
         then wrapApi (''recreating '' @ typeName K @ '' '' @ objName desired @ '' after NotFound'')
                (clientCreate K desired)
         else fail (Wrapf (''updating '' @ typeName K @ '' '' @ objName desired) (ApiE e)))"

definition ensureClusterResource ::
  "('s, 'b) kindApi \<Rightarrow> 'b kobj \<Rightarrow> ('b kobj \<Rightarrow> 'b kobj \<Rightarrow> 'b kobj) \<Rightarrow> ('s world, opError, unit) io" where
  "ensureClusterResource K desired mutateFn =
     attempt (clientGet K (objKey desired)) (\<lambda>r. case r of
       Inl e \<Rightarrow>
         if isNotFound e
         then wrapApi (''creating '' @ typeName K @ '' '' @ objName desired) (clientCreate K desired)
         else fail (ApiE e)
     | Inr before \<Rightarrow>
         (let existing = mutateFn before desired
          in if semEq K before existing then ret () else updateOrRecreate K existing desired))"

text \<open>
  The owner reference is set on the desired object first. A DestinationRule is updated without the
  comparison.
\<close>

definition ensureResource ::
  "(objectMeta \<Rightarrow> objectMeta \<Rightarrow> apiError + objectMeta) \<Rightarrow> ('s, 'b) kindApi \<Rightarrow> objectMeta \<Rightarrow> 'b kobj \<Rightarrow>
     ('b kobj \<Rightarrow> 'b kobj \<Rightarrow> 'b kobj) \<Rightarrow> ('s world, opError, unit) io" where
  "ensureResource setOwner K owner desired0 mutateFn =
     (case setOwner owner (ometa desired0) of
        Inl e \<Rightarrow> fail (Wrapf (''setting '' @ typeName K @ '' owner reference'') (ApiE e))
      | Inr m \<Rightarrow>
          (let desired = desired0\<lparr>ometa := m\<rparr>
           in attempt (clientGet K (objNamespace desired0, objName desired0)) (\<lambda>r. case r of
                Inl e \<Rightarrow>
                  if isNotFound e
                  then wrapApi (''creating '' @ typeName K @ '' '' @ objName desired0)
                         (clientCreate K desired)
                  else fail (ApiE e)
              | Inr before \<Rightarrow>
                  (let existing = mutateFn before desired
                   in if typeName K = destinationRuleType then updateOrRecreate K existing desired
                      else if semEq K before existing then ret ()
                      else updateOrRecreate K existing desired))))"

text \<open>\<open>cleanupTyped\<close> takes the key of the object; it deletes what the read returned.\<close>

definition cleanupTyped ::
  "('s, 'b) kindApi \<Rightarrow> string \<times> string \<Rightarrow> ('s world, opError, unit) io" where
  "cleanupTyped K key =
     attempt (clientGet K key) (\<lambda>r. case r of
       Inl e \<Rightarrow> if isNotFound e \<or> isNoMatchError e then ret () else fail (ApiE e)
     | Inr x \<Rightarrow> ignoreNotFound (clientDelete K x))"

definition cleanupClusterTyped ::
  "('s, 'b) kindApi \<Rightarrow> string \<Rightarrow> ('s world, opError, unit) io" where
  "cleanupClusterTyped K name =
     attempt (clientGet K ('''', name)) (\<lambda>r. case r of
       Inl e \<Rightarrow> if isNotFound e then ret () else fail (ApiE e)
     | Inr x \<Rightarrow> ignoreNotFound (clientDelete K x))"

section \<open>What they issue and what they leave alone\<close>

lemma emits_wrapApi [emits_intros]: "emits P m \<Longrightarrow> emits P (wrapApi msg m)"
  unfolding wrapApi_def by (intro emits_intros)

lemma emits_updateOrRecreate [emits_intros]:
  assumes "\<And>ns n. P (ApiCall VUpdate (typeName K) ns n)" and "\<And>ns n. P (ApiCall VCreate (typeName K) ns n)"
  shows "emits P (updateOrRecreate K x d)"
  unfolding updateOrRecreate_def by (intro emits_intros assms)

lemma emits_ensureResource [emits_intros]:
  assumes "\<And>v ns n. v \<in> {VGet, VCreate, VUpdate} \<Longrightarrow> P (ApiCall v (typeName K) ns n)"
  shows "emits P (ensureResource f K owner d mutateFn)"
  unfolding ensureResource_def Let_def by (intro emits_intros assms) simp_all

lemma emits_ensureClusterResource [emits_intros]:
  assumes "\<And>v ns n. v \<in> {VGet, VCreate, VUpdate} \<Longrightarrow> P (ApiCall v (typeName K) ns n)"
  shows "emits P (ensureClusterResource K d mutateFn)"
  unfolding ensureClusterResource_def Let_def by (intro emits_intros assms) simp_all

lemma emits_cleanupTyped [emits_intros]:
  assumes "\<And>v ns n. v \<in> {VGet, VDelete} \<Longrightarrow> P (ApiCall v (typeName K) ns n)"
  shows "emits P (cleanupTyped K key)"
  unfolding cleanupTyped_def by (intro emits_intros assms) simp_all

lemma emits_cleanupClusterTyped [emits_intros]:
  assumes "\<And>v ns n. v \<in> {VGet, VDelete} \<Longrightarrow> P (ApiCall v (typeName K) ns n)"
  shows "emits P (cleanupClusterTyped K name)"
  unfolding cleanupClusterTyped_def by (intro emits_intros assms) simp_all

lemma keeps_wrapApi [keeps_intros]: "keeps v m \<Longrightarrow> keeps v (wrapApi msg m)"
  unfolding wrapApi_def by (intro keeps_intros)

lemma keeps_updateOrRecreate [keeps_intros]: "framed K v \<Longrightarrow> keeps v (updateOrRecreate K x d)"
  unfolding updateOrRecreate_def by (intro keeps_intros)

lemma keeps_ensureResource [keeps_intros]: "framed K v \<Longrightarrow> keeps v (ensureResource f K owner d mutateFn)"
  unfolding ensureResource_def Let_def by (intro keeps_intros)

lemma keeps_ensureClusterResource [keeps_intros]:
  "framed K v \<Longrightarrow> keeps v (ensureClusterResource K d mutateFn)"
  unfolding ensureClusterResource_def Let_def by (intro keeps_intros)

lemma keeps_cleanupTyped [keeps_intros]: "framed K v \<Longrightarrow> keeps v (cleanupTyped K key)"
  unfolding cleanupTyped_def by (intro keeps_intros)

lemma keeps_cleanupClusterTyped [keeps_intros]: "framed K v \<Longrightarrow> keeps v (cleanupClusterTyped K name)"
  unfolding cleanupClusterTyped_def by (intro keeps_intros)

section \<open>Deleting\<close>

lemma ignoreNotFound_delete:
  assumes "lawfulDelete K v" and "ignoreNotFound (clientDelete K x) w = (Inr u, w')"
  shows "(\<forall>y. v (server w') (objKey x) = Some y \<longrightarrow> \<not> isLive y) \<and>
     (\<forall>k. k \<noteq> objKey x \<longrightarrow> v (server w') k = v (server w) k)"
proof -
  obtain r where r: "apiDelete K x (server w) = (r, server w')" "r = None \<or> (\<exists>e. r = Some e \<and> isNotFound e)"
    using assms(2)
    by (auto simp: ignoreNotFound_def attempt_def clientDelete_def split: prod.splits option.splits if_splits)
  show ?thesis
  proof (cases r)
    case None
    with r assms(1) obtain left where "v (server w') = (v (server w))(objKey x := left)"
      "\<forall>y. left = Some y \<longrightarrow> \<not> isLive y"
      unfolding lawfulDelete_def by blast
    then show ?thesis by simp
  next
    case (Some e)
    with r assms(1) have "v (server w) (objKey x) = None" "v (server w') = v (server w)"
      unfolding lawfulDelete_def by blast+
    then show ?thesis by simp
  qed
qed

text \<open>\<open>gone v k s\<close>: no live object under the key.\<close>

definition gone :: "('s, 'b) view \<Rightarrow> string \<times> string \<Rightarrow> 's \<Rightarrow> bool" where
  "gone v k s \<longleftrightarrow> (\<forall>y. v s k = Some y \<longrightarrow> \<not> isLive y)"

text \<open>The server knows the kind: a read that fails with a missing mapping does not happen.\<close>

definition installed :: "('s, 'b) kindApi \<Rightarrow> bool" where
  "installed K \<longleftrightarrow> (\<forall>k s e s'. apiGet K k s = (Inl e, s') \<longrightarrow> \<not> isNoMatchError e)"

lemma cleanup_read:
  assumes "lawfulGet K v" and "lawfulDelete K v"
    and "attempt (clientGet K key) (\<lambda>r. case r of Inl e \<Rightarrow> if isNotFound e \<or> b e then ret () else fail (ApiE e)
       | Inr x \<Rightarrow> ignoreNotFound (clientDelete K x)) w = (Inr u, w')"
    and "\<And>e w1. clientGet K key w = (Inl e, w1) \<Longrightarrow> \<not> b e"
  shows "gone v key (server w') \<and> (\<forall>k. k \<noteq> key \<longrightarrow> v (server w') k = v (server w) k)"
proof -
  obtain r w1 where r: "clientGet K key w = (r, w1)" by fastforce
  note api = clientGet_api [OF r]
  show ?thesis
  proof (cases r)
    case (Inl e)
    with assms(3,4) r have "isNotFound e" "w' = w1" by (auto simp: attempt_def split: if_splits)
    moreover from Inl api assms(1) have "isNotFound e \<longrightarrow> v (server w) key = None" "server w1 = server w"
      unfolding lawfulGet_def by blast+
    ultimately show ?thesis by (simp add: gone_def)
  next
    case (Inr x)
    with api assms(1) have "objKey x = key" "server w1 = server w" unfolding lawfulGet_def by blast+
    moreover from Inr r assms(3) have "ignoreNotFound (clientDelete K x) w1 = (Inr u, w')"
      by (simp add: attempt_def)
    note ignoreNotFound_delete [OF assms(2) this]
    ultimately show ?thesis unfolding gone_def by metis
  qed
qed

lemma cleanupTyped_gone:
  assumes "lawfulGet K v" and "lawfulDelete K v" and "installed K"
    and "cleanupTyped K key w = (Inr u, w')"
  shows "gone v key (server w') \<and> (\<forall>k. k \<noteq> key \<longrightarrow> v (server w') k = v (server w) k)"
proof (rule cleanup_read [OF assms(1,2) assms(4) [unfolded cleanupTyped_def]])
  fix e w1
  assume "clientGet K key w = (Inl e, w1)"
  from clientGet_api [OF this] assms(3) show "\<not> isNoMatchError e" unfolding installed_def by blast
qed

lemma cleanupClusterTyped_gone:
  assumes "lawfulGet K v" and "lawfulDelete K v" and "cleanupClusterTyped K name w = (Inr u, w')"
  shows "gone v ('''', name) (server w') \<and> (\<forall>k. k \<noteq> ('''', name) \<longrightarrow> v (server w') k = v (server w) k)"
  using cleanup_read [OF assms(1,2), where b = "\<lambda>_. False"] assms(3)
  unfolding cleanupClusterTyped_def by simp

section \<open>The contract of a \<open>mutateFn\<close>\<close>

text \<open>Adding an owner reference is the only change \<open>SetControllerReference\<close> makes.\<close>

definition ownerOnly :: "objectMeta \<Rightarrow> objectMeta \<Rightarrow> bool" where
  "ownerOnly m m' \<longleftrightarrow> (\<exists>rs. m' = m\<lparr>mOwnerReferences := rs\<rparr>)"

lemma lawfulOwnerRef_ownerOnly:
  "lawfulOwnerRef f \<Longrightarrow> mOwnerReferences m = [] \<Longrightarrow> f own m = Inr m' \<Longrightarrow> ownerOnly m m'"
  unfolding lawfulOwnerRef_def ownerOnly_def by blast

locale managedKind =
  fixes mutateFn :: "'b kobj \<Rightarrow> 'b kobj \<Rightarrow> 'b kobj"
    and managed :: "'b kobj \<Rightarrow> 'm"
  assumes mutate_managed: "managed (mutateFn e d) = managed d"
    and mutate_key: "objNamespace (mutateFn e d) = objNamespace e" "objName (mutateFn e d) = objName e"
    and mutate_settled: "managed e = managed d \<Longrightarrow> mutateFn e d = e"
    and managed_owner: "ownerOnly (ometa d) m \<Longrightarrow> managed (d\<lparr>ometa := m\<rparr>) = managed d"
begin

lemma updateOrRecreate_stores:
  assumes "lawfulCreate K v managed" and "lawfulUpdate K v managed"
    and "updateOrRecreate K (mutateFn e d) d w = (Inr u, w')"
    and "objKey e = objKey d" and "objName d \<noteq> ''''"
  shows "\<exists>x. v (server w') = (v (server w))(objKey d \<mapsto> x) \<and> managed x = managed d"
proof -
  obtain r w1 where r: "clientUpdate K (mutateFn e d) w = (r, w1)" by fastforce
  note api = clientUpdate_api [OF r]
  have key: "objKey (mutateFn e d) = objKey d" using assms(4) by (simp add: mutate_key)
  show ?thesis
  proof (cases r)
    case (Inr x)
    with r assms(3) have "w' = w1" by (simp add: updateOrRecreate_def attempt_def)
    moreover from Inr api assms(2) have "v (server w1) = (v (server w))(objKey (mutateFn e d) \<mapsto> x)"
      "managed x = managed (mutateFn e d)"
      unfolding lawfulUpdate_def by blast+
    ultimately show ?thesis by (simp only: key mutate_managed) blast
  next
    case (Inl err)
    with r assms(3) obtain x where err: "isNotFound err" and c: "clientCreate K d w1 = (Inr x, w')"
      by (auto simp: updateOrRecreate_def attempt_def wrapApi_def split: if_splits prod.splits sum.splits)
    from err Inl api assms(2) have "v (server w1) = v (server w)"
      unfolding lawfulUpdate_def by blast
    with clientCreate_Inr [OF assms(1) c] assms(5) show ?thesis
      by (intro exI [of _ x]) simp
  qed
qed

lemma ensure_stores:
  assumes "lawfulGet K v" and "lawfulCreate K v managed" and "lawfulUpdate K v managed"
    and "ownerOnly (ometa d) m" and "f own (ometa d) = Inr m" and "objName d \<noteq> ''''"
    and "\<And>x y. semEq K x y \<longleftrightarrow> x = y"
    and "ensureResource f K own d mutateFn w = (Inr u, w')"
  shows "\<exists>x. v (server w') = (v (server w))(objKey d \<mapsto> x) \<and> managed x = managed d"
proof -
  let ?d = "d\<lparr>ometa := m\<rparr>"
  have key: "objKey ?d = objKey d" and man: "managed ?d = managed d"
    using assms(4) managed_owner by (auto simp: ownerOnly_def)
  obtain r w1 where r: "clientGet K (objKey d) w = (r, w1)" by fastforce
  note api = clientGet_api [OF r]
  show ?thesis
  proof (cases r)
    case (Inl e)
    with r assms(5,8) obtain x where "isNotFound e" and c: "clientCreate K ?d w1 = (Inr x, w')"
      by (auto simp: ensureResource_def Let_def attempt_def wrapApi_def split: if_splits prod.splits sum.splits)
    moreover from Inl api assms(1) have "server w1 = server w" unfolding lawfulGet_def by blast
    ultimately show ?thesis
      using clientCreate_Inr [OF assms(2) c] assms(6) key man by (intro exI [of _ x]) simp
  next
    case (Inr e)
    with api assms(1) have e: "v (server w) (objKey d) = Some e" "objKey e = objKey d" and w1: "server w1 = server w"
      unfolding lawfulGet_def by blast+
    from r Inr assms(5,7,8) consider
      "mutateFn e ?d = e" "w' = w1" | "updateOrRecreate K (mutateFn e ?d) ?d w1 = (Inr u, w')"
      by (auto simp: ensureResource_def Let_def attempt_def split: if_splits)
    then show ?thesis
    proof cases
      case 1
      then have "managed e = managed d" using mutate_managed man by metis
      with 1 e w1 show ?thesis by (intro exI [of _ e]) auto
    next
      case 2
      from updateOrRecreate_stores [OF assms(2,3) 2] e key assms(6) man w1 show ?thesis by simp
    qed
  qed
qed

lemma ensure_settled:
  assumes "lawfulGet K v" and "typeName K \<noteq> destinationRuleType"
    and "ownerOnly (ometa d) m" and "f own (ometa d) = Inr m" and "\<And>x. semEq K x x"
    and "v (server w) (objKey d) = Some e" and "managed e = managed d"
    and "ensureResource f K own d mutateFn w = (Inr u, w')"
  shows "server w' = server w \<and>
    calls w' = calls w @ [ApiCall VGet (typeName K) (objNamespace d) (objName d)]"
proof -
  obtain r w1 where r: "clientGet K (objKey d) w = (r, w1)" by fastforce
  note api = clientGet_api [OF r]
  have w1: "calls w1 = calls w @ [ApiCall VGet (typeName K) (objNamespace d) (objName d)]"
    using r by (auto simp: clientGet_def split: prod.splits)
  have man: "managed (d\<lparr>ometa := m\<rparr>) = managed d" using managed_owner assms(3) by blast
  show ?thesis
  proof (cases r)
    case (Inl err)
    with r assms(4,8) have "isNotFound err"
      by (auto simp: ensureResource_def Let_def attempt_def split: if_splits)
    with Inl api assms(1,6) show ?thesis unfolding lawfulGet_def by fastforce
  next
    case (Inr x)
    with clientGet_Inr [OF assms(1), of "objKey d" w x w1] r assms(6)
    have "x = e" "server w1 = server w" by simp_all
    with Inr r assms mutate_settled man w1 show ?thesis
      by (simp add: ensureResource_def Let_def attempt_def)
  qed
qed

text \<open>The same for the cluster-scoped kinds, whose objects have no owner.\<close>

lemma ensureCluster_stores:
  assumes "lawfulGet K v" and "lawfulCreate K v managed" and "lawfulUpdate K v managed"
    and "objName d \<noteq> ''''" and "\<And>x y. semEq K x y \<longleftrightarrow> x = y"
    and "ensureClusterResource K d mutateFn w = (Inr u, w')"
  shows "\<exists>x. v (server w') = (v (server w))(objKey d \<mapsto> x) \<and> managed x = managed d"
proof -
  obtain r w1 where r: "clientGet K (objKey d) w = (r, w1)" by fastforce
  note api = clientGet_api [OF r]
  show ?thesis
  proof (cases r)
    case (Inl e)
    with r assms(6) obtain x where "isNotFound e" and c: "clientCreate K d w1 = (Inr x, w')"
      by (auto simp: ensureClusterResource_def Let_def attempt_def wrapApi_def split: if_splits prod.splits sum.splits)
    moreover from Inl api assms(1) have "server w1 = server w" unfolding lawfulGet_def by blast
    ultimately show ?thesis
      using clientCreate_Inr [OF assms(2) c] assms(4) by (intro exI [of _ x]) simp
  next
    case (Inr e)
    with api assms(1) have e: "v (server w) (objKey d) = Some e" "objKey e = objKey d" and w1: "server w1 = server w"
      unfolding lawfulGet_def by blast+
    from r Inr assms(5,6) consider
      "mutateFn e d = e" "w' = w1" | "updateOrRecreate K (mutateFn e d) d w1 = (Inr u, w')"
      by (auto simp: ensureClusterResource_def Let_def attempt_def split: if_splits)
    then show ?thesis
    proof cases
      case 1
      then have "managed e = managed d" using mutate_managed by metis
      with 1 e w1 show ?thesis by (intro exI [of _ e]) auto
    next
      case 2
      from updateOrRecreate_stores [OF assms(2,3) 2] e assms(4) w1 show ?thesis by simp
    qed
  qed
qed

lemma ensureCluster_settled:
  assumes "lawfulGet K v" and "\<And>x. semEq K x x"
    and "v (server w) (objKey d) = Some e" and "managed e = managed d"
    and "ensureClusterResource K d mutateFn w = (Inr u, w')"
  shows "server w' = server w \<and>
    calls w' = calls w @ [ApiCall VGet (typeName K) (objNamespace d) (objName d)]"
proof -
  obtain r w1 where r: "clientGet K (objKey d) w = (r, w1)" by fastforce
  have w1: "calls w1 = calls w @ [ApiCall VGet (typeName K) (objNamespace d) (objName d)]"
    using r by (auto simp: clientGet_def split: prod.splits)
  show ?thesis
  proof (cases r)
    case (Inl err)
    with r assms(5) have "isNotFound err"
      by (auto simp: ensureClusterResource_def Let_def attempt_def split: if_splits)
    with Inl clientGet_api [OF r] assms(1,3) show ?thesis unfolding lawfulGet_def by fastforce
  next
    case (Inr x)
    with clientGet_Inr [OF assms(1), of "objKey d" w x w1] r assms(3)
    have "x = e" "server w1 = server w" by simp_all
    with Inr r assms mutate_settled w1 show ?thesis
      by (simp add: ensureClusterResource_def Let_def attempt_def)
  qed
qed

end

end
