(* ===== verification/ServiceReconcile.thy ===== *)
theory ServiceReconcile
  imports ServiceRouting EnsureResource
begin

text \<open>
  \<open>internal/modelservice/reconcile.go\<close>: one operation per managed resource of a ModelService. The
  record \<open>msReconciler\<close> is the receiver of the controller's methods: the API of each kind, the
  library functions, and the operator's settings. Each kind's \<open>mutateFn\<close> is interpreted as a
  \<open>managedKind\<close> with the part of the object it manages.
\<close>

record 's msReconciler =
  msApi :: "('s, msBody) kindApi"
  depApi :: "('s, deploymentBody) kindApi"
  saApi :: "('s, serviceAccountBody) kindApi"
  cmApi :: "('s, configMapBody) kindApi"
  svcApi :: "('s, serviceBody) kindApi"
  secretApi :: "('s, secretBody) kindApi"
  roleApi :: "('s, roleBody) kindApi"
  bindingApi :: "('s, bindingBody) kindApi"
  clusterRoleApi :: "('s, roleBody) kindApi"
  clusterBindingApi :: "('s, bindingBody) kindApi"
  poolApi :: "('s, inferencePoolBody) kindApi"
  routeApi :: "('s, httpRouteBody) kindApi"
  ruleApi :: "('s, destinationRuleBody) kindApi"
  podMonitorApi :: "('s, podMonitorBody) kindApi"
  svcMonitorApi :: "('s, serviceMonitorBody) kindApi"
  msSetControllerReference :: "objectMeta \<Rightarrow> objectMeta \<Rightarrow> apiError + objectMeta"
  msSetStatusCondition :: "'s \<Rightarrow> condition list \<Rightarrow> condition \<Rightarrow> condition list"
  msStatusSemEq :: "msStatus \<Rightarrow> msStatus \<Rightarrow> bool"
  depSpecSemEq :: "deploymentSpec \<Rightarrow> deploymentSpec \<Rightarrow> bool"
  labelsSemEq :: "labels \<Rightarrow> labels \<Rightarrow> bool"
  quantityStr :: "quantity \<Rightarrow> string"
  sha256Sum :: "string \<Rightarrow> string"
  msVersion :: string
  msDefaultImages :: defaultImages
  msEPPConfig :: eppConfig
  msKitImage :: string

section \<open>The \<open>mutateFn\<close>s\<close>

text \<open>\<open>existing.Spec = desired.Spec; existing.Labels = desired.Labels\<close>, for the kinds whose body
  is their spec.\<close>

definition mutateSpec :: "'b kobj \<Rightarrow> 'b kobj \<Rightarrow> 'b kobj" where
  "mutateSpec existing desired = setLabels (objLabels desired) (existing\<lparr>obody := obody desired\<rparr>)"

definition mutateServiceAccount :: "serviceAccount \<Rightarrow> serviceAccount \<Rightarrow> serviceAccount" where
  "mutateServiceAccount existing desired = setLabels (objLabels desired) existing"

definition mutateService :: "service \<Rightarrow> service \<Rightarrow> service" where
  "mutateService existing desired =
     setLabels (objLabels desired) (existing\<lparr>obody := (obody existing)
       \<lparr>svcPorts := svcPorts (obody desired), svcSelector := svcSelector (obody desired)\<rparr>\<rparr>)"

definition mutateSecret :: "secret \<Rightarrow> secret \<Rightarrow> secret" where
  "mutateSecret existing desired =
     setLabels (objLabels desired) (setAnnotations (mAnnotations (ometa desired)) existing)"

text \<open>The part of an object each of them manages.\<close>

definition managedSpec :: "'b kobj \<Rightarrow> 'b \<times> labels" where
  "managedSpec x = (obody x, objLabels x)"

definition managedService :: "service \<Rightarrow> servicePort list \<times> labels \<times> labels" where
  "managedService x = (svcPorts (obody x), svcSelector (obody x), objLabels x)"

definition managedSecret :: "secret \<Rightarrow> (string \<rightharpoonup> string) \<times> labels" where
  "managedSecret x = (mAnnotations (ometa x), objLabels x)"

definition managedAccount :: "serviceAccount \<Rightarrow> labels" where
  "managedAccount x = objLabels x"

interpretation spec: managedKind mutateSpec managedSpec
  by unfold_locales (auto simp: mutateSpec_def managedSpec_def ownerOnly_def setLabels_def)

interpretation account: managedKind mutateServiceAccount managedAccount
  by unfold_locales (auto simp: mutateServiceAccount_def managedAccount_def ownerOnly_def setLabels_def)

interpretation svc: managedKind mutateService managedService
  by unfold_locales (auto simp: mutateService_def managedService_def ownerOnly_def setLabels_def)

interpretation token: managedKind mutateSecret managedSecret
  by unfold_locales (auto simp: mutateSecret_def managedSecret_def ownerOnly_def setLabels_def
      setAnnotations_def)

section \<open>Deployments\<close>

definition deploymentNeedsUpdate :: "'s msReconciler \<Rightarrow> deployment \<Rightarrow> deployment \<Rightarrow> bool" where
  "deploymentNeedsUpdate R existing desired \<longleftrightarrow>
     \<not> depSpecSemEq R (depSpec (obody existing)) (depSpec (obody desired)) \<or>
     \<not> labelsSemEq R (objLabels existing) (objLabels desired)"

text \<open>\<open>existing.Spec = desired.Spec; existing.Labels = desired.Labels\<close>.\<close>

definition mutateDeployment :: "deployment \<Rightarrow> deployment \<Rightarrow> deployment" where
  "mutateDeployment existing desired =
     setLabels (objLabels desired)
       (existing\<lparr>obody := (obody existing)\<lparr>depSpec := depSpec (obody desired)\<rparr>\<rparr>)"

definition managedDeployment :: "deployment \<Rightarrow> deploymentSpec \<times> labels" where
  "managedDeployment x = (depSpec (obody x), objLabels x)"

interpretation dep: managedKind mutateDeployment managedDeployment
  by unfold_locales (auto simp: mutateDeployment_def managedDeployment_def ownerOnly_def setLabels_def)

text \<open>
  What \<open>ensureDeployment\<close> and \<open>EnsureEPPDeployment\<close> do with the Deployment they built; \<open>what\<close> is the
  word for it in their messages.
\<close>

definition applyDeployment ::
  "'s msReconciler \<Rightarrow> modelService \<Rightarrow> string \<Rightarrow> deployment \<Rightarrow> ('s world, opError, unit) io" where
  "applyDeployment R ms what desired0 =
     (case msSetControllerReference R (ometa ms) (ometa desired0) of
        Inl e \<Rightarrow> fail (Wrapf (''setting '' @ what @ '' owner reference'') (ApiE e))
      | Inr m \<Rightarrow>
          (let desired = desired0\<lparr>ometa := m\<rparr>
           in attempt (clientGet (depApi R) (objNamespace ms, objName desired0)) (\<lambda>r. case r of
                Inl e \<Rightarrow>
                  if isNotFound e
                  then wrapApi (''creating '' @ what @ '' '' @ objName desired0)
                         (clientCreate (depApi R) desired)
                  else fail (ApiE e)
              | Inr existing \<Rightarrow>
                  if \<not> deploymentNeedsUpdate R existing desired then ret ()
                  else wrapApi (''updating '' @ what @ '' '' @ objName desired0)
                         (clientUpdate (depApi R) (mutateDeployment existing desired)))))"

definition servingDeployment ::
  "'s msReconciler \<Rightarrow> modelService \<Rightarrow> roleSpec \<Rightarrow> string \<Rightarrow> string \<Rightarrow> string \<Rightarrow> deployment" where
  "servingDeployment R ms role roleName deployName component =
     BuildDeployment (quantityStr R) ms role roleName deployName
       (PodLabelsForRole (objName ms) component (msVersion R) roleName)
       ((LabelsForRole (objName ms) component (msVersion R))(LabelInferenceServer := None))
       (SelectorLabelsForRole (objName ms) component roleName)
       (ecTracing (msEPPConfig R)) (msKitImage R)"

definition ensureDeployment ::
  "'s msReconciler \<Rightarrow> modelService \<Rightarrow> roleSpec \<Rightarrow> string \<Rightarrow> string \<Rightarrow> string \<Rightarrow>
     ('s world, opError, unit) io" where
  "ensureDeployment R ms role roleName deployName component =
     applyDeployment R ms ''Deployment'' (servingDeployment R ms role roleName deployName component)"

definition cleanupDeployment :: "'s msReconciler \<Rightarrow> string \<Rightarrow> string \<Rightarrow> ('s world, opError, unit) io" where
  "cleanupDeployment R namespace name =
     attempt (clientGet (depApi R) (namespace, name)) (\<lambda>r. case r of
       Inl e \<Rightarrow> if isNotFound e then ret () else fail (ApiE e)
     | Inr dep \<Rightarrow> ignoreNotFound (clientDelete (depApi R) dep))"

definition EnsureDecodeDeployment :: "'s msReconciler \<Rightarrow> modelService \<Rightarrow> ('s world, opError, unit) io" where
  "EnsureDecodeDeployment R ms =
     ensureDeployment R ms (msDecode (msSp ms)) RoleDecode (DecodeName (objName ms)) ComponentDecode"

definition EnsurePrefillDeployment :: "'s msReconciler \<Rightarrow> modelService \<Rightarrow> ('s world, opError, unit) io" where
  "EnsurePrefillDeployment R ms =
     (case msPrefill (msSp ms) of
        None \<Rightarrow> cleanupDeployment R (objNamespace ms) (PrefillName (objName ms))
      | Some role \<Rightarrow>
          ensureDeployment R ms role RolePrefill (PrefillName (objName ms)) ComponentPrefill)"

text \<open>The synthetic endpoint picker of a service without \<open>spec.inferencePool\<close>.\<close>

definition eppSpecOf :: "defaultImages \<Rightarrow> modelService \<Rightarrow> endpointPickerSpec" where
  "eppSpecOf images ms =
     (case msInferencePool (msSp ms) of
        Some p \<Rightarrow> ipsEndpointPicker p
      | None \<Rightarrow> \<lparr>epImage = diEPP images, epReplicas = Some 1, epPort = 9002,
                 epResources = resourcesZero, epFailureMode = ''''\<rparr>)"

definition eppDeployment :: "'s msReconciler \<Rightarrow> modelService \<Rightarrow> string \<Rightarrow> deployment" where
  "eppDeployment R ms configHash =
     BuildEPPDeployment ms (eppSpecOf (msDefaultImages R) ms) (msEPPConfig R)
       (EPPLabels (objName ms) (msVersion R)) (EPPSelectorLabels (objName ms)) configHash"

definition EnsureEPPDeployment :: "'s msReconciler \<Rightarrow> modelService \<Rightarrow> string \<Rightarrow> ('s world, opError, unit) io" where
  "EnsureEPPDeployment R ms configHash =
     applyDeployment R ms ''EPP Deployment'' (eppDeployment R ms configHash)"

section \<open>EPP objects\<close>

abbreviation eppLabelsOf :: "'s msReconciler \<Rightarrow> modelService \<Rightarrow> labels" where
  "eppLabelsOf R ms \<equiv> EPPLabels (objName ms) (msVersion R)"

abbreviation ensureOwned ::
  "'s msReconciler \<Rightarrow> modelService \<Rightarrow> ('s, 'b) kindApi \<Rightarrow> 'b kobj \<Rightarrow> ('b kobj \<Rightarrow> 'b kobj \<Rightarrow> 'b kobj) \<Rightarrow>
     ('s world, opError, unit) io" where
  "ensureOwned R ms K desired mutateFn \<equiv>
     ensureResource (msSetControllerReference R) K (ometa ms) desired mutateFn"

definition EnsureEPPServiceAccount :: "'s msReconciler \<Rightarrow> modelService \<Rightarrow> ('s world, opError, unit) io" where
  "EnsureEPPServiceAccount R ms =
     ensureOwned R ms (saApi R) (BuildEPPServiceAccount ms (eppLabelsOf R ms)) mutateServiceAccount"

definition EnsureEPPConfigMap :: "'s msReconciler \<Rightarrow> modelService \<Rightarrow> ('s world, opError, unit) io" where
  "EnsureEPPConfigMap R ms =
     ensureOwned R ms (cmApi R) (BuildEPPConfigMap ms (eppLabelsOf R ms)) mutateSpec"

definition EnsureEPPService :: "'s msReconciler \<Rightarrow> modelService \<Rightarrow> ('s world, opError, unit) io" where
  "EnsureEPPService R ms =
     ensureOwned R ms (svcApi R)
       (BuildEPPService ms (eppLabelsOf R ms) (EPPSelectorLabels (objName ms))) mutateService"

definition needsSecret :: "'s msReconciler \<Rightarrow> modelService \<Rightarrow> bool" where
  "needsSecret R ms \<longleftrightarrow> msInferencePool (msSp ms) \<noteq> None \<and>
     ecMetricsEndpointAuth (msEPPConfig R) \<and> ecProvider (msEPPConfig R) \<noteq> ProviderGKE"

definition EnsureEPPSATokenSecret :: "'s msReconciler \<Rightarrow> modelService \<Rightarrow> ('s world, opError, unit) io" where
  "EnsureEPPSATokenSecret R ms =
     (if \<not> needsSecret R ms then cleanupTyped (secretApi R) (objNamespace ms, EPPSecretName (objName ms))
      else ensureOwned R ms (secretApi R) (BuildEPPSATokenSecret ms (eppLabelsOf R ms)) mutateSecret)"

definition eppReplicasOf :: "modelService \<Rightarrow> int32" where
  "eppReplicasOf ms =
     (case msInferencePool (msSp ms) of
        None \<Rightarrow> 1
      | Some p \<Rightarrow> (case epReplicas (ipsEndpointPicker p) of Some r \<Rightarrow> r | None \<Rightarrow> 1))"

definition EnsureEPPRBAC :: "'s msReconciler \<Rightarrow> modelService \<Rightarrow> ('s world, opError, unit) io" where
  "EnsureEPPRBAC R ms =
     (case BuildEPPRBAC ms (eppLabelsOf R ms) (eppReplicasOf ms) of (r, binding) \<Rightarrow>
        andThen (ensureOwned R ms (roleApi R) r mutateSpec)
          (\<lambda>_. ensureOwned R ms (bindingApi R) binding mutateSpec))"

definition cleanupClusterRBAC :: "'s msReconciler \<Rightarrow> string \<Rightarrow> ('s world, opError, unit) io" where
  "cleanupClusterRBAC R name =
     andThen (cleanupClusterTyped (clusterRoleApi R) name)
       (\<lambda>_. cleanupClusterTyped (clusterBindingApi R) name)"

definition CleanupEPPClusterRBAC :: "'s msReconciler \<Rightarrow> string \<Rightarrow> string \<Rightarrow> ('s world, opError, unit) io" where
  "CleanupEPPClusterRBAC R namespace msName = cleanupClusterRBAC R (EPPClusterRBACName namespace msName)"

definition needsClusterRBAC :: "'s msReconciler \<Rightarrow> modelService \<Rightarrow> bool" where
  "needsClusterRBAC R ms \<longleftrightarrow> msInferencePool (msSp ms) \<noteq> None \<and> ecMetricsEndpointAuth (msEPPConfig R)"

definition EnsureEPPClusterRBAC :: "'s msReconciler \<Rightarrow> modelService \<Rightarrow> ('s world, opError, unit) io" where
  "EnsureEPPClusterRBAC R ms =
     (if \<not> needsClusterRBAC R ms
      then cleanupClusterRBAC R (EPPClusterRBACName (objNamespace ms) (objName ms))
      else
        (case BuildEPPClusterRBAC ms (eppLabelsOf R ms) of (r, binding) \<Rightarrow>
           andThen (ensureClusterResource (clusterRoleApi R) r mutateSpec)
             (\<lambda>_. ensureClusterResource (clusterBindingApi R) binding mutateSpec)))"

section \<open>Routing and monitoring\<close>

text \<open>The result of the legacy cleanup is discarded.\<close>

definition desiredPool :: "'s msReconciler \<Rightarrow> modelService \<Rightarrow> inferencePool" where
  "desiredPool R ms =
     (case msInferencePool (msSp ms) of
        None \<Rightarrow> BuildDefaultInferencePool ms (InferencePoolLabels (objName ms) (msVersion R))
      | Some p \<Rightarrow> BuildInferencePool ms (ipsEndpointPicker p)
                   (InferencePoolLabels (objName ms) (msVersion R)))"

definition EnsureInferencePool :: "'s msReconciler \<Rightarrow> modelService \<Rightarrow> ('s world, opError, unit) io" where
  "EnsureInferencePool R ms =
     attempt (cleanupTyped (poolApi R) (objNamespace ms, EPPName (objName ms)))
       (\<lambda>_. ensureOwned R ms (poolApi R) (desiredPool R ms) mutateSpec)"

definition EnsureHTTPRoute :: "'s msReconciler \<Rightarrow> modelService \<Rightarrow> ('s world, opError, unit) io" where
  "EnsureHTTPRoute R ms =
     (case msHTTPRoute (msSp ms) of
        Some route \<Rightarrow>
          ensureOwned R ms (routeApi R)
            (BuildHTTPRoute ms route (HTTPRouteLabels (objName ms) (msVersion R))) mutateSpec
      | None \<Rightarrow>
          if ecDefaultGatewayName (msEPPConfig R) \<noteq> ''''
          then ensureOwned R ms (routeApi R)
                 (BuildDefaultHTTPRoute ms (HTTPRouteLabels (objName ms) (msVersion R))
                   (ecDefaultGatewayName (msEPPConfig R)) (InferencePoolName (objName ms))) mutateSpec
          else cleanupTyped (routeApi R) (objNamespace ms, HTTPRouteName (objName ms)))"

text \<open>The \<open>mutateFn\<close> copies the four modelled fields of the spec, which are all of them.\<close>

definition EnsureDestinationRule :: "'s msReconciler \<Rightarrow> modelService \<Rightarrow> ('s world, opError, unit) io" where
  "EnsureDestinationRule R ms =
     (if ecProvider (msEPPConfig R) \<noteq> ProviderIstio
      then cleanupTyped (ruleApi R) (objNamespace ms, EPPName (objName ms))
      else ensureOwned R ms (ruleApi R) (BuildDestinationRule ms (eppLabelsOf R ms)) mutateSpec)"

definition podMonitorFor :: "'s msReconciler \<Rightarrow> modelService \<Rightarrow> string \<Rightarrow> string \<Rightarrow> podMonitor" where
  "podMonitorFor R ms component roleName =
     BuildPodMonitor ms roleName (SelectorLabelsForRole (objName ms) component roleName)
       ((LabelsForRole (objName ms) component (msVersion R))(LabelInferenceServer := None))"

definition podMonitorsEnabled :: "modelService \<Rightarrow> bool" where
  "podMonitorsEnabled ms =
     (case Option.bind (msMonitoring (msSp ms)) monPodMonitor of Some m \<Rightarrow> pmsEnabled m | None \<Rightarrow> True)"

definition EnsurePodMonitors :: "'s msReconciler \<Rightarrow> modelService \<Rightarrow> ('s world, opError, unit) io" where
  "EnsurePodMonitors R ms =
     (let key = (\<lambda>roleName. (objNamespace ms, PodMonitorName (objName ms) roleName))
      in if \<not> podMonitorsEnabled ms then
           andThen (cleanupTyped (podMonitorApi R) (key RoleDecode))
             (\<lambda>_. cleanupTyped (podMonitorApi R) (key RolePrefill))
         else
           andThen (ensureOwned R ms (podMonitorApi R) (podMonitorFor R ms ComponentDecode RoleDecode) mutateSpec)
             (\<lambda>_. if msPrefill (msSp ms) \<noteq> None
                  then ensureOwned R ms (podMonitorApi R)
                         (podMonitorFor R ms ComponentPrefill RolePrefill) mutateSpec
                  else cleanupTyped (podMonitorApi R) (key RolePrefill)))"

definition monitoringEnabled :: "modelService \<Rightarrow> bool" where
  "monitoringEnabled ms =
     (case Option.bind (msMonitoring (msSp ms)) monPodMonitor of Some m \<Rightarrow> pmsEnabled m | None \<Rightarrow> False)"

definition EnsureEPPServiceMonitor :: "'s msReconciler \<Rightarrow> modelService \<Rightarrow> ('s world, opError, unit) io" where
  "EnsureEPPServiceMonitor R ms =
     (if msInferencePool (msSp ms) = None \<or> \<not> monitoringEnabled ms
      then cleanupTyped (svcMonitorApi R) (objNamespace ms, EPPServiceMonitorName (objName ms))
      else ensureOwned R ms (svcMonitorApi R)
             (BuildEPPServiceMonitor ms (msEPPConfig R) (eppLabelsOf R ms)) mutateSpec)"

end
