(* ===== verification/ServiceStatus.thy ===== *)
theory ServiceStatus
  imports ServiceHelpers KubeClient
begin

text \<open>
  \<open>internal/modelservice/status.go\<close>: the status of a ModelService derived from its two serving
  Deployments. \<open>derivePhase\<close> is pure; \<open>ObserveStatus\<close> reads the Deployments first.
\<close>

record msObservation =
  moPhase :: msPhase
  moDecodeReady :: int32
  moDecodeReplicas :: int32
  moPrefillReady :: int32
  moPrefillReplicas :: int32
  moReady :: conditionStatus
  moReason :: string
  moMessage :: string

record deploymentStatus =
  dsFound :: bool
  dsDesiredReplicas :: int32
  dsReadyReplicas :: int32
  dsUpdatedReplicas :: int32
  dsAvailable :: bool
  dsProgressing :: bool

definition deploymentStatusZero :: deploymentStatus where
  "deploymentStatusZero = \<lparr>dsFound = False, dsDesiredReplicas = 0, dsReadyReplicas = 0,
     dsUpdatedReplicas = 0, dsAvailable = False, dsProgressing = False\<rparr>"

definition ptrInt32OrZero :: "int32 option \<Rightarrow> int32" where
  "ptrInt32OrZero p = (case p of Some x \<Rightarrow> x | None \<Rightarrow> 0)"

text \<open>The loop over the conditions: a later condition of the same type overwrites an earlier one.\<close>

fun readConditions :: "deploymentCondition list \<Rightarrow> deploymentStatus \<Rightarrow> deploymentStatus" where
  "readConditions [] ds = ds"
| "readConditions (c # cs) ds =
     readConditions cs
       (if dcType c = ''Available'' then ds\<lparr>dsAvailable := (dcStatus c = ''True'')\<rparr>
        else if dcType c = ''Progressing'' then ds\<lparr>dsProgressing := (dcStatus c = ''True'')\<rparr>
        else ds)"

definition statusOfDeployment :: "deployment \<Rightarrow> deploymentStatus" where
  "statusOfDeployment dep =
     readConditions (dstConditions (depStatus (obody dep)))
       \<lparr>dsFound = True, dsDesiredReplicas = ptrInt32OrZero (dsReplicas (depSpec (obody dep))),
        dsReadyReplicas = dstReadyReplicas (depStatus (obody dep)),
        dsUpdatedReplicas = dstUpdatedReplicas (depStatus (obody dep)),
        dsAvailable = False, dsProgressing = False\<rparr>"

definition getDeploymentStatus ::
  "('s, deploymentBody) kindApi \<Rightarrow> string \<Rightarrow> string \<Rightarrow> ('s world, opError, deploymentStatus) io" where
  "getDeploymentStatus K namespace name =
     attempt (clientGet K (namespace, name)) (\<lambda>r. case r of
       Inl e \<Rightarrow> if isNotFound e then ret deploymentStatusZero else fail (ApiE e)
     | Inr dep \<Rightarrow> ret (statusOfDeployment dep))"

text \<open>The totals are \<open>int32\<close> sums, which wrap.\<close>

definition derivePhase ::
  "msObservation \<Rightarrow> deploymentStatus \<Rightarrow> msPhase \<times> conditionStatus \<times> string \<times> string" where
  "derivePhase obs decode =
     (if \<not> dsFound decode then
        (ModelServicePending, ConditionFalse, ''DeploymentNotFound'',
         ''Decode Deployment has not been created yet'')
      else
        (let totalDesired = moDecodeReplicas obs + moPrefillReplicas obs;
             totalReady = moDecodeReady obs + moPrefillReady obs
         in if totalReady = 0 \<and> 0 <s totalDesired then
              (ModelServiceRunning, ConditionFalse, ''PodsStarting'',
               ''Waiting for serving pods to become ready'')
            else if totalReady <s totalDesired then
              (ModelServiceRunning, ConditionFalse, ''PartiallyReady'',
               showInt32 totalReady @ ''/'' @ showInt32 totalDesired @ '' replicas ready'')
            else
              (ModelServiceReady, ConditionTrue, ''AllReplicasReady'',
               ''All '' @ showInt32 totalReady @ '' replicas are ready'')))"

definition observeWith :: "deploymentStatus \<Rightarrow> deploymentStatus \<Rightarrow> msObservation" where
  "observeWith decode prefill =
     (let obs = \<lparr>moPhase = ModelServicePending, moDecodeReady = dsReadyReplicas decode,
            moDecodeReplicas = dsDesiredReplicas decode, moPrefillReady = dsReadyReplicas prefill,
            moPrefillReplicas = dsDesiredReplicas prefill, moReady = ConditionUnknown,
            moReason = '''', moMessage = ''''\<rparr>
      in case derivePhase obs decode of (p, r, reason, msg) \<Rightarrow>
           obs\<lparr>moPhase := p, moReady := r, moReason := reason, moMessage := msg\<rparr>)"

text \<open>Without a prefill spec the prefill counts stay 0, as those of a Deployment that is not found.\<close>

definition ObserveStatus ::
  "('s, deploymentBody) kindApi \<Rightarrow> modelService \<Rightarrow>
     ('s world, opError, msObservation) io" where
  "ObserveStatus K ms =
     andThen (getDeploymentStatus K (objNamespace ms) (DecodeName (objName ms))) (\<lambda>decode.
     andThen
       (case msPrefill (msSp ms) of
          None \<Rightarrow> ret deploymentStatusZero
        | Some _ \<Rightarrow> getDeploymentStatus K (objNamespace ms) (PrefillName (objName ms)))
       (\<lambda>prefill. ret (observeWith decode prefill)))"

section \<open>Properties\<close>

lemma observeWith_simps [simp]:
  "moDecodeReady (observeWith d p) = dsReadyReplicas d"
  "moDecodeReplicas (observeWith d p) = dsDesiredReplicas d"
  "moPrefillReady (observeWith d p) = dsReadyReplicas p"
  "moPrefillReplicas (observeWith d p) = dsDesiredReplicas p"
  by (simp_all add: observeWith_def Let_def split: prod.split)

lemma observeWith_phase:
  "moPhase (observeWith d p) =
     (if \<not> dsFound d then ModelServicePending
      else if dsReadyReplicas d + dsReadyReplicas p = 0 \<and> 0 <s dsDesiredReplicas d + dsDesiredReplicas p
      then ModelServiceRunning
      else if dsReadyReplicas d + dsReadyReplicas p <s dsDesiredReplicas d + dsDesiredReplicas p
      then ModelServiceRunning else ModelServiceReady)"
  by (simp add: observeWith_def derivePhase_def Let_def)

lemma observeWith_ready:
  "moReady (observeWith d p) = (if moPhase (observeWith d p) = ModelServiceReady then ConditionTrue else ConditionFalse)"
  by (simp add: observeWith_def derivePhase_def Let_def)

text \<open>The ready and desired replica counts of a role are those of a Deployment that is not surging.\<close>

definition withinDesired :: "deploymentStatus \<Rightarrow> bool" where
  "withinDesired d \<longleftrightarrow> 0 \<le> sint (dsReadyReplicas d) \<and> sint (dsReadyReplicas d) \<le> sint (dsDesiredReplicas d)"

text \<open>
  C17: While no role has more ready than desired replicas and the totals fit 32 bits, a service
  is reported ready exactly when the decode Deployment exists and every replica of both roles is
  ready, and Pending exactly when the decode Deployment is missing.
\<close>

theorem ready_iff_every_replica:
  assumes "withinDesired d" and "withinDesired p"
    and "sint (dsDesiredReplicas d) + sint (dsDesiredReplicas p) < 2 ^ 31"
  shows "(moReady (observeWith d p) = ConditionTrue \<longleftrightarrow>
      dsFound d \<and> dsReadyReplicas d = dsDesiredReplicas d \<and> dsReadyReplicas p = dsDesiredReplicas p) \<and>
    (moPhase (observeWith d p) = ModelServicePending \<longleftrightarrow> \<not> dsFound d)"
proof -
  have des: "sint (dsDesiredReplicas d + dsDesiredReplicas p) = sint (dsDesiredReplicas d) + sint (dsDesiredReplicas p)"
    using assms by (intro sint_add_no_overflow) (auto simp: withinDesired_def)
  have rdy: "sint (dsReadyReplicas d + dsReadyReplicas p) = sint (dsReadyReplicas d) + sint (dsReadyReplicas p)"
    using assms by (intro sint_add_no_overflow) (auto simp: withinDesired_def)
  have eq: "a = b \<longleftrightarrow> sint a = sint b" for a b :: int32 using signed_word_eqI by blast
  have "(\<not> (dsReadyReplicas d + dsReadyReplicas p <s dsDesiredReplicas d + dsDesiredReplicas p)) \<longleftrightarrow>
      dsReadyReplicas d = dsDesiredReplicas d \<and> dsReadyReplicas p = dsDesiredReplicas p"
    using assms(1,2) unfolding word_sless_alt des rdy eq withinDesired_def by linarith
  moreover have "dsReadyReplicas d + dsReadyReplicas p = 0 \<and> 0 <s dsDesiredReplicas d + dsDesiredReplicas p \<Longrightarrow>
      dsReadyReplicas d + dsReadyReplicas p <s dsDesiredReplicas d + dsDesiredReplicas p"
    by (metis)
  ultimately show ?thesis by (auto simp: observeWith_ready observeWith_phase)
qed

definition exampleStatus :: "int32 \<Rightarrow> int32 \<Rightarrow> deploymentStatus" where
  "exampleStatus ready desired = deploymentStatusZero\<lparr>dsFound := True, dsReadyReplicas := ready,
     dsDesiredReplicas := desired\<rparr>"

theorem ready_iff_every_replica_witness:
  "moReady (observeWith (exampleStatus 2 2) (exampleStatus 1 1)) = ConditionTrue \<and>
   moReady (observeWith (exampleStatus 2 2) (exampleStatus 0 1)) \<noteq> ConditionTrue"
proof -
  have ok: "withinDesired (exampleStatus 2 2)" "withinDesired (exampleStatus 1 1)" "withinDesired (exampleStatus 0 1)"
    by (simp_all add: withinDesired_def exampleStatus_def)
  show ?thesis
    using ready_iff_every_replica [OF ok(1,2)] ready_iff_every_replica [OF ok(1,3)]
    by (simp add: exampleStatus_def)
qed


theorem phase_is_never_failed:
  "moPhase (observeWith d p) \<noteq> ModelServiceFailed \<and> moPhase (observeWith d p) \<noteq> ModelServiceUnset \<and>
   (moReady (observeWith d p) = ConditionTrue \<longleftrightarrow> moPhase (observeWith d p) = ModelServiceReady) \<and>
   moReason (observeWith d p) \<noteq> ''''"
  by (simp add: observeWith_ready observeWith_phase) (simp add: observeWith_def derivePhase_def Let_def)

end
