(* ===== verification/ServiceController.thy ===== *)
theory ServiceController
  imports ServiceReconcile ServiceStatus Conditions Rbac
begin

text \<open>
  \<open>internal/controller/modelservice_controller.go\<close>: the reconcile loop of ModelService, with its
  finalizer, the ordered sync of its resources, its status and its error path. A reconcile never
  asks to be requeued, so it returns \<open>()\<close> or an error; logging is not modelled.
\<close>

section \<open>Finalizer\<close>

definition hasFinalizer :: "modelService \<Rightarrow> bool" where
  "hasFinalizer ms \<longleftrightarrow> FinalizerClusterRBAC \<in> set (mFinalizers (ometa ms))"

definition addFinalizer :: "modelService \<Rightarrow> modelService" where
  "addFinalizer ms = ms\<lparr>ometa := (ometa ms)\<lparr>mFinalizers := mFinalizers (ometa ms) @ [FinalizerClusterRBAC]\<rparr>\<rparr>"

definition removeFinalizer :: "modelService \<Rightarrow> modelService" where
  "removeFinalizer ms =
     ms\<lparr>ometa := (ometa ms)\<lparr>mFinalizers := filter (\<lambda>f. f \<noteq> FinalizerClusterRBAC) (mFinalizers (ometa ms))\<rparr>\<rparr>"

text \<open>The update's answer is decoded into \<open>ms\<close>, which the loop goes on with.\<close>

definition ensureFinalizer :: "'s msReconciler \<Rightarrow> modelService \<Rightarrow> ('s world, opError, modelService) io" where
  "ensureFinalizer R ms =
     (if hasFinalizer ms then ret ms
      else attempt (clientUpdate (msApi R) (addFinalizer ms)) (\<lambda>r. case r of
             Inl e \<Rightarrow> fail (Wrapf ''adding finalizer'' (ApiE e)) | Inr ms' \<Rightarrow> ret ms'))"

definition wrapError :: "string \<Rightarrow> ('w, opError, 'a) io \<Rightarrow> ('w, opError, 'a) io" where
  "wrapError msg m = attempt m (\<lambda>r. case r of Inl e \<Rightarrow> fail (Wrapf msg e) | Inr x \<Rightarrow> ret x)"

definition handleDeletion :: "'s msReconciler \<Rightarrow> modelService \<Rightarrow> ('s world, opError, unit) io" where
  "handleDeletion R ms =
     (if \<not> hasFinalizer ms then ret ()
      else
        andThen (wrapError ''cleaning up cluster RBAC''
                   (CleanupEPPClusterRBAC R (objNamespace ms) (objName ms)))
          (\<lambda>_. wrapApi ''removing finalizer'' (clientUpdate (msApi R) (removeFinalizer ms))))"

section \<open>Resource sync\<close>

definition resourceSteps :: "'s msReconciler \<Rightarrow> modelService \<Rightarrow> ('s world, opError, unit) io list" where
  "resourceSteps R ms =
     [EnsureDecodeDeployment R ms,
      EnsurePrefillDeployment R ms,
      EnsureEPPServiceAccount R ms,
      EnsureEPPConfigMap R ms,
      EnsureEPPDeployment R ms (ConfigMapHash (sha256Sum R) ms),
      EnsureEPPService R ms,
      EnsureEPPSATokenSecret R ms,
      EnsureEPPRBAC R ms,
      EnsureEPPClusterRBAC R ms,
      EnsureInferencePool R ms,
      EnsureHTTPRoute R ms,
      EnsureDestinationRule R ms,
      EnsurePodMonitors R ms,
      EnsureEPPServiceMonitor R ms]"

definition reconcileResourcesMS :: "'s msReconciler \<Rightarrow> modelService \<Rightarrow> ('s world, opError, unit) io" where
  "reconcileResourcesMS R ms = runSteps (resourceSteps R ms)"

section \<open>Status\<close>

definition setReadyConditionFalseMS ::
  "'s msReconciler \<Rightarrow> modelService \<Rightarrow> string \<Rightarrow> string \<Rightarrow> ('s world, opError, unit) io" where
  "setReadyConditionFalseMS R ms reason message =
     andThen getServer (\<lambda>s.
       let conds = msSetStatusCondition R s (mssConditions (msSt ms))
             \<lparr>condType = ''Ready'', condStatus = ConditionFalse, condReason = reason,
              condMessage = message, condObservedGeneration = mGeneration (ometa ms),
              condLastTransitionTime = 0\<rparr>;
           ms' = setMsStatus ((msSt ms)\<lparr>mssConditions := conds,
             mssObservedGeneration := mGeneration (ometa ms)\<rparr>) ms
       in attempt (clientPatchStatus (msApi R) ms ms') (\<lambda>_. ret ()))"

definition handleReconcileErrorMS ::
  "'s msReconciler \<Rightarrow> modelService \<Rightarrow> opError \<Rightarrow> ('s world, opError, unit) io" where
  "handleReconcileErrorMS R ms err =
     andThen (setReadyConditionFalseMS R ms ''ReconcileError'' (errorText err)) (\<lambda>_.
     andThen (eventStep ''Warning'' ''ReconcileError'' (errorText err)) (\<lambda>_. fail err))"

definition readyConditionMS :: "modelService \<Rightarrow> msObservation \<Rightarrow> condition" where
  "readyConditionMS ms obs =
     \<lparr>condType = ''Ready'', condStatus = moReady obs, condReason = moReason obs,
      condMessage = moMessage obs, condObservedGeneration = mGeneration (ometa ms),
      condLastTransitionTime = 0\<rparr>"

definition newStatusMS :: "'s msReconciler \<Rightarrow> 's \<Rightarrow> modelService \<Rightarrow> msObservation \<Rightarrow> msStatus" where
  "newStatusMS R s ms obs =
     (msSt ms)\<lparr>mssObservedGeneration := mGeneration (ometa ms), mssPhase := moPhase obs,
        mssDecodeReady := moDecodeReady obs, mssDecodeReplicas := moDecodeReplicas obs,
        mssPrefillReady := moPrefillReady obs, mssPrefillReplicas := moPrefillReplicas obs,
        mssConditions := storedConditions (msSetStatusCondition R) s (mssConditions (msSt ms))
          (readyConditionMS ms obs)\<rparr>"

definition phaseEventMS :: "msObservation \<Rightarrow> ('s world, opError, unit) io" where
  "phaseEventMS obs =
     (if moPhase obs = ModelServiceReady
      then eventStep ''Normal'' ''Ready'' ''All serving replicas are ready''
      else if moPhase obs = ModelServiceFailed then eventStep ''Warning'' ''Failed'' (moMessage obs)
      else ret ())"

definition updateStatusMS :: "'s msReconciler \<Rightarrow> modelService \<Rightarrow> ('s world, opError, unit) io" where
  "updateStatusMS R ms =
     andThen (ObserveStatus (depApi R) ms) (\<lambda>obs.
     andThen getServer (\<lambda>s.
       let st = newStatusMS R s ms obs
       in if msStatusSemEq R (msSt ms) st then ret ()
          else andThen (liftApi (clientPatchStatus (msApi R) ms (setMsStatus st ms)))
                 (\<lambda>_. phaseEventMS obs)))"

section \<open>The loop\<close>

definition reconcileLiveMS :: "'s msReconciler \<Rightarrow> modelService \<Rightarrow> ('s world, opError, unit) io" where
  "reconcileLiveMS R ms0 =
     andThen (ensureFinalizer R ms0) (\<lambda>ms.
       attempt (reconcileResourcesMS R (ApplyImageDefaults (msDefaultImages R) ms)) (\<lambda>r. case r of
         Inl e \<Rightarrow> handleReconcileErrorMS R ms e
       | Inr _ \<Rightarrow> updateStatusMS R ms))"

definition ReconcileMS :: "'s msReconciler \<Rightarrow> string \<times> string \<Rightarrow> ('s world, opError, unit) io" where
  "ReconcileMS R req =
     attempt (clientGet (msApi R) req) (\<lambda>r. case r of
       Inl e \<Rightarrow> if isNotFound e then ret () else fail (ApiE e)
     | Inr ms \<Rightarrow>
         if \<not> timeIsZero (mDeletionTimestamp (ometa ms)) then handleDeletion R ms
         else reconcileLiveMS R ms)"

section \<open>Permissions\<close>

definition crud :: "string list" where
  "crud = [''get'', ''list'', ''watch'', ''create'', ''update'', ''delete'']"

text \<open>The markers with resources; the one on the \<open>/metrics\<close> URL is the first list.\<close>

definition rbacMSUrls :: "(string \<times> string list) list" where
  "rbacMSUrls = [(''/metrics'', [''get''])]"

definition rbacMS :: "rbacRule list" where
  "rbacMS =
    [rbac [''model.otterscale.io''] [''modelservices''] [''get'', ''list'', ''watch'', ''update'', ''patch''],
     rbac [''model.otterscale.io''] [''modelservices/status''] [''get'', ''update'', ''patch''],
     rbac [''model.otterscale.io''] [''modelservices/finalizers''] [''update''],
     rbac [''apps''] [''deployments''] crud,
     rbac [''''] [''serviceaccounts'', ''services'', ''configmaps'', ''secrets''] crud,
     rbac [''rbac.authorization.k8s.io''] [''roles'', ''rolebindings''] crud,
     rbac [''rbac.authorization.k8s.io''] [''clusterroles'', ''clusterrolebindings''] crud,
     rbac [''inference.networking.k8s.io''] [''inferencepools''] crud,
     rbac [''gateway.networking.k8s.io''] [''httproutes''] crud,
     rbac [''networking.istio.io''] [''destinationrules''] crud,
     rbac [''monitoring.coreos.com''] [''podmonitors'', ''servicemonitors''] crud,
     rbac [''events.k8s.io''] [''events''] [''create'', ''patch''],
     rbac [''''] [''pods''] [''get'', ''list'', ''watch''],
     rbac [''''] [''events''] [''create'', ''patch''],
     rbac [''coordination.k8s.io''] [''leases'']
       [''get'', ''list'', ''watch'', ''create'', ''update'', ''patch'', ''delete''],
     rbac [''inference.networking.x-k8s.io''] [''inferenceobjectives'', ''inferencemodelrewrites'']
       [''get'', ''list'', ''watch''],
     rbac [''authentication.k8s.io''] [''tokenreviews''] [''create''],
     rbac [''authorization.k8s.io''] [''subjectaccessreviews''] [''create'']]"

definition kindsMS :: "'s msReconciler \<Rightarrow> kindResource list" where
  "kindsMS R =
    [kindRow (typeName (msApi R)) ''model.otterscale.io'' ''modelservices'',
     kindRow (typeName (depApi R)) ''apps'' ''deployments'',
     kindRow (typeName (saApi R)) '''' ''serviceaccounts'',
     kindRow (typeName (cmApi R)) '''' ''configmaps'',
     kindRow (typeName (svcApi R)) '''' ''services'',
     kindRow (typeName (secretApi R)) '''' ''secrets'',
     kindRow (typeName (roleApi R)) ''rbac.authorization.k8s.io'' ''roles'',
     kindRow (typeName (bindingApi R)) ''rbac.authorization.k8s.io'' ''rolebindings'',
     kindRow (typeName (clusterRoleApi R)) ''rbac.authorization.k8s.io'' ''clusterroles'',
     kindRow (typeName (clusterBindingApi R)) ''rbac.authorization.k8s.io'' ''clusterrolebindings'',
     kindRow (typeName (poolApi R)) ''inference.networking.k8s.io'' ''inferencepools'',
     kindRow (typeName (routeApi R)) ''gateway.networking.k8s.io'' ''httproutes'',
     kindRow (typeName (ruleApi R)) ''networking.istio.io'' ''destinationrules'',
     kindRow (typeName (podMonitorApi R)) ''monitoring.coreos.com'' ''podmonitors'',
     kindRow (typeName (svcMonitorApi R)) ''monitoring.coreos.com'' ''servicemonitors'']"

end
