(* ===== verification/ServiceAccess.thy ===== *)
theory ServiceAccess
  imports ServiceController
begin

text \<open>
  What a reconcile of a ModelService may ask of the server: which calls each step can issue, and
  that all of them, and all the rights it hands on to the endpoint picker, are covered by the
  permissions the controller declares.
\<close>

section \<open>The calls of each step\<close>

lemmas ensureOp_defs =
  EnsureDecodeDeployment_def EnsurePrefillDeployment_def EnsureEPPServiceAccount_def
  EnsureEPPConfigMap_def EnsureEPPDeployment_def EnsureEPPService_def EnsureEPPSATokenSecret_def
  EnsureEPPRBAC_def EnsureEPPClusterRBAC_def EnsureInferencePool_def EnsureHTTPRoute_def
  EnsureDestinationRule_def EnsurePodMonitors_def EnsureEPPServiceMonitor_def

lemma emits_applyDeployment [emits_intros]:
  assumes "\<And>v ns n. v \<in> {VGet, VCreate, VUpdate} \<Longrightarrow> P (ApiCall v (typeName (depApi R)) ns n)"
  shows "emits P (applyDeployment R ms what d)"
  unfolding applyDeployment_def Let_def by (intro emits_intros assms) simp_all

lemma emits_cleanupDeployment [emits_intros]:
  assumes "\<And>v ns n. v \<in> {VGet, VDelete} \<Longrightarrow> P (ApiCall v (typeName (depApi R)) ns n)"
  shows "emits P (cleanupDeployment R ns n)"
  unfolding cleanupDeployment_def by (intro emits_intros assms) simp_all

text \<open>The Go types of the children.\<close>

definition childTypes :: "'s msReconciler \<Rightarrow> string list" where
  "childTypes R =
     [typeName (depApi R), typeName (saApi R), typeName (cmApi R), typeName (svcApi R),
      typeName (secretApi R), typeName (roleApi R), typeName (bindingApi R),
      typeName (clusterRoleApi R), typeName (clusterBindingApi R), typeName (poolApi R),
      typeName (routeApi R), typeName (ruleApi R), typeName (podMonitorApi R),
      typeName (svcMonitorApi R)]"

lemma emits_resourceSteps:
  assumes "\<And>v ty ns n. v \<in> {VGet, VCreate, VUpdate, VDelete} \<Longrightarrow> ty \<in> set (childTypes R) \<Longrightarrow>
      P (ApiCall v ty ns n)"
  shows "list_all (emits P) (resourceSteps R ms)"
  unfolding resourceSteps_def ensureOp_defs ensureDeployment_def cleanupClusterRBAC_def Let_def
    list.pred_inject
  by (intro conjI emits_intros TrueI) (auto intro!: assms simp: childTypes_def)

lemma emits_reconcileResourcesMS [emits_intros]:
  assumes "\<And>v ty ns n. v \<in> {VGet, VCreate, VUpdate, VDelete} \<Longrightarrow> ty \<in> set (childTypes R) \<Longrightarrow>
      P (ApiCall v ty ns n)"
  shows "emits P (reconcileResourcesMS R ms)"
  using emits_resourceSteps [of R P ms, OF assms] unfolding reconcileResourcesMS_def
  by (intro emits_runSteps) (simp add: list_all_iff)

lemma emits_wrapError [emits_intros]: "emits P m \<Longrightarrow> emits P (wrapError msg m)"
  unfolding wrapError_def by (intro emits_intros)

lemma emits_getDeploymentStatus [emits_intros]:
  "(\<And>ns n. P (ApiCall VGet (typeName K) ns n)) \<Longrightarrow> emits P (getDeploymentStatus K ns n)"
  unfolding getDeploymentStatus_def by (intro emits_intros) blast

lemma emits_updateStatusMS [emits_intros]:
  assumes "\<And>ns n. P (ApiCall VGet (typeName (depApi R)) ns n)"
    and "\<And>ns n. P (ApiCall VPatchStatus (typeName (msApi R)) ns n)" and "\<And>t r n. P (EventCall t r n)"
  shows "emits P (updateStatusMS R ms)"
  unfolding updateStatusMS_def ObserveStatus_def phaseEventMS_def Let_def
  by (intro emits_intros assms)

lemma emits_handleReconcileErrorMS [emits_intros]:
  assumes "\<And>ns n. P (ApiCall VPatchStatus (typeName (msApi R)) ns n)" and "\<And>t r n. P (EventCall t r n)"
  shows "emits P (handleReconcileErrorMS R ms e)"
  unfolding handleReconcileErrorMS_def setReadyConditionFalseMS_def Let_def
  by (intro emits_intros assms)

lemma emits_handleDeletion [emits_intros]:
  assumes "\<And>ns n. P (ApiCall VUpdate (typeName (msApi R)) ns n)"
    and "\<And>v ty ns n. v \<in> {VGet, VDelete} \<Longrightarrow> ty \<in> {typeName (clusterRoleApi R), typeName (clusterBindingApi R)} \<Longrightarrow>
      P (ApiCall v ty ns n)"
  shows "emits P (handleDeletion R ms)"
  unfolding handleDeletion_def CleanupEPPClusterRBAC_def cleanupClusterRBAC_def
  by (intro emits_intros assms) simp_all

section \<open>Permissions\<close>

lemma allows_children:
  "list_all (\<lambda>row. list_all (\<lambda>v. allows rbacMS (krGroup row) (krResource row @ subresource v) (verbName v))
     [VGet, VCreate, VUpdate, VDelete]) (tl (kindsMS R))"
  by (simp add: kindsMS_def kindRow_def allows_def rbacMS_def rbac_def crud_def)

lemma childTypes_kinds: "childTypes R = map krType (tl (kindsMS R))"
  by (simp add: childTypes_def kindsMS_def kindRow_def)

lemma granted_child:
  assumes "v \<in> {VGet, VCreate, VUpdate, VDelete}" and "ty \<in> set (childTypes R)"
  shows "granted rbacMS (kindsMS R) (ApiCall v ty ns n)"
proof -
  obtain row where row: "row \<in> set (tl (kindsMS R))" "krType row = ty"
    using assms(2) unfolding childTypes_kinds by auto
  have "row \<in> set (kindsMS R)"
    using row(1) by (rule list.set_sel(2) [rotated]) (simp add: kindsMS_def)
  moreover have "allows rbacMS (krGroup row) (krResource row @ subresource v) (verbName v)"
    using allows_children row(1) assms(1) unfolding list_all_iff by fastforce
  ultimately show ?thesis using row(2) unfolding granted_def list_ex_iff apiCall.case by blast
qed

lemma granted_own:
  "granted rbacMS (kindsMS R) (ApiCall VGet (typeName (msApi R)) ns n)"
  "granted rbacMS (kindsMS R) (ApiCall VUpdate (typeName (msApi R)) ns n)"
  "granted rbacMS (kindsMS R) (ApiCall VPatchStatus (typeName (msApi R)) ns n)"
  "granted rbacMS (kindsMS R) (EventCall t r msg)"
  by (simp_all add: granted_simps rbacMS_def kindsMS_def)

text \<open>
  C6: Whatever the server answers, every request a reconcile of a service sends is covered by the
  permissions the controller declares.
\<close>

theorem ReconcileMS_within_rbac:
  "emits (granted rbacMS (kindsMS R)) (ReconcileMS R req)"
  unfolding ReconcileMS_def reconcileLiveMS_def ensureFinalizer_def
  by (intro emits_intros granted_own granted_child) (auto simp: childTypes_def)
text \<open>
  The API server lets a client create a role only when the client has every right in it.
\<close>

definition covers :: "rbacRule list \<Rightarrow> (string \<times> string list) list \<Rightarrow> policyRule \<Rightarrow> bool" where
  "covers rules urls p \<longleftrightarrow>
     list_all (\<lambda>v.
       list_all (\<lambda>g. list_all (\<lambda>r. allows rules g r v) (prResources p)) (prAPIGroups p) \<and>
       list_all (\<lambda>u. list_ex (\<lambda>(u', vs). u' = u \<and> v \<in> set vs) urls) (prNonResourceURLs p))
     (prVerbs p)"

text \<open>
  C24: The Role and ClusterRole built for the EPP grant nothing that the operator is not itself
  granted, so the API server lets it create them.
\<close>

theorem epp_roles_grant_no_more:
  "(case (BuildEPPRBAC ms ls n, BuildEPPClusterRBAC ms ls) of ((r, b), (cr, cb)) \<Rightarrow>
      list_all (covers rbacMS rbacMSUrls) (roleRules (obody r) @ roleRules (obody cr)))"
  by (simp add: BuildEPPRBAC_def BuildEPPClusterRBAC_def Let_def covers_def rbacMS_def rbacMSUrls_def
      allows_def rbac_def resourceRule_def crud_def)

end
