(* ===== verification/Operator.thy ===== *)
theory Operator
  imports ArtifactController ServiceAccess
begin

text \<open>
  The process around the two controllers: \<open>cmd/main.go\<close>, which turns the command line into settings
  and starts the manager, and the \<open>SetupWithManager\<close> of each controller, which says what the
  controller watches. Go's \<open>flag\<close> package is modelled as far as \<open>flag.Parse\<close> uses it; the flags
  other packages register (zap, the kubeconfig) and the manager of controller-runtime are parameters.
\<close>

section \<open>The command line\<close>

text \<open>The variables of \<open>main\<close>, under their names there.\<close>

record operatorFlags =
  defaultEngineImage :: string
  defaultEPPImage :: string
  defaultRoutingProxyImage :: string
  defaultGatewayName :: string
  kitImage :: string
  metricsAddr :: string
  metricsCertPath :: string
  metricsCertName :: string
  metricsCertKey :: string
  enableLeaderElection :: bool
  probeAddr :: string
  secureMetrics :: bool
  provider :: string
  enableHTTP2 :: bool
  metricsEndpointAuth :: bool
  tracingEnabled :: bool
  tracingOtelEndpoint :: string
  tracingSampler :: string
  tracingSamplerArg :: string

definition flagsZero :: operatorFlags where
  "flagsZero = \<lparr>defaultEngineImage = '''', defaultEPPImage = '''', defaultRoutingProxyImage = '''',
     defaultGatewayName = '''', kitImage = '''', metricsAddr = '''', metricsCertPath = '''',
     metricsCertName = '''', metricsCertKey = '''', enableLeaderElection = False, probeAddr = '''',
     secureMetrics = False, provider = '''', enableHTTP2 = False, metricsEndpointAuth = False,
     tracingEnabled = False, tracingOtelEndpoint = '''', tracingSampler = '''', tracingSamplerArg = ''''\<rparr>"

text \<open>\<open>flag.StringVar(p, name, value, usage)\<close> and \<open>flag.BoolVar\<close>; \<open>p\<close> is the variable written.\<close>

datatype flagVar =
    StringVar (flagName: string) string "string \<Rightarrow> operatorFlags \<Rightarrow> operatorFlags"
  | BoolVar (flagName: string) bool "bool \<Rightarrow> operatorFlags \<Rightarrow> operatorFlags"

definition flagVars :: "flagVar list" where
  "flagVars =
    [StringVar ''default-engine-image'' ''ghcr.io/llm-d/llm-d-cuda:v0.5.1'' (\<lambda>v. defaultEngineImage_update (\<lambda>_. v)),
     StringVar ''default-epp-image'' ''ghcr.io/llm-d/llm-d-inference-scheduler:v0.6.0''
       (\<lambda>v. defaultEPPImage_update (\<lambda>_. v)),
     StringVar ''default-routing-proxy-image'' ''ghcr.io/llm-d/llm-d-routing-sidecar:v0.6.0''
       (\<lambda>v. defaultRoutingProxyImage_update (\<lambda>_. v)),
     StringVar ''default-gateway-name'' ''otterscale-llm-d-infra-inference-gateway''
       (\<lambda>v. defaultGatewayName_update (\<lambda>_. v)),
     StringVar ''kit-image'' ''ghcr.io/kitops-ml/kitops:v1.11.0'' (\<lambda>v. kitImage_update (\<lambda>_. v)),
     StringVar ''metrics-bind-address'' ''0'' (\<lambda>v. metricsAddr_update (\<lambda>_. v)),
     StringVar ''health-probe-bind-address'' '':8081'' (\<lambda>v. probeAddr_update (\<lambda>_. v)),
     BoolVar ''leader-elect'' False (\<lambda>v. enableLeaderElection_update (\<lambda>_. v)),
     BoolVar ''metrics-secure'' True (\<lambda>v. secureMetrics_update (\<lambda>_. v)),
     StringVar ''metrics-cert-path'' '''' (\<lambda>v. metricsCertPath_update (\<lambda>_. v)),
     StringVar ''metrics-cert-name'' ''tls.crt'' (\<lambda>v. metricsCertName_update (\<lambda>_. v)),
     StringVar ''metrics-cert-key'' ''tls.key'' (\<lambda>v. metricsCertKey_update (\<lambda>_. v)),
     BoolVar ''enable-http2'' False (\<lambda>v. enableHTTP2_update (\<lambda>_. v)),
     StringVar ''provider'' ''istio'' (\<lambda>v. provider_update (\<lambda>_. v)),
     BoolVar ''metrics-endpoint-auth'' True (\<lambda>v. metricsEndpointAuth_update (\<lambda>_. v)),
     BoolVar ''tracing-enabled'' False (\<lambda>v. tracingEnabled_update (\<lambda>_. v)),
     StringVar ''tracing-otel-endpoint'' '''' (\<lambda>v. tracingOtelEndpoint_update (\<lambda>_. v)),
     StringVar ''tracing-sampler'' ''parentbased_traceidratio'' (\<lambda>v. tracingSampler_update (\<lambda>_. v)),
     StringVar ''tracing-sampler-arg'' ''0.01'' (\<lambda>v. tracingSamplerArg_update (\<lambda>_. v))]"

text \<open>Registering a flag stores its default in the variable.\<close>

fun storeDefault :: "flagVar \<Rightarrow> operatorFlags \<Rightarrow> operatorFlags" where
  "storeDefault (StringVar _ d store) f = store d f"
| "storeDefault (BoolVar _ d store) f = store d f"

definition defaultFlags :: operatorFlags where
  "defaultFlags = fold storeDefault flagVars flagsZero"

text \<open>\<open>strconv.ParseBool\<close>.\<close>

definition parseBool :: "string \<Rightarrow> bool option" where
  "parseBool s =
     (if s \<in> set [''1'', ''t'', ''T'', ''true'', ''TRUE'', ''True''] then Some True
      else if s \<in> set [''0'', ''f'', ''F'', ''false'', ''FALSE'', ''False''] then Some False
      else None)"

text \<open>
  One flag as \<open>flag.Parse\<close> sees it: whether it is Boolean, and what setting it to a text does (\<open>None\<close>
  when the text is refused). \<open>extra\<close> are the flags of other packages: they leave the variables of
  \<open>main\<close> alone.
\<close>

type_synonym flagSetter = "string \<Rightarrow> operatorFlags \<Rightarrow> operatorFlags option"

fun flagSetterOf :: "flagVar \<Rightarrow> bool \<times> flagSetter" where
  "flagSetterOf (StringVar _ _ store) = (False, \<lambda>v f. Some (store v f))"
| "flagSetterOf (BoolVar _ _ store) = (True, \<lambda>v f. map_option (\<lambda>b. store b f) (parseBool v))"

definition lookupFlag ::
  "(string \<Rightarrow> (bool \<times> (string \<Rightarrow> bool)) option) \<Rightarrow> string \<Rightarrow> (bool \<times> flagSetter) option" where
  "lookupFlag extra name =
     (case find (\<lambda>v. flagName v = name) flagVars of
        Some v \<Rightarrow> Some (flagSetterOf v)
      | None \<Rightarrow> map_option (\<lambda>(b, ok). (b, \<lambda>v f. if ok v then Some f else None)) (extra name))"

text \<open>
  \<open>flag.Parse\<close>: each argument \<open>-name\<close>, \<open>--name\<close>, \<open>-name=value\<close> or, for a flag that is not Boolean,
  \<open>-name value\<close>, up to the first argument that is no flag or is \<open>--\<close>. The flag set of the process
  exits on an error, with code 0 after a request for help and 2 otherwise.
\<close>

datatype flagStop = HelpRequested | BadFlag

definition splitFlag :: "string \<Rightarrow> string \<times> string option" where
  "splitFlag s =
     (let name = takeWhile (\<lambda>c. c \<noteq> CHR ''='') s; rest = dropWhile (\<lambda>c. c \<noteq> CHR ''='') s
      in (name, if rest = [] then None else Some (tl rest)))"

definition isFlagArg :: "string \<Rightarrow> bool" where
  "isFlagArg s \<longleftrightarrow> 2 \<le> length s \<and> hd s = CHR ''-'' \<and> s \<noteq> ''--''"

definition stripDashes :: "string \<Rightarrow> string" where
  "stripDashes s = (if s ! 1 = CHR ''-'' then drop 2 s else drop 1 s)"

fun parseFlags ::
  "(string \<Rightarrow> (bool \<times> (string \<Rightarrow> bool)) option) \<Rightarrow> string list \<Rightarrow> operatorFlags \<Rightarrow>
     flagStop + operatorFlags" where
  "parseFlags extra [] f = Inr f"
| "parseFlags extra (a # args) f =
     (if \<not> isFlagArg a then Inr f
      else let body = stripDashes a
      in if body = [] \<or> hd body = CHR ''-'' \<or> hd body = CHR ''='' then Inl BadFlag
      else case splitFlag body of (name, given) \<Rightarrow>
        (case lookupFlag extra name of
           None \<Rightarrow> Inl (if name = ''help'' \<or> name = ''h'' then HelpRequested else BadFlag)
         | Some (isBool, put) \<Rightarrow>
             (case (given, args) of
                (Some v, _) \<Rightarrow> (case put v f of None \<Rightarrow> Inl BadFlag | Some f' \<Rightarrow> parseFlags extra args f')
              | (None, []) \<Rightarrow>
                  if isBool then (case put ''true'' f of None \<Rightarrow> Inl BadFlag | Some f' \<Rightarrow> Inr f')
                  else Inl BadFlag
              | (None, v # args') \<Rightarrow>
                  if isBool
                  then (case put ''true'' f of None \<Rightarrow> Inl BadFlag | Some f' \<Rightarrow> parseFlags extra args f')
                  else (case put v f of None \<Rightarrow> Inl BadFlag | Some f' \<Rightarrow> parseFlags extra args' f'))))"

section \<open>The manager\<close>

text \<open>
  \<open>metricsserver.Options\<close> and \<open>ctrl.Options\<close>. A TLS option is a function on the server's
  configuration; of \<open>tls.Config\<close> only \<open>NextProtos\<close> is used.
\<close>

record tlsConfig =
  nextProtos :: "string list"

datatype filterProvider = WithAuthenticationAndAuthorization

record metricsServerOptions =
  bindAddress :: string
  secureServing :: bool
  tlsOpts :: "(tlsConfig \<Rightarrow> tlsConfig) list"
  filterProvider :: "filterProvider option"
  certDir :: string
  certName :: string
  keyName :: string

record managerOptions =
  moMetrics :: metricsServerOptions
  moHealthProbeBindAddress :: string
  moLeaderElection :: bool
  moLeaderElectionID :: string

definition disableHTTP2 :: "tlsConfig \<Rightarrow> tlsConfig" where
  "disableHTTP2 c = c\<lparr>nextProtos := [''http/1.1'']\<rparr>"

definition metricsOptions :: "operatorFlags \<Rightarrow> metricsServerOptions" where
  "metricsOptions f =
     (let o1 = \<lparr>bindAddress = metricsAddr f, secureServing = secureMetrics f,
                tlsOpts = (if \<not> enableHTTP2 f then [disableHTTP2] else []),
                filterProvider = None, certDir = '''', certName = '''', keyName = ''''\<rparr>;
          o2 = (if secureMetrics f then o1\<lparr>filterProvider := Some WithAuthenticationAndAuthorization\<rparr> else o1)
      in if metricsCertPath f \<noteq> ''''
         then o2\<lparr>certDir := metricsCertPath f, certName := metricsCertName f, keyName := metricsCertKey f\<rparr>
         else o2)"

definition managerOptionsOf :: "operatorFlags \<Rightarrow> managerOptions" where
  "managerOptionsOf f =
     \<lparr>moMetrics = metricsOptions f, moHealthProbeBindAddress = probeAddr f,
      moLeaderElection = enableLeaderElection f, moLeaderElectionID = ''model-operator-leader-election''\<rparr>"

section \<open>The scheme\<close>

text \<open>
  \<open>init\<close> registers the API types of six packages in the scheme, whose type is \<open>'c\<close>; \<open>utilruntime.Must\<close>
  panics on the first error, which is then the result.
\<close>

record 'c schemeLib =
  clientgoAddToScheme :: "('c, string, unit) io"
  modelAddToScheme :: "('c, string, unit) io"
  gatewayInstall :: "('c, string, unit) io"
  inferenceInstall :: "('c, string, unit) io"
  istioAddToScheme :: "('c, string, unit) io"
  monitoringAddToScheme :: "('c, string, unit) io"

definition initScheme :: "'c schemeLib \<Rightarrow> ('c, string, unit) io" where
  "initScheme L = runSteps
     [clientgoAddToScheme L, modelAddToScheme L, gatewayInstall L, inferenceInstall L,
      istioAddToScheme L, monitoringAddToScheme L]"

section \<open>The reconcilers\<close>

text \<open>
  The reconcilers as \<open>main\<close> builds them. Client, scheme and recorder come from the manager: they are
  the operations of the record \<open>R\<close>. \<open>version\<close> is set when the operator is linked.
\<close>

definition newArtifactReconciler ::
  "operatorFlags \<Rightarrow> string \<Rightarrow> 's maReconciler \<Rightarrow> 's maReconciler" where
  "newArtifactReconciler f version R = R\<lparr>maVersion := version, maKitImage := kitImage f\<rparr>"

definition newServiceReconciler ::
  "operatorFlags \<Rightarrow> string \<Rightarrow> 's msReconciler \<Rightarrow> 's msReconciler" where
  "newServiceReconciler f version R =
     R\<lparr>msVersion := version,
       msDefaultImages := \<lparr>diEngine = defaultEngineImage f, diEPP = defaultEPPImage f,
                           diRoutingProxy = defaultRoutingProxyImage f\<rparr>,
       msEPPConfig := \<lparr>ecProvider = provider f, ecFlags = [],
                       ecMetricsEndpointAuth = metricsEndpointAuth f,
                       ecDefaultGatewayName = defaultGatewayName f,
                       ecTracing = \<lparr>tcEnabled = tracingEnabled f,
                                    tcOtelExporterEndpoint = tracingOtelEndpoint f,
                                    tcSampler = tracingSampler f,
                                    tcSamplerArg = tracingSamplerArg f\<rparr>\<rparr>,
       msKitImage := kitImage f\<rparr>"

text \<open>
  What a controller watches: the kind it reconciles, with the predicates its events pass, and the
  kinds whose controlling owner is then reconciled.
\<close>

datatype eventPredicate = GenerationChangedPredicate

record watchPlan =
  watchFor :: string
  watchPredicates :: "eventPredicate list"
  watchOwns :: "string list"
  watchName :: string

definition SetupWithManagerMA :: "'s maReconciler \<Rightarrow> watchPlan" where
  "SetupWithManagerMA R =
     \<lparr>watchFor = typeName (maApi R), watchPredicates = [GenerationChangedPredicate],
      watchOwns = [typeName (jobApi R)], watchName = ''modelartifact''\<rparr>"

definition SetupWithManagerMS :: "'s msReconciler \<Rightarrow> watchPlan" where
  "SetupWithManagerMS R =
     \<lparr>watchFor = typeName (msApi R), watchPredicates = [GenerationChangedPredicate],
      watchOwns = [typeName (depApi R), typeName (svcApi R), typeName (cmApi R), typeName (saApi R),
        typeName (secretApi R), typeName (roleApi R), typeName (bindingApi R), typeName (poolApi R),
        typeName (routeApi R)],
      watchName = ''modelservice''\<rparr>"

section \<open>Start-up\<close>

text \<open>
  The manager's operations on a process state \<open>'m\<close>: each may fail with an error, on which \<open>main\<close>
  exits with code 1. \<open>mgrStart\<close> returns when the process is told to stop.
\<close>

record 'm managerLib =
  mgrNew :: "managerOptions \<Rightarrow> ('m, string, unit) io"
  mgrComplete :: "watchPlan \<Rightarrow> ('m, string, unit) io"
  mgrAddHealthzCheck :: "string \<Rightarrow> ('m, string, unit) io"
  mgrAddReadyzCheck :: "string \<Rightarrow> ('m, string, unit) io"
  mgrStart :: "('m, string, unit) io"

definition startupSteps ::
  "'m managerLib \<Rightarrow> 's maReconciler \<Rightarrow> 'z msReconciler \<Rightarrow> operatorFlags \<Rightarrow> string \<Rightarrow>
     ('m, string, unit) io list" where
  "startupSteps L A S f version =
     [mgrNew L (managerOptionsOf f),
      mgrComplete L (SetupWithManagerMA (newArtifactReconciler f version A)),
      mgrComplete L (SetupWithManagerMS (newServiceReconciler f version S)),
      mgrAddHealthzCheck L ''healthz'',
      mgrAddReadyzCheck L ''readyz'',
      mgrStart L]"

text \<open>\<open>main\<close>, with the exit code of the process.\<close>

definition mainOp ::
  "(string \<Rightarrow> (bool \<times> (string \<Rightarrow> bool)) option) \<Rightarrow> 'm managerLib \<Rightarrow> 's maReconciler \<Rightarrow>
     'z msReconciler \<Rightarrow> string \<Rightarrow> string list \<Rightarrow> 'm \<Rightarrow> nat \<times> 'm" where
  "mainOp extra L A S version args m =
     (case parseFlags extra args defaultFlags of
        Inl HelpRequested \<Rightarrow> (0, m)
      | Inl BadFlag \<Rightarrow> (2, m)
      | Inr f \<Rightarrow>
          (case runSteps (startupSteps L A S f version) m of
             (Inl e, m') \<Rightarrow> (1, m')
           | (Inr _, m') \<Rightarrow> (0, m')))"

section \<open>Properties\<close>

text \<open>The argument that sets a flag, and a command line that states every setting.\<close>

definition argOf :: "string \<times> string \<Rightarrow> string" where
  "argOf nv = ''--'' @ fst nv @ ''='' @ snd nv"

definition commandLine :: "operatorFlags \<Rightarrow> string list" where
  "commandLine f = map argOf
    [(''default-engine-image'', defaultEngineImage f), (''default-epp-image'', defaultEPPImage f),
     (''default-routing-proxy-image'', defaultRoutingProxyImage f),
     (''default-gateway-name'', defaultGatewayName f), (''kit-image'', kitImage f),
     (''metrics-bind-address'', metricsAddr f), (''health-probe-bind-address'', probeAddr f),
     (''leader-elect'', showBool (enableLeaderElection f)),
     (''metrics-secure'', showBool (secureMetrics f)), (''metrics-cert-path'', metricsCertPath f),
     (''metrics-cert-name'', metricsCertName f), (''metrics-cert-key'', metricsCertKey f),
     (''enable-http2'', showBool (enableHTTP2 f)), (''provider'', provider f),
     (''metrics-endpoint-auth'', showBool (metricsEndpointAuth f)),
     (''tracing-enabled'', showBool (tracingEnabled f)),
     (''tracing-otel-endpoint'', tracingOtelEndpoint f), (''tracing-sampler'', tracingSampler f),
     (''tracing-sampler-arg'', tracingSamplerArg f)]"

definition flagSyntax :: "string \<Rightarrow> bool" where
  "flagSyntax n \<longleftrightarrow> n \<noteq> [] \<and> hd n \<noteq> CHR ''-'' \<and> CHR ''='' \<notin> set n"

lemma parseBool_showBool [simp]: "parseBool (showBool b) = Some b"
  by (simp add: parseBool_def showBool_def)

lemma splitFlag_arg: "CHR ''='' \<notin> set n \<Longrightarrow> splitFlag (n @ ''='' @ v) = (n, Some v)"
  by (induction n) (auto simp: splitFlag_def Let_def)

lemma parseFlags_arg:
  assumes "flagSyntax n" and "lookupFlag extra n \<noteq> None"
  shows "parseFlags extra (argOf (n, v) # args) f =
    (case snd (the (lookupFlag extra n)) v f of
       None \<Rightarrow> Inl BadFlag | Some f' \<Rightarrow> parseFlags extra args f')"
proof -
  have "isFlagArg (argOf (n, v))" "stripDashes (argOf (n, v)) = n @ ''='' @ v"
    using assms(1) by (auto simp: isFlagArg_def stripDashes_def argOf_def)
  moreover have "hd (n @ ''='' @ v) \<noteq> CHR ''-''" "hd (n @ ''='' @ v) \<noteq> CHR ''=''"
    using assms(1) by (cases n; auto simp: flagSyntax_def)+
  ultimately show ?thesis
    using assms splitFlag_arg [of n v] by (auto simp: Let_def flagSyntax_def)
qed

lemmas flag_evaluation = lookupFlag_def flagVars_def flagSyntax_def

text \<open>
  C26: A command line that states every setting as \<open>--name=value\<close> is parsed back to
  exactly these settings, whatever the defaults: every flag reaches its own variable and no
  other.
\<close>

theorem command_line_reaches_every_setting:
  "parseFlags extra (commandLine f) f0 = Inr f"
  by (simp add: commandLine_def parseFlags_arg flag_evaluation del: parseFlags.simps(2))

lemma defaultFlags_images:
  "defaultEngineImage defaultFlags \<noteq> ''''" "defaultEPPImage defaultFlags \<noteq> ''''"
  "defaultRoutingProxyImage defaultFlags \<noteq> ''''" "kitImage defaultFlags \<noteq> ''''"
  by (simp_all add: defaultFlags_def flagVars_def)

text \<open>The images of a service after its defaults are filled in.\<close>

lemma ApplyImageDefaults_images:
  assumes "diEngine d \<noteq> ''''" and "diEPP d \<noteq> ''''" and "diRoutingProxy d \<noteq> ''''"
  shows "enImage (msEngine (msSp (ApplyImageDefaults d ms))) \<noteq> ''''"
    and "epImage (eppSpecOf d (ApplyImageDefaults d ms)) \<noteq> ''''"
    and "msRoutingProxy (msSp (ApplyImageDefaults d ms)) = Some p \<Longrightarrow> rpImage p \<noteq> ''''"
  using assms
  by (auto simp: ApplyImageDefaults_def Let_def eppSpecOf_def setMsSpec_def split: option.splits if_splits)

abbreviation podImages :: "podSpec \<Rightarrow> string set" where
  "podImages p \<equiv> ctImage ` set (psInitContainers p @ psContainers p)"

text \<open>
  C27: With operator flags that name every default image, which the flag defaults do, no
  container of a serving pod, of an EPP pod or of a pipeline Job is left without an image.
\<close>

theorem every_container_has_an_image:
  assumes "defaultEngineImage f \<noteq> ''''" and "defaultEPPImage f \<noteq> ''''"
    and "defaultRoutingProxyImage f \<noteq> ''''" and "kitImage f \<noteq> ''''"
    and "R = newServiceReconciler f version S" and "ms' = ApplyImageDefaults (msDefaultImages R) ms"
  shows "'''' \<notin> podImages (depPodSpec (servingDeployment R ms' role rn dn c)) \<and>
    '''' \<notin> podImages (depPodSpec (eppDeployment R ms' hash)) \<and>
    '''' \<notin> podImages (jobPodSpec (BuildJob ma (maKitImage (newArtifactReconciler f version A)) ls))"
proof -
  note images = ApplyImageDefaults_images [of "msDefaultImages R" ms, folded assms(6)]
  have R: "diEngine (msDefaultImages R) \<noteq> ''''" "diEPP (msDefaultImages R) \<noteq> ''''"
    "diRoutingProxy (msDefaultImages R) \<noteq> ''''" "msKitImage R \<noteq> ''''"
    using assms by (simp_all add: newServiceReconciler_def)
  have "'''' \<notin> podImages (depPodSpec (servingDeployment R ms' role rn dn c))"
    using images(1,3) R
    by (auto simp: servingDeployment_def BuildDeployment_def Let_def buildInitContainers_def
        buildModelUnpackInitContainer_def proxyContainer_def containerZero_def podSpecZero_def split: option.splits if_splits)
  moreover have "'''' \<notin> podImages (depPodSpec (eppDeployment R ms' hash))"
    using images(2) R
    by (simp add: eppDeployment_def BuildEPPDeployment_def eppContainer_def Let_def containerZero_def podSpecZero_def)
  moreover have "'''' \<notin> podImages (jobPodSpec (BuildJob ma (maKitImage (newArtifactReconciler f version A)) ls))"
    using assms(4) by (simp add: newArtifactReconciler_def BuildJob_def jobPod_def kitContainer_def)
  ultimately show ?thesis by blast
qed

text \<open>
  A kind that a controller reads through the manager's client, or watches, is listed and watched by
  the manager's cache.
\<close>

definition cachable :: "rbacRule list \<Rightarrow> kindResource \<Rightarrow> bool" where
  "cachable rules k \<longleftrightarrow>
     allows rules (krGroup k) (krResource k) ''list'' \<and> allows rules (krGroup k) (krResource k) ''watch''"

lemmas access_evaluation = granted_simps rbacMA_def rbacMS_def kindsMA_def kindsMS_def crud_def

theorem caches_within_rbac:
  "list_all (cachable (rbacMA @ rbacMS)) (kindsMA A @ kindsMS S) \<and>
   insert (watchFor (SetupWithManagerMA A)) (set (watchOwns (SetupWithManagerMA A))) \<subseteq> krType ` set (kindsMA A) \<and>
   insert (watchFor (SetupWithManagerMS S)) (set (watchOwns (SetupWithManagerMS S))) \<subseteq> krType ` set (kindsMS S) \<and>
   filter (\<lambda>k. \<not> cachable rbacMA k) (kindsMA A) = [kindRow (typeName (podApi A)) '''' ''pods'']"
  by (intro conjI) (simp_all add: access_evaluation cachable_def SetupWithManagerMA_def SetupWithManagerMS_def)

theorem unwatched_children:
  assumes "distinct (childTypes S)"
  shows "{ty \<in> set (childTypes S). ty \<notin> set (watchOwns (SetupWithManagerMS S))} =
    {typeName (clusterRoleApi S), typeName (clusterBindingApi S), typeName (ruleApi S),
     typeName (podMonitorApi S), typeName (svcMonitorApi S)}"
  using assms by (auto simp: childTypes_def SetupWithManagerMS_def)

text \<open>
  What the packages are documented to do: each adds the types of its API groups, and a registration
  takes no other type away. \<open>groups\<close> is the set of API groups a scheme knows.
\<close>

definition registers :: "('c \<Rightarrow> string set) \<Rightarrow> ('c, string, unit) io \<Rightarrow> string list \<Rightarrow> bool" where
  "registers groups m gs \<longleftrightarrow> (\<forall>c u c'. m c = (Inr u, c') \<longrightarrow> groups c \<union> set gs \<subseteq> groups c')"

definition packagesRegister :: "('c \<Rightarrow> string set) \<Rightarrow> 'c schemeLib \<Rightarrow> bool" where
  "packagesRegister groups L \<longleftrightarrow>
     registers groups (clientgoAddToScheme L) ['''', ''apps'', ''batch'', ''rbac.authorization.k8s.io''] \<and>
     registers groups (modelAddToScheme L) [''model.otterscale.io''] \<and>
     registers groups (gatewayInstall L) [''gateway.networking.k8s.io''] \<and>
     registers groups (inferenceInstall L) [''inference.networking.k8s.io''] \<and>
     registers groups (istioAddToScheme L) [''networking.istio.io''] \<and>
     registers groups (monitoringAddToScheme L) [''monitoring.coreos.com'']"

lemma runSteps_registers:
  assumes "list_all2 (registers groups) ms gss" and "runSteps ms c = (Inr u, c')"
  shows "groups c \<union> set (concat gss) \<subseteq> groups c'"
  using assms
proof (induction ms gss arbitrary: c rule: list_all2_induct)
  case Nil
  then show ?case by simp
next
  case (Cons m ms gs gss)
  from Cons.prems obtain v c1 where step: "m c = (Inr v, c1)" "runSteps ms c1 = (Inr u, c')"
    by (auto split: prod.splits sum.splits)
  from Cons.hyps(1) step(1) have "groups c \<union> set gs \<subseteq> groups c1" unfolding registers_def by blast
  with Cons.IH [OF step(2)] show ?case by auto
qed

theorem scheme_knows_every_kind:
  assumes "packagesRegister groups L" and "initScheme L c = (Inr u, c')"
  shows "krGroup ` set (kindsMA A @ kindsMS S) \<subseteq> groups c'"
proof -
  have "groups c \<union> set (concat [['''', ''apps'', ''batch'', ''rbac.authorization.k8s.io''], [''model.otterscale.io''],
      [''gateway.networking.k8s.io''], [''inference.networking.k8s.io''], [''networking.istio.io''],
      [''monitoring.coreos.com'']]) \<subseteq> groups c'"
    using assms(1) by (intro runSteps_registers [OF _ assms(2) [unfolded initScheme_def]]) (simp add: packagesRegister_def)
  then show ?thesis by (simp add: kindsMA_def kindsMS_def kindRow_def)
qed

text \<open>What the metrics endpoint is served with.\<close>

lemma metrics_endpoint_protected:
  "\<not> enableHTTP2 f \<Longrightarrow> nextProtos (fold (\<lambda>opt. opt) (tlsOpts (metricsOptions f)) c) = [''http/1.1'']"
  "filterProvider (metricsOptions f) = None \<longleftrightarrow> \<not> secureServing (metricsOptions f)"
  by (simp_all add: metricsOptions_def disableHTTP2_def Let_def)

text \<open>The manager is started only when everything before it succeeded; a failure ends the process.\<close>

lemma mainOp_starts_last:
  assumes "mainOp extra L A S version args m = (0, m')" and "parseFlags extra args defaultFlags = Inr f"
  shows "\<exists>m1 u v. runSteps (butlast (startupSteps L A S f version)) m = (Inr u, m1) \<and> mgrStart L m1 = (Inr v, m')"
  using assms by (auto simp: mainOp_def startupSteps_def split: prod.splits sum.splits)

end
