(* ===== verification/PodTypes.thy ===== *)
theory PodTypes
  imports Operator
begin

text \<open>
  The workloads as the API server types them: what it checks of a Pod template before it stores it
  (\<open>wellFormedPod\<close>, \<open>wellFormedDeployment\<close>), against what the validation of the custom resource is
  asked to guarantee (\<open>wellTypedMS\<close>); and the ports the containers of one Pod share.
\<close>

section \<open>Well-formed workloads\<close>

definition validPort :: "int32 \<Rightarrow> bool" where
  "validPort n \<longleftrightarrow> 0 <s n \<and> sint n \<le> 65535"

definition wellFormedPort :: "containerPort \<Rightarrow> bool" where
  "wellFormedPort p \<longleftrightarrow> validPort (cpPort p) \<and> cpName p \<noteq> '''' \<and> length (cpName p) \<le> 15 \<and> cpProtocol p = ''TCP''"

definition probesAPort :: "container \<Rightarrow> probe option \<Rightarrow> bool" where
  "probesAPort c pr \<longleftrightarrow> (case pr of None \<Rightarrow> True | Some x \<Rightarrow> prPort x \<in> set (map cpPort (ctPorts c)))"

definition wellFormedContainer :: "container \<Rightarrow> bool" where
  "wellFormedContainer c \<longleftrightarrow>
     ctName c \<noteq> '''' \<and> list_all wellFormedPort (ctPorts c) \<and> distinct (map cpName (ctPorts c)) \<and>
     distinct (map vmMountPath (ctVolumeMounts c)) \<and> list_all (\<lambda>e. evName e \<noteq> '''') (ctEnv c) \<and>
     probesAPort c (ctReadinessProbe c) \<and> probesAPort c (ctLivenessProbe c)"

abbreviation podContainers :: "podSpec \<Rightarrow> container list" where
  "podContainers p \<equiv> psInitContainers p @ psContainers p"

definition wellFormedPod :: "podSpec \<Rightarrow> bool" where
  "wellFormedPod p \<longleftrightarrow>
     psContainers p \<noteq> [] \<and> distinct (map ctName (podContainers p)) \<and>
     list_all wellFormedContainer (podContainers p) \<and> mountsResolved p"

definition wellFormedDeployment :: "deployment \<Rightarrow> bool" where
  "wellFormedDeployment d \<longleftrightarrow>
     dsSelector (depSpec (obody d)) \<noteq> Map.empty \<and>
     selects (dsSelector (depSpec (obody d))) (depPodLabels d) \<and> wellFormedPod (depPodSpec d)"

lemmas wellFormed_defs = wellFormedPod_def wellFormedContainer_def wellFormedPort_def probesAPort_def

section \<open>What the custom resource guarantees\<close>

text \<open>
  Ports are at most 65535 (a port that is not positive stands for the default), variables have
  names, and the model is not mounted over a directory the operator mounts itself.
\<close>

definition wellTypedMS :: "modelService \<Rightarrow> bool" where
  "wellTypedMS ms \<longleftrightarrow>
     sint (enPort (msEngine (msSp ms))) \<le> 65535 \<and>
     (case msRoutingProxy (msSp ms) of None \<Rightarrow> True | Some p \<Rightarrow> sint (rpTargetPort p) \<le> 65535) \<and>
     (case msInferencePool (msSp ms) of None \<Rightarrow> True | Some p \<Rightarrow> sint (epPort (ipsEndpointPicker p)) \<le> 65535) \<and>
     list_all (\<lambda>e. evName e \<noteq> '''') (enEnv (msEngine (msSp ms))) \<and>
     mdMountPath (msModel (msSp ms)) \<notin> {ModelTmpMountPath, DockerConfigMountPath}"

lemma validPort_numeral [simp]: "validPort 8000" "validPort 8200" "validPort 9002" "validPort 9003" "validPort 9090"
  by (simp_all add: validPort_def word_sless_alt)

lemma wellTyped_ports:
  assumes "wellTypedMS ms"
  shows "validPort (enginePort ms)" and "validPort (routingProxyTargetPort ms)"
    and "validPort (eppExtProcPort (eppSpecOf images ms))"
  using assms by (auto simp: wellTypedMS_def enginePort_def routingProxyTargetPort_def eppExtProcPort_def eppSpecOf_def
      validPort_def word_sless_alt split: option.splits)

lemma validPort_nixl: "nixlPort env = 0 \<or> validPort (nixlPort env)"
  proof -
  have "validPort (word_of_int n)" if "0 < n" "n \<le> 65535" for n :: int
    using that by (simp add: validPort_def word_sless_alt sint_sbintrunc' signed_take_bit_int_eq_self)
  then show ?thesis by (auto simp: nixlPort_def split: option.split)
qed

lemma wellFormed_nixl:
  assumes "wellFormedPort p" and "cpName p \<noteq> ''nixl-side''"
  shows "list_all wellFormedPort (addNixlPort (nixlPort env) [p])" and "distinct (map cpName (addNixlPort (nixlPort env) [p]))"
  using assms validPort_nixl [of env] by (auto simp: addNixlPort_def wellFormedPort_def)

lemma wellFormed_engine:
  assumes "wellTypedMS ms"
  shows "wellFormedContainer (buildVLLMContainer q ms role d)"
proof -
  let ?c = "buildVLLMContainer q ms role d"
  have "wellFormedPort \<lparr>cpName = ''http'',
      cpPort = (if d \<and> msRoutingProxy (msSp ms) \<noteq> None then routingProxyTargetPort ms else enginePort ms),
      cpProtocol = ''TCP''\<rparr>"
    using wellTyped_ports [OF assms] by (simp add: wellFormedPort_def)
  from wellFormed_nixl [OF this] have "list_all wellFormedPort (ctPorts ?c)" "distinct (map cpName (ctPorts ?c))"
    by simp_all
  moreover have "list_all (\<lambda>e. evName e \<noteq> '''') (ctEnv ?c)"
    using assms by (simp add: buildVLLMContainer_def buildVLLMEnv_def wellTypedMS_def Let_def)
  moreover have "ctName ?c \<noteq> ''''" "ctReadinessProbe ?c = None" "ctLivenessProbe ?c = None"
    by (simp_all add: buildVLLMContainer_def containerZero_def Let_def)
  ultimately show ?thesis by (simp add: wellFormedContainer_def probesAPort_def)
qed

lemma wellFormed_proxy:
  "wellTypedMS ms \<Longrightarrow> wellFormedContainer (proxyContainer ms px tr)"
  using wellTyped_ports(1) [of ms]
  by (auto simp: wellFormed_defs proxyContainer_def proxyEnv_def containerZero_def)

lemma wellFormed_unpack:
  assumes "wellTypedMS ms" and "buildModelUnpackInitContainer ms (mountPathOf ms) kit = Some c"
  shows "wellFormedContainer c"
  using assms by (auto simp: wellFormed_defs buildModelUnpackInitContainer_def mountPathOf_def wellTypedMS_def
      containerZero_def Let_def split: if_splits)

lemma wellFormed_serving:
  assumes "wellTypedMS ms"
  shows "wellFormedPod (depPodSpec (BuildDeployment q ms role rn dn pl ml sl tr kit))"
proof -
  have "list_all wellFormedContainer (buildInitContainers ms (rn = RoleDecode) tr kit)"
    using wellFormed_proxy [OF assms] wellFormed_unpack [OF assms]
    by (simp add: buildInitContainers_def Let_def split: option.split)
  moreover have "distinct (map ctName (buildInitContainers ms (rn = RoleDecode) tr kit @ [buildVLLMContainer q ms role (rn = RoleDecode)]))"
    by (auto simp: buildInitContainers_def buildModelUnpackInitContainer_def proxyContainer_def buildVLLMContainer_def
        containerZero_def Let_def split: option.splits)
  ultimately show ?thesis
    using serving_mounts [of q ms role rn dn pl ml sl tr kit] wellFormed_engine [OF assms]
    by (simp add: wellFormedPod_def)
qed

lemma wellFormed_epp:
  assumes "wellTypedMS ms"
  shows "wellFormedPod (depPodSpec (BuildEPPDeployment ms (eppSpecOf images ms) cfg ml sl h))"
proof -
  have "list_all (\<lambda>e. evName e \<noteq> '''') (buildEPPEnv cfg)" by (simp add: buildEPPEnv_def Let_def)
  then show ?thesis
    using wellTyped_ports(3) [OF assms]
    by (simp add: wellFormed_defs mountsResolved_def BuildEPPDeployment_def eppContainer_def grpcProbe_def
        containerZero_def podSpecZero_def Let_def)
qed

lemma wellFormed_job: "wellFormedPod (jobPodSpec (BuildJob ma img ls))"
proof -
  have "list_all (\<lambda>e. evName e \<noteq> '''') (buildEnvVars ma)"
    by (simp add: buildEnvVars_def split: option.split)
  then show ?thesis
    by (simp add: wellFormed_defs mountsResolved_def jobPod_def kitContainer_def jobVolumes_def jobVolumeMounts_def
        split: option.split)
qed

text \<open>
  C18: For a service whose ports, variables and mount path pass validation, every Deployment the
  operator builds, and the Job of every artifact, has the form the API server demands: the
  selector is not empty and matches the pods, container names, port names and mount paths are
  distinct, ports are in range, probes go to declared ports, and mounts name volumes.
\<close>

theorem every_workload_is_well_formed:
  assumes "wellTypedMS ms"
  shows "wellFormedDeployment (servingDeployment R ms role rn dn c) \<and>
    wellFormedDeployment (eppDeployment R ms h) \<and> wellFormedPod (jobPodSpec (BuildJob ma img ls))"
proof (intro conjI wellFormed_job)
  have "SelectorLabelsForRole (objName ms) c rn LabelRole \<noteq> None"
    by (simp add: SelectorLabelsForRole_def)
  then have "SelectorLabelsForRole (objName ms) c rn \<noteq> Map.empty" by auto
  then show "wellFormedDeployment (servingDeployment R ms role rn dn c)"
    using wellFormed_serving [OF assms] role.finds_every_version [of "(objName ms, c, rn)"]
    by (simp add: wellFormedDeployment_def servingDeployment_def)
  have "(EPPSelectorLabels (objName ms))(LabelInferencePool \<mapsto> EPPName (objName ms)) \<noteq> Map.empty"
    by (metis fun_upd_same option.distinct(1))
  then show "wellFormedDeployment (eppDeployment R ms h)"
    using wellFormed_epp [OF assms] selects_merged(1) [OF epp.finds_every_version EPPSelectorLabels_dom]
    by (simp add: wellFormedDeployment_def eppDeployment_def)
qed

section \<open>Ports of one Pod\<close>

text \<open>The containers of a Pod share its network: no two of them can listen on one port.\<close>

definition portsApart :: "podSpec \<Rightarrow> bool" where
  "portsApart p \<longleftrightarrow> distinct (concat (map (\<lambda>c. map cpPort (ctPorts c)) (podContainers p)))"

lemma initPorts:
  "concat (map (\<lambda>c. map cpPort (ctPorts c)) (buildInitContainers ms d tr kit)) =
     (if d \<and> msRoutingProxy (msSp ms) \<noteq> None then [enginePort ms] else [])"
  by (auto simp: buildInitContainers_def buildModelUnpackInitContainer_def containerZero_def Let_def split: option.splits)

text \<open>
  C36: Two containers of a serving pod claim the same port exactly on decode pods with a routing
  proxy whose target port, or NIXL port, is the engine port, which nothing prevents: an engine
  port of 8200 with the default target port does it. The ports of an EPP container collide
  exactly when the configured port is the one for health or for metrics.
\<close>

theorem ports_clash_exactly:
  "(\<not> portsApart (depPodSpec (servingDeployment R ms role rn dn c)) \<longleftrightarrow>
      rn = RoleDecode \<and> msRoutingProxy (msSp ms) \<noteq> None \<and>
      enginePort ms \<in> {routingProxyTargetPort ms, nixlPort (enEnv (msEngine (msSp ms)))}) \<and>
   (\<not> portsApart (depPodSpec (eppDeployment R ms h)) \<longleftrightarrow>
      eppExtProcPort (eppSpecOf (msDefaultImages R) ms) \<in> {eppGRPCHealthPort, eppMetricsPort})"
proof
  have "enginePort ms \<noteq> 0" by (auto simp: enginePort_def)
  then show "\<not> portsApart (depPodSpec (servingDeployment R ms role rn dn c)) \<longleftrightarrow>
     rn = RoleDecode \<and> msRoutingProxy (msSp ms) \<noteq> None \<and>
     enginePort ms \<in> {routingProxyTargetPort ms, nixlPort (enEnv (msEngine (msSp ms)))}"
    by (auto simp: portsApart_def servingDeployment_def initPorts addNixlPort_def)
  show "\<not> portsApart (depPodSpec (eppDeployment R ms h)) \<longleftrightarrow>
     eppExtProcPort (eppSpecOf (msDefaultImages R) ms) \<in> {eppGRPCHealthPort, eppMetricsPort}"
    by (auto simp: portsApart_def eppDeployment_def BuildEPPDeployment_def podSpecZero_def Let_def)
qed

end
