(* ===== verification/ServiceStore.thy ===== *)
theory ServiceStore
  imports ServiceController
begin

text \<open>
  The cluster as the ModelService controller sees it: an abstract store with one map per kind, the
  laws that tie the API of each kind to its map and to no other, and the desired state of a service
  as a predicate on the store. This is the specification that \<open>ServiceSync\<close> shows the resource
  sync to implement.
\<close>

section \<open>The abstract store\<close>

type_synonym 'b objects = "string \<times> string \<Rightarrow> 'b kobj option"

record storeMS =
  stServices :: "msBody objects"
  stDeployments :: "deploymentBody objects"
  stAccounts :: "serviceAccountBody objects"
  stConfigMaps :: "configMapBody objects"
  stSvcs :: "serviceBody objects"
  stSecrets :: "secretBody objects"
  stRoles :: "roleBody objects"
  stBindings :: "bindingBody objects"
  stClusterRoles :: "roleBody objects"
  stClusterBindings :: "bindingBody objects"
  stPools :: "inferencePoolBody objects"
  stRoutes :: "httpRouteBody objects"
  stRules :: "destinationRuleBody objects"
  stPodMonitors :: "podMonitorBody objects"
  stMonitors :: "serviceMonitorBody objects"

text \<open>
  \<open>serves K store sel clear managed\<close>: the API \<open>K\<close> works on the map that \<open>sel\<close> takes from the abstract
  store, stores the \<open>managed\<close> part of an object as sent, compares objects exactly, and changes
  nothing of the store but its own map, which \<open>clear\<close> empties.
\<close>

definition serves ::
  "('s, 'b) kindApi \<Rightarrow> ('s \<Rightarrow> 'v) \<Rightarrow> ('v \<Rightarrow> 'b objects) \<Rightarrow> ('v \<Rightarrow> 'v) \<Rightarrow> ('b kobj \<Rightarrow> 'm) \<Rightarrow> bool" where
  "serves K store sel clear managed \<longleftrightarrow>
     lawfulGet K (\<lambda>s. sel (store s)) \<and> lawfulCreate K (\<lambda>s. sel (store s)) managed \<and>
     lawfulUpdate K (\<lambda>s. sel (store s)) managed \<and> lawfulDelete K (\<lambda>s. sel (store s)) \<and>
     installed K \<and> exactSemEq K \<and> framed K (\<lambda>s. clear (store s))"

lemma servesD:
  assumes "serves K store sel clear managed"
  shows "lawfulGet K (\<lambda>s. sel (store s))" "lawfulCreate K (\<lambda>s. sel (store s)) managed"
    "lawfulUpdate K (\<lambda>s. sel (store s)) managed" "lawfulDelete K (\<lambda>s. sel (store s))"
    "installed K" "\<And>x y. semEq K x y \<longleftrightarrow> x = y"
  using assms by (simp_all add: serves_def exactSemEq_def)

text \<open>What does not depend on the map of the kind stays as it is.\<close>

lemma framed_comp: "framed K v \<Longrightarrow> (\<And>s. f (v s) = u s) \<Longrightarrow> framed K u"
  unfolding framed_def by metis

lemma serves_framed:
  assumes "serves K store sel clear managed" and "\<And>st. f (clear st) = f st"
  shows "framed K (\<lambda>s. f (store s))"
proof (rule framed_comp [of K "\<lambda>s. clear (store s)" f])
  show "framed K (\<lambda>s. clear (store s))" using assms(1) by (simp add: serves_def)
qed (rule assms(2))

section \<open>A cooperative cluster\<close>

definition managedMS :: "modelService \<Rightarrow> msSpec \<times> string list" where
  "managedMS x = (msSp x, mFinalizers (ometa x))"

definition cooperativeMS :: "'s msReconciler \<Rightarrow> ('s \<Rightarrow> storeMS) \<Rightarrow> bool" where
  "cooperativeMS R store \<longleftrightarrow>
     serves (msApi R) store stServices (stServices_update (\<lambda>_. Map.empty)) managedMS \<and>
     serves (depApi R) store stDeployments (stDeployments_update (\<lambda>_. Map.empty)) managedDeployment \<and>
     serves (saApi R) store stAccounts (stAccounts_update (\<lambda>_. Map.empty)) managedAccount \<and>
     serves (cmApi R) store stConfigMaps (stConfigMaps_update (\<lambda>_. Map.empty)) managedSpec \<and>
     serves (svcApi R) store stSvcs (stSvcs_update (\<lambda>_. Map.empty)) managedService \<and>
     serves (secretApi R) store stSecrets (stSecrets_update (\<lambda>_. Map.empty)) managedSecret \<and>
     serves (roleApi R) store stRoles (stRoles_update (\<lambda>_. Map.empty)) managedSpec \<and>
     serves (bindingApi R) store stBindings (stBindings_update (\<lambda>_. Map.empty)) managedSpec \<and>
     serves (clusterRoleApi R) store stClusterRoles (stClusterRoles_update (\<lambda>_. Map.empty)) managedSpec \<and>
     serves (clusterBindingApi R) store stClusterBindings (stClusterBindings_update (\<lambda>_. Map.empty)) managedSpec \<and>
     serves (poolApi R) store stPools (stPools_update (\<lambda>_. Map.empty)) managedSpec \<and>
     serves (routeApi R) store stRoutes (stRoutes_update (\<lambda>_. Map.empty)) managedSpec \<and>
     serves (ruleApi R) store stRules (stRules_update (\<lambda>_. Map.empty)) managedSpec \<and>
     serves (podMonitorApi R) store stPodMonitors (stPodMonitors_update (\<lambda>_. Map.empty)) managedSpec \<and>
     serves (svcMonitorApi R) store stMonitors (stMonitors_update (\<lambda>_. Map.empty)) managedSpec \<and>
     lawfulPatchStatus (msApi R) (\<lambda>s. stServices (store s)) \<and>
     lawfulOwnerRef (msSetControllerReference R) \<and>
     lawfulSetStatusCondition (msSetStatusCondition R) \<and>
     depSpecSemEq R = (=) \<and> labelsSemEq R = (=) \<and> msStatusSemEq R = (=)"

lemma cooperativeMS_serves:
  assumes "cooperativeMS R store"
  shows "serves (msApi R) store stServices (stServices_update (\<lambda>_. Map.empty)) managedMS"
    and "serves (depApi R) store stDeployments (stDeployments_update (\<lambda>_. Map.empty)) managedDeployment"
    and "serves (saApi R) store stAccounts (stAccounts_update (\<lambda>_. Map.empty)) managedAccount"
    and "serves (cmApi R) store stConfigMaps (stConfigMaps_update (\<lambda>_. Map.empty)) managedSpec"
    and "serves (svcApi R) store stSvcs (stSvcs_update (\<lambda>_. Map.empty)) managedService"
    and "serves (secretApi R) store stSecrets (stSecrets_update (\<lambda>_. Map.empty)) managedSecret"
    and "serves (roleApi R) store stRoles (stRoles_update (\<lambda>_. Map.empty)) managedSpec"
    and "serves (bindingApi R) store stBindings (stBindings_update (\<lambda>_. Map.empty)) managedSpec"
    and "serves (clusterRoleApi R) store stClusterRoles (stClusterRoles_update (\<lambda>_. Map.empty)) managedSpec"
    and "serves (clusterBindingApi R) store stClusterBindings (stClusterBindings_update (\<lambda>_. Map.empty)) managedSpec"
    and "serves (poolApi R) store stPools (stPools_update (\<lambda>_. Map.empty)) managedSpec"
    and "serves (routeApi R) store stRoutes (stRoutes_update (\<lambda>_. Map.empty)) managedSpec"
    and "serves (ruleApi R) store stRules (stRules_update (\<lambda>_. Map.empty)) managedSpec"
    and "serves (podMonitorApi R) store stPodMonitors (stPodMonitors_update (\<lambda>_. Map.empty)) managedSpec"
    and "serves (svcMonitorApi R) store stMonitors (stMonitors_update (\<lambda>_. Map.empty)) managedSpec"
  using assms by (simp_all add: cooperativeMS_def)

lemma cooperativeMS_lib:
  assumes "cooperativeMS R store"
  shows "lawfulPatchStatus (msApi R) (\<lambda>s. stServices (store s))"
    and "lawfulOwnerRef (msSetControllerReference R)"
    and "lawfulSetStatusCondition (msSetStatusCondition R)"
    and "depSpecSemEq R = (=)" "labelsSemEq R = (=)" "msStatusSemEq R = (=)"
  using assms by (simp_all add: cooperativeMS_def)

lemmas framesMS = cooperativeMS_serves [THEN serves_framed]

section \<open>The desired state\<close>

text \<open>
  \<open>present objs managed d\<close>: the object \<open>d\<close> is stored with its managed part; \<open>absent objs k\<close>: nothing
  live is stored under the key.
\<close>

definition present :: "'b objects \<Rightarrow> ('b kobj \<Rightarrow> 'm) \<Rightarrow> 'b kobj \<Rightarrow> bool" where
  "present objs managed d \<longleftrightarrow> (\<exists>x. objs (objKey d) = Some x \<and> managed x = managed d)"

definition absent :: "'b objects \<Rightarrow> string \<times> string \<Rightarrow> bool" where
  "absent objs k \<longleftrightarrow> (\<forall>x. objs k = Some x \<longrightarrow> \<not> isLive x)"

definition routeInSync :: "'s msReconciler \<Rightarrow> modelService \<Rightarrow> httpRouteBody objects \<Rightarrow> bool" where
  "routeInSync R ms objs \<longleftrightarrow>
     (case msHTTPRoute (msSp ms) of
        Some route \<Rightarrow>
          present objs managedSpec (BuildHTTPRoute ms route (HTTPRouteLabels (objName ms) (msVersion R)))
      | None \<Rightarrow>
          if ecDefaultGatewayName (msEPPConfig R) = '''' then absent objs (objNamespace ms, HTTPRouteName (objName ms))
          else present objs managedSpec
            (BuildDefaultHTTPRoute ms (HTTPRouteLabels (objName ms) (msVersion R))
              (ecDefaultGatewayName (msEPPConfig R)) (InferencePoolName (objName ms))))"

definition podMonitorsInSync :: "'s msReconciler \<Rightarrow> modelService \<Rightarrow> podMonitorBody objects \<Rightarrow> bool" where
  "podMonitorsInSync R ms objs \<longleftrightarrow>
     (if podMonitorsEnabled ms then present objs managedSpec (podMonitorFor R ms ComponentDecode RoleDecode)
      else absent objs (objNamespace ms, PodMonitorName (objName ms) RoleDecode)) \<and>
     (if podMonitorsEnabled ms \<and> msPrefill (msSp ms) \<noteq> None
      then present objs managedSpec (podMonitorFor R ms ComponentPrefill RolePrefill)
      else absent objs (objNamespace ms, PodMonitorName (objName ms) RolePrefill))"

definition prefillInSync :: "'s msReconciler \<Rightarrow> modelService \<Rightarrow> deploymentBody objects \<Rightarrow> bool" where
  "prefillInSync R ms objs \<longleftrightarrow>
     (case msPrefill (msSp ms) of
        None \<Rightarrow> absent objs (objNamespace ms, PrefillName (objName ms))
      | Some role \<Rightarrow> present objs managedDeployment
          (servingDeployment R ms role RolePrefill (PrefillName (objName ms)) ComponentPrefill))"

definition decodeInSync :: "'s msReconciler \<Rightarrow> modelService \<Rightarrow> deploymentBody objects \<Rightarrow> bool" where
  "decodeInSync R ms objs \<longleftrightarrow> present objs managedDeployment
     (servingDeployment R ms (msDecode (msSp ms)) RoleDecode (DecodeName (objName ms)) ComponentDecode)"

definition eppInSync :: "'s msReconciler \<Rightarrow> modelService \<Rightarrow> deploymentBody objects \<Rightarrow> bool" where
  "eppInSync R ms objs \<longleftrightarrow> present objs managedDeployment (eppDeployment R ms (ConfigMapHash (sha256Sum R) ms))"

definition inSync :: "'s msReconciler \<Rightarrow> modelService \<Rightarrow> storeMS \<Rightarrow> bool" where
  "inSync R ms st \<longleftrightarrow>
     decodeInSync R ms (stDeployments st) \<and> prefillInSync R ms (stDeployments st) \<and>
     present (stAccounts st) managedAccount (BuildEPPServiceAccount ms (eppLabelsOf R ms)) \<and>
     present (stConfigMaps st) managedSpec (BuildEPPConfigMap ms (eppLabelsOf R ms)) \<and>
     eppInSync R ms (stDeployments st) \<and>
     present (stSvcs st) managedService
       (BuildEPPService ms (eppLabelsOf R ms) (EPPSelectorLabels (objName ms))) \<and>
     (if needsSecret R ms then present (stSecrets st) managedSecret (BuildEPPSATokenSecret ms (eppLabelsOf R ms))
      else absent (stSecrets st) (objNamespace ms, EPPSecretName (objName ms))) \<and>
     (case BuildEPPRBAC ms (eppLabelsOf R ms) (eppReplicasOf ms) of (r, b) \<Rightarrow>
        present (stRoles st) managedSpec r \<and> present (stBindings st) managedSpec b) \<and>
     (if needsClusterRBAC R ms
      then (case BuildEPPClusterRBAC ms (eppLabelsOf R ms) of (r, b) \<Rightarrow>
        present (stClusterRoles st) managedSpec r \<and> present (stClusterBindings st) managedSpec b)
      else absent (stClusterRoles st) ('''', EPPClusterRBACName (objNamespace ms) (objName ms)) \<and>
        absent (stClusterBindings st) ('''', EPPClusterRBACName (objNamespace ms) (objName ms))) \<and>
     present (stPools st) managedSpec (desiredPool R ms) \<and>
     routeInSync R ms (stRoutes st) \<and>
     (if ecProvider (msEPPConfig R) = ProviderIstio
      then present (stRules st) managedSpec (BuildDestinationRule ms (eppLabelsOf R ms))
      else absent (stRules st) (objNamespace ms, EPPName (objName ms))) \<and>
     podMonitorsInSync R ms (stPodMonitors st) \<and>
     (if msInferencePool (msSp ms) \<noteq> None \<and> monitoringEnabled ms
      then present (stMonitors st) managedSpec (BuildEPPServiceMonitor ms (msEPPConfig R) (eppLabelsOf R ms))
      else absent (stMonitors st) (objNamespace ms, EPPServiceMonitorName (objName ms)))"

end
