(* ===== verification/ServiceSync.thy ===== *)
theory ServiceSync
  imports ServiceStore ServiceAccess
begin

text \<open>
  The resource sync of a ModelService implements its specification: on a cooperative cluster a
  successful sync leaves the store in the desired state. Each step is shown to achieve its part,
  from the contract of its kind's \<open>mutateFn\<close>, and the later steps to keep it.
\<close>

section \<open>The generic operations\<close>

lemma ensureResource_owner:
  assumes "lawfulOwnerRef f" and "mOwnerReferences (ometa d) = []"
    and "ensureResource f K own d g w = (Inr u, w')"
  shows "\<exists>m. f own (ometa d) = Inr m \<and> ownerOnly (ometa d) m"
proof (cases "f own (ometa d)")
  case (Inl e)
  with assms(3) show ?thesis by (simp add: ensureResource_def)
next
  case (Inr m)
  with lawfulOwnerRef_ownerOnly [OF assms(1,2)] show ?thesis by blast
qed

context managedKind
begin

lemma ensure_writes:
  assumes "serves K store sel clear managed" and "lawfulOwnerRef f"
    and "mOwnerReferences (ometa d) = []" and "objName d \<noteq> ''''"
    and "ensureResource f K own d mutateFn w = (Inr u, w')"
  shows "\<exists>x. sel (store (server w')) = (sel (store (server w)))(objKey d \<mapsto> x) \<and> managed x = managed d"
proof -
  obtain m where m: "f own (ometa d) = Inr m" "ownerOnly (ometa d) m"
    using ensureResource_owner [OF assms(2,3,5)] by blast
  show ?thesis by (rule ensure_stores [OF servesD(1-3) [OF assms(1)] m(2,1) assms(4) servesD(6) [OF assms(1)] assms(5)])
qed

lemma ensure_establishes:
  assumes "serves K store sel clear managed" and "lawfulOwnerRef f"
    and "mOwnerReferences (ometa d) = []" and "objName d \<noteq> ''''"
  shows "establishes (\<lambda>w. present (sel (store (server w))) managed d) (ensureResource f K own d mutateFn)"
  unfolding establishes_def present_def using ensure_writes [OF assms] by fastforce

lemma ensure_stable:
  assumes "serves K store sel clear managed" and "lawfulOwnerRef f"
    and "mOwnerReferences (ometa d) = []" and "objName d \<noteq> ''''" and "k \<noteq> objKey d"
  shows "stable (\<lambda>w. P (sel (store (server w)) k)) (ensureResource f K own d mutateFn)"
  unfolding stable_def
proof (intro allI impI)
  fix w x w'
  assume "ensureResource f K own d mutateFn w = (Inr x, w')" and P: "P (sel (store (server w)) k)"
  with ensure_writes [OF assms(1-4)] assms(5) show "P (sel (store (server w')) k)" by fastforce
qed

lemma ensureCluster_establishes:
  assumes "serves K store sel clear managed" and "objName d \<noteq> ''''"
  shows "establishes (\<lambda>w. present (sel (store (server w))) managed d) (ensureClusterResource K d mutateFn)"
  unfolding establishes_def present_def
  using ensureCluster_stores [OF servesD(1-3) [OF assms(1)] assms(2) servesD(6) [OF assms(1)]] by fastforce

end

lemma cleanupTyped_establishes:
  assumes "serves K store sel clear managed"
  shows "establishes (\<lambda>w. absent (sel (store (server w))) key) (cleanupTyped K key)"
  unfolding establishes_def absent_def
  using cleanupTyped_gone [OF servesD(1,4,5) [OF assms]] unfolding gone_def by blast

lemma cleanupTyped_stable:
  assumes "serves K store sel clear managed" and "k \<noteq> key"
  shows "stable (\<lambda>w. P (sel (store (server w)) k)) (cleanupTyped K key)"
  unfolding stable_def
proof (intro allI impI)
  fix w x w'
  assume "cleanupTyped K key w = (Inr x, w')" and P: "P (sel (store (server w)) k)"
  from cleanupTyped_gone [OF servesD(1,4,5) [OF assms(1)] this(1)] assms(2)
  have "sel (store (server w')) k = sel (store (server w)) k" by blast
  with P show "P (sel (store (server w')) k)" by simp
qed

lemma cleanupClusterTyped_establishes:
  assumes "serves K store sel clear managed"
  shows "establishes (\<lambda>w. absent (sel (store (server w))) ('''', name)) (cleanupClusterTyped K name)"
  unfolding establishes_def absent_def
  using cleanupClusterTyped_gone [OF servesD(1,4) [OF assms]] unfolding gone_def by blast

lemma stable_keeps: "keeps v m \<Longrightarrow> stable (\<lambda>w. P (v (server w))) m"
  unfolding stable_def by (metis keepsD)

lemma applyDeployment_writes:
  assumes "cooperativeMS R store" and "mOwnerReferences (ometa d) = []" and "objName d \<noteq> ''''"
    and "objNamespace d = objNamespace ms" and "applyDeployment R ms what d w = (Inr u, w')"
  shows "\<exists>x. stDeployments (store (server w')) = (stDeployments (store (server w)))(objKey d \<mapsto> x) \<and>
    managedDeployment x = managedDeployment d"
proof -
  note laws = servesD [OF cooperativeMS_serves(2) [OF assms(1)]]
  let ?v = "\<lambda>s. stDeployments (store s)"
  obtain m where m: "msSetControllerReference R (ometa ms) (ometa d) = Inr m"
    using assms(5) by (auto simp: applyDeployment_def split: sum.splits)
  from lawfulOwnerRef_ownerOnly [OF cooperativeMS_lib(2) [OF assms(1)] assms(2) m]
  have own: "ownerOnly (ometa d) m" .
  let ?d = "d\<lparr>ometa := m\<rparr>"
  have key: "objKey ?d = objKey d" and man: "managedDeployment ?d = managedDeployment d"
    using own dep.managed_owner [OF own] by (auto simp: ownerOnly_def)
  obtain r w1 where r: "clientGet (depApi R) (objKey d) w = (r, w1)" by fastforce
  have get: "clientGet (depApi R) (objNamespace ms, objName d) w = (r, w1)" using r assms(4) by simp
  show ?thesis
  proof (cases r)
    case (Inl e)
    with get m assms(5) obtain x where c: "clientCreate (depApi R) ?d w1 = (Inr x, w')"
      by (auto simp: applyDeployment_def Let_def attempt_def wrapApi_def split: if_splits prod.splits sum.splits)
    moreover have "server w1 = server w" using clientGet_Inl [OF laws(1)] r Inl by blast
    ultimately show ?thesis
      using clientCreate_Inr [OF laws(2) c] assms(3) key man by (intro exI [of _ x]) simp
  next
    case (Inr e)
    with clientGet_Inr [OF laws(1), of "objKey d" w e w1] r
    have e: "?v (server w) (objKey d) = Some e" "objKey e = objKey d" and w1: "server w1 = server w"
      by simp_all
    have upd: "deploymentNeedsUpdate R e ?d \<longleftrightarrow> managedDeployment e \<noteq> managedDeployment d"
      using man cooperativeMS_lib(4,5) [OF assms(1)]
      by (auto simp: deploymentNeedsUpdate_def managedDeployment_def)
    show ?thesis
    proof (cases "managedDeployment e = managedDeployment d")
      case True
      with upd get Inr m assms(5) have "w' = w1" by (simp add: applyDeployment_def Let_def attempt_def)
      with True e w1 show ?thesis by (intro exI [of _ e]) auto
    next
      case False
      with upd get Inr m assms(5) obtain x where
        u: "clientUpdate (depApi R) (mutateDeployment e ?d) w1 = (Inr x, w')"
        by (auto simp: applyDeployment_def Let_def attempt_def wrapApi_def split: prod.splits sum.splits)
      from clientUpdate_api [OF u] laws(3)
      have "?v (server w') = (?v (server w1))(objKey (mutateDeployment e ?d) \<mapsto> x)"
        "managedDeployment x = managedDeployment (mutateDeployment e ?d)"
        unfolding lawfulUpdate_def by blast+
      then show ?thesis using e w1 key man
        by (intro exI [of _ x]) (simp add: dep.mutate_key dep.mutate_managed)
    qed
  qed
qed

lemma cleanupDeployment_gone:
  assumes "cooperativeMS R store" and "cleanupDeployment R ns n w = (Inr u, w')"
  shows "absent (stDeployments (store (server w'))) (ns, n) \<and>
    (\<forall>k. k \<noteq> (ns, n) \<longrightarrow> stDeployments (store (server w')) k = stDeployments (store (server w)) k)"
  using cleanup_read [OF servesD(1,4) [OF cooperativeMS_serves(2) [OF assms(1)]], where b = "\<lambda>_. False"]
    assms(2)
  unfolding cleanupDeployment_def absent_def gone_def by simp


section \<open>What each step leaves alone\<close>

lemma keeps_applyDeployment: "framed (depApi R) v \<Longrightarrow> keeps v (applyDeployment R ms what d)"
  unfolding applyDeployment_def Let_def by (intro keeps_intros)

lemma keeps_cleanupDeployment: "framed (depApi R) v \<Longrightarrow> keeps v (cleanupDeployment R ns n)"
  unfolding cleanupDeployment_def by (intro keeps_intros)

lemma keeps_steps:
  "framed (depApi R) v \<Longrightarrow> keeps v (EnsureDecodeDeployment R ms)"
  "framed (depApi R) v \<Longrightarrow> keeps v (EnsurePrefillDeployment R ms)"
  "framed (saApi R) v \<Longrightarrow> keeps v (EnsureEPPServiceAccount R ms)"
  "framed (cmApi R) v \<Longrightarrow> keeps v (EnsureEPPConfigMap R ms)"
  "framed (depApi R) v \<Longrightarrow> keeps v (EnsureEPPDeployment R ms h)"
  "framed (svcApi R) v \<Longrightarrow> keeps v (EnsureEPPService R ms)"
  "framed (secretApi R) v \<Longrightarrow> keeps v (EnsureEPPSATokenSecret R ms)"
  "framed (roleApi R) v \<Longrightarrow> framed (bindingApi R) v \<Longrightarrow> keeps v (EnsureEPPRBAC R ms)"
  "framed (clusterRoleApi R) v \<Longrightarrow> framed (clusterBindingApi R) v \<Longrightarrow> keeps v (EnsureEPPClusterRBAC R ms)"
  "framed (poolApi R) v \<Longrightarrow> keeps v (EnsureInferencePool R ms)"
  "framed (routeApi R) v \<Longrightarrow> keeps v (EnsureHTTPRoute R ms)"
  "framed (ruleApi R) v \<Longrightarrow> keeps v (EnsureDestinationRule R ms)"
  "framed (podMonitorApi R) v \<Longrightarrow> keeps v (EnsurePodMonitors R ms)"
  "framed (svcMonitorApi R) v \<Longrightarrow> keeps v (EnsureEPPServiceMonitor R ms)"
  unfolding ensureOp_defs ensureDeployment_def cleanupClusterRBAC_def Let_def
  by ((intro keeps_intros keeps_applyDeployment keeps_cleanupDeployment)?, assumption+)+

section \<open>What each step achieves\<close>

lemma nameSuffixes:
  "DecodeName n \<noteq> PrefillName n'" "DecodeName n \<noteq> EPPName n'" "PrefillName n \<noteq> EPPName n'"
  "DecodeName n \<noteq> ''''" "PrefillName n \<noteq> ''''" "EPPName n \<noteq> ''''"
proof -
  have "last (DecodeName n) = CHR ''e''" "last (PrefillName n) = CHR ''l''" "last (EPPName n') = CHR ''p''" for n n'
    by (simp_all add: DecodeName_def PrefillName_def EPPName_def)
  moreover have "CHR ''e'' \<noteq> CHR ''l''" "CHR ''e'' \<noteq> CHR ''p''" "CHR ''l'' \<noteq> CHR ''p''" by simp_all
  ultimately show "DecodeName n \<noteq> PrefillName n'" "DecodeName n \<noteq> EPPName n'" "PrefillName n \<noteq> EPPName n'"
    by metis+
qed (simp_all add: DecodeName_def PrefillName_def EPPName_def)

lemma servingDeployment_simps [simp]:
  "objName (servingDeployment R ms role rn dn c) = dn"
  "objNamespace (servingDeployment R ms role rn dn c) = objNamespace ms"
  "mOwnerReferences (ometa (servingDeployment R ms role rn dn c)) = []"
  by (simp_all add: servingDeployment_def)

lemma eppDeployment_simps [simp]:
  "objName (eppDeployment R ms h) = EPPName (objName ms)"
  "objNamespace (eppDeployment R ms h) = objNamespace ms"
  "mOwnerReferences (ometa (eppDeployment R ms h)) = []"
  by (simp_all add: eppDeployment_def)

lemma applyDeployment_establishes:
  assumes "cooperativeMS R store" and "mOwnerReferences (ometa d) = []" and "objName d \<noteq> ''''"
    and "objNamespace d = objNamespace ms"
  shows "establishes (\<lambda>w. present (stDeployments (store (server w))) managedDeployment d)
    (applyDeployment R ms what d)"
  unfolding establishes_def present_def using applyDeployment_writes [OF assms] by fastforce

lemma applyDeployment_stable:
  assumes "cooperativeMS R store" and "mOwnerReferences (ometa d) = []" and "objName d \<noteq> ''''"
    and "objNamespace d = objNamespace ms" and "objName d \<noteq> snd k"
  shows "stable (\<lambda>w. P (stDeployments (store (server w)) k)) (applyDeployment R ms what d)"
  unfolding stable_def
proof (intro allI impI)
  fix w x w'
  assume "applyDeployment R ms what d w = (Inr x, w')" and P: "P (stDeployments (store (server w)) k)"
  from applyDeployment_writes [OF assms(1-4) this(1)]
  obtain y where "stDeployments (store (server w')) = (stDeployments (store (server w)))(objKey d \<mapsto> y)" by blast
  moreover have "k \<noteq> objKey d" using assms(5) by auto
  ultimately show "P (stDeployments (store (server w')) k)" using P by simp
qed

lemma cleanupDeployment_step:
  assumes "cooperativeMS R store"
  shows "establishes (\<lambda>w. absent (stDeployments (store (server w))) (ns, n)) (cleanupDeployment R ns n)"
    and "snd k \<noteq> n \<Longrightarrow> stable (\<lambda>w. P (stDeployments (store (server w)) k)) (cleanupDeployment R ns n)"
proof -
  show "establishes (\<lambda>w. absent (stDeployments (store (server w))) (ns, n)) (cleanupDeployment R ns n)"
    using cleanupDeployment_gone [OF assms] unfolding establishes_def by blast
  assume "snd k \<noteq> n"
  then have "k \<noteq> (ns, n)" by auto
  then have same: "stDeployments (store (server w')) k = stDeployments (store (server w)) k"
    if "cleanupDeployment R ns n w = (Inr u, w')" for w u w'
    using cleanupDeployment_gone [OF assms that] by blast
  show "stable (\<lambda>w. P (stDeployments (store (server w)) k)) (cleanupDeployment R ns n)"
    unfolding stable_def by (intro allI impI) (simp only: same)
qed

lemma prefill_step:
  assumes "cooperativeMS R store"
  shows "establishes (\<lambda>w. prefillInSync R ms (stDeployments (store (server w)))) (EnsurePrefillDeployment R ms)"
    and "snd k \<noteq> PrefillName (objName ms) \<Longrightarrow>
      stable (\<lambda>w. P (stDeployments (store (server w)) k)) (EnsurePrefillDeployment R ms)"
proof -
  show "establishes (\<lambda>w. prefillInSync R ms (stDeployments (store (server w)))) (EnsurePrefillDeployment R ms)"
  proof (cases "msPrefill (msSp ms)")
    case None
    then show ?thesis
      using cleanupDeployment_step [OF assms] by (simp add: prefillInSync_def EnsurePrefillDeployment_def)
  next
    case (Some role)
    then show ?thesis
      using applyDeployment_establishes [OF assms]
      by (simp add: prefillInSync_def EnsurePrefillDeployment_def ensureDeployment_def nameSuffixes)
  qed
  assume k: "snd k \<noteq> PrefillName (objName ms)"
  show "stable (\<lambda>w. P (stDeployments (store (server w)) k)) (EnsurePrefillDeployment R ms)"
  proof (cases "msPrefill (msSp ms)")
    case None
    then show ?thesis using k by (simp add: EnsurePrefillDeployment_def cleanupDeployment_step [OF assms])
  next
    case (Some role)
    then show ?thesis
      using k by (simp add: EnsurePrefillDeployment_def ensureDeployment_def nameSuffixes
          applyDeployment_stable [OF assms])
  qed
qed

lemma eppDeployment_step:
  assumes "cooperativeMS R store"
  shows "establishes (\<lambda>w. eppInSync R ms (stDeployments (store (server w))))
      (EnsureEPPDeployment R ms (ConfigMapHash (sha256Sum R) ms))"
    and "snd k \<noteq> EPPName (objName ms) \<Longrightarrow>
      stable (\<lambda>w. P (stDeployments (store (server w)) k)) (EnsureEPPDeployment R ms h)"
  using applyDeployment_establishes [OF assms] applyDeployment_stable [OF assms]
  by (simp_all add: eppInSync_def EnsureEPPDeployment_def nameSuffixes)

lemma decode_step:
  assumes "cooperativeMS R store"
  shows "establishes (\<lambda>w. decodeInSync R ms (stDeployments (store (server w)))) (EnsureDecodeDeployment R ms)"
  using applyDeployment_establishes [OF assms]
  by (simp add: decodeInSync_def EnsureDecodeDeployment_def ensureDeployment_def nameSuffixes)

lemma secret_step:
  assumes "cooperativeMS R store"
  shows "establishes (\<lambda>w. if needsSecret R ms
        then present (stSecrets (store (server w))) managedSecret (BuildEPPSATokenSecret ms (eppLabelsOf R ms))
        else absent (stSecrets (store (server w))) (objNamespace ms, EPPSecretName (objName ms)))
      (EnsureEPPSATokenSecret R ms)"
  using token.ensure_establishes [OF cooperativeMS_serves(6) [OF assms] cooperativeMS_lib(2) [OF assms]]
    cleanupTyped_establishes [OF cooperativeMS_serves(6) [OF assms]]
  by (simp add: EnsureEPPSATokenSecret_def BuildEPPSATokenSecret_def EPPSecretName_def metaZero_def)

lemma account_step:
  assumes "cooperativeMS R store"
  shows "establishes (\<lambda>w. present (stAccounts (store (server w))) managedAccount
      (BuildEPPServiceAccount ms (eppLabelsOf R ms))) (EnsureEPPServiceAccount R ms)"
  using account.ensure_establishes [OF cooperativeMS_serves(3) [OF assms] cooperativeMS_lib(2) [OF assms]]
  by (simp add: EnsureEPPServiceAccount_def BuildEPPServiceAccount_def nameSuffixes metaZero_def)

lemma configMap_step:
  assumes "cooperativeMS R store"
  shows "establishes (\<lambda>w. present (stConfigMaps (store (server w))) managedSpec
      (BuildEPPConfigMap ms (eppLabelsOf R ms))) (EnsureEPPConfigMap R ms)"
  using spec.ensure_establishes [OF cooperativeMS_serves(4) [OF assms] cooperativeMS_lib(2) [OF assms]]
  by (simp add: EnsureEPPConfigMap_def BuildEPPConfigMap_def EPPConfigMapName_def metaZero_def)

lemma service_step:
  assumes "cooperativeMS R store"
  shows "establishes (\<lambda>w. present (stSvcs (store (server w))) managedService
      (BuildEPPService ms (eppLabelsOf R ms) (EPPSelectorLabels (objName ms)))) (EnsureEPPService R ms)"
  using svc.ensure_establishes [OF cooperativeMS_serves(5) [OF assms] cooperativeMS_lib(2) [OF assms]]
  by (simp add: EnsureEPPService_def BuildEPPService_def EPPNameForService_def nameSuffixes metaZero_def Let_def)

lemma rule_step:
  assumes "cooperativeMS R store"
  shows "establishes (\<lambda>w. if ecProvider (msEPPConfig R) = ProviderIstio
        then present (stRules (store (server w))) managedSpec (BuildDestinationRule ms (eppLabelsOf R ms))
        else absent (stRules (store (server w))) (objNamespace ms, EPPName (objName ms)))
      (EnsureDestinationRule R ms)"
  using spec.ensure_establishes [OF cooperativeMS_serves(13) [OF assms] cooperativeMS_lib(2) [OF assms]]
    cleanupTyped_establishes [OF cooperativeMS_serves(13) [OF assms]]
  by (simp add: EnsureDestinationRule_def BuildDestinationRule_def nameSuffixes metaZero_def)

lemma monitor_step:
  assumes "cooperativeMS R store"
  shows "establishes (\<lambda>w. if msInferencePool (msSp ms) \<noteq> None \<and> monitoringEnabled ms
        then present (stMonitors (store (server w))) managedSpec
          (BuildEPPServiceMonitor ms (msEPPConfig R) (eppLabelsOf R ms))
        else absent (stMonitors (store (server w))) (objNamespace ms, EPPServiceMonitorName (objName ms)))
      (EnsureEPPServiceMonitor R ms)"
  using spec.ensure_establishes [OF cooperativeMS_serves(15) [OF assms] cooperativeMS_lib(2) [OF assms]]
    cleanupTyped_establishes [OF cooperativeMS_serves(15) [OF assms]]
  by (auto simp: EnsureEPPServiceMonitor_def BuildEPPServiceMonitor_def EPPServiceMonitorName_def nameSuffixes metaZero_def)

lemma establishes_conj: "establishes P m \<Longrightarrow> establishes Q m \<Longrightarrow> establishes (\<lambda>w. P w \<and> Q w) m"
  unfolding establishes_def by blast

lemma establishes_both:
  "establishes P m \<Longrightarrow> stable P n \<Longrightarrow> establishes Q n \<Longrightarrow> establishes (\<lambda>w. P w \<and> Q w) (andThen m (\<lambda>_. n))"
  by (intro establishes_conj establishes_andThen_left establishes_andThen_right)

text \<open>Two writes in a row to different kinds.\<close>

lemma establishes_pair:
  assumes "establishes (\<lambda>w. P (u (server w))) m" and "establishes (\<lambda>w. Q (v (server w))) n" and "keeps u n"
  shows "establishes (\<lambda>w. P (u (server w)) \<and> Q (v (server w))) (andThen m (\<lambda>_. n))"
  using assms by (intro establishes_both stable_keeps)

lemma rbac_step:
  assumes "cooperativeMS R store"
  shows "establishes (\<lambda>w. case BuildEPPRBAC ms (eppLabelsOf R ms) (eppReplicasOf ms) of (r, b) \<Rightarrow>
      present (stRoles (store (server w))) managedSpec r \<and> present (stBindings (store (server w))) managedSpec b)
    (EnsureEPPRBAC R ms)"
proof -
  obtain r b where rb: "BuildEPPRBAC ms (eppLabelsOf R ms) (eppReplicasOf ms) = (r, b)" by fastforce
  then have names: "mOwnerReferences (ometa r) = []" "mOwnerReferences (ometa b) = []"
    "objName r \<noteq> ''''" "objName b \<noteq> ''''"
    by (auto simp: BuildEPPRBAC_def Let_def metaZero_def nameSuffixes)
  have "keeps (\<lambda>s. stRoles (store s)) (ensureOwned R ms (bindingApi R) b mutateSpec)"
    by (intro keeps_intros serves_framed [OF cooperativeMS_serves(8) [OF assms]]) simp
  with spec.ensure_establishes [OF cooperativeMS_serves(7) [OF assms] cooperativeMS_lib(2) [OF assms] names(1,3)]
    spec.ensure_establishes [OF cooperativeMS_serves(8) [OF assms] cooperativeMS_lib(2) [OF assms] names(2,4)]
  show ?thesis unfolding EnsureEPPRBAC_def rb prod.case by (rule establishes_pair)
qed

lemma clusterCleanup_step:
  assumes "cooperativeMS R store"
  shows "establishes (\<lambda>w. absent (stClusterRoles (store (server w))) ('''', n) \<and>
      absent (stClusterBindings (store (server w))) ('''', n)) (cleanupClusterRBAC R n)"
proof -
  have "keeps (\<lambda>s. stClusterRoles (store s)) (cleanupClusterTyped (clusterBindingApi R) n)"
    by (intro keeps_intros serves_framed [OF cooperativeMS_serves(10) [OF assms]]) simp
  with cleanupClusterTyped_establishes [OF cooperativeMS_serves(9) [OF assms]]
    cleanupClusterTyped_establishes [OF cooperativeMS_serves(10) [OF assms]]
  show ?thesis unfolding cleanupClusterRBAC_def by (rule establishes_pair)
qed

lemma cluster_step:
  assumes "cooperativeMS R store"
  shows "establishes (\<lambda>w. if needsClusterRBAC R ms
      then (case BuildEPPClusterRBAC ms (eppLabelsOf R ms) of (r, b) \<Rightarrow>
        present (stClusterRoles (store (server w))) managedSpec r \<and>
        present (stClusterBindings (store (server w))) managedSpec b)
      else absent (stClusterRoles (store (server w))) ('''', EPPClusterRBACName (objNamespace ms) (objName ms)) \<and>
        absent (stClusterBindings (store (server w))) ('''', EPPClusterRBACName (objNamespace ms) (objName ms)))
    (EnsureEPPClusterRBAC R ms)"
proof (cases "needsClusterRBAC R ms")
  case True
  obtain r b where rb: "BuildEPPClusterRBAC ms (eppLabelsOf R ms) = (r, b)" by fastforce
  then have names: "objName r \<noteq> ''''" "objName b \<noteq> ''''"
    by (auto simp: BuildEPPClusterRBAC_def Let_def metaZero_def EPPClusterRBACName_def)
  have "keeps (\<lambda>s. stClusterRoles (store s)) (ensureClusterResource (clusterBindingApi R) b mutateSpec)"
    by (intro keeps_intros serves_framed [OF cooperativeMS_serves(10) [OF assms]]) simp
  with spec.ensureCluster_establishes [OF cooperativeMS_serves(9) [OF assms] names(1)]
    spec.ensureCluster_establishes [OF cooperativeMS_serves(10) [OF assms] names(2)]
  have "establishes (\<lambda>w. present (stClusterRoles (store (server w))) managedSpec r \<and>
        present (stClusterBindings (store (server w))) managedSpec b)
      (andThen (ensureClusterResource (clusterRoleApi R) r mutateSpec)
        (\<lambda>_. ensureClusterResource (clusterBindingApi R) b mutateSpec))"
    by (rule establishes_pair)
  with True show ?thesis by (simp add: EnsureEPPClusterRBAC_def rb)
next
  case False
  with clusterCleanup_step [OF assms] show ?thesis by (simp add: EnsureEPPClusterRBAC_def)
qed

lemma establishes_attempt: "(\<And>r. establishes Q (k r)) \<Longrightarrow> establishes Q (attempt m k)"
  unfolding establishes_def attempt_def by (auto split: prod.splits)

lemma pool_step:
  assumes "cooperativeMS R store" and "objName ms \<noteq> ''''"
  shows "establishes (\<lambda>w. present (stPools (store (server w))) managedSpec (desiredPool R ms))
    (EnsureInferencePool R ms)"
  unfolding EnsureInferencePool_def
  using assms(2) by (intro establishes_attempt spec.ensure_establishes [OF cooperativeMS_serves(11) [OF assms(1)]
        cooperativeMS_lib(2) [OF assms(1)]])
    (simp_all add: desiredPool_def BuildDefaultInferencePool_def BuildInferencePool_def metaZero_def
      InferencePoolName_def split: option.split)

lemma route_step:
  assumes "cooperativeMS R store" and "objName ms \<noteq> ''''"
  shows "establishes (\<lambda>w. routeInSync R ms (stRoutes (store (server w)))) (EnsureHTTPRoute R ms)"
  using spec.ensure_establishes [OF cooperativeMS_serves(12) [OF assms(1)] cooperativeMS_lib(2) [OF assms(1)]]
    cleanupTyped_establishes [OF cooperativeMS_serves(12) [OF assms(1)]] assms(2)
  by (simp add: routeInSync_def EnsureHTTPRoute_def BuildHTTPRoute_def BuildDefaultHTTPRoute_def metaZero_def
      HTTPRouteName_def Let_def split: option.split)

lemma podMonitors_step:
  assumes "cooperativeMS R store"
  shows "establishes (\<lambda>w. podMonitorsInSync R ms (stPodMonitors (store (server w)))) (EnsurePodMonitors R ms)"
proof -
  note serves = cooperativeMS_serves(14) [OF assms] and own = cooperativeMS_lib(2) [OF assms]
  let ?d = "podMonitorFor R ms ComponentDecode RoleDecode"
  let ?p = "podMonitorFor R ms ComponentPrefill RolePrefill"
  have d: "objKey ?d = (objNamespace ms, PodMonitorName (objName ms) RoleDecode)" "mOwnerReferences (ometa ?d) = []"
    "objName ?d \<noteq> ''''"
    and p: "objKey ?p = (objNamespace ms, PodMonitorName (objName ms) RolePrefill)" "mOwnerReferences (ometa ?p) = []"
    "objName ?p \<noteq> ''''"
    by (simp_all add: podMonitorFor_def BuildPodMonitor_def metaZero_def PodMonitorName_def Let_def)
  have ne: "objKey ?d \<noteq> objKey ?p" unfolding d(1) p(1) by (simp add: PodMonitorName_def)
  have dec: "establishes (\<lambda>w. present (stPodMonitors (store (server w))) managedSpec ?d)
      (ensureOwned R ms (podMonitorApi R) ?d mutateSpec)"
    by (rule spec.ensure_establishes [OF serves own d(2,3)])
  have pre: "establishes (\<lambda>w. present (stPodMonitors (store (server w))) managedSpec ?p)
      (ensureOwned R ms (podMonitorApi R) ?p mutateSpec)"
    by (rule spec.ensure_establishes [OF serves own p(2,3)])
  have keep: "stable (\<lambda>w. present (stPodMonitors (store (server w))) managedSpec ?d)
      (ensureOwned R ms (podMonitorApi R) ?p mutateSpec)"
    using spec.ensure_stable [OF serves own p(2,3) ne, of "\<lambda>y. \<exists>x. y = Some x \<and> managedSpec x = managedSpec ?d"]
    by (simp add: present_def)
  have gone: "establishes (\<lambda>w. absent (stPodMonitors (store (server w))) k) (cleanupTyped (podMonitorApi R) k)" for k
    by (rule cleanupTyped_establishes [OF serves])
  have keep': "stable (\<lambda>w. present (stPodMonitors (store (server w))) managedSpec ?d)
      (cleanupTyped (podMonitorApi R) (objKey ?p))"
    using cleanupTyped_stable [OF serves ne, of "\<lambda>y. \<exists>x. y = Some x \<and> managedSpec x = managedSpec ?d"]
    by (simp add: present_def)
  have keep'': "stable (\<lambda>w. absent (stPodMonitors (store (server w))) (objKey ?d))
      (cleanupTyped (podMonitorApi R) (objKey ?p))"
    using cleanupTyped_stable [OF serves ne, of "\<lambda>y. \<forall>x. y = Some x \<longrightarrow> \<not> isLive x"]
    by (simp add: absent_def)
  note both = establishes_both [OF dec keep pre] establishes_both [OF dec keep' gone]
    establishes_both [OF gone keep'' gone]
  show ?thesis
    using both unfolding EnsurePodMonitors_def podMonitorsInSync_def Let_def d(1) [symmetric] p(1) [symmetric]
    by (cases "podMonitorsEnabled ms"; cases "msPrefill (msSp ms) = None") (simp_all only: if_True if_False simp_thms)
qed

section \<open>The sync reaches the desired state\<close>

lemma runSteps_nth_establishes:
  assumes "runSteps ms w = (Inr u, w')" and "i < length ms" and "establishes Q (ms ! i)"
    and "list_all (stable Q) (drop (Suc i) ms)"
  shows "Q w'"
  using runSteps_establishes [of "take i ms" "ms ! i" "drop (Suc i) ms" w u w' Q] assms id_take_nth_drop [of i ms]
  by simp


lemma present_at: "present objs managed d \<longleftrightarrow> (\<lambda>y. \<exists>x. y = Some x \<and> managed x = managed d) (objs (objKey d))"
  by (simp add: present_def)

lemma absent_at: "absent objs k \<longleftrightarrow> (\<lambda>y. \<forall>x. y = Some x \<longrightarrow> \<not> isLive x) (objs k)"
  by (simp add: absent_def)

lemma later_deployments:
  assumes "cooperativeMS R store"
  shows "stable (\<lambda>w. decodeInSync R ms (stDeployments (store (server w)))) (EnsurePrefillDeployment R ms)"
    "stable (\<lambda>w. decodeInSync R ms (stDeployments (store (server w)))) (EnsureEPPDeployment R ms h)"
    "stable (\<lambda>w. prefillInSync R ms (stDeployments (store (server w)))) (EnsureEPPDeployment R ms h)"
proof -
  show "stable (\<lambda>w. decodeInSync R ms (stDeployments (store (server w)))) (EnsurePrefillDeployment R ms)"
    "stable (\<lambda>w. decodeInSync R ms (stDeployments (store (server w)))) (EnsureEPPDeployment R ms h)"
    unfolding decodeInSync_def present_at
    by (rule prefill_step [OF assms] eppDeployment_step [OF assms], simp add: nameSuffixes)+
  show "stable (\<lambda>w. prefillInSync R ms (stDeployments (store (server w)))) (EnsureEPPDeployment R ms h)"
    unfolding prefillInSync_def present_at absent_at
    by (cases "msPrefill (msSp ms)"; simp only: option.case, rule eppDeployment_step [OF assms],
        simp add: nameSuffixes)
qed

lemma sync_establishes:
  assumes "reconcileResourcesMS R ms w = (Inr u, w')" and "i < 14"
    and "establishes Q (resourceSteps R ms ! i)"
    and "list_all (stable Q) (drop (Suc i) (resourceSteps R ms))"
  shows "Q w'"
  using runSteps_nth_establishes [OF assms(1) [unfolded reconcileResourcesMS_def] _ assms(3,4)] assms(2)
  by (simp add: resourceSteps_def)

lemma stable_two: "keeps u m \<Longrightarrow> keeps v m \<Longrightarrow> stable (\<lambda>w. P (u (server w)) (v (server w))) m"
  unfolding stable_def by (metis keepsD)

text \<open>Per group of steps: what the step achieves is kept by the later ones.\<close>

lemma sync_deployments:
  assumes coop: "cooperativeMS R store" and run: "reconcileResourcesMS R ms w = (Inr u, w')"
  shows "decodeInSync R ms (stDeployments (store (server w')))"
    and "prefillInSync R ms (stDeployments (store (server w')))"
    and "eppInSync R ms (stDeployments (store (server w')))"
proof -
  note at = sync_establishes [OF run] and keep = keeps_steps framesMS [OF coop] refl
  note deps = stable_keeps [of "\<lambda>s. stDeployments (store s)"] later_deployments [OF coop]
  show "decodeInSync R ms (stDeployments (store (server w')))"
    by (rule at [of 0], simp, simp add: resourceSteps_def decode_step [OF coop], simp add: resourceSteps_def,
        (intro conjI deps keep; simp))
  show "prefillInSync R ms (stDeployments (store (server w')))"
    by (rule at [of 1], simp, simp add: resourceSteps_def prefill_step(1) [OF coop], simp add: resourceSteps_def,
        (intro conjI deps keep; simp))
  show "eppInSync R ms (stDeployments (store (server w')))"
    by (rule at [of 4], simp, simp add: resourceSteps_def eppDeployment_step(1) [OF coop], simp add: resourceSteps_def,
        (intro conjI deps keep; simp))
qed

lemma sync_epp_objects:
  assumes coop: "cooperativeMS R store" and run: "reconcileResourcesMS R ms w = (Inr u, w')"
  shows "present (stAccounts (store (server w'))) managedAccount (BuildEPPServiceAccount ms (eppLabelsOf R ms))"
    and "present (stConfigMaps (store (server w'))) managedSpec (BuildEPPConfigMap ms (eppLabelsOf R ms))"
    and "present (stSvcs (store (server w'))) managedService
      (BuildEPPService ms (eppLabelsOf R ms) (EPPSelectorLabels (objName ms)))"
    and "if needsSecret R ms
    then present (stSecrets (store (server w'))) managedSecret (BuildEPPSATokenSecret ms (eppLabelsOf R ms))
    else absent (stSecrets (store (server w'))) (objNamespace ms, EPPSecretName (objName ms))"
    and "case BuildEPPRBAC ms (eppLabelsOf R ms) (eppReplicasOf ms) of (r, b) \<Rightarrow>
      present (stRoles (store (server w'))) managedSpec r \<and> present (stBindings (store (server w'))) managedSpec b"
    and "if needsClusterRBAC R ms
    then (case BuildEPPClusterRBAC ms (eppLabelsOf R ms) of (r, b) \<Rightarrow>
      present (stClusterRoles (store (server w'))) managedSpec r \<and>
      present (stClusterBindings (store (server w'))) managedSpec b)
    else absent (stClusterRoles (store (server w'))) ('''', EPPClusterRBACName (objNamespace ms) (objName ms)) \<and>
      absent (stClusterBindings (store (server w'))) ('''', EPPClusterRBACName (objNamespace ms) (objName ms))"
proof -
  note at = sync_establishes [OF run] and keep = keeps_steps framesMS [OF coop] refl
  show "present (stAccounts (store (server w'))) managedAccount (BuildEPPServiceAccount ms (eppLabelsOf R ms))"
    by (rule at [of 2], simp, simp add: resourceSteps_def account_step [OF coop], simp add: resourceSteps_def,
        (intro conjI stable_keeps [of "\<lambda>s. stAccounts (store s)"] keep; simp))
  show "present (stConfigMaps (store (server w'))) managedSpec (BuildEPPConfigMap ms (eppLabelsOf R ms))"
    by (rule at [of 3], simp, simp add: resourceSteps_def configMap_step [OF coop], simp add: resourceSteps_def,
        (intro conjI stable_keeps [of "\<lambda>s. stConfigMaps (store s)"] keep; simp))
  show "present (stSvcs (store (server w'))) managedService
      (BuildEPPService ms (eppLabelsOf R ms) (EPPSelectorLabels (objName ms)))"
    by (rule at [of 5], simp, simp add: resourceSteps_def service_step [OF coop], simp add: resourceSteps_def,
        (intro conjI stable_keeps [of "\<lambda>s. stSvcs (store s)"] keep; simp))
  show "if needsSecret R ms
    then present (stSecrets (store (server w'))) managedSecret (BuildEPPSATokenSecret ms (eppLabelsOf R ms))
    else absent (stSecrets (store (server w'))) (objNamespace ms, EPPSecretName (objName ms))"
    by (rule at [of 6], simp, simp add: resourceSteps_def secret_step [OF coop], simp add: resourceSteps_def,
        (intro conjI stable_keeps [of "\<lambda>s. stSecrets (store s)"] keep; simp))
  show "case BuildEPPRBAC ms (eppLabelsOf R ms) (eppReplicasOf ms) of (r, b) \<Rightarrow>
      present (stRoles (store (server w'))) managedSpec r \<and> present (stBindings (store (server w'))) managedSpec b"
    by (rule at [of 7], simp, simp add: resourceSteps_def rbac_step [OF coop], simp add: resourceSteps_def,
        (intro conjI stable_two [of "\<lambda>s. stRoles (store s)" _ "\<lambda>s. stBindings (store s)"] keep; simp))
  show "if needsClusterRBAC R ms
    then (case BuildEPPClusterRBAC ms (eppLabelsOf R ms) of (r, b) \<Rightarrow>
      present (stClusterRoles (store (server w'))) managedSpec r \<and>
      present (stClusterBindings (store (server w'))) managedSpec b)
    else absent (stClusterRoles (store (server w'))) ('''', EPPClusterRBACName (objNamespace ms) (objName ms)) \<and>
      absent (stClusterBindings (store (server w'))) ('''', EPPClusterRBACName (objNamespace ms) (objName ms))"
    by (rule at [of 8], simp, simp add: resourceSteps_def cluster_step [OF coop], simp add: resourceSteps_def,
        (intro conjI stable_two [of "\<lambda>s. stClusterRoles (store s)" _ "\<lambda>s. stClusterBindings (store s)"] keep; simp))
qed

lemma sync_routing:
  assumes coop: "cooperativeMS R store" and "objName ms \<noteq> ''''" and run: "reconcileResourcesMS R ms w = (Inr u, w')"
  shows "present (stPools (store (server w'))) managedSpec (desiredPool R ms)"
    and "routeInSync R ms (stRoutes (store (server w')))"
    and "if ecProvider (msEPPConfig R) = ProviderIstio
    then present (stRules (store (server w'))) managedSpec (BuildDestinationRule ms (eppLabelsOf R ms))
    else absent (stRules (store (server w'))) (objNamespace ms, EPPName (objName ms))"
    and "podMonitorsInSync R ms (stPodMonitors (store (server w')))"
    and "if msInferencePool (msSp ms) \<noteq> None \<and> monitoringEnabled ms
    then present (stMonitors (store (server w'))) managedSpec (BuildEPPServiceMonitor ms (msEPPConfig R) (eppLabelsOf R ms))
    else absent (stMonitors (store (server w'))) (objNamespace ms, EPPServiceMonitorName (objName ms))"
proof -
  note at = sync_establishes [OF run] and keep = keeps_steps framesMS [OF coop] refl
  show "present (stPools (store (server w'))) managedSpec (desiredPool R ms)"
    by (rule at [of 9], simp, simp add: resourceSteps_def pool_step [OF coop assms(2)], simp add: resourceSteps_def,
        (intro conjI stable_keeps [of "\<lambda>s. stPools (store s)"] keep; simp))
  show "routeInSync R ms (stRoutes (store (server w')))"
    by (rule at [of 10], simp, simp add: resourceSteps_def route_step [OF coop assms(2)], simp add: resourceSteps_def,
        (intro conjI stable_keeps [of "\<lambda>s. stRoutes (store s)"] keep; simp))
  show "if ecProvider (msEPPConfig R) = ProviderIstio
    then present (stRules (store (server w'))) managedSpec (BuildDestinationRule ms (eppLabelsOf R ms))
    else absent (stRules (store (server w'))) (objNamespace ms, EPPName (objName ms))"
    by (rule at [of 11], simp, simp add: resourceSteps_def rule_step [OF coop], simp add: resourceSteps_def,
        (intro conjI stable_keeps [of "\<lambda>s. stRules (store s)"] keep; simp))
  show "podMonitorsInSync R ms (stPodMonitors (store (server w')))"
    by (rule at [of 12], simp, simp add: resourceSteps_def podMonitors_step [OF coop], simp add: resourceSteps_def,
        (intro conjI stable_keeps [of "\<lambda>s. stPodMonitors (store s)"] keep; simp))
  show "if msInferencePool (msSp ms) \<noteq> None \<and> monitoringEnabled ms
    then present (stMonitors (store (server w'))) managedSpec (BuildEPPServiceMonitor ms (msEPPConfig R) (eppLabelsOf R ms))
    else absent (stMonitors (store (server w'))) (objNamespace ms, EPPServiceMonitorName (objName ms))"
    by (rule at [of 13]) (use monitor_step [OF coop, of ms] in \<open>simp_all add: resourceSteps_def\<close>)
qed

lemma sync_reaches_desired_state:
  assumes "cooperativeMS R store" and "objName ms \<noteq> ''''"
    and "reconcileResourcesMS R ms w = (Inr u, w')"
  shows "inSync R ms (store (server w'))"
  unfolding inSync_def
  by (intro conjI sync_deployments [OF assms(1,3)] sync_epp_objects [OF assms(1,3)] sync_routing [OF assms])

end
