(* ===== verification/ServiceOrder.thy ===== *)
theory ServiceOrder
  imports ServiceSync
begin

text \<open>
  The order of the resource sync of a ModelService: whatever fails on the way, the endpoint
  picker's Deployment is only touched once the objects it refers to are in place.
\<close>

section \<open>Order\<close>

text \<open>A write to one object never touches another one, whatever the server answers.\<close>

definition localised :: "('s, 'b) kindApi \<Rightarrow> ('s \<Rightarrow> 'b objects) \<Rightarrow> bool" where
  "localised K v \<longleftrightarrow>
     (\<forall>x s k. k \<noteq> objKey x \<longrightarrow>
        v (snd (apiUpdate K x s)) k = v s k \<and> v (snd (apiDelete K x s)) k = v s k \<and>
        (objName x \<noteq> '''' \<longrightarrow> v (snd (apiCreate K x s)) k = v s k))"

lemma localised_client:
  assumes "localised K v" and "k \<noteq> objKey x"
  shows "keeps (\<lambda>s. v s k) (clientUpdate K x)" "keeps (\<lambda>s. v s k) (clientDelete K x)"
    "objName x \<noteq> '''' \<Longrightarrow> keeps (\<lambda>s. v s k) (clientCreate K x)"
  using assms unfolding keeps_def localised_def server_client by blast+

lemma keeps_attempt_get:
  assumes "lawfulGet K v" and "\<And>e. keeps u (h (Inl e))" and "\<And>x. objKey x = key \<Longrightarrow> keeps u (h (Inr x))"
  shows "keeps u (attempt (clientGet K key) h)"
  unfolding keeps_def
proof
  fix w
  obtain r w1 where r: "clientGet K key w = (r, w1)" by fastforce
  have same: "server w1 = server w"
    using clientGet_Inr [OF assms(1)] clientGet_Inl [OF assms(1)] r by (cases r) blast+
  have "keeps u (h r)"
    using assms(2,3) clientGet_Inr [OF assms(1)] r by (cases r) auto
  with same r show "u (server (snd (attempt (clientGet K key) h w))) = u (server w)"
    by (simp add: attempt_def keeps_def)
qed

lemma applyDeployment_keeps_others:
  assumes "cooperativeMS R store" and "localised (depApi R) (\<lambda>s. stDeployments (store s))"
    and "mOwnerReferences (ometa d) = []" and "objName d \<noteq> ''''" and "objNamespace d = objNamespace ms"
    and "objName d \<noteq> snd k"
  shows "keeps (\<lambda>s. stDeployments (store s) k) (applyDeployment R ms what d)"
proof (cases "msSetControllerReference R (ometa ms) (ometa d)")
  case (Inl e)
  then show ?thesis by (simp add: applyDeployment_def keeps_fail)
next
  case (Inr m)
  from lawfulOwnerRef_ownerOnly [OF cooperativeMS_lib(2) [OF assms(1)] assms(3) Inr]
  have key: "objKey (d\<lparr>ometa := m\<rparr>) = objKey d" by (auto simp: ownerOnly_def)
  have k: "k \<noteq> objKey d" "k \<noteq> (objNamespace ms, objName d)" using assms(6) by auto
  note get = keeps_attempt_get [OF servesD(1) [OF cooperativeMS_serves(2) [OF assms(1)]]]
  have create: "keeps (\<lambda>s. stDeployments (store s) k) (clientCreate (depApi R) (d\<lparr>ometa := m\<rparr>))"
    using localised_client(3) [OF assms(2)] k key assms(4) by auto
  have update: "keeps (\<lambda>s. stDeployments (store s) k) (clientUpdate (depApi R) (mutateDeployment x (d\<lparr>ometa := m\<rparr>)))"
    if "objKey x = (objNamespace ms, objName d)" for x
    using localised_client(1) [OF assms(2)] k that by (auto simp: dep.mutate_key)
  show ?thesis
    unfolding applyDeployment_def Inr sum.case Let_def
    by (rule get) (auto intro!: keeps_intros create update)
qed

lemma cleanupDeployment_keeps_others:
  assumes "cooperativeMS R store" and "localised (depApi R) (\<lambda>s. stDeployments (store s))" and "n \<noteq> snd k"
  shows "keeps (\<lambda>s. stDeployments (store s) k) (cleanupDeployment R ns n)"
  unfolding cleanupDeployment_def
  using assms(3)
  by (intro keeps_attempt_get [OF servesD(1) [OF cooperativeMS_serves(2) [OF assms(1)]]])
    (auto intro!: keeps_intros localised_client [OF assms(2)])

lemma serving_steps_keep_epp:
  assumes "cooperativeMS R store" and "localised (depApi R) (\<lambda>s. stDeployments (store s))"
  shows "keeps (\<lambda>s. stDeployments (store s) (ns, EPPName n)) (EnsureDecodeDeployment R ms)"
    "keeps (\<lambda>s. stDeployments (store s) (ns, EPPName n)) (EnsurePrefillDeployment R ms)"
  unfolding EnsureDecodeDeployment_def EnsurePrefillDeployment_def ensureDeployment_def
  by (auto intro!: applyDeployment_keeps_others [OF assms] cleanupDeployment_keeps_others [OF assms]
      simp: nameSuffixes split: option.split)

text \<open>
  C13: When a sync, successful or not, has changed the EPP Deployment, the ServiceAccount it runs
  under and the ConfigMap it mounts are already in the server with their current content.
\<close>

theorem epp_deployment_follows_its_inputs:
  assumes "cooperativeMS R store" and "localised (depApi R) (\<lambda>s. stDeployments (store s))"
    and "reconcileResourcesMS R ms w = (r, w')"
    and "stDeployments (store (server w')) (objNamespace ms, EPPName (objName ms)) \<noteq>
         stDeployments (store (server w)) (objNamespace ms, EPPName (objName ms))"
  shows "present (stAccounts (store (server w'))) managedAccount (BuildEPPServiceAccount ms (eppLabelsOf R ms)) \<and>
    present (stConfigMaps (store (server w'))) managedSpec (BuildEPPConfigMap ms (eppLabelsOf R ms))"
proof -
  note coop = assms(1) and keep = keeps_steps framesMS [OF assms(1)] refl
  let ?v = "\<lambda>s. stDeployments (store s) (objNamespace ms, EPPName (objName ms))"
  let ?before = "take 4 (resourceSteps R ms)" and ?after = "drop 4 (resourceSteps R ms)"
  have run: "runSteps (?before @ ?after) w = (r, w')"
    using assms(3) by (simp only: append_take_drop_id reconcileResourcesMS_def)
  have "list_all (keeps ?v) ?before"
    by (simp add: resourceSteps_def serving_steps_keep_epp [OF assms(1,2)], (intro conjI keep; simp))
  then have same: "keeps ?v (runSteps ?before)"
    by (intro keeps_runSteps) (simp add: list_all_iff)
  obtain r1 w1 where r1: "runSteps ?before w = (r1, w1)" by fastforce
  have "r1 = Inr ()"
  proof (cases r1)
    case (Inl e)
    with r1 run have "w' = w1" by (simp add: runSteps_append del: append_take_drop_id)
    with keepsD [OF same r1] assms(4) show ?thesis by simp
  qed simp
  with r1 run have before: "runSteps ?before w = (Inr (), w1)" and after: "runSteps ?after w1 = (r, w')"
    by (simp_all add: runSteps_append del: append_take_drop_id)
  have "present (stAccounts (store (server w1))) managedAccount (BuildEPPServiceAccount ms (eppLabelsOf R ms))"
    by (rule runSteps_nth_establishes [OF before, of 2], simp add: resourceSteps_def,
        simp add: resourceSteps_def account_step [OF coop], simp add: resourceSteps_def,
        (intro conjI stable_keeps [of "\<lambda>s. stAccounts (store s)"] keep; simp))
  moreover have "present (stConfigMaps (store (server w1))) managedSpec (BuildEPPConfigMap ms (eppLabelsOf R ms))"
    by (rule runSteps_nth_establishes [OF before, of 3])
      (simp_all add: resourceSteps_def configMap_step [OF coop])
  moreover have "list_all (keeps (\<lambda>s. stAccounts (store s))) ?after"
    by (simp add: resourceSteps_def, (intro conjI keep; simp))
  moreover have "list_all (keeps (\<lambda>s. stConfigMaps (store s))) ?after"
    by (simp add: resourceSteps_def, (intro conjI keep; simp))
  moreover have "keeps v (runSteps ms) \<Longrightarrow> runSteps ms w1 = (r, w') \<Longrightarrow> v (server w') = v (server w1)" for v ms
    by (rule keepsD)
  ultimately show ?thesis
    using after keeps_runSteps by (metis list_all_iff)
qed

end
