(* ===== verification/ServiceIdle.thy ===== *)
theory ServiceIdle
  imports ServiceSync
begin

text \<open>
  A second sync of a ModelService whose children are in the desired state changes nothing: each
  step then compares what it reads with what it wants and stops.
\<close>

section \<open>A service in sync is only read\<close>

fun isRead :: "apiCall \<Rightarrow> bool" where
  "isRead (ApiCall v _ _ _) = (v = VGet)"
| "isRead (EventCall _ _ _) = False"

text \<open>From the server state \<open>s\<close>, a successful run of \<open>m\<close> changes nothing and only reads.\<close>

definition onlyReads :: "'s \<Rightarrow> ('s world, 'e, 'a) io \<Rightarrow> bool" where
  "onlyReads s m \<longleftrightarrow>
     (\<forall>w x w'. server w = s \<longrightarrow> m w = (Inr x, w') \<longrightarrow>
        server w' = s \<and> (\<exists>cs. calls w' = calls w @ cs \<and> list_all isRead cs))"

lemma onlyReadsI:
  assumes "\<And>w x w'. server w = s \<Longrightarrow> m w = (Inr x, w') \<Longrightarrow>
      server w' = s \<and> calls w' = calls w @ [ApiCall VGet ty ns n]"
  shows "onlyReads s m"
  unfolding onlyReads_def
proof (intro allI impI)
  fix w x w'
  assume "server w = s" and "m w = (Inr x, w')"
  from assms [OF this] show "server w' = s \<and> (\<exists>cs. calls w' = calls w @ cs \<and> list_all isRead cs)"
    by (auto intro: exI [of _ "[ApiCall VGet ty ns n]"])
qed

lemma onlyReads_andThen:
  assumes "onlyReads s m" and "\<And>x. onlyReads s (k x)"
  shows "onlyReads s (andThen m k)"
  unfolding onlyReads_def
proof (intro allI impI)
  fix w y w'
  assume s: "server w = s" and "andThen m k w = (Inr y, w')"
  then obtain x w1 where m: "m w = (Inr x, w1)" and k: "k x w1 = (Inr y, w')" by (auto simp: andThen_Inr)
  obtain cs where m': "server w1 = s" "calls w1 = calls w @ cs" "list_all isRead cs"
    using assms(1) s m unfolding onlyReads_def by blast
  moreover obtain ds where "server w' = s" "calls w' = calls w1 @ ds" "list_all isRead ds"
    using assms(2) m'(1) k unfolding onlyReads_def by blast
  ultimately show "server w' = s \<and> (\<exists>cs. calls w' = calls w @ cs \<and> list_all isRead cs)" by auto
qed

lemma onlyReads_runSteps: "list_all (onlyReads s) ms \<Longrightarrow> onlyReads s (runSteps ms)"
proof (induction ms)
  case Nil
  show ?case by (auto simp: onlyReads_def)
next
  case (Cons m ms)
  have "runSteps (m # ms) = andThen m (\<lambda>_. runSteps ms)" by (rule ext) (simp add: andThen_def)
  with Cons show ?case by (simp add: onlyReads_andThen)
qed

lemma onlyReads_read:
  assumes "lawfulGet K v" and "v s key = None" and "\<And>e. isNotFound e \<Longrightarrow> f e = ret ()"
    and "\<And>e w x w'. \<not> isNotFound e \<Longrightarrow> f e w \<noteq> (Inr x, w') "
  shows "onlyReads s (attempt (clientGet K key) (\<lambda>r. case r of Inl e \<Rightarrow> f e | Inr x \<Rightarrow> g x))"
proof (rule onlyReadsI)
  fix w x w'
  assume s: "server w = s" and run: "attempt (clientGet K key)
    (\<lambda>r. case r of Inl e \<Rightarrow> f e | Inr x \<Rightarrow> g x) w = (Inr x, w')"
  obtain r w1 where r: "clientGet K key w = (r, w1)" by fastforce
  have c: "calls w1 = calls w @ [ApiCall VGet (typeName K) (fst key) (snd key)]"
    using r by (auto simp: clientGet_def split: prod.splits)
  from r s assms(2) clientGet_Inr [OF assms(1)] obtain e where e: "r = Inl e" by (cases r) fastforce+
  with run r have f: "f e w1 = (Inr x, w')" by (simp add: attempt_def)
  with assms(4) have "isNotFound e" by blast
  moreover from assms(3) [OF this] f have "w' = w1" by simp
  moreover have "server w1 = server w" using clientGet_Inl [OF assms(1)] r e by blast
  ultimately show "server w' = s \<and> calls w' = calls w @ [ApiCall VGet (typeName K) (fst key) (snd key)]"
    using s c by simp
qed

text \<open>Cleaning up what is not there only reads, also when the read fails.\<close>

lemma cleanupTyped_absent:
  assumes "serves K store sel clear managed" and "sel (store (server w)) key = None"
    and "cleanupTyped K key w = (r, w')"
  shows "server w' = server w \<and> calls w' = calls w @ [ApiCall VGet (typeName K) (fst key) (snd key)]"
proof -
  note get = servesD(1) [OF assms(1)]
  obtain q w1 where q: "clientGet K key w = (q, w1)" by fastforce
  with clientGet_Inr [OF get] assms(2) obtain e where e: "q = Inl e" by (cases q) fastforce+
  with q assms(3) have "w' = w1" by (auto simp: cleanupTyped_def attempt_def ret_def fail_def split: if_splits)
  moreover have "server w1 = server w" using clientGet_Inl [OF get] q e by blast
  moreover have "calls w1 = calls w @ [ApiCall VGet (typeName K) (fst key) (snd key)]"
    using q by (auto simp: clientGet_def split: prod.splits)
  ultimately show ?thesis by simp
qed

lemma onlyReads_cleanup:
  assumes "serves K store sel clear managed" and "sel (store s) key = None"
  shows "onlyReads s (cleanupTyped K key)"
    and "key = ('''', n) \<Longrightarrow> onlyReads s (cleanupClusterTyped K n)"
proof -
  note get = servesD(1) [OF assms(1)]
  show "onlyReads s (cleanupTyped K key)"
    using cleanupTyped_absent [OF assms(1)] assms(2) by (intro onlyReadsI) blast
  assume "key = ('''', n)"
  then show "onlyReads s (cleanupClusterTyped K n)"
    unfolding cleanupClusterTyped_def
    using assms(2) by (intro onlyReads_read [where v = "\<lambda>s. sel (store s)", OF get]) simp_all
qed

context managedKind
begin

lemma onlyReads_ensure:
  assumes "serves K store sel clear managed" and "lawfulOwnerRef f" and "typeName K \<noteq> destinationRuleType"
    and "mOwnerReferences (ometa d) = []" and "present (sel (store s)) managed d"
  shows "onlyReads s (ensureResource f K own d mutateFn)"
proof (rule onlyReadsI)
  fix w x w'
  assume s: "server w = s" and run: "ensureResource f K own d mutateFn w = (Inr x, w')"
  obtain m where m: "f own (ometa d) = Inr m" "ownerOnly (ometa d) m"
    using ensureResource_owner [OF assms(2,4) run] by blast
  from assms(5) obtain e where e: "sel (store (server w)) (objKey d) = Some e" "managed e = managed d"
    by (auto simp: present_def s)
  show "server w' = s \<and> calls w' = calls w @ [ApiCall VGet (typeName K) (objNamespace d) (objName d)]"
    using ensure_settled [OF servesD(1) [OF assms(1)] assms(3) m(2,1) _ e run] servesD(6) [OF assms(1)] s by simp
qed

lemma onlyReads_ensureCluster:
  assumes "serves K store sel clear managed" and "present (sel (store s)) managed d"
  shows "onlyReads s (ensureClusterResource K d mutateFn)"
proof (rule onlyReadsI)
  fix w x w'
  assume s: "server w = s" and run: "ensureClusterResource K d mutateFn w = (Inr x, w')"
  from assms(2) obtain e where e: "sel (store (server w)) (objKey d) = Some e" "managed e = managed d"
    by (auto simp: present_def s)
  show "server w' = s \<and> calls w' = calls w @ [ApiCall VGet (typeName K) (objNamespace d) (objName d)]"
    using ensureCluster_settled [OF servesD(1) [OF assms(1)] _ e run] servesD(6) [OF assms(1)] s by simp
qed

end

lemma onlyReads_after_cleanup:
  assumes "serves K st sel clear managed" and "sel (st s) key = None" and "onlyReads s m"
  shows "onlyReads s (attempt (cleanupTyped K key) (\<lambda>_. m))"
  unfolding onlyReads_def
proof (intro allI impI)
  fix w y w'
  assume s: "server w = s" and run: "attempt (cleanupTyped K key) (\<lambda>_. m) w = (Inr y, w')"
  obtain r w1 where r: "cleanupTyped K key w = (r, w1)" by fastforce
  with run have "m w1 = (Inr y, w')" by (simp add: attempt_def)
  moreover have w1: "server w1 = s" "calls w1 = calls w @ [ApiCall VGet (typeName K) (fst key) (snd key)]"
    using cleanupTyped_absent [OF assms(1) _ r] assms(2) s by simp_all
  ultimately obtain cs where "server w' = s" "calls w' = calls w1 @ cs" "list_all isRead cs"
    using assms(3) unfolding onlyReads_def by blast
  with w1 show "server w' = s \<and> (\<exists>cs. calls w' = calls w @ cs \<and> list_all isRead cs)" by simp
qed

lemma onlyReads_deployment:
  assumes "cooperativeMS R store" and "mOwnerReferences (ometa d) = []" and "objNamespace d = objNamespace ms"
    and "present (stDeployments (store s)) managedDeployment d"
  shows "onlyReads s (applyDeployment R ms what d)"
proof (rule onlyReadsI)
  fix w x w'
  assume s: "server w = s" and run: "applyDeployment R ms what d w = (Inr x, w')"
  note get = servesD(1) [OF cooperativeMS_serves(2) [OF assms(1)]]
  obtain m where m: "msSetControllerReference R (ometa ms) (ometa d) = Inr m"
    using run by (auto simp: applyDeployment_def split: sum.splits)
  have man: "managedDeployment (d\<lparr>ometa := m\<rparr>) = managedDeployment d"
    by (rule dep.managed_owner) (rule lawfulOwnerRef_ownerOnly [OF cooperativeMS_lib(2) [OF assms(1)] assms(2) m])
  from assms(4) obtain e where e: "stDeployments (store s) (objKey d) = Some e" "managedDeployment e = managedDeployment d"
    by (auto simp: present_def)
  obtain r w1 where r: "clientGet (depApi R) (objKey d) w = (r, w1)" by fastforce
  have c: "calls w1 = calls w @ [ApiCall VGet (typeName (depApi R)) (objNamespace d) (objName d)]"
    using r by (auto simp: clientGet_def split: prod.splits)
  show "server w' = s \<and> calls w' = calls w @ [ApiCall VGet (typeName (depApi R)) (objNamespace d) (objName d)]"
  proof (cases r)
    case (Inl err)
    with clientGet_Inl [OF get] r e s have "\<not> isNotFound err" by fastforce
    with r run m Inl assms(3) show ?thesis by (simp add: applyDeployment_def Let_def attempt_def)
  next
    case (Inr y)
    with clientGet_Inr [OF get] r e s have y: "y = e" "server w1 = s" by fastforce+
    have "\<not> deploymentNeedsUpdate R e (d\<lparr>ometa := m\<rparr>)"
      using man e(2) cooperativeMS_lib(4,5) [OF assms(1)]
      by (auto simp: deploymentNeedsUpdate_def managedDeployment_def)
    with r run m Inr assms(3) y c show ?thesis
      by (simp add: applyDeployment_def Let_def attempt_def)
  qed
qed

lemma onlyReads_cleanupDeployment:
  assumes "cooperativeMS R store" and "stDeployments (store s) (ns, n) = None"
  shows "onlyReads s (cleanupDeployment R ns n)"
  unfolding cleanupDeployment_def
  by (rule onlyReads_read [where v = "\<lambda>s. stDeployments (store s)", OF servesD(1) [OF cooperativeMS_serves(2) [OF assms(1)]] assms(2)])
    simp_all

text \<open>No object of the kinds that the sync deletes is waiting for its finalizers, the old pool is
  gone, and no Go type but that of DestinationRule is printed like it.\<close>

definition undisturbed :: "'s msReconciler \<Rightarrow> modelService \<Rightarrow> storeMS \<Rightarrow> bool" where
  "undisturbed R ms st \<longleftrightarrow>
     (\<forall>k x. stDeployments st k = Some x \<longrightarrow> isLive x) \<and> (\<forall>k x. stSecrets st k = Some x \<longrightarrow> isLive x) \<and>
     (\<forall>k x. stClusterRoles st k = Some x \<longrightarrow> isLive x) \<and> (\<forall>k x. stClusterBindings st k = Some x \<longrightarrow> isLive x) \<and>
     (\<forall>k x. stRoutes st k = Some x \<longrightarrow> isLive x) \<and>
     (ecProvider (msEPPConfig R) \<noteq> ProviderIstio \<longrightarrow> (\<forall>k x. stRules st k = Some x \<longrightarrow> isLive x)) \<and>
     (\<forall>k x. stPodMonitors st k = Some x \<longrightarrow> isLive x) \<and> (\<forall>k x. stMonitors st k = Some x \<longrightarrow> isLive x) \<and>
     stPools st (objNamespace ms, EPPName (objName ms)) = None"

definition typesApart :: "'s msReconciler \<Rightarrow> bool" where
  "typesApart R \<longleftrightarrow> typeName (ruleApi R) = destinationRuleType \<and> destinationRuleType \<notin>
     {typeName (saApi R), typeName (cmApi R), typeName (svcApi R), typeName (secretApi R),
      typeName (roleApi R), typeName (bindingApi R), typeName (poolApi R), typeName (routeApi R),
      typeName (podMonitorApi R), typeName (svcMonitorApi R)}"

lemma undisturbedD:
  assumes "undisturbed R ms st"
  shows "stDeployments st k = Some d \<Longrightarrow> isLive d" "stSecrets st k = Some t \<Longrightarrow> isLive t"
    "stClusterRoles st k = Some r \<Longrightarrow> isLive r" "stClusterBindings st k = Some b \<Longrightarrow> isLive b"
    "stRoutes st k = Some h \<Longrightarrow> isLive h"
    "ecProvider (msEPPConfig R) \<noteq> ProviderIstio \<Longrightarrow> stRules st k = Some i \<Longrightarrow> isLive i"
    "stPodMonitors st k = Some p \<Longrightarrow> isLive p" "stMonitors st k = Some m \<Longrightarrow> isLive m"
    "stPools st (objNamespace ms, EPPName (objName ms)) = None"
  using assms unfolding undisturbed_def by blast+

lemma absent_None: "absent objs k \<Longrightarrow> (\<And>x. objs k = Some x \<Longrightarrow> isLive x) \<Longrightarrow> objs k = None"
  unfolding absent_def by (cases "objs k") auto

lemma onlyReads_deployments:
  assumes "cooperativeMS R store" and "inSync R ms (store s)" and "undisturbed R ms (store s)"
  shows "onlyReads s (EnsureDecodeDeployment R ms)" "onlyReads s (EnsurePrefillDeployment R ms)"
    "onlyReads s (EnsureEPPDeployment R ms (ConfigMapHash (sha256Sum R) ms))"
proof -
  note dep = onlyReads_deployment [OF assms(1)]
  have sync: "decodeInSync R ms (stDeployments (store s))" "prefillInSync R ms (stDeployments (store s))"
    "eppInSync R ms (stDeployments (store s))"
    using assms(2) by (simp_all add: inSync_def)
  show "onlyReads s (EnsureDecodeDeployment R ms)"
    using dep sync(1) by (simp add: EnsureDecodeDeployment_def ensureDeployment_def decodeInSync_def)
  show "onlyReads s (EnsureEPPDeployment R ms (ConfigMapHash (sha256Sum R) ms))"
    using dep sync(3) by (simp add: EnsureEPPDeployment_def eppInSync_def)
  show "onlyReads s (EnsurePrefillDeployment R ms)"
  proof (cases "msPrefill (msSp ms)")
    case None
    with sync(2) have "absent (stDeployments (store s)) (objNamespace ms, PrefillName (objName ms))"
      by (simp add: prefillInSync_def)
    then have "stDeployments (store s) (objNamespace ms, PrefillName (objName ms)) = None"
      by (rule absent_None) (erule undisturbedD [OF assms(3)])
    with None show ?thesis
      by (simp add: EnsurePrefillDeployment_def onlyReads_cleanupDeployment [OF assms(1)])
  next
    case (Some role)
    with sync(2) dep show ?thesis
      by (simp add: EnsurePrefillDeployment_def ensureDeployment_def prefillInSync_def)
  qed
qed

lemma onlyReads_epp_objects:
  assumes coop: "cooperativeMS R store" and "inSync R ms (store s)" and "undisturbed R ms (store s)" and "typesApart R"
  shows "onlyReads s (EnsureEPPServiceAccount R ms)" "onlyReads s (EnsureEPPConfigMap R ms)"
    "onlyReads s (EnsureEPPService R ms)" "onlyReads s (EnsureEPPSATokenSecret R ms)"
    "onlyReads s (EnsureEPPRBAC R ms)" "onlyReads s (EnsureEPPClusterRBAC R ms)"
proof -
  note serves = cooperativeMS_serves [OF coop] and own = cooperativeMS_lib(2) [OF coop]
  note sync = assms(2) [unfolded inSync_def] and ty = assms(4) [unfolded typesApart_def]
  show "onlyReads s (EnsureEPPServiceAccount R ms)"
    unfolding EnsureEPPServiceAccount_def
    by (rule account.onlyReads_ensure [OF serves(3) own])
      (use sync ty in \<open>auto simp: BuildEPPServiceAccount_def metaZero_def\<close>)
  show "onlyReads s (EnsureEPPConfigMap R ms)"
    unfolding EnsureEPPConfigMap_def
    by (rule spec.onlyReads_ensure [OF serves(4) own]) (use sync ty in \<open>auto simp: BuildEPPConfigMap_def metaZero_def\<close>)
  show "onlyReads s (EnsureEPPService R ms)"
    unfolding EnsureEPPService_def
    by (rule svc.onlyReads_ensure [OF serves(5) own])
      (use sync ty in \<open>auto simp: BuildEPPService_def Let_def metaZero_def\<close>)
  show "onlyReads s (EnsureEPPSATokenSecret R ms)"
  proof (cases "needsSecret R ms")
    case True
    have "onlyReads s (ensureOwned R ms (secretApi R) (BuildEPPSATokenSecret ms (eppLabelsOf R ms)) mutateSecret)"
      by (rule token.onlyReads_ensure [OF serves(6) own])
        (use True sync ty in \<open>auto simp: BuildEPPSATokenSecret_def metaZero_def\<close>)
    with True show ?thesis by (simp add: EnsureEPPSATokenSecret_def)
  next
    case False
    have "stSecrets (store s) (objNamespace ms, EPPSecretName (objName ms)) = None"
      by (rule absent_None, use False sync in simp, erule undisturbedD [OF assms(3)])
    with False show ?thesis by (simp add: EnsureEPPSATokenSecret_def onlyReads_cleanup(1) [OF serves(6)])
  qed
  show "onlyReads s (EnsureEPPRBAC R ms)"
    unfolding EnsureEPPRBAC_def
    using sync ty
    by (auto split: prod.splits simp: BuildEPPRBAC_def Let_def metaZero_def
        intro!: onlyReads_andThen spec.onlyReads_ensure [OF serves(7) own] spec.onlyReads_ensure [OF serves(8) own])
  let ?n = "EPPClusterRBACName (objNamespace ms) (objName ms)"
  show "onlyReads s (EnsureEPPClusterRBAC R ms)"
  proof (cases "needsClusterRBAC R ms")
    case True
    with sync show ?thesis
      by (auto simp: EnsureEPPClusterRBAC_def split: prod.splits
          intro!: onlyReads_andThen spec.onlyReads_ensureCluster [OF serves(9)] spec.onlyReads_ensureCluster [OF serves(10)])
  next
    case False
    have "stClusterRoles (store s) ('''', ?n) = None" "stClusterBindings (store s) ('''', ?n) = None"
      by (rule absent_None, use False sync in simp, erule undisturbedD [OF assms(3)])+
    with False show ?thesis
      by (simp add: EnsureEPPClusterRBAC_def cleanupClusterRBAC_def onlyReads_andThen
          onlyReads_cleanup(2) [OF serves(9)] onlyReads_cleanup(2) [OF serves(10)])
  qed
qed

lemma onlyReads_routing:
  assumes coop: "cooperativeMS R store" and "inSync R ms (store s)" and "undisturbed R ms (store s)" and "typesApart R"
  shows "onlyReads s (EnsureInferencePool R ms)" "onlyReads s (EnsureHTTPRoute R ms)"
    "ecProvider (msEPPConfig R) \<noteq> ProviderIstio \<Longrightarrow> onlyReads s (EnsureDestinationRule R ms)"
    "onlyReads s (EnsureEPPServiceMonitor R ms)"
proof -
  note serves = cooperativeMS_serves [OF coop] and own = cooperativeMS_lib(2) [OF coop]
  note sync = assms(2) [unfolded inSync_def] and ty = assms(4) [unfolded typesApart_def]
  have route: "routeInSync R ms (stRoutes (store s))" using assms(2) by (simp add: inSync_def)
  show "onlyReads s (EnsureDestinationRule R ms)" if other: "ecProvider (msEPPConfig R) \<noteq> ProviderIstio"
  proof -
    have "stRules (store s) (objNamespace ms, EPPName (objName ms)) = None"
      by (rule absent_None, use other sync in simp, erule undisturbedD(6) [OF assms(3) other])
    with other show ?thesis by (simp add: EnsureDestinationRule_def onlyReads_cleanup(1) [OF serves(13)])
  qed
  show "onlyReads s (EnsureInferencePool R ms)"
  proof -
    have old: "stPools (store s) (objNamespace ms, EPPName (objName ms)) = None"
      by (rule undisturbedD(9) [OF assms(3)])
    have "onlyReads s (ensureOwned R ms (poolApi R) (desiredPool R ms) mutateSpec)"
      by (rule spec.onlyReads_ensure [OF serves(11) own])
        (use sync ty in \<open>auto simp: desiredPool_def BuildDefaultInferencePool_def BuildInferencePool_def
            metaZero_def split: option.split\<close>)
    then show ?thesis
      unfolding EnsureInferencePool_def
      by (rule onlyReads_after_cleanup [where st = store, OF serves(11) old])
  qed
  show "onlyReads s (EnsureHTTPRoute R ms)"
  proof (cases "msHTTPRoute (msSp ms) = None \<and> ecDefaultGatewayName (msEPPConfig R) = ''''")
    case True
    have "stRoutes (store s) (objNamespace ms, HTTPRouteName (objName ms)) = None"
      by (rule absent_None, use True route in \<open>simp add: routeInSync_def\<close>, erule undisturbedD [OF assms(3)])
    with True show ?thesis by (simp add: EnsureHTTPRoute_def onlyReads_cleanup(1) [OF serves(12)])
  next
    case False
    have "typeName (routeApi R) \<noteq> destinationRuleType" using ty by auto
    from spec.onlyReads_ensure [OF serves(12) own this] False route show ?thesis
      by (cases "msHTTPRoute (msSp ms)")
        (simp_all add: EnsureHTTPRoute_def routeInSync_def BuildHTTPRoute_def BuildDefaultHTTPRoute_def
          Let_def metaZero_def)
  qed
  show "onlyReads s (EnsureEPPServiceMonitor R ms)"
  proof (cases "msInferencePool (msSp ms) \<noteq> None \<and> monitoringEnabled ms")
    case True
    have "onlyReads s (ensureOwned R ms (svcMonitorApi R)
        (BuildEPPServiceMonitor ms (msEPPConfig R) (eppLabelsOf R ms)) mutateSpec)"
      by (rule spec.onlyReads_ensure [OF serves(15) own])
        (use True sync ty in \<open>auto simp: BuildEPPServiceMonitor_def metaZero_def\<close>)
    with True show ?thesis by (auto simp: EnsureEPPServiceMonitor_def)
  next
    case False
    have "stMonitors (store s) (objNamespace ms, EPPServiceMonitorName (objName ms)) = None"
      by (rule absent_None, use False sync in simp, erule undisturbedD [OF assms(3)])
    with False show ?thesis by (auto simp: EnsureEPPServiceMonitor_def onlyReads_cleanup(1) [OF serves(15)])
  qed
qed

lemma onlyReads_podMonitors:
  assumes coop: "cooperativeMS R store" and "inSync R ms (store s)" and "undisturbed R ms (store s)" and "typesApart R"
  shows "onlyReads s (EnsurePodMonitors R ms)"
proof -
  note serves = cooperativeMS_serves(14) [OF coop] and own = cooperativeMS_lib(2) [OF coop]
  have sync: "podMonitorsInSync R ms (stPodMonitors (store s))" using assms(2) by (simp add: inSync_def)
  have ensure: "onlyReads s (ensureOwned R ms (podMonitorApi R) d mutateSpec)"
    if "present (stPodMonitors (store s)) managedSpec d" "d = podMonitorFor R ms c r" for d c r
    by (rule spec.onlyReads_ensure [OF serves own])
      (use that assms(4) in \<open>auto simp: typesApart_def podMonitorFor_def BuildPodMonitor_def Let_def metaZero_def\<close>)
  have clean: "onlyReads s (cleanupTyped (podMonitorApi R) k)" if "absent (stPodMonitors (store s)) k" for k
  proof -
    have "stPodMonitors (store s) k = None"
      using that by (rule absent_None) (erule undisturbedD [OF assms(3)])
    then show ?thesis by (rule onlyReads_cleanup(1) [OF serves])
  qed
  show ?thesis
    unfolding EnsurePodMonitors_def Let_def
    using sync ensure clean unfolding podMonitorsInSync_def
    by (auto intro!: onlyReads_andThen split: if_splits)
qed

lemma sync_only_reads:
  assumes "cooperativeMS R store" and "inSync R ms (store (server w))" and "undisturbed R ms (store (server w))"
    and "typesApart R" and "ecProvider (msEPPConfig R) \<noteq> ProviderIstio"
    and "reconcileResourcesMS R ms w = (Inr u, w')"
  shows "server w' = server w \<and> (\<exists>cs. calls w' = calls w @ cs \<and> list_all isRead cs)"
proof -
  note part = assms(1-3)
  have "list_all (onlyReads (server w)) (resourceSteps R ms)"
    by (simp add: resourceSteps_def onlyReads_deployments [OF part] onlyReads_epp_objects [OF part assms(4)]
        onlyReads_routing [OF part assms(4)] assms(5) onlyReads_podMonitors [OF part assms(4)])
  then have "onlyReads (server w) (reconcileResourcesMS R ms)"
    unfolding reconcileResourcesMS_def by (rule onlyReads_runSteps)
  with assms(6) show ?thesis unfolding onlyReads_def by blast
qed

section \<open>With Istio\<close>

text \<open>
  A DestinationRule is updated without a comparison, so with Istio a sync in the desired state sends
  one write, which stores what is stored already.
\<close>

definition writes :: "apiCall list \<Rightarrow> apiCall list" where
  "writes cs = filter (\<lambda>c. \<not> isRead c) cs"

lemma writes_append [simp]: "writes (cs @ ds) = writes cs @ writes ds"
  by (simp add: writes_def)

lemma writes_Cons [simp]: "writes (c # cs) = (if isRead c then writes cs else c # writes cs)"
  by (simp add: writes_def)

lemma writes_reads: "list_all isRead cs \<Longrightarrow> writes cs = []"
  by (simp add: writes_def list_all_iff)

definition ruleWrites :: "'s msReconciler \<Rightarrow> modelService \<Rightarrow> apiCall list" where
  "ruleWrites R ms =
     (if ecProvider (msEPPConfig R) = ProviderIstio
      then [ApiCall VUpdate destinationRuleType (objNamespace ms) (EPPName (objName ms))] else [])"

lemma rule_updated:
  assumes coop: "cooperativeMS R store" and ty: "typesApart R" and istio: "ecProvider (msEPPConfig R) = ProviderIstio"
    and sync: "inSync R ms (store (server w))" and run: "EnsureDestinationRule R ms w = (Inr u, w')"
  shows "\<exists>x cs. stRules (store (server w')) = (stRules (store (server w)))(objKey (BuildDestinationRule ms (eppLabelsOf R ms)) \<mapsto> x) \<and>
      managedSpec x = managedSpec (BuildDestinationRule ms (eppLabelsOf R ms)) \<and>
      calls w' = calls w @ cs \<and> writes cs = ruleWrites R ms"
proof -
  let ?d = "BuildDestinationRule ms (eppLabelsOf R ms)"
  note serves = cooperativeMS_serves(13) [OF coop]
  have d: "objKey ?d = (objNamespace ms, EPPName (objName ms))" "mOwnerReferences (ometa ?d) = []" "objName ?d \<noteq> ''''"
    by (simp_all add: BuildDestinationRule_def metaZero_def EPPName_def)
  have run': "ensureOwned R ms (ruleApi R) ?d mutateSpec w = (Inr u, w')"
    using run istio by (simp add: EnsureDestinationRule_def)
  obtain m where m: "msSetControllerReference R (ometa ms) (ometa ?d) = Inr m" "ownerOnly (ometa ?d) m"
    using ensureResource_owner [OF cooperativeMS_lib(2) [OF coop] d(2) run'] by blast
  from spec.ensure_stores [OF servesD(1-3) [OF serves] m(2,1) d(3) servesD(6) [OF serves] run']
  obtain x where x: "stRules (store (server w')) = (stRules (store (server w)))(objKey ?d \<mapsto> x)" "managedSpec x = managedSpec ?d"
    by blast
  from sync istio have "present (stRules (store (server w))) managedSpec ?d" by (simp add: inSync_def)
  then obtain e where e: "stRules (store (server w)) (objKey ?d) = Some e" by (auto simp: present_def)
  obtain r w1 where r: "clientGet (ruleApi R) (objKey ?d) w = (r, w1)" by fastforce
  have c1: "calls w1 = calls w @ [ApiCall VGet (typeName (ruleApi R)) (objNamespace ms) (EPPName (objName ms))]"
    using r d(1) by (auto simp: clientGet_def split: prod.splits)
  have "\<exists>y. r = Inr y \<and> objKey y = objKey ?d \<and> server w1 = server w"
  proof (cases r)
    case (Inl err)
    with clientGet_Inl [OF servesD(1) [OF serves]] r e have "\<not> isNotFound err" by fastforce
    with run' r m Inl d(1) show ?thesis by (simp add: ensureResource_def Let_def attempt_def)
  next
    case (Inr y)
    with clientGet_Inr [OF servesD(1) [OF serves]] r show ?thesis by blast
  qed
  then obtain y where y: "r = Inr y" "objKey y = objKey ?d" "server w1 = server w" by blast
  let ?d' = "?d\<lparr>ometa := m\<rparr>"
  from run' r y(1) m ty d(1) have upd: "updateOrRecreate (ruleApi R) (mutateSpec y ?d') ?d' w1 = (Inr u, w')"
    by (simp add: ensureResource_def Let_def attempt_def typesApart_def)
  have key: "objKey (mutateSpec y ?d') = objKey ?d" using y(2) by (simp add: spec.mutate_key)
  obtain q w2 where q: "clientUpdate (ruleApi R) (mutateSpec y ?d') w1 = (q, w2)" by fastforce
  have c2: "calls w2 = calls w1 @ [ApiCall VUpdate (typeName (ruleApi R)) (objNamespace ms) (EPPName (objName ms))]"
    using q key d(1) by (auto simp: clientUpdate_def split: prod.splits)
  have "w' = w2"
  proof (cases q)
    case (Inr z)
    with upd q show ?thesis by (simp add: updateOrRecreate_def attempt_def)
  next
    case (Inl err)
    with upd q obtain z where err: "isNotFound err" and c: "clientCreate (ruleApi R) ?d' w2 = (Inr z, w')"
      by (auto simp: updateOrRecreate_def attempt_def wrapApi_def split: if_splits prod.splits sum.splits)
    have "stRules (store (server w2)) = stRules (store (server w1))"
      using clientUpdate_api [OF q [unfolded Inl]] servesD(3) [OF serves] err unfolding lawfulUpdate_def by blast
    moreover have "objKey z = objKey ?d"
      using clientCreate_Inr [OF servesD(2) [OF serves] c] m(2) d(3) by (auto simp: ownerOnly_def)
    moreover have "stRules (store (server w2)) (objKey z) = None"
      using clientCreate_Inr [OF servesD(2) [OF serves] c] by blast
    ultimately have "stRules (store (server w)) (objKey ?d) = None" using y(3) by metis
    with e show ?thesis by simp
  qed
  with c1 c2 ty istio have "calls w' = calls w @ [ApiCall VGet (typeName (ruleApi R)) (objNamespace ms) (EPPName (objName ms)),
      ApiCall VUpdate (typeName (ruleApi R)) (objNamespace ms) (EPPName (objName ms))]" by simp
  moreover have "writes [ApiCall VGet (typeName (ruleApi R)) (objNamespace ms) (EPPName (objName ms)),
      ApiCall VUpdate (typeName (ruleApi R)) (objNamespace ms) (EPPName (objName ms))] = ruleWrites R ms"
    using ty istio by (simp add: writes_def ruleWrites_def typesApart_def)
  ultimately show ?thesis using x by blast
qed

lemma inSync_rules:
  assumes "inSync R ms st" and "stRules_update (\<lambda>_. Map.empty) st' = stRules_update (\<lambda>_. Map.empty) st"
    and "stRules st' = (stRules st)(objKey (BuildDestinationRule ms (eppLabelsOf R ms)) \<mapsto> x)"
    and "managedSpec x = managedSpec (BuildDestinationRule ms (eppLabelsOf R ms))"
    and "ecProvider (msEPPConfig R) = ProviderIstio"
  shows "inSync R ms st'"
proof -
  have st': "st' = stRules_update (\<lambda>_. stRules st') st"
    using assms(2) by (cases st; cases st') simp
  have "present (stRules st') managedSpec (BuildDestinationRule ms (eppLabelsOf R ms))"
    using assms(3,4) by (simp add: present_def)
  with assms(1,5) show ?thesis by (subst st') (simp add: inSync_def)
qed

lemma undisturbed_rules:
  assumes "undisturbed R ms st" and "stRules_update (\<lambda>_. Map.empty) st' = stRules_update (\<lambda>_. Map.empty) st"
    and "ecProvider (msEPPConfig R) = ProviderIstio"
  shows "undisturbed R ms st'"
proof -
  have st': "st' = stRules_update (\<lambda>_. stRules st') st"
    using assms(2) by (cases st; cases st') simp
  show ?thesis using assms(1,3) by (subst st') (simp add: undisturbed_def)
qed

text \<open>What a sync in the desired state does, with any provider.\<close>

lemma sync_settled:
  assumes coop: "cooperativeMS R store" and sync: "inSync R ms (store (server w))"
    and undist: "undisturbed R ms (store (server w))" and ty: "typesApart R"
    and run: "reconcileResourcesMS R ms w = (Inr u, w')"
  shows "inSync R ms (store (server w'))"
    and "stRules_update (\<lambda>_. Map.empty) (store (server w')) = stRules_update (\<lambda>_. Map.empty) (store (server w))"
    and "ecProvider (msEPPConfig R) \<noteq> ProviderIstio \<Longrightarrow> server w' = server w"
    and "\<exists>cs. calls w' = calls w @ cs \<and> writes cs = ruleWrites R ms"
proof -
  have "inSync R ms (store (server w')) \<and>
    stRules_update (\<lambda>_. Map.empty) (store (server w')) = stRules_update (\<lambda>_. Map.empty) (store (server w)) \<and>
    (ecProvider (msEPPConfig R) \<noteq> ProviderIstio \<longrightarrow> server w' = server w) \<and>
    (\<exists>cs. calls w' = calls w @ cs \<and> writes cs = ruleWrites R ms)"
  proof (cases "ecProvider (msEPPConfig R) = ProviderIstio")
    case False
    from sync_only_reads [OF coop sync undist ty False run] writes_reads sync False show ?thesis
      by (auto simp: ruleWrites_def)
  next
    case istio: True
    let ?pre = "take 11 (resourceSteps R ms)" and ?post = "[EnsurePodMonitors R ms, EnsureEPPServiceMonitor R ms]"
    have steps: "resourceSteps R ms = ?pre @ EnsureDestinationRule R ms # ?post" by (simp add: resourceSteps_def)
    from run have "runSteps (?pre @ EnsureDestinationRule R ms # ?post) w = (Inr (), w')"
      unfolding reconcileResourcesMS_def steps [symmetric] by simp
    from runSteps_ok_prefix [OF this] obtain w1 where pre: "runSteps ?pre w = (Inr (), w1)"
      and rest: "runSteps (EnsureDestinationRule R ms # ?post) w1 = (Inr (), w')" by blast
    from rest obtain b w2 where rule: "EnsureDestinationRule R ms w1 = (Inr b, w2)"
      and post: "runSteps ?post w2 = (Inr (), w')"
      by (simp only: runSteps.simps(2) [of "EnsureDestinationRule R ms"] split: prod.splits sum.splits) blast
    have "list_all (onlyReads (server w)) ?pre"
      using onlyReads_deployments [OF coop sync undist] onlyReads_epp_objects [OF coop sync undist ty]
        onlyReads_routing(1,2) [OF coop sync undist ty] by (simp add: resourceSteps_def)
    from onlyReads_runSteps [OF this] pre obtain cs where w1: "server w1 = server w" "calls w1 = calls w @ cs" "list_all isRead cs"
      unfolding onlyReads_def by blast
    from rule_updated [OF coop ty istio _ rule] sync w1(1) obtain x ds where
      x: "stRules (store (server w2)) = (stRules (store (server w)))(objKey (BuildDestinationRule ms (eppLabelsOf R ms)) \<mapsto> x)"
        "managedSpec x = managedSpec (BuildDestinationRule ms (eppLabelsOf R ms))"
      and ds: "calls w2 = calls w1 @ ds" "writes ds = ruleWrites R ms" by auto
    have "keeps (\<lambda>s. stRules_update (\<lambda>_. Map.empty) (store s)) (EnsureDestinationRule R ms)"
      using cooperativeMS_serves(13) [OF coop] istio unfolding serves_def EnsureDestinationRule_def
      by (auto intro: keeps_ensureResource)
    from keepsD [OF this rule] w1(1) have frame:
      "stRules_update (\<lambda>_. Map.empty) (store (server w2)) = stRules_update (\<lambda>_. Map.empty) (store (server w))" by simp
    note sync2 = inSync_rules [OF sync frame x istio] and undist2 = undisturbed_rules [OF undist frame istio]
    have "list_all (onlyReads (server w2)) ?post"
      using onlyReads_podMonitors [OF coop sync2 undist2 ty] onlyReads_routing(4) [OF coop sync2 undist2 ty] by simp
    from onlyReads_runSteps [OF this] post obtain es where "server w' = server w2" "calls w' = calls w2 @ es" "list_all isRead es"
      unfolding onlyReads_def by blast
    with w1 ds frame sync2 istio writes_reads show ?thesis by simp
  qed
  then show "inSync R ms (store (server w'))"
    "stRules_update (\<lambda>_. Map.empty) (store (server w')) = stRules_update (\<lambda>_. Map.empty) (store (server w))"
    "ecProvider (msEPPConfig R) \<noteq> ProviderIstio \<Longrightarrow> server w' = server w"
    "\<exists>cs. calls w' = calls w @ cs \<and> writes cs = ruleWrites R ms" by blast+
qed


end
