(* ===== verification/ServiceReturns.thy ===== *)
theory ServiceReturns
  imports ServiceSync
begin

text \<open>
  The reconcile of a ModelService fails only when the server does: each step is shown to return on
  a server that refuses nothing but what the step can handle.
\<close>

section \<open>Runs that return\<close>

text \<open>
  The API of a kind fails no call but for the reasons the sync handles: a get, an update or a
  status patch of an object that is not there, a create of one that is.
\<close>

definition willing :: "('s, 'b) kindApi \<Rightarrow> ('s \<Rightarrow> 'b objects) \<Rightarrow> bool" where
  "willing K v \<longleftrightarrow>
     (\<forall>k s e. fst (apiGet K k s) = Inl e \<longrightarrow> isNotFound e) \<and>
     (\<forall>x s e. fst (apiCreate K x s) = Inl e \<longrightarrow> v s (objKey x) \<noteq> None) \<and>
     (\<forall>x s e. fst (apiUpdate K x s) = Inl e \<longrightarrow> v s (objKey x) = None) \<and>
     (\<forall>x s e. fst (apiDelete K x s) = Some e \<longrightarrow> isNotFound e) \<and>
     (\<forall>b x s e. fst (apiPatchStatus K b x s) = Inl e \<longrightarrow> v s (objKey x) = None)"

abbreviation returns :: "('w, 'e, 'a) io \<Rightarrow> bool" where
  "returns m \<equiv> succeeds (\<lambda>_. True) m"

lemma returnsI: "(\<And>w. \<exists>x w'. m w = (Inr x, w')) \<Longrightarrow> returns m"
  by (simp add: succeeds_def)

lemma willing_client:
  assumes "willing K v"
  shows "clientGet K k w = (Inl e, w') \<Longrightarrow> isNotFound e"
    and "v (server w) (objKey x) = None \<Longrightarrow> \<exists>y w'. clientCreate K x w = (Inr y, w')"
    and "v (server w) (objKey x) \<noteq> None \<Longrightarrow> \<exists>y w'. clientUpdate K x w = (Inr y, w')"
    and "clientDelete K x w = (Inl e, w') \<Longrightarrow> isNotFound e"
    and "v (server w) (objKey x) \<noteq> None \<Longrightarrow> \<exists>y w'. clientPatchStatus K b x w = (Inr y, w')"
proof -
  show "isNotFound e" if "clientGet K k w = (Inl e, w')"
  proof -
    have "fst (apiGet K k (server w)) = Inl e" using clientGet_api [OF that] by simp
    with assms show ?thesis unfolding willing_def by blast
  qed
  show "isNotFound e" if "clientDelete K x w = (Inl e, w')"
  proof -
    have "fst (apiDelete K x (server w)) = Some e" using clientDelete_api(2) [OF that] by simp
    with assms show ?thesis unfolding willing_def by blast
  qed
  have ok: "(\<forall>e. fst p \<noteq> Inl e) \<Longrightarrow> \<exists>y. fst p = Inr y" for p :: "(apiError + 'b kobj) \<times> 's"
    by (cases "fst p") auto
  show "\<exists>y w'. clientCreate K x w = (Inr y, w')" if "v (server w) (objKey x) = None"
  proof -
    have "\<forall>e. fst (apiCreate K x (server w)) \<noteq> Inl e" using assms that unfolding willing_def by metis
    from ok [OF this] show ?thesis by (auto simp: clientCreate_def split: prod.splits)
  qed
  show "\<exists>y w'. clientUpdate K x w = (Inr y, w')" if "v (server w) (objKey x) \<noteq> None"
  proof -
    have "\<forall>e. fst (apiUpdate K x (server w)) \<noteq> Inl e" using assms that unfolding willing_def by metis
    from ok [OF this] show ?thesis by (auto simp: clientUpdate_def split: prod.splits)
  qed
  show "\<exists>y w'. clientPatchStatus K b x w = (Inr y, w')" if "v (server w) (objKey x) \<noteq> None"
  proof -
    have "\<forall>e. fst (apiPatchStatus K b x (server w)) \<noteq> Inl e" using assms that unfolding willing_def by metis
    from ok [OF this] show ?thesis by (auto simp: clientPatchStatus_def split: prod.splits)
  qed
qed

lemma returns_delete: "willing K v \<Longrightarrow> returns (ignoreNotFound (clientDelete K x))"
proof (rule returnsI)
  fix w
  assume "willing K v"
  from willing_client(4) [OF this] show "\<exists>y w'. ignoreNotFound (clientDelete K x) w = (Inr y, w')"
    by (cases "clientDelete K x w"; cases "fst (clientDelete K x w)")
      (fastforce simp: ignoreNotFound_def attempt_def ret_def)+
qed

text \<open>A read that hands a missing object and a stored one to the two branches.\<close>

lemma returns_read:
  assumes "willing K v" and "lawfulGet K v"
    and "\<And>e w. isNotFound e \<Longrightarrow> v (server w) key = None \<Longrightarrow> \<exists>x w'. h (Inl e) w = (Inr x, w')"
    and "\<And>y w. v (server w) key = Some y \<Longrightarrow> objKey y = key \<Longrightarrow> \<exists>x w'. h (Inr y) w = (Inr x, w')"
  shows "returns (attempt (clientGet K key) h)"
proof (rule returnsI)
  fix w
  obtain r w1 where r: "clientGet K key w = (r, w1)" by fastforce
  show "\<exists>x w'. attempt (clientGet K key) h w = (Inr x, w')"
  proof (cases r)
    case (Inl e)
    with r have "isNotFound e" "v (server w1) key = None"
      using willing_client(1) [OF assms(1)] clientGet_Inl [OF assms(2)] by auto
    with assms(3) r Inl show ?thesis by (simp add: attempt_def)
  next
    case (Inr y)
    with r have "v (server w1) key = Some y" "objKey y = key"
      using clientGet_Inr [OF assms(2)] by auto
    with assms(4) r Inr show ?thesis by (simp add: attempt_def)
  qed
qed

lemma returns_cleanup:
  assumes "willing K v" and "lawfulGet K v"
  shows "returns (cleanupTyped K key)" "returns (cleanupClusterTyped K n)"
  unfolding cleanupTyped_def cleanupClusterTyped_def
  by (rule returns_read [OF assms]; use returns_delete [OF assms(1)] in \<open>auto simp: succeeds_def ret_def\<close>)+

context managedKind
begin

lemma returns_ensure:
  assumes "willing K v" and "lawfulGet K v" and "ownable f" and "mOwnerReferences (ometa d) = []"
  shows "returns (ensureResource f K own d mutateFn)"
proof -
  from ownableD [OF assms(3,4)] obtain r where
    m: "f own (ometa d) = Inr ((ometa d)\<lparr>mOwnerReferences := [r]\<rparr>)" by blast
  let ?d = "d\<lparr>ometa := (ometa d)\<lparr>mOwnerReferences := [r]\<rparr>\<rparr>"
  have create: "\<exists>x w'. wrapApi msg (clientCreate K ?d) w = (Inr x, w')" if "v (server w) (objKey d) = None" for w msg
    using willing_client(2) [OF assms(1), of w ?d] that by (auto simp: wrapApi_def attempt_def ret_def)
  have update: "\<exists>x w'. updateOrRecreate K (mutateFn y ?d) ?d w = (Inr x, w')"
    if "v (server w) (objKey d) = Some y" "objKey y = objKey d" for w y
    using willing_client(3) [OF assms(1), of w "mutateFn y ?d"] that
    by (auto simp: updateOrRecreate_def attempt_def ret_def mutate_key)
  show ?thesis
    unfolding ensureResource_def m sum.case Let_def
    by (rule returns_read [OF assms(1,2)]) (use create update in \<open>auto simp: ret_def\<close>)
qed

lemma returns_ensureCluster:
  assumes "willing K v" and "lawfulGet K v"
  shows "returns (ensureClusterResource K d mutateFn)"
proof -
  have create: "\<exists>x w'. wrapApi msg (clientCreate K d) w = (Inr x, w')" if "v (server w) (objKey d) = None" for w msg
    using willing_client(2) [OF assms(1), of w d] that by (auto simp: wrapApi_def attempt_def ret_def)
  have update: "\<exists>x w'. updateOrRecreate K (mutateFn y d) d w = (Inr x, w')"
    if "v (server w) (objKey d) = Some y" "objKey y = objKey d" for w y
    using willing_client(3) [OF assms(1), of w "mutateFn y d"] that
    by (auto simp: updateOrRecreate_def attempt_def ret_def mutate_key)
  show ?thesis
    unfolding ensureClusterResource_def Let_def
    by (rule returns_read [OF assms]) (use create update in \<open>auto simp: ret_def\<close>)
qed

end

lemma returns_applyDeployment:
  assumes "willing (depApi R) v" and "lawfulGet (depApi R) v" and "ownable (msSetControllerReference R)"
    and "mOwnerReferences (ometa d) = []" and "objNamespace d = objNamespace ms"
  shows "returns (applyDeployment R ms what d)"
proof -
  from ownableD [OF assms(3,4)] obtain r where
    m: "msSetControllerReference R (ometa ms) (ometa d) = Inr ((ometa d)\<lparr>mOwnerReferences := [r]\<rparr>)" by blast
  let ?d = "d\<lparr>ometa := (ometa d)\<lparr>mOwnerReferences := [r]\<rparr>\<rparr>"
  have create: "\<exists>x w'. wrapApi msg (clientCreate (depApi R) ?d) w = (Inr x, w')"
    if "v (server w) (objNamespace ms, objName d) = None" for w msg
    using willing_client(2) [OF assms(1), of w ?d] that assms(5) by (auto simp: wrapApi_def attempt_def ret_def)
  have update: "\<exists>x w'. wrapApi msg (clientUpdate (depApi R) (mutateDeployment y ?d)) w = (Inr x, w')"
    if "v (server w) (objNamespace ms, objName d) = Some y" "objKey y = (objNamespace ms, objName d)" for w y msg
    using willing_client(3) [OF assms(1), of w "mutateDeployment y ?d"] that
    by (auto simp: wrapApi_def attempt_def ret_def dep.mutate_key)
  show ?thesis
    unfolding applyDeployment_def m sum.case Let_def
    by (rule returns_read [OF assms(1,2)]) (use create update in \<open>auto simp: ret_def\<close>)
qed

lemma returns_cleanupDeployment:
  assumes "willing (depApi R) v" and "lawfulGet (depApi R) v"
  shows "returns (cleanupDeployment R ns n)"
  unfolding cleanupDeployment_def
  by (rule returns_read [OF assms]) (use returns_delete [OF assms(1)] in \<open>auto simp: succeeds_def ret_def\<close>)

definition willingMS :: "'s msReconciler \<Rightarrow> ('s \<Rightarrow> storeMS) \<Rightarrow> bool" where
  "willingMS R store \<longleftrightarrow>
     willing (msApi R) (\<lambda>s. stServices (store s)) \<and> willing (depApi R) (\<lambda>s. stDeployments (store s)) \<and>
     willing (saApi R) (\<lambda>s. stAccounts (store s)) \<and> willing (cmApi R) (\<lambda>s. stConfigMaps (store s)) \<and>
     willing (svcApi R) (\<lambda>s. stSvcs (store s)) \<and> willing (secretApi R) (\<lambda>s. stSecrets (store s)) \<and>
     willing (roleApi R) (\<lambda>s. stRoles (store s)) \<and> willing (bindingApi R) (\<lambda>s. stBindings (store s)) \<and>
     willing (clusterRoleApi R) (\<lambda>s. stClusterRoles (store s)) \<and>
     willing (clusterBindingApi R) (\<lambda>s. stClusterBindings (store s)) \<and>
     willing (poolApi R) (\<lambda>s. stPools (store s)) \<and> willing (routeApi R) (\<lambda>s. stRoutes (store s)) \<and>
     willing (ruleApi R) (\<lambda>s. stRules (store s)) \<and>
     willing (podMonitorApi R) (\<lambda>s. stPodMonitors (store s)) \<and>
     willing (svcMonitorApi R) (\<lambda>s. stMonitors (store s)) \<and> ownable (msSetControllerReference R)"

lemma willingMS_all:
  assumes "willingMS R store"
  shows "willing (depApi R) (\<lambda>s. stDeployments (store s))" "willing (saApi R) (\<lambda>s. stAccounts (store s))"
    "willing (cmApi R) (\<lambda>s. stConfigMaps (store s))" "willing (svcApi R) (\<lambda>s. stSvcs (store s))"
    "willing (secretApi R) (\<lambda>s. stSecrets (store s))" "willing (roleApi R) (\<lambda>s. stRoles (store s))"
    "willing (bindingApi R) (\<lambda>s. stBindings (store s))" "willing (clusterRoleApi R) (\<lambda>s. stClusterRoles (store s))"
    "willing (clusterBindingApi R) (\<lambda>s. stClusterBindings (store s))" "willing (poolApi R) (\<lambda>s. stPools (store s))"
    "willing (routeApi R) (\<lambda>s. stRoutes (store s))" "willing (ruleApi R) (\<lambda>s. stRules (store s))"
    "willing (podMonitorApi R) (\<lambda>s. stPodMonitors (store s))" "willing (svcMonitorApi R) (\<lambda>s. stMonitors (store s))"
    "willing (msApi R) (\<lambda>s. stServices (store s))" "ownable (msSetControllerReference R)"
  using assms by (simp_all add: willingMS_def)

lemma returns_runSteps: "list_all returns ms \<Longrightarrow> returns (runSteps ms)"
  by (rule succeeds_runSteps) (simp add: list_all_iff)

lemma returns_attempt: "(\<And>r. returns (k r)) \<Longrightarrow> returns (attempt m k)"
  unfolding succeeds_def attempt_def by (simp add: case_prod_unfold)

lemma built_unowned:
  "mOwnerReferences (ometa (BuildEPPServiceAccount ms l)) = []"
  "mOwnerReferences (ometa (BuildEPPConfigMap ms l)) = []"
  "mOwnerReferences (ometa (BuildEPPService ms l l')) = []"
  "mOwnerReferences (ometa (BuildEPPSATokenSecret ms l)) = []"
  "mOwnerReferences (ometa (fst (BuildEPPRBAC ms l i))) = []"
  "mOwnerReferences (ometa (snd (BuildEPPRBAC ms l i))) = []"
  "mOwnerReferences (ometa (desiredPool R ms)) = []"
  "mOwnerReferences (ometa (BuildHTTPRoute ms h l)) = []"
  "mOwnerReferences (ometa (BuildDefaultHTTPRoute ms l n n')) = []"
  "mOwnerReferences (ometa (BuildDestinationRule ms l)) = []"
  "mOwnerReferences (ometa (podMonitorFor R ms n n')) = []"
  "mOwnerReferences (ometa (BuildEPPServiceMonitor ms c l)) = []"
  by (simp_all add: BuildEPPServiceAccount_def BuildEPPConfigMap_def BuildEPPService_def BuildEPPSATokenSecret_def
      BuildEPPRBAC_def desiredPool_def BuildDefaultInferencePool_def BuildInferencePool_def BuildHTTPRoute_def
      BuildDefaultHTTPRoute_def BuildDestinationRule_def podMonitorFor_def BuildPodMonitor_def
      BuildEPPServiceMonitor_def Let_def metaZero_def split: option.split)

lemma sync_returns:
  assumes "cooperativeMS R store" and "willingMS R store"
  shows "returns (reconcileResourcesMS R ms)"
proof -
  note gets = cooperativeMS_serves [OF assms(1), THEN servesD(1)]
  note will = willingMS_all [OF assms(2)]
  have "list_all returns (resourceSteps R ms)"
    unfolding resourceSteps_def list.pred_inject ensureOp_defs ensureDeployment_def cleanupClusterRBAC_def Let_def
      case_prod_unfold
    by (intro conjI TrueI succeeds_if succeeds_case_option succeeds_andThen returns_attempt
        account.returns_ensure svc.returns_ensure token.returns_ensure spec.returns_ensure
        spec.returns_ensureCluster returns_cleanup returns_applyDeployment returns_cleanupDeployment)
      (rule will gets built_unowned servingDeployment_simps eppDeployment_simps | simp)+
  then show ?thesis unfolding reconcileResourcesMS_def by (rule returns_runSteps)
qed

text \<open>A run that returns and leaves \<open>v\<close> alone succeeds with any condition on \<open>v\<close>.\<close>

lemma returnsD: "returns m \<Longrightarrow> \<exists>x w'. m w = (Inr x, w')"
  by (simp add: succeeds_def)

lemma returns_observe:
  assumes "cooperativeMS R store" and "willingMS R store"
  shows "returns (ObserveStatus (depApi R) ms)"
proof -
  note get = returns_read [OF willingMS_all(1) [OF assms(2)] servesD(1) [OF cooperativeMS_serves(2) [OF assms(1)]]]
  have "returns (getDeploymentStatus (depApi R) ns n)" for ns n
    unfolding getDeploymentStatus_def by (rule get) (simp_all add: ret_def)
  then show ?thesis
    unfolding ObserveStatus_def by (intro succeeds_andThen succeeds_case_option succeeds_ret)
qed

lemma keeps_getDeploymentStatus: "framed K v \<Longrightarrow> keeps v (getDeploymentStatus K ns n)"
  unfolding getDeploymentStatus_def by (intro keeps_intros)

lemma keeps_ObserveStatus: "framed K v \<Longrightarrow> keeps v (ObserveStatus K ms)"
  unfolding ObserveStatus_def by (intro keeps_intros keeps_getDeploymentStatus)

lemma keeps_phaseEventMS: "keeps v (phaseEventMS obs)"
  unfolding phaseEventMS_def by (intro keeps_intros)

lemma keeps_sync:
  assumes "cooperativeMS R store"
  shows "keeps (\<lambda>s. stServices (store s)) (reconcileResourcesMS R ms)"
proof -
  have "list_all (keeps (\<lambda>s. stServices (store s))) (resourceSteps R ms)"
    by (simp add: resourceSteps_def, (intro conjI keeps_steps framesMS [OF assms]; simp))
  then show ?thesis unfolding reconcileResourcesMS_def by (intro keeps_runSteps) (simp add: list_all_iff)
qed

lemma keeps_clusterCleanup:
  assumes "cooperativeMS R store"
  shows "keeps (\<lambda>s. stServices (store s)) (cleanupClusterRBAC R n)"
  unfolding cleanupClusterRBAC_def by (intro keeps_intros framesMS [OF assms]; simp)

lemma updateStatus_returns:
  assumes "cooperativeMS R store" and "willingMS R store" and "stServices (store (server w)) (objKey ms) \<noteq> None"
  shows "\<exists>w'. updateStatusMS R ms w = (Inr (), w')"
proof -
  obtain obs w1 where obs: "ObserveStatus (depApi R) ms w = (Inr obs, w1)"
    using returnsD [OF returns_observe [OF assms(1,2)]] by blast
  have "keeps (\<lambda>s. stServices (store s)) (ObserveStatus (depApi R) ms)"
    by (intro keeps_ObserveStatus framesMS(2) [OF assms(1)]) simp
  from keepsD [OF this obs] assms(3) have "stServices (store (server w1)) (objKey ms) \<noteq> None" by simp
  moreover have "objKey (setMsStatus st ms) = objKey ms" for st by (simp add: setMsStatus_def)
  ultimately have "\<exists>y w'. clientPatchStatus (msApi R) ms (setMsStatus st ms) w1 = (Inr y, w')" for st
    by (intro willing_client(5) [OF willingMS_all(15) [OF assms(2)]]) simp
  then have patch: "\<exists>y w'. liftApi (clientPatchStatus (msApi R) ms (setMsStatus st ms)) w1 = (Inr y, w')" for st
    by (simp add: liftApi_Inr)
  have ev: "\<exists>w'. phaseEventMS obs w = (Inr (), w')" for w
    by (simp add: phaseEventMS_def eventStep_def attempt_def recordEvent_def ret_def)
  show ?thesis
    using patch [of "newStatusMS R (server w1) ms obs"] ev
    by (auto simp: updateStatusMS_def obs andThen_def getServer_def Let_def ret_def split: prod.splits)
qed

lemma ensureFinalizer_returns:
  assumes "cooperativeMS R store" and "willingMS R store" and "stServices (store (server w)) (objKey ms) \<noteq> None"
  shows "\<exists>ms' w'. ensureFinalizer R ms w = (Inr ms', w') \<and> objKey ms' = objKey ms \<and>
    stServices (store (server w')) (objKey ms') \<noteq> None"
proof (cases "hasFinalizer ms")
  case True
  with assms(3) show ?thesis by (simp add: ensureFinalizer_def ret_def)
next
  case False
  have key: "objKey (addFinalizer ms) = objKey ms" by (simp add: addFinalizer_def)
  with assms(3) obtain ms' w' where u: "clientUpdate (msApi R) (addFinalizer ms) w = (Inr ms', w')"
    using willing_client(3) [OF willingMS_all(15) [OF assms(2)], of w "addFinalizer ms"] by auto
  with clientUpdate_api [OF u] servesD(3) [OF cooperativeMS_serves(1) [OF assms(1)]]
  have "objKey ms' = objKey (addFinalizer ms)"
    "stServices (store (server w')) = (stServices (store (server w)))(objKey (addFinalizer ms) \<mapsto> ms')"
    unfolding lawfulUpdate_def by blast+
  with False u key show ?thesis by (simp add: ensureFinalizer_def attempt_def ret_def)
qed

lemma ReconcileMS_returns:
  assumes "cooperativeMS R store" and "willingMS R store"
  shows "\<exists>w'. ReconcileMS R req w = (Inr (), w')"
proof -
  let ?v = "\<lambda>s. stServices (store s)"
  have del: "\<exists>w'. handleDeletion R ms w = (Inr (), w')" if "?v (server w) (objKey ms) \<noteq> None" for ms w
  proof (cases "hasFinalizer ms")
    case True
    have "returns (cleanupClusterRBAC R n)" for n
      unfolding cleanupClusterRBAC_def
      by (intro succeeds_andThen returns_cleanup)
        (rule willingMS_all [OF assms(2)] cooperativeMS_serves [OF assms(1), THEN servesD(1)])+
    from returnsD [OF this [of "EPPClusterRBACName (objNamespace ms) (objName ms)"]]
    obtain u w1 where c: "CleanupEPPClusterRBAC R (objNamespace ms) (objName ms) w = (Inr u, w1)"
      unfolding CleanupEPPClusterRBAC_def by blast
    have "?v (server w1) (objKey ms) \<noteq> None"
      using keepsD [OF keeps_clusterCleanup [OF assms(1)] c [unfolded CleanupEPPClusterRBAC_def]] that by simp
    moreover have "objKey (removeFinalizer ms) = objKey ms" by (simp add: removeFinalizer_def)
    ultimately have "\<exists>y w'. clientUpdate (msApi R) (removeFinalizer ms) w1 = (Inr y, w')"
      by (intro willing_client(3) [OF willingMS_all(15) [OF assms(2)]]) simp
    with True c show ?thesis
      by (auto simp: handleDeletion_def wrapError_def wrapApi_def andThen_def attempt_def ret_def)
  qed (simp add: handleDeletion_def ret_def)
  have live: "\<exists>w'. reconcileLiveMS R ms w = (Inr (), w')" if "?v (server w) (objKey ms) \<noteq> None" for ms w
  proof -
    from ensureFinalizer_returns [OF assms that] obtain ms' w1 where
      fin: "ensureFinalizer R ms w = (Inr ms', w1)" "?v (server w1) (objKey ms') \<noteq> None" by blast
    obtain u w2 where sync: "reconcileResourcesMS R (ApplyImageDefaults (msDefaultImages R) ms') w1 = (Inr u, w2)"
      using returnsD [OF sync_returns [OF assms]] by blast
    from keepsD [OF keeps_sync [OF assms(1)] sync] fin(2) have "?v (server w2) (objKey ms') \<noteq> None" by simp
    from updateStatus_returns [OF assms this] fin(1) sync show ?thesis
      by (auto simp: reconcileLiveMS_def andThen_def attempt_def)
  qed
  have "returns (ReconcileMS R req)"
    unfolding ReconcileMS_def
    by (rule returns_read [OF willingMS_all(15) [OF assms(2)] servesD(1) [OF cooperativeMS_serves(1) [OF assms(1)]]])
      (use del live in \<open>simp_all add: ret_def\<close>)
  from returnsD [OF this] show ?thesis by simp
qed


end
