(* ===== verification/ServiceLoop.thy ===== *)
theory ServiceLoop
  imports ServiceOrder ServiceIdle ServiceReturns
begin

text \<open>
  The properties of the reconcile loop of ModelService as a whole: the finalizer outlives the
  cluster-scoped objects, a deleted service leaves none of them, a live one reaches its desired
  state and the stored status is derived from it, and what the sync does to others. The laws of a
  cooperative cluster are hypotheses; \<open>ServiceMem\<close> discharges them for the server of \<open>MemServer\<close>.
\<close>

section \<open>Cluster-scoped objects and the finalizer\<close>

text \<open>
  Cluster-scoped objects have no owner reference, so the finalizer on the service has to outlive
  them: \<open>guarded\<close> says that while one of them is live the service is stored with the finalizer.
\<close>

definition clusterKey :: "string \<times> string \<Rightarrow> string \<times> string" where
  "clusterKey key = ('''', EPPClusterRBACName (fst key) (snd key))"

definition clusterGone :: "storeMS \<Rightarrow> string \<times> string \<Rightarrow> bool" where
  "clusterGone st key \<longleftrightarrow>
     absent (stClusterRoles st) (clusterKey key) \<and> absent (stClusterBindings st) (clusterKey key)"

definition finalizersAt :: "storeMS \<Rightarrow> string \<times> string \<Rightarrow> string list option" where
  "finalizersAt st key = map_option (mFinalizers \<circ> ometa) (stServices st key)"

definition guarded :: "storeMS \<Rightarrow> string \<times> string \<Rightarrow> bool" where
  "guarded st key \<longleftrightarrow>
     clusterGone st key \<or> (\<exists>fs. finalizersAt st key = Some fs \<and> FinalizerClusterRBAC \<in> set fs)"

text \<open>The status subresource ignores the metadata of a patch, whatever it answers.\<close>

definition statusOnly :: "('s, 'b) kindApi \<Rightarrow> ('s \<Rightarrow> 'b objects) \<Rightarrow> bool" where
  "statusOnly K v \<longleftrightarrow>
     (\<forall>b x s k. map_option (mFinalizers \<circ> ometa) (v (snd (apiPatchStatus K b x s)) k) =
        map_option (mFinalizers \<circ> ometa) (v s k))"

lemma keeps_patch_finalizers:
  assumes "statusOnly (msApi R) (\<lambda>s. stServices (store s))"
  shows "keeps (\<lambda>s. finalizersAt (store s) key) (clientPatchStatus (msApi R) b x)"
  using assms unfolding keeps_def server_client statusOnly_def finalizersAt_def by blast

lemma keeps_finalizers_of_services:
  "keeps (\<lambda>s. stServices (store s)) m \<Longrightarrow> keeps (\<lambda>s. finalizersAt (store s) key) m"
  unfolding keeps_def finalizersAt_def by simp

lemma keeps_getServer: "keeps v getServer"
  by (simp add: keeps_def getServer_def)

lemma keeps_status_paths:
  assumes "cooperativeMS R store" and "statusOnly (msApi R) (\<lambda>s. stServices (store s))"
  shows "keeps (\<lambda>s. finalizersAt (store s) key) (updateStatusMS R ms)"
    and "keeps (\<lambda>s. finalizersAt (store s) key) (handleReconcileErrorMS R ms e)"
proof -
  have "keeps (\<lambda>s. stServices (store s)) (ObserveStatus (depApi R) ms)"
    by (intro keeps_ObserveStatus framesMS(2) [OF assms(1)]) simp
  then show "keeps (\<lambda>s. finalizersAt (store s) key) (updateStatusMS R ms)"
    unfolding updateStatusMS_def Let_def
    by (intro keeps_intros keeps_getServer keeps_phaseEventMS keeps_patch_finalizers [OF assms(2)]
        keeps_finalizers_of_services)
  show "keeps (\<lambda>s. finalizersAt (store s) key) (handleReconcileErrorMS R ms e)"
    unfolding handleReconcileErrorMS_def setReadyConditionFalseMS_def Let_def
    by (intro keeps_intros keeps_getServer keeps_patch_finalizers [OF assms(2)])
qed

lemma keeps_cluster_update:
  assumes "cooperativeMS R store"
  shows "keeps (\<lambda>s. (stClusterRoles (store s), stClusterBindings (store s))) (clientUpdate (msApi R) x)"
  by (intro keeps_client framesMS(1) [OF assms]) simp

lemma clusterGone_update:
  assumes "cooperativeMS R store" and "clientUpdate (msApi R) x w = (r, w')" and "clusterGone (store (server w)) key"
  shows "clusterGone (store (server w')) key"
  using keepsD [OF keeps_cluster_update [OF assms(1)] assms(2)] assms(3) by (simp add: clusterGone_def)

lemma handleDeletion_guarded:
  assumes coop: "cooperativeMS R store" and ms: "stServices (store (server w)) (objKey ms) = Some ms"
    and "handleDeletion R ms w = (r, w')" and "guarded (store (server w)) (objKey ms)"
  shows "guarded (store (server w')) (objKey ms)"
proof (cases "hasFinalizer ms")
  case False
  with assms(3,4) show ?thesis by (simp add: handleDeletion_def ret_def)
next
  case True
  let ?n = "EPPClusterRBACName (objNamespace ms) (objName ms)"
  obtain q w1 where q: "cleanupClusterRBAC R ?n w = (q, w1)" by fastforce
  show ?thesis
  proof (cases q)
    case (Inl e)
    with True q assms(3) have "w' = w1"
      by (simp add: handleDeletion_def wrapError_def CleanupEPPClusterRBAC_def andThen_def attempt_def fail_def)
    moreover have "stServices (store (server w1)) (objKey ms) = Some ms"
      using keepsD [OF keeps_clusterCleanup [OF coop] q] ms by simp
    ultimately show ?thesis using True by (simp add: guarded_def finalizersAt_def hasFinalizer_def)
  next
    case (Inr u)
    with q have "clusterGone (store (server w1)) (objKey ms)"
      using establishesD [OF clusterCleanup_step [OF coop]] by (simp add: clusterGone_def clusterKey_def)
    moreover from True q Inr assms(3) obtain q' where "clientUpdate (msApi R) (removeFinalizer ms) w1 = (q', w')"
      by (cases "clientUpdate (msApi R) (removeFinalizer ms) w1")
        (auto simp: handleDeletion_def wrapError_def wrapApi_def CleanupEPPClusterRBAC_def andThen_def
          attempt_def fail_def ret_def split: sum.splits)
    ultimately show ?thesis using clusterGone_update [OF coop] unfolding guarded_def by blast
  qed
qed

lemma ensureFinalizer_update:
  assumes "ensureFinalizer R ms w = (r, w')" and "\<not> hasFinalizer ms"
  shows "\<exists>q. clientUpdate (msApi R) (addFinalizer ms) w = (q, w') \<and>
    r = (case q of Inl e \<Rightarrow> Inl (Wrapf ''adding finalizer'' (ApiE e)) | Inr x \<Rightarrow> Inr x)"
  using assms
  by (cases "clientUpdate (msApi R) (addFinalizer ms) w")
    (auto simp: ensureFinalizer_def attempt_def ret_def fail_def split: sum.splits)

lemma ensureFinalizer_Inr:
  assumes "cooperativeMS R store" and "stServices (store (server w)) (objKey ms) = Some ms"
    and run: "ensureFinalizer R ms w = (Inr ms', w')"
  shows "objKey ms' = objKey ms \<and> msSp ms' = msSp ms \<and> hasFinalizer ms' \<and>
    stServices (store (server w')) (objKey ms) = Some ms'"
proof (cases "hasFinalizer ms")
  case True
  with run assms(2) show ?thesis by (auto simp: ensureFinalizer_def ret_def)
next
  case False
  from ensureFinalizer_update [OF run False] obtain q where
    "clientUpdate (msApi R) (addFinalizer ms) w = (q, w')"
    "Inr ms' = (case q of Inl e \<Rightarrow> Inl (Wrapf ''adding finalizer'' (ApiE e)) | Inr x \<Rightarrow> Inr x)" by blast
  then have u: "clientUpdate (msApi R) (addFinalizer ms) w = (Inr ms', w')" by (cases q) simp_all
  have "objKey ms' = objKey (addFinalizer ms)" "managedMS ms' = managedMS (addFinalizer ms)"
    "stServices (store (server w')) = (stServices (store (server w)))(objKey (addFinalizer ms) \<mapsto> ms')"
    using clientUpdate_api [OF u] servesD(3) [OF cooperativeMS_serves(1) [OF assms(1)]]
    unfolding lawfulUpdate_def by blast+
  then show ?thesis by (auto simp: addFinalizer_def managedMS_def hasFinalizer_def)
qed

lemma ensureFinalizer_guarded:
  assumes coop: "cooperativeMS R store" and ms: "stServices (store (server w)) (objKey ms) = Some ms"
    and run: "ensureFinalizer R ms w = (r, w')" and "guarded (store (server w)) (objKey ms)"
  shows "guarded (store (server w')) (objKey ms)"
proof (cases "hasFinalizer ms")
  case True
  with run assms(4) show ?thesis by (simp add: ensureFinalizer_def ret_def)
next
  case False
  with ms assms(4) have "clusterGone (store (server w)) (objKey ms)"
    by (auto simp: guarded_def finalizersAt_def hasFinalizer_def)
  with ensureFinalizer_update [OF run False] clusterGone_update [OF coop] show ?thesis
    unfolding guarded_def by blast
qed

theorem cluster_rbac_is_never_orphaned:
  assumes "cooperativeMS R store" and "statusOnly (msApi R) (\<lambda>s. stServices (store s))"
    and "guarded (store (server w)) req" and "ReconcileMS R req w = (r, w')"
  shows "guarded (store (server w')) req"
proof -
  note coop = assms(1) and get = servesD(1) [OF cooperativeMS_serves(1) [OF assms(1)]]
  obtain q w1 where q: "clientGet (msApi R) req w = (q, w1)" by fastforce
  show ?thesis
  proof (cases q)
    case (Inl e)
    with q assms(4) have "w' = w1" by (auto simp: ReconcileMS_def attempt_def ret_def fail_def split: if_splits)
    with assms(3) clientGet_Inl [OF get] q Inl show ?thesis by auto
  next
    case (Inr ms)
    with clientGet_Inr [OF get] q have key: "objKey ms = req" and w1: "server w1 = server w"
      and ms: "stServices (store (server w1)) (objKey ms) = Some ms" by auto
    with assms(3) have guard: "guarded (store (server w1)) (objKey ms)" by simp
    show ?thesis
    proof (cases "timeIsZero (mDeletionTimestamp (ometa ms))")
      case False
      with q Inr assms(4) have "handleDeletion R ms w1 = (r, w')" by (simp add: ReconcileMS_def attempt_def)
      from handleDeletion_guarded [OF coop ms this guard] key show ?thesis by simp
    next
      case True
      with q Inr assms(4) have live: "reconcileLiveMS R ms w1 = (r, w')" by (simp add: ReconcileMS_def attempt_def)
      obtain f w2 where f: "ensureFinalizer R ms w1 = (f, w2)" by fastforce
      note guard2 = ensureFinalizer_guarded [OF coop ms f guard]
      show ?thesis
      proof (cases f)
        case (Inl e)
        with live f have "w' = w2" by (simp add: reconcileLiveMS_def andThen_def)
        with guard2 key show ?thesis by simp
      next
        case (Inr ms')
        let ?m = "attempt (reconcileResourcesMS R (ApplyImageDefaults (msDefaultImages R) ms'))
          (\<lambda>r. case r of Inl e \<Rightarrow> handleReconcileErrorMS R ms' e | Inr _ \<Rightarrow> updateStatusMS R ms')"
        have "keeps (\<lambda>s. finalizersAt (store s) req) ?m"
          by (intro keeps_attempt keeps_case_sum keeps_status_paths [OF assms(1,2)]
              keeps_finalizers_of_services keeps_sync [OF coop])
        moreover from live f Inr have "?m w2 = (r, w')" by (simp add: reconcileLiveMS_def andThen_def)
        ultimately have same: "finalizersAt (store (server w')) req = finalizersAt (store (server w2)) req"
          by (rule keepsD)
        have "hasFinalizer ms'" "stServices (store (server w2)) req = Some ms'"
          using ensureFinalizer_Inr [OF coop ms f [unfolded Inr]] key by auto
        with same have "finalizersAt (store (server w')) req = Some (mFinalizers (ometa ms'))"
          by (simp add: finalizersAt_def)
        with \<open>hasFinalizer ms'\<close> show ?thesis unfolding guarded_def hasFinalizer_def by blast
      qed
    qed
  qed
qed

lemma ReconcileMS_found:
  assumes "lawfulGet (msApi R) v" and "v (server w) req = Some ms" and "ReconcileMS R req w = (Inr u, w')"
  shows "\<exists>w1. server w1 = server w \<and> objKey ms = req \<and>
    (if timeIsZero (mDeletionTimestamp (ometa ms)) then reconcileLiveMS R ms else handleDeletion R ms) w1 =
      (Inr u, w')"
proof -
  obtain q w1 where q: "clientGet (msApi R) req w = (q, w1)" by fastforce
  show ?thesis
  proof (cases q)
    case (Inl e)
    with q assms(3) have "isNotFound e" by (auto simp: ReconcileMS_def attempt_def split: if_splits)
    with clientGet_Inl [OF assms(1)] q Inl assms(2) show ?thesis by auto
  next
    case (Inr x)
    with clientGet_Inr [OF assms(1)] q assms(2) have "x = ms" "objKey ms = req" "server w1 = server w" by auto
    with q Inr assms(3) show ?thesis
      by (intro exI [of _ w1]) (auto simp: ReconcileMS_def attempt_def split: if_splits)
  qed
qed

section \<open>A deleted service\<close>


section \<open>A live service\<close>

text \<open>What the status is derived from, as a function of the store.\<close>

definition statusAt :: "deploymentBody objects \<Rightarrow> string \<times> string \<Rightarrow> deploymentStatus" where
  "statusAt objs k = (case objs k of None \<Rightarrow> deploymentStatusZero | Some d \<Rightarrow> statusOfDeployment d)"

definition observed :: "deploymentBody objects \<Rightarrow> modelService \<Rightarrow> msObservation" where
  "observed objs ms =
     observeWith (statusAt objs (objNamespace ms, DecodeName (objName ms)))
       (if msPrefill (msSp ms) = None then deploymentStatusZero
        else statusAt objs (objNamespace ms, PrefillName (objName ms)))"

lemma getDeploymentStatus_Inr:
  assumes "lawfulGet K v" and "getDeploymentStatus K ns n w = (Inr d, w')"
  shows "server w' = server w \<and> d = statusAt (v (server w)) (ns, n)"
proof -
  obtain r w1 where r: "clientGet K (ns, n) w = (r, w1)" by fastforce
  show ?thesis
  proof (cases r)
    case (Inl e)
    with assms(2) r have "isNotFound e" "d = deploymentStatusZero" "w' = w1"
      by (auto simp: getDeploymentStatus_def attempt_def split: if_splits)
    with clientGet_Inl [OF assms(1) r [unfolded Inl]] show ?thesis by (simp add: statusAt_def)
  next
    case (Inr x)
    with assms(2) r have "d = statusOfDeployment x" "w' = w1"
      by (auto simp: getDeploymentStatus_def attempt_def)
    with clientGet_Inr [OF assms(1) r [unfolded Inr]] show ?thesis by (simp add: statusAt_def)
  qed
qed

lemma ObserveStatus_Inr:
  assumes "cooperativeMS R store" and "ObserveStatus (depApi R) ms w = (Inr obs, w')"
  shows "server w' = server w \<and> obs = observed (stDeployments (store (server w))) ms"
proof -
  note get = getDeploymentStatus_Inr [OF servesD(1) [OF cooperativeMS_serves(2) [OF assms(1)]]]
  show ?thesis
    using assms(2)
    by (auto simp: ObserveStatus_def andThen_Inr observed_def split: option.splits dest!: get)
qed

lemma updateStatus_stores:
  assumes coop: "cooperativeMS R store" and ms: "stServices (store (server w)) (objKey ms) = Some ms"
    and run: "updateStatusMS R ms w = (Inr u, w')"
  shows "stServices (store (server w')) (objKey ms) =
      Some (setMsStatus (newStatusMS R (server w) ms (observed (stDeployments (store (server w))) ms)) ms)"
    and "stServices_update (\<lambda>_. Map.empty) (store (server w')) = stServices_update (\<lambda>_. Map.empty) (store (server w))"
proof -
  obtain obs w1 where o: "ObserveStatus (depApi R) ms w = (Inr obs, w1)"
    using run by (auto simp: updateStatusMS_def andThen_Inr)
  note obs = ObserveStatus_Inr [OF coop o]
  let ?st = "newStatusMS R (server w) ms obs"
  have id: "setMsStatus (msSt ms) ms = ms" by (simp add: setMsStatus_def)
  have "stServices (store (server w')) (objKey ms) = Some (setMsStatus ?st ms) \<and>
    stServices_update (\<lambda>_. Map.empty) (store (server w')) = stServices_update (\<lambda>_. Map.empty) (store (server w))"
  proof (cases "msSt ms = ?st")
    case True
    with run o obs coop have "w' = w1"
      by (simp add: updateStatusMS_def andThen_def getServer_def Let_def ret_def cooperativeMS_lib(6))
    with obs ms True id show ?thesis by metis
  next
    case False
    with run o obs coop obtain x w2 where
      p: "clientPatchStatus (msApi R) ms (setMsStatus ?st ms) w1 = (Inr x, w2)" and ev: "phaseEventMS obs w2 = (Inr u, w')"
      by (auto simp: updateStatusMS_def andThen_Inr getServer_def Let_def cooperativeMS_lib(6) liftApi_Inr)
    have meta: "ometa (setMsStatus ?st ms) = ometa ms" by (simp add: setMsStatus_def)
    have ms1: "stServices (store (server w1)) (objKey ms) = Some ms" using obs ms by simp
    from clientPatchStatus_Inr [OF cooperativeMS_lib(1) [OF coop] p ms1 meta] meta
    have "stServices (store (server w2)) (objKey ms) = Some (setMsStatus ?st ms)" by simp
    moreover have "server w' = server w2"
      using keepsD [OF keeps_phaseEventMS [of "\<lambda>s. s"] ev] by simp
    moreover have "framed (msApi R) (\<lambda>s. stServices_update (\<lambda>_. Map.empty) (store s))"
      using cooperativeMS_serves(1) [OF coop] by (simp add: serves_def)
    from keepsD [OF keeps_client(6) [OF this] p] obs have
      "stServices_update (\<lambda>_. Map.empty) (store (server w2)) = stServices_update (\<lambda>_. Map.empty) (store (server w))" by simp
    ultimately show ?thesis by simp
  qed
  with obs show "stServices (store (server w')) (objKey ms) =
      Some (setMsStatus (newStatusMS R (server w) ms (observed (stDeployments (store (server w))) ms)) ms)"
    and "stServices_update (\<lambda>_. Map.empty) (store (server w')) = stServices_update (\<lambda>_. Map.empty) (store (server w))"
    by simp_all
qed

lemma inSync_services: "inSync R ms (stServices_update f st) = inSync R ms st"
  by (simp add: inSync_def)

lemma ApplyImageDefaults_key: "objKey (ApplyImageDefaults d ms) = objKey ms"
  by (simp add: ApplyImageDefaults_def setMsSpec_def Let_def)

lemma ReconcileMS_reaches:
  assumes "cooperativeMS R store" and "stServices (store (server w)) req = Some ms"
    and "timeIsZero (mDeletionTimestamp (ometa ms))" and "objName ms \<noteq> ''''"
    and "ReconcileMS R req w = (Inr u, w')"
  shows "\<exists>ms' s. objKey ms' = req \<and> msSp ms' = msSp ms \<and> hasFinalizer ms' \<and> (hasFinalizer ms \<longrightarrow> ms' = ms) \<and>
    inSync R (ApplyImageDefaults (msDefaultImages R) ms') (store (server w')) \<and>
    stServices (store (server w')) req =
      Some (setMsStatus (newStatusMS R s ms' (observed (stDeployments (store (server w'))) ms')) ms')"
proof -
  note coop = assms(1)
  let ?d = "ApplyImageDefaults (msDefaultImages R)"
  from ReconcileMS_found [OF servesD(1) [OF cooperativeMS_serves(1) [OF coop]] assms(2,5)] assms(3)
  obtain w1 where w1: "server w1 = server w" "objKey ms = req" and live: "reconcileLiveMS R ms w1 = (Inr u, w')" by auto
  from live obtain ms' w2 where fin: "ensureFinalizer R ms w1 = (Inr ms', w2)"
    and rest: "attempt (reconcileResourcesMS R (?d ms')) (\<lambda>r. case r of
       Inl e \<Rightarrow> handleReconcileErrorMS R ms' e | Inr _ \<Rightarrow> updateStatusMS R ms') w2 = (Inr u, w')"
    by (auto simp: reconcileLiveMS_def andThen_Inr)
  have ms': "objKey ms' = req" "msSp ms' = msSp ms" "hasFinalizer ms'" "stServices (store (server w2)) req = Some ms'"
    using ensureFinalizer_Inr [OF coop _ fin] assms(2) w1 by auto
  obtain r w3 where r: "reconcileResourcesMS R (?d ms') w2 = (r, w3)" by fastforce
  have "handleReconcileErrorMS R ms' e w3 \<noteq> (Inr u, w')" for e
    by (simp add: handleReconcileErrorMS_def andThen_Inr)
  with rest r obtain x where sync: "reconcileResourcesMS R (?d ms') w2 = (Inr x, w3)"
    and st: "updateStatusMS R ms' w3 = (Inr u, w')" by (cases r) (auto simp: attempt_def)
  have "stServices (store (server w3)) (objKey ms') = Some ms'"
    using keepsD [OF keeps_sync [OF coop] sync] ms' by simp
  note upd = updateStatus_stores [OF coop this st]
  have "objName (?d ms') \<noteq> ''''" using ms'(1) w1(2) assms(4) ApplyImageDefaults_key [of _ ms'] by auto
  from sync_reaches_desired_state [OF coop this sync] have "inSync R (?d ms') (store (server w3))" .
  then have "inSync R (?d ms') (store (server w'))" using upd(2) inSync_services by metis
  moreover have "stDeployments (store (server w')) = stDeployments (store (server w3))"
    using arg_cong [OF upd(2), of stDeployments] by simp
  moreover have "hasFinalizer ms \<longrightarrow> ms' = ms" using fin by (auto simp: ensureFinalizer_def)
  ultimately show ?thesis using ms' upd(1) by metis
qed


section \<open>The stored status\<close>

theorem service_status_is_a_fixed_point:
  assumes "lawfulSetStatusCondition (msSetStatusCondition R)"
    and "distinct (map condType (mssConditions (msSt ms)))" and "st = newStatusMS R s ms obs"
  shows "newStatusMS R s' (setMsStatus st ms) obs = st \<and>
    (\<exists>x. {y \<in> set (mssConditions st). condType y = ''Ready''} = {x} \<and> sameCondition x (readyConditionMS ms obs)) \<and>
    {y \<in> set (mssConditions st). condType y \<noteq> ''Ready''} =
      {y \<in> set (mssConditions (msSt ms)). condType y \<noteq> ''Ready''}"
proof -
  let ?cs = "storedConditions (msSetStatusCondition R) s (mssConditions (msSt ms)) (readyConditionMS ms obs)"
  note ok = storedConditions_ok [OF assms(1,2), of s "readyConditionMS ms obs"]
  have conds: "mssConditions st = ?cs" and ty: "condType (readyConditionMS ms obs) = ''Ready''"
    by (simp_all add: assms(3) newStatusMS_def readyConditionMS_def)
  have "readyConditionMS (setMsStatus st ms) obs = readyConditionMS ms obs" by (simp add: readyConditionMS_def)
  moreover have "storedConditions (msSetStatusCondition R) s' ?cs (readyConditionMS ms obs) = ?cs"
    by (rule storedConditions_settled [OF assms(1) ok(1,2)])
  ultimately have "newStatusMS R s' (setMsStatus st ms) obs = st"
    using conds by (simp add: newStatusMS_def assms(3))
  moreover obtain x where x: "x \<in> set ?cs" "sameCondition x (readyConditionMS ms obs)" using ok(2) by blast
  then have "condType x = ''Ready''" using ty by (simp add: sameCondition_iff)
  with x have "{y \<in> set ?cs. condType y = ''Ready''} = {x}" using conditionsOk_unique [OF ok(1)] by auto
  ultimately show ?thesis using x(2) ok(3) conds ty by auto
qed

section \<open>What the sync does to others\<close>

text \<open>The cleanup of an old pool goes by its name alone.\<close>

text \<open>
  C25: The cleanup of an old InferencePool goes by its name alone: the sync of service
  \<open>foo\<close> removes the pool of a service of the same namespace that is named like the
  EPP of \<open>foo\<close>.
\<close>

theorem sync_removes_the_pool_of_another_service:
  assumes "cooperativeMS R store" and "willingMS R store" and "objName ms \<noteq> ''''"
    and "objNamespace other = objNamespace ms" and "objName other = EPPName (objName ms)"
    and "objName other \<noteq> objName ms"
    and "EnsureInferencePool R ms w = (Inr u, w')"
  shows "absent (stPools (store (server w'))) (objKey (desiredPool R other))"
proof -
  note serves = cooperativeMS_serves(11) [OF assms(1)]
  let ?k = "(objNamespace ms, EPPName (objName ms))"
  have key: "objKey (desiredPool R x) = objKey x" for x
    by (simp add: desiredPool_def BuildDefaultInferencePool_def BuildInferencePool_def InferencePoolName_def
        metaZero_def split: option.split)
  obtain q w1 where q: "cleanupTyped (poolApi R) ?k w = (Inr q, w1)"
    using returnsD [OF returns_cleanup(1) [OF willingMS_all(10) [OF assms(2)] servesD(1) [OF serves]]] by blast
  have gone: "absent (stPools (store (server w1))) ?k"
    by (rule establishesD [OF cleanupTyped_establishes [OF serves] q])
  have ne: "?k \<noteq> objKey (desiredPool R ms)" using assms(5,6) by (simp add: key)
  from assms(7) q have "ensureOwned R ms (poolApi R) (desiredPool R ms) mutateSpec w1 = (Inr u, w')"
    by (simp add: EnsureInferencePool_def attempt_def)
  moreover have "stable (\<lambda>w. absent (stPools (store (server w))) ?k) (ensureOwned R ms (poolApi R) (desiredPool R ms) mutateSpec)"
    unfolding absent_at
    using spec.ensure_stable [OF serves cooperativeMS_lib(2) [OF assms(1)] built_unowned(7) _ ne,
        of "\<lambda>y. \<forall>x. y = Some x \<longrightarrow> \<not> isLive x"] assms(3) key [of ms] by simp
  ultimately show ?thesis using gone stableD key [of other] assms(4,5) by fastforce
qed

text \<open>On GKE the token Secret is removed, but the ServiceMonitor still asks for it.\<close>

theorem gke_monitor_asks_for_a_removed_secret:
  assumes "cooperativeMS R store" and "objName ms \<noteq> ''''"
    and "msInferencePool (msSp ms) \<noteq> None" and "monitoringEnabled ms"
    and "ecProvider (msEPPConfig R) = ProviderGKE" and "ecMetricsEndpointAuth (msEPPConfig R)"
    and "reconcileResourcesMS R ms w = (Inr u, w')"
  shows "\<exists>m e. stMonitors (store (server w')) (objNamespace ms, EPPServiceMonitorName (objName ms)) = Some m \<and>
    smEndpoints (obody m) = [e] \<and> meAuthorization e = Some (EPPSecretName (objName ms), ''token'') \<and>
    absent (stSecrets (store (server w'))) (objNamespace ms, EPPSecretName (objName ms))"
proof -
  note sync = sync_reaches_desired_state [OF assms(1,2,7)]
  let ?d = "BuildEPPServiceMonitor ms (msEPPConfig R) (eppLabelsOf R ms)"
  from sync assms(3,4) have "present (stMonitors (store (server w'))) managedSpec ?d" by (simp add: inSync_def)
  then obtain m where "stMonitors (store (server w')) (objKey ?d) = Some m" "obody m = obody ?d"
    by (auto simp: present_def managedSpec_def)
  moreover have "\<not> needsSecret R ms" using assms(5) by (simp add: needsSecret_def)
  with sync have "absent (stSecrets (store (server w'))) (objNamespace ms, EPPSecretName (objName ms))"
    by (simp add: inSync_def)
  moreover have "objKey ?d = (objNamespace ms, EPPServiceMonitorName (objName ms))"
    by (simp add: BuildEPPServiceMonitor_def metaZero_def)
  ultimately show ?thesis using assms(6) by (simp add: BuildEPPServiceMonitor_def)
qed
end
