(* ===== verification/ServiceSystem.thy ===== *)
theory ServiceSystem
  imports ServiceLoop
begin

text \<open>
  The controller of ModelService in its environment: any number of services, reconciled in any
  order, by operators of any version and settings, with every call free to fail, between steps of
  users and of the cluster. The cluster-scoped objects have no owner to be collected with, so what
  holds of them has to hold in every state this system can reach.
\<close>

section \<open>What a reconcile leaves alone\<close>

context managedKind
begin

lemma updateOrRecreate_keeps_others:
  assumes "localised K v" and "objKey e = objKey d" and "objName d \<noteq> ''''" and "k \<noteq> objKey d"
  shows "keeps (\<lambda>s. v s k) (updateOrRecreate K (mutateFn e d) d)"
proof -
  have "k \<noteq> objKey (mutateFn e d)" using assms(2,4) by (simp add: mutate_key)
  with assms show ?thesis
    unfolding updateOrRecreate_def by (intro keeps_intros keeps_wrapApi localised_client [OF assms(1)])
qed

lemma ensureCluster_keeps_others:
  assumes "lawfulGet K v" and "localised K v" and "objName d \<noteq> ''''" and "k \<noteq> objKey d"
  shows "keeps (\<lambda>s. v s k) (ensureClusterResource K d mutateFn)"
  unfolding ensureClusterResource_def Let_def
  by (rule keeps_attempt_get [OF assms(1)])
    (use assms in \<open>auto intro!: keeps_if keeps_ret keeps_fail keeps_wrapApi localised_client(3) [OF assms(2)] updateOrRecreate_keeps_others\<close>)

end

lemma cleanupClusterTyped_keeps_others:
  assumes "lawfulGet K v" and "localised K v" and "k \<noteq> ('''', n)"
  shows "keeps (\<lambda>s. v s k) (cleanupClusterTyped K n)"
  unfolding cleanupClusterTyped_def
  by (rule keeps_attempt_get [OF assms(1)]) (use assms in \<open>auto intro!: keeps_intros localised_client(2) [OF assms(2)]\<close>)

text \<open>The laws of a server on which calls to one object leave the other objects alone.\<close>

definition operates :: "'s msReconciler \<Rightarrow> ('s \<Rightarrow> storeMS) \<Rightarrow> bool" where
  "operates R store \<longleftrightarrow>
     cooperativeMS R store \<and> statusOnly (msApi R) (\<lambda>s. stServices (store s)) \<and>
     localised (msApi R) (\<lambda>s. stServices (store s)) \<and>
     localised (clusterRoleApi R) (\<lambda>s. stClusterRoles (store s)) \<and>
     localised (clusterBindingApi R) (\<lambda>s. stClusterBindings (store s))"

lemma operatesD:
  assumes "operates R store"
  shows "cooperativeMS R store" "statusOnly (msApi R) (\<lambda>s. stServices (store s))"
    "localised (msApi R) (\<lambda>s. stServices (store s))"
    "localised (clusterRoleApi R) (\<lambda>s. stClusterRoles (store s))"
    "localised (clusterBindingApi R) (\<lambda>s. stClusterBindings (store s))"
  using assms by (simp_all add: operates_def)

text \<open>What the cluster-scoped steps leave alone: every key but that of the service.\<close>

lemma cluster_steps_keep_others:
  assumes "operates R store" and "k \<noteq> clusterKey (objKey ms)"
  shows "keeps (\<lambda>s. stClusterRoles (store s) k) (EnsureEPPClusterRBAC R ms)"
    and "keeps (\<lambda>s. stClusterBindings (store s) k) (EnsureEPPClusterRBAC R ms)"
    and "keeps (\<lambda>s. stClusterRoles (store s) k) (cleanupClusterRBAC R (EPPClusterRBACName (objNamespace ms) (objName ms)))"
    and "keeps (\<lambda>s. stClusterBindings (store s) k) (cleanupClusterRBAC R (EPPClusterRBACName (objNamespace ms) (objName ms)))"
proof -
  note coop = operatesD(1) [OF assms(1)] and loc = operatesD(4,5) [OF assms(1)]
  note get = servesD(1) [OF cooperativeMS_serves(9) [OF coop]] servesD(1) [OF cooperativeMS_serves(10) [OF coop]]
  have k: "k \<noteq> ('''', EPPClusterRBACName (objNamespace ms) (objName ms))"
    using assms(2) by (simp add: clusterKey_def)
  have frame: "framed (clusterRoleApi R) (\<lambda>s. stClusterBindings (store s) k)"
    "framed (clusterBindingApi R) (\<lambda>s. stClusterRoles (store s) k)"
    by (rule framesMS [OF coop], simp)+
  show clean: "keeps (\<lambda>s. stClusterRoles (store s) k) (cleanupClusterRBAC R (EPPClusterRBACName (objNamespace ms) (objName ms)))"
    "keeps (\<lambda>s. stClusterBindings (store s) k) (cleanupClusterRBAC R (EPPClusterRBACName (objNamespace ms) (objName ms)))"
    unfolding cleanupClusterRBAC_def
    by (intro keeps_andThen cleanupClusterTyped_keeps_others [OF get(1) loc(1) k]
        cleanupClusterTyped_keeps_others [OF get(2) loc(2) k] keeps_cleanupClusterTyped frame)+
  obtain r b where rb: "BuildEPPClusterRBAC ms (eppLabelsOf R ms) = (r, b)" by fastforce
  then have key: "objKey r = ('''', EPPClusterRBACName (objNamespace ms) (objName ms))"
    "objKey b = ('''', EPPClusterRBACName (objNamespace ms) (objName ms))"
    by (auto simp: BuildEPPClusterRBAC_def Let_def metaZero_def)
  then have name: "objName r \<noteq> ''''" "objName b \<noteq> ''''"
    by (simp_all add: EPPClusterRBACName_def)
  have own: "keeps (\<lambda>s. stClusterRoles (store s) k) (ensureClusterResource (clusterRoleApi R) r mutateSpec)"
    "keeps (\<lambda>s. stClusterBindings (store s) k) (ensureClusterResource (clusterBindingApi R) b mutateSpec)"
    by (rule spec.ensureCluster_keeps_others [OF get(1) loc(1) name(1)], use k key in simp,
        rule spec.ensureCluster_keeps_others [OF get(2) loc(2) name(2)], use k key in simp)
  show "keeps (\<lambda>s. stClusterRoles (store s) k) (EnsureEPPClusterRBAC R ms)"
    "keeps (\<lambda>s. stClusterBindings (store s) k) (EnsureEPPClusterRBAC R ms)"
    unfolding EnsureEPPClusterRBAC_def rb prod.case
    by (intro keeps_if keeps_andThen clean own keeps_ensureClusterResource frame)+
qed

lemma sync_keeps_cluster_others:
  assumes "operates R store" and "k \<noteq> clusterKey (objKey ms)"
  shows "keeps (\<lambda>s. stClusterRoles (store s) k) (reconcileResourcesMS R ms)"
    and "keeps (\<lambda>s. stClusterBindings (store s) k) (reconcileResourcesMS R ms)"
proof -
  note keep = keeps_steps framesMS [OF operatesD(1) [OF assms(1)]] cluster_steps_keep_others [OF assms]
  have "list_all (keeps (\<lambda>s. stClusterRoles (store s) k)) (resourceSteps R ms)"
    "list_all (keeps (\<lambda>s. stClusterBindings (store s) k)) (resourceSteps R ms)"
    by (simp add: resourceSteps_def, (intro conjI keep; simp))+
  then show "keeps (\<lambda>s. stClusterRoles (store s) k) (reconcileResourcesMS R ms)"
    "keeps (\<lambda>s. stClusterBindings (store s) k) (reconcileResourcesMS R ms)"
    unfolding reconcileResourcesMS_def by (auto intro!: keeps_runSteps simp: list_all_iff)
qed

lemma ensureFinalizer_key:
  assumes "cooperativeMS R store" and "ensureFinalizer R ms w = (Inr ms', w')"
  shows "objKey ms' = objKey ms"
proof (cases "hasFinalizer ms")
  case True
  with assms(2) show ?thesis by (simp add: ensureFinalizer_def)
next
  case False
  with assms(2) have u: "clientUpdate (msApi R) (addFinalizer ms) w = (Inr ms', w')"
    by (auto simp: ensureFinalizer_def attempt_def split: prod.splits sum.splits)
  have "objKey ms' = objKey (addFinalizer ms)"
    using clientUpdate_api [OF u] servesD(3) [OF cooperativeMS_serves(1) [OF assms(1)]]
    unfolding lawfulUpdate_def by blast
  then show ?thesis by (simp add: addFinalizer_def)
qed

text \<open>What every part of a reconcile of \<open>req\<close> leaves alone, the reconcile leaves alone.\<close>

lemma ReconcileMS_keeps:
  assumes coop: "cooperativeMS R store"
    and "\<And>ms. objKey ms = req \<Longrightarrow> keeps v (handleDeletion R ms)"
    and "\<And>ms. objKey ms = req \<Longrightarrow> keeps v (ensureFinalizer R ms)"
    and "\<And>ms. objKey ms = req \<Longrightarrow> keeps v (reconcileResourcesMS R ms)"
    and "\<And>ms e. keeps v (handleReconcileErrorMS R ms e)"
    and "\<And>ms. keeps v (updateStatusMS R ms)"
  shows "keeps v (ReconcileMS R req)"
proof -
  have live: "keeps v (reconcileLiveMS R ms)" if key: "objKey ms = req" for ms
    unfolding keeps_def
  proof
    fix w
    obtain f w1 where f: "ensureFinalizer R ms w = (f, w1)" by fastforce
    have same: "v (server w1) = v (server w)" by (rule keepsD [OF assms(3) [OF key] f])
    show "v (server (snd (reconcileLiveMS R ms w))) = v (server w)"
    proof (cases f)
      case (Inl e)
      with f same show ?thesis by (simp add: reconcileLiveMS_def andThen_def)
    next
      case (Inr ms')
      with ensureFinalizer_key [OF coop] f key have "objKey (ApplyImageDefaults (msDefaultImages R) ms') = req"
        by (auto simp: ApplyImageDefaults_key)
      then have "keeps v (attempt (reconcileResourcesMS R (ApplyImageDefaults (msDefaultImages R) ms'))
          (\<lambda>r. case r of Inl e \<Rightarrow> handleReconcileErrorMS R ms' e | Inr _ \<Rightarrow> updateStatusMS R ms'))"
        by (intro keeps_attempt keeps_case_sum assms(4-6))
      with f Inr same show ?thesis by (simp add: reconcileLiveMS_def andThen_def keeps_def)
    qed
  qed
  show ?thesis
    unfolding ReconcileMS_def
    by (rule keeps_attempt_get [OF servesD(1) [OF cooperativeMS_serves(1) [OF coop]]])
      (auto intro!: keeps_if keeps_ret keeps_fail assms(2) live)
qed

lemma keeps_handleDeletion:
  "keeps v (cleanupClusterRBAC R (EPPClusterRBACName (objNamespace ms) (objName ms))) \<Longrightarrow>
     keeps v (clientUpdate (msApi R) (removeFinalizer ms)) \<Longrightarrow> keeps v (handleDeletion R ms)"
  unfolding handleDeletion_def wrapError_def CleanupEPPClusterRBAC_def
  by (intro keeps_if keeps_ret keeps_fail keeps_andThen keeps_wrapApi keeps_attempt keeps_case_sum)

lemma keeps_ensureFinalizer:
  "keeps v (clientUpdate (msApi R) (addFinalizer ms)) \<Longrightarrow> keeps v (ensureFinalizer R ms)"
  unfolding ensureFinalizer_def by (intro keeps_if keeps_ret keeps_fail keeps_attempt keeps_case_sum)

lemma keeps_cluster_status_paths:
  assumes "framed (msApi R) v" and "framed (depApi R) v"
  shows "keeps v (updateStatusMS R ms)" and "keeps v (handleReconcileErrorMS R ms e)"
proof -
  show "keeps v (handleReconcileErrorMS R ms e)"
    unfolding handleReconcileErrorMS_def setReadyConditionFalseMS_def Let_def
    by (intro keeps_intros keeps_getServer assms)
  show "keeps v (updateStatusMS R ms)"
    unfolding updateStatusMS_def Let_def
    by (intro keeps_intros keeps_getServer keeps_ObserveStatus keeps_phaseEventMS assms)
qed

lemma reconcile_keeps_other_services:
  assumes "operates R store" and "key \<noteq> req"
  shows "keeps (\<lambda>s. finalizersAt (store s) key) (ReconcileMS R req)"
proof (rule ReconcileMS_keeps [OF operatesD(1) [OF assms(1)]])
  note coop = operatesD(1) [OF assms(1)]
  fix ms e
  have upd: "keeps (\<lambda>s. finalizersAt (store s) key) (clientUpdate (msApi R) x)" if "objKey x = req" for x
    using localised_client(1) [OF operatesD(3) [OF assms(1)]] assms(2) that
    unfolding keeps_def finalizersAt_def by simp
  show "keeps (\<lambda>s. finalizersAt (store s) key) (handleReconcileErrorMS R ms e)"
    "keeps (\<lambda>s. finalizersAt (store s) key) (updateStatusMS R ms)"
    by (rule keeps_status_paths [OF coop operatesD(2) [OF assms(1)]])+
  show "keeps (\<lambda>s. finalizersAt (store s) key) (reconcileResourcesMS R ms)"
    by (rule keeps_finalizers_of_services [OF keeps_sync [OF coop]])
  assume key: "objKey ms = req"
  show "keeps (\<lambda>s. finalizersAt (store s) key) (ensureFinalizer R ms)"
    by (rule keeps_ensureFinalizer, rule upd) (use key in \<open>simp add: addFinalizer_def\<close>)
  have "keeps (\<lambda>s. stServices (store s)) (cleanupClusterRBAC R (EPPClusterRBACName (objNamespace ms) (objName ms)))"
    by (rule keeps_clusterCleanup [OF coop]) 
  then show "keeps (\<lambda>s. finalizersAt (store s) key) (handleDeletion R ms)"
    by (intro keeps_handleDeletion keeps_finalizers_of_services upd) (use key in \<open>simp_all add: removeFinalizer_def\<close>)
qed

lemma reconcile_keeps_other_cluster_objects:
  assumes "operates R store" and "k \<noteq> clusterKey req"
  shows "keeps (\<lambda>s. stClusterRoles (store s) k) (ReconcileMS R req)"
    and "keeps (\<lambda>s. stClusterBindings (store s) k) (ReconcileMS R req)"
proof -
  note coop = operatesD(1) [OF assms(1)]
  have frame: "framed (msApi R) (\<lambda>s. stClusterRoles (store s) k)" "framed (msApi R) (\<lambda>s. stClusterBindings (store s) k)"
    "framed (depApi R) (\<lambda>s. stClusterRoles (store s) k)" "framed (depApi R) (\<lambda>s. stClusterBindings (store s) k)"
    by (rule framesMS [OF coop], simp)+
  note parts = keeps_handleDeletion keeps_ensureFinalizer keeps_client keeps_cluster_status_paths frame
    cluster_steps_keep_others [OF assms(1)] sync_keeps_cluster_others [OF assms(1)]
  show "keeps (\<lambda>s. stClusterRoles (store s) k) (ReconcileMS R req)"
    "keeps (\<lambda>s. stClusterBindings (store s) k) (ReconcileMS R req)"
    by (rule ReconcileMS_keeps [OF coop]; intro parts; use assms(2) in blast)+
qed

section \<open>Accounted cluster-scoped objects\<close>

text \<open>
  Services of different namespaces can share the name of their cluster-scoped objects, so the
  finalizer that accounts for them may be on any of these services.
\<close>

definition heldBy :: "storeMS \<Rightarrow> string \<times> string \<Rightarrow> bool" where
  "heldBy st key \<longleftrightarrow> (\<exists>fs. finalizersAt st key = Some fs \<and> FinalizerClusterRBAC \<in> set fs)"

definition accounted :: "storeMS \<Rightarrow> string \<times> string \<Rightarrow> bool" where
  "accounted st key \<longleftrightarrow> clusterGone st key \<or> (\<exists>key'. clusterKey key' = clusterKey key \<and> heldBy st key')"

lemma accounted_cong: "clusterKey key = clusterKey key' \<Longrightarrow> accounted st key = accounted st key'"
  by (simp add: accounted_def clusterGone_def)

lemma reconcile_keeps_held:
  assumes "operates R store" and "ReconcileMS R req w = (r, w')" and "key \<noteq> req"
    and "heldBy (store (server w)) key"
  shows "heldBy (store (server w')) key"
  using keepsD [OF reconcile_keeps_other_services [OF assms(1,3)] assms(2)] assms(4) by (simp add: heldBy_def)

lemma reconcile_accounted:
  assumes ops: "operates R store" and run: "ReconcileMS R req w = (r, w')"
    and acc: "accounted (store (server w)) key"
  shows "accounted (store (server w')) key"
proof (cases "clusterKey key = clusterKey req")
  case same: True
  show ?thesis
  proof (cases "guarded (store (server w)) req")
    case True
    from cluster_rbac_is_never_orphaned [OF operatesD(1,2) [OF ops] True run]
    have "accounted (store (server w')) req" unfolding guarded_def accounted_def heldBy_def by blast
    with accounted_cong [OF same] show ?thesis by simp
  next
    case False
    then have "\<not> heldBy (store (server w)) req" "\<not> clusterGone (store (server w)) req"
      by (auto simp: guarded_def heldBy_def)
    with acc [unfolded accounted_cong [OF same]] obtain key' where key': "clusterKey key' = clusterKey req"
      "heldBy (store (server w)) key'" "key' \<noteq> req" unfolding accounted_def by blast
    with reconcile_keeps_held [OF ops run] same show ?thesis unfolding accounted_def by metis
  qed
next
  case other: False
  from acc consider "clusterGone (store (server w)) key"
    | key' where "clusterKey key' = clusterKey key" "heldBy (store (server w)) key'"
    unfolding accounted_def by blast
  then show ?thesis
  proof cases
    case 1
    with keepsD [OF reconcile_keeps_other_cluster_objects(1) [OF ops other] run]
      keepsD [OF reconcile_keeps_other_cluster_objects(2) [OF ops other] run]
    show ?thesis by (simp add: accounted_def clusterGone_def absent_def)
  next
    case 2
    then have "key' \<noteq> req" using other by auto
    with 2 reconcile_keeps_held [OF ops run] show ?thesis unfolding accounted_def by blast
  qed
qed

section \<open>The system\<close>

text \<open>
  What others do: they neither create objects under the operator's names for cluster-scoped RBAC
  nor take away a service that carries the operator's finalizer, or that finalizer. Users may do
  everything else, including the deletion of services.
\<close>

definition wellBehaved :: "storeMS \<Rightarrow> storeMS \<Rightarrow> bool" where
  "wellBehaved st st' \<longleftrightarrow>
     (\<forall>key. (clusterGone st key \<longrightarrow> clusterGone st' key) \<and> (heldBy st key \<longrightarrow> heldBy st' key))"

inductive serviceSystem :: "('s \<Rightarrow> storeMS) \<Rightarrow> 's world \<Rightarrow> bool" for store where
  start: "(\<And>key. clusterGone (store (server w)) key) \<Longrightarrow> serviceSystem store w"
| reconciled: "serviceSystem store w \<Longrightarrow> operates R store \<Longrightarrow> ReconcileMS R req w = (r, w') \<Longrightarrow>
     serviceSystem store w'"
| other: "serviceSystem store w \<Longrightarrow> wellBehaved (store (server w)) (store s) \<Longrightarrow>
     serviceSystem store (w\<lparr>server := s\<rparr>)"

text \<open>
  C3: In every state that is reached by reconciles of any services in any order, by any version
  of the operator, complete or failing at any call, between steps of users, the cluster-scoped
  RBAC objects of a service are gone or a service that shares their name carries the finalizer
  that cleans them up.
\<close>

theorem cluster_rbac_accounted_in_every_state:
  assumes "serviceSystem store w"
  shows "clusterGone (store (server w)) key \<or>
    (\<exists>key' ms. clusterKey key' = clusterKey key \<and> stServices (store (server w)) key' = Some ms \<and> hasFinalizer ms)"
proof -
  have "accounted (store (server w)) key"
    using assms
  proof (induction arbitrary: key)
    case (start w)
    then show ?case by (simp add: accounted_def)
  next
    case (reconciled w R req r w')
    with reconcile_accounted show ?case by blast
  next
    case (other w s)
    then show ?case unfolding accounted_def wellBehaved_def by fastforce
  qed
  then show ?thesis
    by (fastforce simp: accounted_def heldBy_def finalizersAt_def hasFinalizer_def)
qed

end
