(* ===== verification/ServiceRest.thy ===== *)
theory ServiceRest
  imports ServiceLoop
begin

text \<open>
  A service that was reconciled once is at rest: the next reconcile reads and writes nothing (with
  Istio it repeats the update of the DestinationRule, which the code sends uncompared). The
  objects the sync builds do not depend on the status, so storing the status does not undo the
  desired state, and the status derived a second time is the stored one.
\<close>

section \<open>The status does not matter to the sync\<close>

lemma pods_from_spec:
  "enginePort (setMsStatus st ms) = enginePort ms" "routingProxyTargetPort (setMsStatus st ms) = routingProxyTargetPort ms"
  "mountPathOf (setMsStatus st ms) = mountPathOf ms" "buildVLLMEnv (setMsStatus st ms) role = buildVLLMEnv ms role"
  "buildModelUnpackInitContainer (setMsStatus st ms) p kit = buildModelUnpackInitContainer ms p kit"
  "proxyArgs (setMsStatus st ms) px = proxyArgs ms px" "buildVolumes (setMsStatus st ms) = buildVolumes ms"
  "PluginsConfigFile (setMsStatus st ms) = PluginsConfigFile ms"
  "proxyContainer (setMsStatus st ms) px tr = proxyContainer ms px tr"
  by (simp_all add: enginePort_def routingProxyTargetPort_def mountPathOf_def buildVLLMEnv_def
      buildModelUnpackInitContainer_def proxyArgs_def buildVolumes_def PluginsConfigFile_def proxyContainer_def)

lemma containers_from_spec:
  "buildVLLMArgs (setMsStatus st ms) role port = buildVLLMArgs ms role port"
  "buildVLLMContainer q (setMsStatus st ms) role d = buildVLLMContainer q ms role d"
  "buildInitContainers (setMsStatus st ms) d tr kit = buildInitContainers ms d tr kit"
  "eppSpecOf images (setMsStatus st ms) = eppSpecOf images ms"
  "eppContainer (setMsStatus st ms) spec cfg = eppContainer ms spec cfg"
  by (simp_all add: buildVLLMArgs_def buildVLLMContainer_def buildInitContainers_def
      eppSpecOf_def eppContainer_def pods_from_spec del: not_None_eq cong: option.case_cong if_cong)

lemmas from_spec = pods_from_spec containers_from_spec

lemma built_from_spec:
  "servingDeployment R (setMsStatus st ms) role rn dn c = servingDeployment R ms role rn dn c"
  "eppDeployment R (setMsStatus st ms) h = eppDeployment R ms h"
  "BuildEPPServiceAccount (setMsStatus st ms) l = BuildEPPServiceAccount ms l"
  "BuildEPPConfigMap (setMsStatus st ms) l = BuildEPPConfigMap ms l"
  "BuildEPPService (setMsStatus st ms) l l' = BuildEPPService ms l l'"
  "BuildEPPSATokenSecret (setMsStatus st ms) l = BuildEPPSATokenSecret ms l"
  "BuildEPPRBAC (setMsStatus st ms) l n = BuildEPPRBAC ms l n"
  "BuildEPPClusterRBAC (setMsStatus st ms) l = BuildEPPClusterRBAC ms l"
  "desiredPool R (setMsStatus st ms) = desiredPool R ms"
  "BuildHTTPRoute (setMsStatus st ms) route l = BuildHTTPRoute ms route l"
  "BuildDefaultHTTPRoute (setMsStatus st ms) l g p = BuildDefaultHTTPRoute ms l g p"
  "BuildDestinationRule (setMsStatus st ms) l = BuildDestinationRule ms l"
  "podMonitorFor R (setMsStatus st ms) c role' = podMonitorFor R ms c role'"
  "BuildEPPServiceMonitor (setMsStatus st ms) cfg l = BuildEPPServiceMonitor ms cfg l"
  "ConfigMapHash sha (setMsStatus st ms) = ConfigMapHash sha ms"
  "needsSecret R (setMsStatus st ms) = needsSecret R ms"
  "needsClusterRBAC R (setMsStatus st ms) = needsClusterRBAC R ms"
  "eppReplicasOf (setMsStatus st ms) = eppReplicasOf ms"
  "podMonitorsEnabled (setMsStatus st ms) = podMonitorsEnabled ms"
  "monitoringEnabled (setMsStatus st ms) = monitoringEnabled ms"
  by (simp_all add: servingDeployment_def BuildDeployment_def eppDeployment_def BuildEPPDeployment_def
      BuildEPPServiceAccount_def BuildEPPConfigMap_def BuildEPPService_def BuildEPPSATokenSecret_def BuildEPPRBAC_def
      BuildEPPClusterRBAC_def desiredPool_def BuildDefaultInferencePool_def BuildInferencePool_def BuildHTTPRoute_def
      BuildDefaultHTTPRoute_def BuildDestinationRule_def podMonitorFor_def BuildPodMonitor_def
      BuildEPPServiceMonitor_def ConfigMapHash_def needsSecret_def needsClusterRBAC_def eppReplicasOf_def
      podMonitorsEnabled_def monitoringEnabled_def from_spec Let_def del: not_None_eq split: option.split)

lemma ApplyImageDefaults_status: "ApplyImageDefaults d (setMsStatus st ms) = setMsStatus st (ApplyImageDefaults d ms)"
  by (simp add: ApplyImageDefaults_def Let_def setMsSpec_def setMsStatus_def)

lemma inSync_status: "inSync R (setMsStatus st ms) cluster = inSync R ms cluster"
  by (simp add: inSync_def decodeInSync_def prefillInSync_def eppInSync_def routeInSync_def podMonitorsInSync_def
      built_from_spec cong: option.case_cong)

lemma ruleWrites_meta [simp]:
  "ruleWrites R (setMsStatus st ms) = ruleWrites R ms" "ruleWrites R (ApplyImageDefaults d ms) = ruleWrites R ms"
  by (simp_all add: ruleWrites_def ApplyImageDefaults_def Let_def)

lemma undisturbed_status: "undisturbed R (setMsStatus st ms) cluster = undisturbed R ms cluster"
  by (simp add: undisturbed_def)

lemma observed_status: "observed objs (setMsStatus st ms) = observed objs ms"
  by (simp add: observed_def)

section \<open>A reconciled service is at rest\<close>

lemma updateStatus_settled:
  assumes coop: "cooperativeMS R store"
    and "\<And>s. newStatusMS R s ms (observed (stDeployments (store (server w))) ms) = msSt ms"
    and run: "updateStatusMS R ms w = (Inr u, w')"
  shows "server w' = server w \<and> (\<exists>cs. calls w' = calls w @ cs \<and> list_all isRead cs)"
proof -
  obtain obs w1 where o: "ObserveStatus (depApi R) ms w = (Inr obs, w1)"
    using run by (auto simp: updateStatusMS_def andThen_Inr)
  note obs = ObserveStatus_Inr [OF coop o]
  with run o assms(2) have "w' = w1"
    by (simp add: updateStatusMS_def andThen_def getServer_def Let_def ret_def cooperativeMS_lib(6) [OF coop])
  moreover have "emits isRead (ObserveStatus (depApi R) ms)"
    unfolding ObserveStatus_def by (intro emits_intros) simp_all
  from emitsD [OF this o] have "\<exists>cs. calls w1 = calls w @ cs \<and> list_all isRead cs" .
  ultimately show ?thesis using obs by simp
qed

text \<open>
  The loop of a service that is in sync, has the finalizer and shows its status sends no write but
  that of the DestinationRule.
\<close>

lemma reconcile_at_rest:
  assumes coop: "cooperativeMS R store" and ms: "stServices (store (server w)) req = Some ms"
    and "timeIsZero (mDeletionTimestamp (ometa ms))" and "hasFinalizer ms"
    and "inSync R (ApplyImageDefaults (msDefaultImages R) ms) (store (server w))"
    and "undisturbed R (ApplyImageDefaults (msDefaultImages R) ms) (store (server w))" and "typesApart R"
    and st: "\<And>s. newStatusMS R s ms (observed (stDeployments (store (server w))) ms) = msSt ms"
    and run: "ReconcileMS R req w = (Inr u, w')"
  shows "(\<exists>cs. calls w' = calls w @ cs \<and> writes cs = ruleWrites R ms) \<and>
    (ecProvider (msEPPConfig R) \<noteq> ProviderIstio \<longrightarrow> server w' = server w) \<and>
    stRules_update (\<lambda>_. Map.empty) (store (server w')) = stRules_update (\<lambda>_. Map.empty) (store (server w)) \<and>
    inSync R (ApplyImageDefaults (msDefaultImages R) ms) (store (server w'))"
proof -
  obtain q w1 where q: "clientGet (msApi R) req w = (q, w1)" by fastforce
  note get = servesD(1) [OF cooperativeMS_serves(1) [OF coop]]
  have c1: "calls w1 = calls w @ [ApiCall VGet (typeName (msApi R)) (fst req) (snd req)]"
    using q by (auto simp: clientGet_def split: prod.splits)
  have "q = Inr ms"
  proof (cases q)
    case (Inl e)
    with clientGet_Inl [OF get] q ms run show ?thesis
      by (auto simp: ReconcileMS_def attempt_def split: if_splits)
  next
    case (Inr x)
    with clientGet_Inr [OF get] q ms show ?thesis by auto
  qed
  with q clientGet_Inr [OF get] have s1: "server w1 = server w" by blast
  from run q \<open>q = Inr ms\<close> assms(3) have "reconcileLiveMS R ms w1 = (Inr u, w')"
    by (simp add: ReconcileMS_def attempt_def)
  then have live: "attempt (reconcileResourcesMS R (ApplyImageDefaults (msDefaultImages R) ms)) (\<lambda>r. case r of
       Inl e \<Rightarrow> handleReconcileErrorMS R ms e | Inr _ \<Rightarrow> updateStatusMS R ms) w1 = (Inr u, w')"
    using assms(4) by (simp add: reconcileLiveMS_def ensureFinalizer_def andThen_def ret_def)
  obtain r w2 where r: "reconcileResourcesMS R (ApplyImageDefaults (msDefaultImages R) ms) w1 = (r, w2)" by fastforce
  have "handleReconcileErrorMS R ms e w2 \<noteq> (Inr u, w')" for e
    by (simp add: handleReconcileErrorMS_def andThen_Inr)
  with live r obtain x where sync: "reconcileResourcesMS R (ApplyImageDefaults (msDefaultImages R) ms) w1 = (Inr x, w2)"
    and upd: "updateStatusMS R ms w2 = (Inr u, w')" by (cases r) (auto simp: attempt_def)
  note settled = sync_settled [OF coop _ _ assms(7) sync]
  have frame: "stRules_update (\<lambda>_. Map.empty) (store (server w2)) = stRules_update (\<lambda>_. Map.empty) (store (server w))"
    using settled(2) assms(5,6) s1 by simp
  then have "stDeployments (store (server w2)) = stDeployments (store (server w))"
    by (cases "store (server w2)"; cases "store (server w)") simp
  then have "newStatusMS R s ms (observed (stDeployments (store (server w2))) ms) = msSt ms" for s
    using st by simp
  from updateStatus_settled [OF coop this upd]
  obtain ds where ds: "server w' = server w2" "calls w' = calls w2 @ ds" "list_all isRead ds" by blast
  from settled(4) assms(5,6) s1 obtain cs where "calls w2 = calls w1 @ cs" "writes cs = ruleWrites R ms" by auto
  then have "\<exists>cs. calls w' = calls w @ cs \<and> writes cs = ruleWrites R ms"
    using c1 ds writes_reads [OF ds(3)] by simp
  then show ?thesis using settled(1,3) assms(5,6) s1 ds(1) frame by simp
qed


end
