(* ===== verification/ServiceErrors.thy ===== *)
theory ServiceErrors
  imports ServiceLoop
begin

text \<open>
  How a reconcile of a service fails, and what it leaves behind: which step of the sync failed,
  that the steps after it were not tried, and what the user sees of the error.
\<close>

section \<open>The status of a failed sync\<close>

definition failedStatus :: "'s msReconciler \<Rightarrow> 's \<Rightarrow> modelService \<Rightarrow> opError \<Rightarrow> msStatus" where
  "failedStatus R s ms e = (msSt ms)\<lparr>
     mssConditions := msSetStatusCondition R s (mssConditions (msSt ms))
       \<lparr>condType = ''Ready'', condStatus = ConditionFalse, condReason = ''ReconcileError'', condMessage = errorText e,
        condObservedGeneration = mGeneration (ometa ms), condLastTransitionTime = 0\<rparr>,
     mssObservedGeneration := mGeneration (ometa ms)\<rparr>"

lemma failedStatus_ready:
  assumes "lawfulSetStatusCondition (msSetStatusCondition R)" and "distinct (map condType (mssConditions (msSt ms)))"
  shows "\<exists>c \<in> set (mssConditions (failedStatus R s ms e)).
    condType c = ''Ready'' \<and> condStatus c = ConditionFalse \<and> condMessage c = errorText e"
  using assms unfolding lawfulSetStatusCondition_def failedStatus_def
  by (fastforce simp: sameCondition_iff)

text \<open>The error path: one patch, which may fail, and one event.\<close>

lemma handleReconcileError_runs:
  assumes coop: "cooperativeMS R store" and ms: "stServices (store (server w)) (objKey ms) = Some ms"
    and run: "handleReconcileErrorMS R ms e w = (r, w')"
  shows "r = Inl e" and "calls w' = calls w @ [ApiCall VPatchStatus (typeName (msApi R)) (objNamespace ms) (objName ms),
      EventCall ''Warning'' ''ReconcileError'' (errorText e)]"
    and "(\<exists>a. fst (apiPatchStatus (msApi R) ms (setMsStatus (failedStatus R (server w) ms e) ms) (server w)) = Inl a) \<or>
      stServices (store (server w')) (objKey ms) = Some (setMsStatus (failedStatus R (server w) ms e) ms)"
proof -
  let ?ms = "setMsStatus (failedStatus R (server w) ms e) ms"
  have meta: "ometa ?ms = ometa ms" by (simp add: setMsStatus_def)
  obtain p w1 where p: "clientPatchStatus (msApi R) ms ?ms w = (p, w1)" by fastforce
  have r: "r = Inl e \<and> w' = w1\<lparr>calls := calls w1 @ [EventCall ''Warning'' ''ReconcileError'' (errorText e)]\<rparr>"
    using run p
    by (auto simp: handleReconcileErrorMS_def setReadyConditionFalseMS_def failedStatus_def andThen_def getServer_def
        Let_def attempt_def eventStep_def recordEvent_def ret_def fail_def)
  then show "r = Inl e" ..
  show "calls w' = calls w @ [ApiCall VPatchStatus (typeName (msApi R)) (objNamespace ms) (objName ms),
      EventCall ''Warning'' ''ReconcileError'' (errorText e)]"
    using r p meta by (auto simp: clientPatchStatus_def split: prod.splits)
  show "(\<exists>a. fst (apiPatchStatus (msApi R) ms ?ms (server w)) = Inl a) \<or>
      stServices (store (server w')) (objKey ms) = Some ?ms"
  proof (cases p)
    case (Inl a)
    with clientPatchStatus_api [OF p] show ?thesis by auto
  next
    case (Inr x)
    from clientPatchStatus_Inr [OF cooperativeMS_lib(1) [OF coop] p [unfolded Inr] ms meta] r meta
    show ?thesis by simp
  qed
qed

text \<open>A status update, successful or not, leaves everything but the services alone.\<close>

lemma updateStatus_keeps_children:
  assumes coop: "cooperativeMS R store"
  shows "keeps (\<lambda>s. stServices_update (\<lambda>_. Map.empty) (store s)) (updateStatusMS R ms)"
proof -
  have api: "framed (msApi R) (\<lambda>s. stServices_update (\<lambda>_. Map.empty) (store s))"
    using cooperativeMS_serves(1) [OF coop] by (simp add: serves_def)
  have "keeps (\<lambda>s. stServices_update (\<lambda>_. Map.empty) (store s)) (getDeploymentStatus (depApi R) ns n)" for ns n
    unfolding getDeploymentStatus_def
    by (rule keeps_attempt_get [OF servesD(1) [OF cooperativeMS_serves(2) [OF coop]]]) (auto intro!: keeps_if keeps_ret keeps_fail)
  then have "keeps (\<lambda>s. stServices_update (\<lambda>_. Map.empty) (store s)) (ObserveStatus (depApi R) ms)"
    unfolding ObserveStatus_def by (intro keeps_intros)
  then show ?thesis
    unfolding updateStatusMS_def Let_def by (intro keeps_andThen keeps_getServer keeps_if keeps_ret keeps_liftApi
        keeps_client keeps_phaseEventMS api)
qed

section \<open>Every failure is accounted for\<close>


end
