(* ===== verification/ServiceMem.thy ===== *)
theory ServiceMem
  imports ServiceSystem ServiceRest ServiceErrors MemServer
begin

text \<open>
  The controller of ModelService runs on the in-memory server of \<open>MemServer\<close>. The worlds of this
  theory are concrete clusters; on them each property of the loop that has hypotheses is applied, so
  the contracts it assumes of a server are shown to be met by an executable one.
\<close>

section \<open>The reconciler on the in-memory server\<close>

record memMS =
  memServices :: "msBody memStore"
  memDeployments :: "deploymentBody memStore"
  memAccounts :: "serviceAccountBody memStore"
  memConfigMaps :: "configMapBody memStore"
  memSvcs :: "serviceBody memStore"
  memSecrets :: "secretBody memStore"
  memRoles :: "roleBody memStore"
  memBindings :: "bindingBody memStore"
  memClusterRoles :: "roleBody memStore"
  memClusterBindings :: "bindingBody memStore"
  memPools :: "inferencePoolBody memStore"
  memRoutes :: "httpRouteBody memStore"
  memRules :: "destinationRuleBody memStore"
  memPodMonitors :: "podMonitorBody memStore"
  memMonitors :: "serviceMonitorBody memStore"

definition memStoreMS :: "memMS \<Rightarrow> storeMS" where
  "memStoreMS s =
     \<lparr>stServices = memLookup (memServices s), stDeployments = memLookup (memDeployments s),
      stAccounts = memLookup (memAccounts s), stConfigMaps = memLookup (memConfigMaps s),
      stSvcs = memLookup (memSvcs s), stSecrets = memLookup (memSecrets s),
      stRoles = memLookup (memRoles s), stBindings = memLookup (memBindings s),
      stClusterRoles = memLookup (memClusterRoles s),
      stClusterBindings = memLookup (memClusterBindings s), stPools = memLookup (memPools s),
      stRoutes = memLookup (memRoutes s), stRules = memLookup (memRules s),
      stPodMonitors = memLookup (memPodMonitors s), stMonitors = memLookup (memMonitors s)\<rparr>"

definition memRS :: "string \<Rightarrow> memMS msReconciler" where
  "memRS provider =
     \<lparr>msApi = memApi ''*v1alpha1.ModelService'' memServices memServices_update,
      depApi = memApi ''*v1.Deployment'' memDeployments memDeployments_update,
      saApi = memApi ''*v1.ServiceAccount'' memAccounts memAccounts_update,
      cmApi = memApi ''*v1.ConfigMap'' memConfigMaps memConfigMaps_update,
      svcApi = memApi ''*v1.Service'' memSvcs memSvcs_update,
      secretApi = memApi ''*v1.Secret'' memSecrets memSecrets_update,
      roleApi = memApi ''*v1.Role'' memRoles memRoles_update,
      bindingApi = memApi ''*v1.RoleBinding'' memBindings memBindings_update,
      clusterRoleApi = memApi ''*v1.ClusterRole'' memClusterRoles memClusterRoles_update,
      clusterBindingApi = memApi ''*v1.ClusterRoleBinding'' memClusterBindings memClusterBindings_update,
      poolApi = memApi ''*v1.InferencePool'' memPools memPools_update,
      routeApi = memApi ''*v1.HTTPRoute'' memRoutes memRoutes_update,
      ruleApi = memApi destinationRuleType memRules memRules_update,
      podMonitorApi = memApi ''*v1.PodMonitor'' memPodMonitors memPodMonitors_update,
      svcMonitorApi = memApi ''*v1.ServiceMonitor'' memMonitors memMonitors_update,
      msSetControllerReference = memOwnerRef, msSetStatusCondition = (\<lambda>s. memSetCondition),
      msStatusSemEq = (=), depSpecSemEq = (=), labelsSemEq = (=), quantityStr = (\<lambda>q. ''8''),
      sha256Sum = (\<lambda>s. ''h''), msVersion = ''v1'',
      msDefaultImages = \<lparr>diEngine = ''vllm:1'', diEPP = ''epp:1'', diRoutingProxy = ''proxy:1''\<rparr>,
      msEPPConfig = exampleEPPConfig\<lparr>ecProvider := provider\<rparr>, msKitImage = ''kit''\<rparr>"

lemma memRS_simps [simp]:
  "msApi (memRS p) = memApi ''*v1alpha1.ModelService'' memServices memServices_update"
  "depApi (memRS p) = memApi ''*v1.Deployment'' memDeployments memDeployments_update"
  "saApi (memRS p) = memApi ''*v1.ServiceAccount'' memAccounts memAccounts_update"
  "cmApi (memRS p) = memApi ''*v1.ConfigMap'' memConfigMaps memConfigMaps_update"
  "svcApi (memRS p) = memApi ''*v1.Service'' memSvcs memSvcs_update"
  "secretApi (memRS p) = memApi ''*v1.Secret'' memSecrets memSecrets_update"
  "roleApi (memRS p) = memApi ''*v1.Role'' memRoles memRoles_update"
  "bindingApi (memRS p) = memApi ''*v1.RoleBinding'' memBindings memBindings_update"
  "clusterRoleApi (memRS p) = memApi ''*v1.ClusterRole'' memClusterRoles memClusterRoles_update"
  "clusterBindingApi (memRS p) = memApi ''*v1.ClusterRoleBinding'' memClusterBindings memClusterBindings_update"
  "poolApi (memRS p) = memApi ''*v1.InferencePool'' memPools memPools_update"
  "routeApi (memRS p) = memApi ''*v1.HTTPRoute'' memRoutes memRoutes_update"
  "ruleApi (memRS p) = memApi destinationRuleType memRules memRules_update"
  "podMonitorApi (memRS p) = memApi ''*v1.PodMonitor'' memPodMonitors memPodMonitors_update"
  "svcMonitorApi (memRS p) = memApi ''*v1.ServiceMonitor'' memMonitors memMonitors_update"
  "msSetControllerReference (memRS p) = memOwnerRef" "msSetStatusCondition (memRS p) = (\<lambda>s. memSetCondition)"
  "msStatusSemEq (memRS p) = (=)" "depSpecSemEq (memRS p) = (=)" "labelsSemEq (memRS p) = (=)"
  "msEPPConfig (memRS p) = exampleEPPConfig\<lparr>ecProvider := p\<rparr>" "msVersion (memRS p) = ''v1''"
  by (simp_all add: memRS_def)

lemma memApi_serves:
  fixes get :: "'s \<Rightarrow> 'b memStore"
  assumes "memLens get upd" and "\<And>s. sel (store s) = memLookup (get s)"
    and "\<And>f s. clear (store (upd f s)) = clear (store s)" and "\<And>st x. managed (memNamed st x) = managed x"
  shows "serves (memApi ty get upd) store sel clear managed"
proof -
  have v: "(\<lambda>s. sel (store s)) = memView get" by (rule ext) (simp add: assms(2) memView_def)
  note lens = memLens.lawful_get [OF assms(1)] memLens.lawful_create [OF assms(1,4)]
    memLens.lawful_update [OF assms(1)] memLens.lawful_delete [OF assms(1)] memLens.exact_semEq [OF assms(1)]
  have "installed (memApi ty get upd)"
    by (auto simp: installed_def memApi_def split: option.splits)
  then show ?thesis
    unfolding serves_def v by (intro conjI lens memApi_framed assms(3))
qed

lemma memApi_willing: "memLens get upd \<Longrightarrow> willing (memApi ty get upd) (memView get)"
  by (auto simp: willing_def memApi_def memView_def memNamed_def freshName_fresh Let_def
      split: option.splits if_splits)

lemma memApi_localised: "memLens get upd \<Longrightarrow> localised (memApi ty get upd) (memView get)"
  by (auto simp: localised_def memApi_def memView_def memLens_def memLookup_filter Let_def split: option.splits)

lemma memApi_statusOnly:
  assumes "memLens get upd"
  shows "statusOnly (memApi ty get upd) (memView get)"
proof -
  have "memLookup ((objKey x, x\<lparr>ometa := ometa y\<rparr>) # st) = (memLookup st)(objKey x \<mapsto> x\<lparr>ometa := ometa y\<rparr>)"
    if "memLookup st (objKey x) = Some y" for st and x y :: "'b kobj"
    using memLookup_key [OF that] by (intro memLookup_Cons) simp
  then show ?thesis
    using assms by (auto simp: statusOnly_def memApi_def memView_def memLens_def Let_def split: option.split)
qed

lemma memNamed_managed:
  "managedMS (memNamed st ms) = managedMS ms" "managedDeployment (memNamed st' d) = managedDeployment d"
  "managedAccount (memNamed st'' a) = managedAccount a" "managedSpec (memNamed st3 x) = managedSpec x"
  "managedService (memNamed st4 s) = managedService s" "managedSecret (memNamed st5 t) = managedSecret t"
  by (simp_all add: managedMS_def managedDeployment_def managedAccount_def managedSpec_def managedService_def
      managedSecret_def memNamed_def)

lemma cooperative_memRS: "cooperativeMS (memRS p) memStoreMS"
  unfolding cooperativeMS_def memRS_simps
  by (intro conjI memApi_serves memNamed_managed lawful_memOwnerRef lawful_memSetCondition)
    (simp_all add: memLens_def memStoreMS_def memLens.lawful_patch [unfolded memView_def [abs_def]])

lemma willing_memRS: "willingMS (memRS p) memStoreMS"
proof -
  have "ownable memOwnerRef" by (simp add: ownable_def lawful_memOwnerRef memOwnerRef_def)
  then show ?thesis
    unfolding willingMS_def memRS_simps
    by (intro conjI) (simp_all add: memLens_def memStoreMS_def memApi_willing [unfolded memView_def [abs_def]])
qed

lemma operates_memRS: "operates (memRS p) memStoreMS"
  unfolding operates_def memRS_simps
  by (intro conjI cooperative_memRS)
    (simp_all add: memStoreMS_def memLens_def memApi_statusOnly [unfolded memView_def [abs_def]]
      memApi_localised [unfolded memView_def [abs_def]])

section \<open>Worlds\<close>

definition emptyMS :: memMS where
  "emptyMS = \<lparr>memServices = [], memDeployments = [], memAccounts = [], memConfigMaps = [], memSvcs = [],
     memSecrets = [], memRoles = [], memBindings = [], memClusterRoles = [], memClusterBindings = [],
     memPools = [], memRoutes = [], memRules = [], memPodMonitors = [], memMonitors = []\<rparr>"

definition serviceWorld :: "modelService \<Rightarrow> memMS world" where
  "serviceWorld ms = \<lparr>server = emptyMS\<lparr>memServices := [(objKey ms, ms)]\<rparr>, calls = []\<rparr>"

lemma serviceWorld_simps [simp]:
  "stServices (memStoreMS (server (serviceWorld ms))) = [objKey ms \<mapsto> ms]"
  "stDeployments (memStoreMS (server (serviceWorld ms))) = Map.empty"
  "stClusterRoles (memStoreMS (server (serviceWorld ms))) = Map.empty"
  "stClusterBindings (memStoreMS (server (serviceWorld ms))) = Map.empty"
  by (simp_all add: serviceWorld_def memStoreMS_def emptyMS_def)

lemma serviceWorld_guarded: "guarded (memStoreMS (server (serviceWorld ms))) key"
  by (simp add: guarded_def clusterGone_def absent_def)

lemma exampleMS_simps [simp]:
  "objName exampleMS = ''qwen''" "objNamespace exampleMS = ''ml''" "timeIsZero (mDeletionTimestamp (ometa exampleMS))"
  "mssConditions (msSt exampleMS) = []" "msInferencePool (msSp exampleMS) \<noteq> None"
  by (simp_all add: exampleMS_def metaZero_def timeIsZero_def)

section \<open>Witnesses\<close>



theorem cluster_rbac_is_never_orphaned_witness:
  "\<exists>w'. ReconcileMS (memRS ''istio'') (''ml'', ''qwen'') (serviceWorld exampleMS) = (Inr (), w') \<and>
     guarded (memStoreMS (server w')) (''ml'', ''qwen'')"
proof -
  obtain w' where run: "ReconcileMS (memRS ''istio'') (''ml'', ''qwen'') (serviceWorld exampleMS) = (Inr (), w')"
    using ReconcileMS_returns [OF cooperative_memRS willing_memRS] by blast
  have "statusOnly (msApi (memRS ''istio'')) (\<lambda>s. stServices (memStoreMS s))"
    by (simp add: memStoreMS_def memLens_def memApi_statusOnly [unfolded memView_def [abs_def]])
  from cluster_rbac_is_never_orphaned [OF cooperative_memRS this serviceWorld_guarded run] run
  show ?thesis by blast
qed

definition deletedMS :: modelService where
  "deletedMS = exampleMS\<lparr>ometa := (ometa exampleMS)\<lparr>mDeletionTimestamp := Some 5,
     mFinalizers := [FinalizerClusterRBAC]\<rparr>\<rparr>"


theorem epp_deployment_follows_its_inputs_witness:
  "\<exists>w'. reconcileResourcesMS (memRS ''istio'') exampleMS (serviceWorld exampleMS) = (Inr (), w') \<and>
     present (stConfigMaps (memStoreMS (server w'))) managedSpec
       (BuildEPPConfigMap exampleMS (eppLabelsOf (memRS ''istio'') exampleMS))"
proof -
  obtain w' where run: "reconcileResourcesMS (memRS ''istio'') exampleMS (serviceWorld exampleMS) = (Inr (), w')"
    using returnsD [OF sync_returns [OF cooperative_memRS willing_memRS]] by fastforce
  have loc: "localised (depApi (memRS ''istio'')) (\<lambda>s. stDeployments (memStoreMS s))"
    by (simp add: memStoreMS_def memLens_def memApi_localised [unfolded memView_def [abs_def]])
  have "eppInSync (memRS ''istio'') exampleMS (stDeployments (memStoreMS (server w')))"
    using sync_reaches_desired_state [OF cooperative_memRS _ run] by (simp add: inSync_def)
  then have "stDeployments (memStoreMS (server w')) (objNamespace exampleMS, EPPName (objName exampleMS)) \<noteq>
    stDeployments (memStoreMS (server (serviceWorld exampleMS))) (objNamespace exampleMS, EPPName (objName exampleMS))"
    by (auto simp: eppInSync_def present_def)
  from epp_deployment_follows_its_inputs [OF cooperative_memRS loc run this] run show ?thesis by blast
qed

theorem service_status_is_a_fixed_point_witness:
  "let s = server (serviceWorld exampleMS); obs = observed Map.empty exampleMS;
       st = newStatusMS (memRS ''istio'') s exampleMS obs
   in newStatusMS (memRS ''istio'') s (setMsStatus st exampleMS) obs = st"
  using service_status_is_a_fixed_point [OF _ _ refl, where R = "memRS ''istio''" and ms = exampleMS
      and s = "server (serviceWorld exampleMS)" and obs = "observed Map.empty exampleMS"] lawful_memSetCondition
  unfolding Let_def by auto

definition renamed :: "string \<Rightarrow> modelService" where
  "renamed n = exampleMS\<lparr>ometa := (ometa exampleMS)\<lparr>mName := n\<rparr>\<rparr>"

lemma renamed_simps [simp]: "objName (renamed n) = n" "objNamespace (renamed n) = ''ml''"
  by (simp_all add: renamed_def)

theorem sync_removes_the_pool_of_another_service_witness:
  "\<exists>w'. EnsureInferencePool (memRS ''istio'') (renamed ''foo'')
      \<lparr>server = emptyMS\<lparr>memPools := [(objKey (desiredPool (memRS ''istio'') (renamed ''foo-epp'')),
         desiredPool (memRS ''istio'') (renamed ''foo-epp''))]\<rparr>, calls = []\<rparr> = (Inr (), w') \<and>
    absent (stPools (memStoreMS (server w'))) (objKey (desiredPool (memRS ''istio'') (renamed ''foo-epp'')))"
proof -
  let ?w = "\<lparr>server = emptyMS\<lparr>memPools := [(objKey (desiredPool (memRS ''istio'') (renamed ''foo-epp'')),
         desiredPool (memRS ''istio'') (renamed ''foo-epp''))]\<rparr>, calls = []\<rparr>"
  have name: "EPPName ''foo'' = ''foo-epp''" using dns1035_simple by (simp add: EPPName_def sanitize_id)
  have "willing (poolApi (memRS ''istio'')) (\<lambda>s. stPools (memStoreMS s))"
    by (rule willingMS_all(10) [OF willing_memRS])
  moreover have "lawfulGet (poolApi (memRS ''istio'')) (\<lambda>s. stPools (memStoreMS s))"
    by (rule servesD(1) [OF cooperativeMS_serves(11) [OF cooperative_memRS]])
  moreover have "ownable (msSetControllerReference (memRS ''istio''))"
    by (rule willingMS_all(16) [OF willing_memRS])
  ultimately have "returns (EnsureInferencePool (memRS ''istio'') (renamed ''foo''))"
    unfolding EnsureInferencePool_def by (intro returns_attempt spec.returns_ensure built_unowned)
  from returnsD [OF this] obtain w' where
    run: "EnsureInferencePool (memRS ''istio'') (renamed ''foo'') ?w = (Inr (), w')" by fastforce
  from sync_removes_the_pool_of_another_service [OF cooperative_memRS willing_memRS _ _ _ _ run,
      of "renamed ''foo-epp''"] run name
  show ?thesis by simp
qed

definition monitoredMS :: modelService where
  "monitoredMS = setMsSpec ((msSp exampleMS)\<lparr>msMonitoring := Some \<lparr>monPodMonitor =
     Some \<lparr>pmsEnabled = True, pmsPortName = '''', pmsPath = '''', pmsInterval = ''''\<rparr>\<rparr>\<rparr>) exampleMS"

lemma monitoredMS_simps [simp]: "objName monitoredMS = ''qwen''" "objNamespace monitoredMS = ''ml''"
  "msInferencePool (msSp monitoredMS) \<noteq> None" "monitoringEnabled monitoredMS"
  by (simp_all add: monitoredMS_def setMsSpec_def monitoringEnabled_def)

theorem gke_monitor_asks_for_a_removed_secret_witness:
  "\<exists>w' m e. reconcileResourcesMS (memRS ''gke'') monitoredMS (serviceWorld monitoredMS) = (Inr (), w') \<and>
     stMonitors (memStoreMS (server w')) (''ml'', EPPServiceMonitorName ''qwen'') = Some m \<and>
     smEndpoints (obody m) = [e] \<and> meAuthorization e = Some (EPPSecretName ''qwen'', ''token'') \<and>
     absent (stSecrets (memStoreMS (server w'))) (''ml'', EPPSecretName ''qwen'')"
proof -
  obtain w' where run: "reconcileResourcesMS (memRS ''gke'') monitoredMS (serviceWorld monitoredMS) = (Inr (), w')"
    using returnsD [OF sync_returns [OF cooperative_memRS willing_memRS]] by fastforce
  have "ecProvider (msEPPConfig (memRS ''gke'')) = ProviderGKE" "ecMetricsEndpointAuth (msEPPConfig (memRS ''gke''))"
    by (simp_all add: exampleEPPConfig_def)
  from gke_monitor_asks_for_a_removed_secret [OF cooperative_memRS _ _ _ this run] run show ?thesis by simp
qed

section \<open>A cluster in sync\<close>

definition filed :: "'b kobj list \<Rightarrow> 'b memStore" where
  "filed xs = map (\<lambda>x. (objKey x, x)) xs"

lemma filed_Nil: "memLookup (filed []) = Map.empty"
  by (simp add: filed_def)

lemma filed_Cons: "memLookup (filed (x # xs)) = (memLookup (filed xs))(objKey x \<mapsto> x)"
  by (simp add: filed_def)

lemma filed_member: "memLookup (filed xs) k = Some x \<Longrightarrow> x \<in> set xs"
  by (auto simp: filed_def dest!: memLookup_set)

lemma filed_present: "distinct (map objKey xs) \<Longrightarrow> d \<in> set xs \<Longrightarrow> present (memLookup (filed xs)) managed d"
proof (induction xs)
  case Nil
  then show ?case by simp
next
  case (Cons x xs)
  show ?case
  proof (cases "d = x")
    case True
    then show ?thesis by (simp add: present_def filed_Cons)
  next
    case False
    with Cons.prems(2) have "d \<in> set xs" by simp
    then have "objKey d \<in> objKey ` set xs" by (rule imageI)
    moreover from Cons.prems(1) have "objKey x \<notin> objKey ` set xs" by simp
    ultimately have "objKey d \<noteq> objKey x" by metis
    with Cons \<open>d \<in> set xs\<close> show ?thesis by (auto simp: present_def filed_Cons)
  qed
qed

definition syncedMS :: "memMS msReconciler \<Rightarrow> modelService \<Rightarrow> memMS" where
  "syncedMS R ms =
     (let l = eppLabelsOf R ms; rb = BuildEPPRBAC ms l (eppReplicasOf ms); crb = BuildEPPClusterRBAC ms l
      in emptyMS\<lparr>memDeployments := filed
          [servingDeployment R ms (msDecode (msSp ms)) RoleDecode (DecodeName (objName ms)) ComponentDecode,
           servingDeployment R ms exampleRole RolePrefill (PrefillName (objName ms)) ComponentPrefill,
           eppDeployment R ms (ConfigMapHash (sha256Sum R) ms)],
        memAccounts := filed [BuildEPPServiceAccount ms l], memConfigMaps := filed [BuildEPPConfigMap ms l],
        memSvcs := filed [BuildEPPService ms l (EPPSelectorLabels (objName ms))],
        memSecrets := filed [BuildEPPSATokenSecret ms l], memRoles := filed [fst rb], memBindings := filed [snd rb],
        memClusterRoles := filed [fst crb], memClusterBindings := filed [snd crb],
        memPools := filed [desiredPool R ms],
        memRoutes := filed [BuildDefaultHTTPRoute ms (HTTPRouteLabels (objName ms) (msVersion R))
          (ecDefaultGatewayName (msEPPConfig R)) (InferencePoolName (objName ms))],
        memPodMonitors := filed [podMonitorFor R ms ComponentDecode RoleDecode,
          podMonitorFor R ms ComponentPrefill RolePrefill]\<rparr>)"

lemma exampleMS_spec:
  "msPrefill (msSp exampleMS) = Some exampleRole" "msHTTPRoute (msSp exampleMS) = None"
  "podMonitorsEnabled exampleMS" "\<not> monitoringEnabled exampleMS"
  by (simp_all add: exampleMS_def podMonitorsEnabled_def monitoringEnabled_def)

lemma podMonitorFor_key: "objKey (podMonitorFor R ms c r) = (objNamespace ms, PodMonitorName (objName ms) r)"
  by (simp add: podMonitorFor_def BuildPodMonitor_def metaZero_def Let_def)

text \<open>What \<open>syncedMS\<close> needs of a service to be its desired state.\<close>

definition likeExample :: "modelService \<Rightarrow> bool" where
  "likeExample ms \<longleftrightarrow>
     objName ms = ''qwen'' \<and> msInferencePool (msSp ms) \<noteq> None \<and> msPrefill (msSp ms) = Some exampleRole \<and>
     msHTTPRoute (msSp ms) = None \<and> podMonitorsEnabled ms \<and> \<not> monitoringEnabled ms"

lemma likeExample_example: "likeExample exampleMS"
  by (simp add: likeExample_def exampleMS_spec)

lemma synced_inSync:
  assumes "likeExample ms"
  shows "inSync (memRS ''none'') ms (memStoreMS (syncedMS (memRS ''none'') ms))"
proof -
  have cfg: "needsSecret (memRS ''none'') ms" "needsClusterRBAC (memRS ''none'') ms"
    "ecDefaultGatewayName (msEPPConfig (memRS ''none'')) \<noteq> ''''"
    using assms by (simp_all add: likeExample_def needsSecret_def needsClusterRBAC_def exampleEPPConfig_def)
  show ?thesis
    using cfg assms [unfolded likeExample_def]
    by (simp add: inSync_def decodeInSync_def prefillInSync_def eppInSync_def routeInSync_def podMonitorsInSync_def
        memStoreMS_def syncedMS_def Let_def case_prod_unfold filed_present podMonitorFor_key
        nameSuffixes PodMonitorName_def emptyMS_def absent_def)
qed

lemma filed_live: "list_all isLive xs \<Longrightarrow> memLookup (filed xs) k = Some x \<Longrightarrow> isLive x"
  by (auto simp: list_all_iff dest: filed_member)

lemma synced_undisturbed:
  assumes "likeExample ms"
  shows "undisturbed (memRS ''none'') ms (memStoreMS (syncedMS (memRS ''none'') ms))"
proof -
  let ?s = "syncedMS (memRS ''none'') ms"
  have "EPPName ''qwen'' \<noteq> ''qwen''"
  proof -
    have "last (EPPName ''qwen'') = CHR ''p''" by (simp add: EPPName_def)
    then show ?thesis by auto
  qed
  then have "stPools (memStoreMS ?s) (objNamespace ms, EPPName (objName ms)) = None"
    using assms by (simp add: likeExample_def memStoreMS_def syncedMS_def Let_def filed_Nil filed_Cons desiredPool_def
        BuildDefaultInferencePool_def BuildInferencePool_def InferencePoolName_def metaZero_def split: option.split)
  moreover have "isLive (BuildEPPSATokenSecret m l)" "isLive (fst (BuildEPPClusterRBAC m l))" 
    "isLive (snd (BuildEPPClusterRBAC m l))" "isLive (BuildDefaultHTTPRoute m l g n)" "isLive (podMonitorFor R m n g)"
    "isLive (servingDeployment R m ro n g g')" "isLive (eppDeployment R m g)" for m l g n R ro g'
    by (simp_all add: timeIsZero_def BuildEPPSATokenSecret_def BuildEPPClusterRBAC_def BuildDefaultHTTPRoute_def
        podMonitorFor_def BuildPodMonitor_def servingDeployment_def BuildDeployment_def eppDeployment_def
        BuildEPPDeployment_def Let_def metaZero_def)
  ultimately show ?thesis
    unfolding undisturbed_def
    by (auto simp: memStoreMS_def syncedMS_def Let_def emptyMS_def dest!: filed_live [rotated])
qed


text \<open>A service that is in sync and shows its status, with everything the sync made of it.\<close>

definition restingMS :: modelService where
  "restingMS =
     (let R = memRS ''none''; F = exampleMS\<lparr>ometa := (ometa exampleMS)\<lparr>mFinalizers := [FinalizerClusterRBAC]\<rparr>\<rparr>;
          s = syncedMS R (ApplyImageDefaults (msDefaultImages R) F)
      in setMsStatus (newStatusMS R s F (observed (stDeployments (memStoreMS s)) F)) F)"

definition restingWorld :: "memMS world" where
  "restingWorld = \<lparr>server = (syncedMS (memRS ''none'') (ApplyImageDefaults (msDefaultImages (memRS ''none'')) restingMS))
     \<lparr>memServices := [(objKey restingMS, restingMS)]\<rparr>, calls = []\<rparr>"

lemma restingMS_simps [simp]:
  "objName restingMS = ''qwen''" "objNamespace restingMS = ''ml''" "msSp restingMS = msSp exampleMS"
  "timeIsZero (mDeletionTimestamp (ometa restingMS))" "hasFinalizer restingMS"
  by (simp_all add: restingMS_def Let_def hasFinalizer_def)

lemma restingMS_resting:
  "distinct (map condType (mssConditions (msSt restingMS)))"
  "newStatusMS (memRS ''none'') s restingMS (observed (stDeployments (memStoreMS (server restingWorld))) restingMS) =
     msSt restingMS"
proof -
  let ?R = "memRS ''none''" and ?F = "exampleMS\<lparr>ometa := (ometa exampleMS)\<lparr>mFinalizers := [FinalizerClusterRBAC]\<rparr>\<rparr>"
  let ?s = "syncedMS ?R (ApplyImageDefaults (msDefaultImages ?R) ?F)"
  let ?obs = "observed (stDeployments (memStoreMS ?s)) ?F"
  have F: "restingMS = setMsStatus (newStatusMS ?R ?s ?F ?obs) ?F" by (simp add: restingMS_def Let_def)
  have law: "lawfulSetStatusCondition (msSetStatusCondition ?R)" by (simp add: lawful_memSetCondition)
  have dist: "distinct (map condType (mssConditions (msSt ?F)))" by simp
  from storedConditions_ok(1) [OF law dist]
  show "distinct (map condType (mssConditions (msSt restingMS)))"
    by (simp add: F newStatusMS_def conditionsOk_def)
  have "stDeployments (memStoreMS (server restingWorld)) = stDeployments (memStoreMS ?s)"
    by (simp add: restingWorld_def memStoreMS_def syncedMS_def Let_def F ApplyImageDefaults_status built_from_spec)
  moreover have "newStatusMS ?R s (setMsStatus (newStatusMS ?R ?s ?F ?obs) ?F) ?obs = newStatusMS ?R ?s ?F ?obs"
    using service_status_is_a_fixed_point [OF law dist refl] by blast
  ultimately show "newStatusMS ?R s restingMS (observed (stDeployments (memStoreMS (server restingWorld))) restingMS) =
     msSt restingMS"
    by (simp add: F observed_status)
qed

lemma restingWorld_sync:
  "inSync (memRS ''none'') (ApplyImageDefaults (msDefaultImages (memRS ''none'')) restingMS) (memStoreMS (server restingWorld))"
  "undisturbed (memRS ''none'') (ApplyImageDefaults (msDefaultImages (memRS ''none'')) restingMS)
     (memStoreMS (server restingWorld))"
  "stServices (memStoreMS (server restingWorld)) (''ml'', ''qwen'') = Some restingMS"
proof -
  let ?m = "ApplyImageDefaults (msDefaultImages (memRS ''none'')) restingMS"
  have like: "likeExample ?m"
    using exampleMS_spec ApplyImageDefaults_key [of _ restingMS]
    by (simp add: likeExample_def ApplyImageDefaults_def setMsSpec_def Let_def exampleMS_def podMonitorsEnabled_def
        monitoringEnabled_def)
  have store: "memStoreMS (server restingWorld) = stServices_update (\<lambda>_. memLookup [(objKey restingMS, restingMS)])
      (memStoreMS (syncedMS (memRS ''none'') ?m))"
    by (simp add: restingWorld_def memStoreMS_def)
  show "inSync (memRS ''none'') ?m (memStoreMS (server restingWorld))"
    using synced_inSync [OF like] by (simp add: store inSync_services)
  show "undisturbed (memRS ''none'') ?m (memStoreMS (server restingWorld))"
    using synced_undisturbed [OF like] by (simp add: store undisturbed_def)
  show "stServices (memStoreMS (server restingWorld)) (''ml'', ''qwen'') = Some restingMS"
    by (simp add: store)
qed


section \<open>The system\<close>

theorem cluster_rbac_accounted_in_every_state_witness:
  "\<exists>w'. ReconcileMS (memRS ''istio'') (''ml'', ''qwen'') (serviceWorld exampleMS) = (Inr (), w') \<and>
     (clusterGone (memStoreMS (server w')) (''ml'', ''qwen'') \<or>
      (\<exists>key' ms. clusterKey key' = clusterKey (''ml'', ''qwen'') \<and>
         stServices (memStoreMS (server w')) key' = Some ms \<and> hasFinalizer ms))"
proof -
  obtain w' where run: "ReconcileMS (memRS ''istio'') (''ml'', ''qwen'') (serviceWorld exampleMS) = (Inr (), w')"
    using ReconcileMS_returns [OF cooperative_memRS willing_memRS] by blast
  have "serviceSystem memStoreMS (serviceWorld exampleMS)"
    by (rule serviceSystem.start) (simp add: clusterGone_def absent_def)
  from serviceSystem.reconciled [OF this operates_memRS run] have "serviceSystem memStoreMS w'" .
  from cluster_rbac_accounted_in_every_state [OF this, of "(''ml'', ''qwen'')"] run show ?thesis by blast
qed

section \<open>A refused read\<close>

definition refusing :: "('s, 'b) kindApi \<Rightarrow> ('s, 'b) kindApi" where
  "refusing K = K\<lparr>apiGet := \<lambda>k s. (Inl (OtherError ''refused''), s)\<rparr>"

lemma refusing_simps [simp]:
  "apiGet (refusing K) k s = (Inl (OtherError ''refused''), s)" "apiList (refusing K) = apiList K"
  "apiCreate (refusing K) = apiCreate K" "apiUpdate (refusing K) = apiUpdate K" "apiDelete (refusing K) = apiDelete K"
  "apiPatchStatus (refusing K) = apiPatchStatus K" "semEq (refusing K) = semEq K" "typeName (refusing K) = typeName K"
  by (simp_all add: refusing_def)

lemma refusing_laws:
  "lawfulGet (refusing K) v" "installed (refusing K)" "lawfulCreate (refusing K) v m = lawfulCreate K v m"
  "lawfulUpdate (refusing K) v m = lawfulUpdate K v m" "lawfulDelete (refusing K) v = lawfulDelete K v"
  "exactSemEq (refusing K) = exactSemEq K" "framed K f \<Longrightarrow> framed (refusing K) f"
  by (simp_all add: lawfulGet_def installed_def lawfulCreate_def lawfulUpdate_def lawfulDelete_def exactSemEq_def framed_def)

lemma refusing_serves: "serves K store sel clear managed \<Longrightarrow> serves (refusing K) store sel clear managed"
  unfolding serves_def by (simp only: refusing_laws simp_thms)

definition refusedRS :: "memMS msReconciler" where
  "refusedRS = (memRS ''istio'')\<lparr>depApi := refusing (depApi (memRS ''istio''))\<rparr>"

definition finalizedMS :: modelService where
  "finalizedMS = exampleMS\<lparr>ometa := (ometa exampleMS)\<lparr>mFinalizers := [FinalizerClusterRBAC]\<rparr>\<rparr>"

lemma finalizedMS_simps [simp]:
  "objName finalizedMS = ''qwen''" "objNamespace finalizedMS = ''ml''" "hasFinalizer finalizedMS"
  "timeIsZero (mDeletionTimestamp (ometa finalizedMS))"
  by (simp_all add: finalizedMS_def hasFinalizer_def)

lemma cooperative_refusedRS: "cooperativeMS refusedRS memStoreMS"
  using cooperative_memRS [of "''istio''"] refusing_serves [OF cooperativeMS_serves(2) [OF cooperative_memRS [of "''istio''"]]]
  unfolding cooperativeMS_def refusedRS_def by simp

lemma refused_sync:
  "reconcileResourcesMS refusedRS ms w = (Inl (ApiE (OtherError ''refused'')),
     logCall (ApiCall VGet ''*v1.Deployment'' (objNamespace ms) (DecodeName (objName ms))) (server w) w)"
proof -
  have "EnsureDecodeDeployment refusedRS ms w = (Inl (ApiE (OtherError ''refused'')),
     logCall (ApiCall VGet ''*v1.Deployment'' (objNamespace ms) (DecodeName (objName ms))) (server w) w)"
    by (simp add: EnsureDecodeDeployment_def ensureDeployment_def applyDeployment_def refusedRS_def refusing_def
        memOwnerRef_def Let_def attempt_def clientGet_def fail_def  servingDeployment_def memApi_def)
  then show ?thesis by (simp add: reconcileResourcesMS_def resourceSteps_def)
qed


end
