(* ===== verification/OperatorMem.thy ===== *)
theory OperatorMem
  imports PodTypes ServiceMem ArtifactMem
begin

text \<open>
  The operator with its default flags, on the in-memory server: the witnesses of the properties of
  \<open>Operator\<close> and \<open>PodTypes\<close> that have hypotheses.
\<close>

theorem every_container_has_an_image_witness:
  "(let R = newServiceReconciler defaultFlags ''devel'' (memRS ProviderIstio);
        ms = ApplyImageDefaults (msDefaultImages R) exampleMS
    in '''' \<notin> podImages (depPodSpec (servingDeployment R ms exampleRole RoleDecode ''qwen-decode'' ''decode'')) \<and>
       '''' \<notin> podImages (depPodSpec (eppDeployment R ms ''h'')) \<and>
       '''' \<notin> podImages (jobPodSpec (BuildJob exampleMA
         (maKitImage (newArtifactReconciler defaultFlags ''devel'' memR)) Map.empty)))"
  unfolding Let_def
  by (rule every_container_has_an_image [OF defaultFlags_images refl refl])

theorem unwatched_children_witness:
  "{ty \<in> set (childTypes (memRS ProviderIstio)).
      ty \<notin> set (watchOwns (SetupWithManagerMS (memRS ProviderIstio)))} =
    {''*v1.ClusterRole'', ''*v1.ClusterRoleBinding'', destinationRuleType, ''*v1.PodMonitor'', ''*v1.ServiceMonitor''}"
proof -
  have "distinct (childTypes (memRS ProviderIstio))"
    by (simp add: childTypes_def memApi_def)
  from unwatched_children [OF this] show ?thesis by (simp add: memApi_def)
qed

theorem every_workload_is_well_formed_witness:
  "wellFormedDeployment (servingDeployment (memRS ProviderIstio) exampleMS exampleRole RoleDecode ''qwen-decode'' ComponentDecode) \<and>
   wellFormedDeployment (eppDeployment (memRS ProviderIstio) exampleMS ''h'') \<and>
   wellFormedPod (jobPodSpec (BuildJob exampleMA ''kit'' Map.empty))"
proof -
  have "wellTypedMS exampleMS" by (simp add: wellTypedMS_def exampleMS_def)
  from every_workload_is_well_formed [OF this] show ?thesis .
qed

text \<open>The engine on the default port of vLLM behind the proxy.\<close>

definition clashingMS :: modelService where
  "clashingMS = setMsSpec ((msSp exampleMS)\<lparr>msEngine := (msEngine (msSp exampleMS))\<lparr>enPort := 8200\<rparr>\<rparr>) exampleMS"

theorem ports_clash_exactly_witness:
  "wellTypedMS clashingMS \<and>
   \<not> portsApart (depPodSpec (servingDeployment (memRS ProviderIstio) clashingMS exampleRole RoleDecode ''qwen-decode'' ComponentDecode)) \<and>
   portsApart (depPodSpec (eppDeployment (memRS ProviderIstio) clashingMS ''h''))"
proof -
  have "enginePort clashingMS = 8200" "routingProxyTargetPort clashingMS = 8200" "msRoutingProxy (msSp clashingMS) \<noteq> None"
    "wellTypedMS clashingMS" "eppExtProcPort (eppSpecOf images clashingMS) = 9002" for images
    by (simp_all add: clashingMS_def setMsSpec_def exampleMS_def enginePort_def routingProxyTargetPort_def wellTypedMS_def
        eppExtProcPort_def eppSpecOf_def word_sless_alt)
  with ports_clash_exactly [of "memRS ProviderIstio" clashingMS exampleRole RoleDecode "''qwen-decode''" ComponentDecode "''h''"]
  show ?thesis by simp
qed

text \<open>Packages that write down the groups they register.\<close>

definition noting :: "string list \<Rightarrow> (string list, string, unit) io" where
  "noting gs c = (Inr (), gs @ c)"

lemma noting_registers: "registers set (noting gs) gs"
  by (simp add: registers_def noting_def)

definition memScheme :: "string list schemeLib" where
  "memScheme =
     \<lparr>clientgoAddToScheme = noting ['''', ''apps'', ''batch'', ''rbac.authorization.k8s.io''],
      modelAddToScheme = noting [''model.otterscale.io''],
      gatewayInstall = noting [''gateway.networking.k8s.io''],
      inferenceInstall = noting [''inference.networking.k8s.io''],
      istioAddToScheme = noting [''networking.istio.io''],
      monitoringAddToScheme = noting [''monitoring.coreos.com'']\<rparr>"

theorem scheme_knows_every_kind_witness:
  "\<exists>c. initScheme memScheme [] = (Inr (), c) \<and> krGroup ` set (kindsMA memR @ kindsMS (memRS ProviderIstio)) \<subseteq> set c"
proof -
  have reg: "packagesRegister set memScheme"
    by (simp add: packagesRegister_def memScheme_def noting_registers)
  obtain c where c: "initScheme memScheme [] = (Inr (), c)"
    by (simp add: initScheme_def memScheme_def noting_def)
  with scheme_knows_every_kind [OF reg c] show ?thesis by (intro exI [of _ c] conjI)
qed

end
