(* ===== verification/TestUtils.thy ===== *)
theory TestUtils
  imports GoStrings
begin

text \<open>
  The utilities of the end-to-end tests (\<open>src/test/utils/utils.go\<close>) and the set-up and tear-down of
  the suite that uses them (\<open>src/test/e2e/e2e_suite_test.go\<close>). The operating system and the programs
  that are started are parameters; what the suite did to them is kept in the order it did it.
\<close>

section \<open>The host\<close>

record command =
  cmdArgs :: "string list"
  cmdDir :: string
  cmdEnv :: "string list"

definition osCommand :: "string list \<Rightarrow> command" where
  "osCommand args = \<lparr>cmdArgs = args, cmdDir = [], cmdEnv = []\<rparr>"

datatype utilError =
    GetwdError string
  | CommandError string string string
  | ReadError string string
  | CodeNotFound string
  | WriteError string string

datatype logLine =
    ChdirWarning string
  | RunningCommand string
  | ErrorWarning utilError
  | SkippedInstall
  | AlreadyInstalled
  | SkippedCleanup

text \<open>
  A command that ran, with its output and its error, if any. \<open>shouldCleanup\<close> is the variable
  \<open>shouldCleanupCertManager\<close> of the suite.
\<close>

type_synonym ran = "command \<times> string \<times> string option"

record 's host =
  hostState :: 's
  hostRuns :: "ran list"
  hostLog :: "logLine list"
  shouldCleanup :: bool

record 's hostLib =
  osGetwd :: "'s \<Rightarrow> string \<times> string option"
  osChdir :: "string \<Rightarrow> 's \<Rightarrow> string option \<times> 's"
  osEnviron :: "'s \<Rightarrow> string list"
  osLookupEnv :: "string \<Rightarrow> 's \<Rightarrow> string option"
  osExec :: "command \<Rightarrow> 's \<Rightarrow> (string \<times> string option) \<times> 's"
  osReadFile :: "string \<Rightarrow> 's \<Rightarrow> string + string"
  osWriteFile :: "string \<Rightarrow> string \<Rightarrow> 's \<Rightarrow> string option \<times> 's"

definition noteLine :: "logLine \<Rightarrow> 's host \<Rightarrow> 's host" where
  "noteLine l w = w\<lparr>hostLog := hostLog w @ [l]\<rparr>"

section \<open>Running commands\<close>

definition GetProjectDir :: "'s hostLib \<Rightarrow> 's \<Rightarrow> string \<times> utilError option" where
  "GetProjectDir H s =
     (case osGetwd H s of
        (wd, Some e) \<Rightarrow> (wd, Some (GetwdError e))
      | (wd, None) \<Rightarrow> (replaceAll wd ''/test/e2e'' [], None))"

definition Run :: "'s hostLib \<Rightarrow> command \<Rightarrow> 's host \<Rightarrow> (string \<times> utilError option) \<times> 's host" where
  "Run H cmd w =
     (let dir = fst (GetProjectDir H (hostState w));
          (ce, s1) = osChdir H dir (hostState w);
          w1 = (case ce of None \<Rightarrow> id | Some e \<Rightarrow> noteLine (ChdirWarning e)) (w\<lparr>hostState := s1\<rparr>);
          cmd1 = cmd\<lparr>cmdDir := dir, cmdEnv := osEnviron H s1 @ [''GO111MODULE=on'']\<rparr>;
          commandText = joinStrings '' '' (cmdArgs cmd);
          w2 = noteLine (RunningCommand commandText) w1;
          ((out, err), s2) = osExec H cmd1 (hostState w2);
          w3 = w2\<lparr>hostState := s2, hostRuns := hostRuns w2 @ [(cmd1, out, err)]\<rparr>
      in case err of
           Some e \<Rightarrow> ((out, Some (CommandError commandText out e)), w3)
         | None \<Rightarrow> ((out, None), w3))"

text \<open>The caller that only looks at the error.\<close>

definition runChecked :: "'s hostLib \<Rightarrow> command \<Rightarrow> ('s host, utilError, unit) io" where
  "runChecked H cmd w =
     (case Run H cmd w of
        ((out, Some e), w') \<Rightarrow> (Inl e, w')
      | ((out, None), w') \<Rightarrow> (Inr (), w'))"

section \<open>cert-manager\<close>

definition certManagerURL :: string where
  "certManagerURL =
     ''https://github.com/cert-manager/cert-manager/releases/download/'' @ ''v1.19.3'' @ ''/cert-manager.yaml''"

definition warnError :: "utilError \<Rightarrow> 's host \<Rightarrow> 's host" where
  "warnError e = noteLine (ErrorWarning e)"

definition runWarned :: "'s hostLib \<Rightarrow> command \<Rightarrow> 's host \<Rightarrow> 's host" where
  "runWarned H cmd w =
     (case Run H cmd w of
        ((out, Some e), w') \<Rightarrow> warnError e w'
      | ((out, None), w') \<Rightarrow> w')"

definition uninstallArgs :: "string list" where
  "uninstallArgs = [''kubectl'', ''delete'', ''-f'', certManagerURL]"

definition UninstallCertManager :: "'s hostLib \<Rightarrow> 's host \<Rightarrow> 's host" where
  "UninstallCertManager H w =
     fold (\<lambda>lease. runWarned H (osCommand [''kubectl'', ''delete'', ''lease'', lease,
             ''-n'', ''kube-system'', ''--ignore-not-found'', ''--force'', ''--grace-period=0'']))
       [''cert-manager-cainjector-leader-election'', ''cert-manager-controller'']
       (runWarned H (osCommand uninstallArgs) w)"

definition installArgs :: "string list" where
  "installArgs = [''kubectl'', ''apply'', ''-f'', certManagerURL]"

definition InstallCertManager :: "'s hostLib \<Rightarrow> ('s host, utilError, unit) io" where
  "InstallCertManager H =
     andThen (runChecked H (osCommand installArgs))
       (\<lambda>_. runChecked H (osCommand [''kubectl'', ''wait'', ''deployment.apps/cert-manager-webhook'',
              ''--for'', ''condition=Available'', ''--namespace'', ''cert-manager'', ''--timeout'', ''5m'']))"

definition GetNonEmptyLines :: "string \<Rightarrow> string list" where
  "GetNonEmptyLines out = filter (\<lambda>l. l \<noteq> []) (splitLines out)"

definition certManagerCRDs :: "string list" where
  "certManagerCRDs =
     [''certificates.cert-manager.io'', ''issuers.cert-manager.io'', ''clusterissuers.cert-manager.io'',
      ''certificaterequests.cert-manager.io'', ''orders.acme.cert-manager.io'', ''challenges.acme.cert-manager.io'']"

definition listsCertManager :: "string \<Rightarrow> bool" where
  "listsCertManager out \<longleftrightarrow>
     list_ex (\<lambda>crd. list_ex (\<lambda>line. stringContains line crd) (GetNonEmptyLines out)) certManagerCRDs"

definition IsCertManagerCRDsInstalled :: "'s hostLib \<Rightarrow> 's host \<Rightarrow> bool \<times> 's host" where
  "IsCertManagerCRDsInstalled H w =
     (case Run H (osCommand [''kubectl'', ''get'', ''crds'']) w of
        ((out, Some e), w') \<Rightarrow> (False, w')
      | ((out, None), w') \<Rightarrow> (listsCertManager out, w'))"

definition LoadImageToKindClusterWithName :: "'s hostLib \<Rightarrow> string \<Rightarrow> ('s host, utilError, unit) io" where
  "LoadImageToKindClusterWithName H name w =
     (let cluster = (case osLookupEnv H ''KIND_CLUSTER'' (hostState w) of Some v \<Rightarrow> v | None \<Rightarrow> ''kind'');
          kindBinary = (case osLookupEnv H ''KIND'' (hostState w) of Some v \<Rightarrow> v | None \<Rightarrow> ''kind'')
      in runChecked H (osCommand (kindBinary # [''load'', ''docker-image'', name, ''--name'', cluster])) w)"

section \<open>Uncommenting\<close>

definition UncommentCode :: "'s hostLib \<Rightarrow> string \<Rightarrow> string \<Rightarrow> string \<Rightarrow> ('s host, utilError, unit) io" where
  "UncommentCode H filename target pre w =
     (case osReadFile H filename (hostState w) of
        Inl e \<Rightarrow> (Inl (ReadError filename e), w)
      | Inr content \<Rightarrow>
          (case stringIndex content target of
             None \<Rightarrow> (Inl (CodeNotFound target), w)
           | Some idx \<Rightarrow>
               (case scanLines target of
                  [] \<Rightarrow> (Inr (), w)
                | ls \<Rightarrow>
                    (let out = take idx content
                               @ joinStrings [newline] (map (\<lambda>l. trimPrefix l pre) ls)
                               @ drop (idx + length target) content;
                         (err, s') = osWriteFile H filename out (hostState w)
                     in (case err of
                           Some e \<Rightarrow> (Inl (WriteError filename e), w\<lparr>hostState := s'\<rparr>)
                         | None \<Rightarrow> (Inr (), w\<lparr>hostState := s'\<rparr>))))))"

section \<open>The suite\<close>

definition managerImage :: string where
  "managerImage = ''example.com/model-operator:v0.0.1''"

definition setupCertManager :: "'s hostLib \<Rightarrow> ('s host, utilError, unit) io" where
  "setupCertManager H w =
     (if osLookupEnv H ''CERT_MANAGER_INSTALL_SKIP'' (hostState w) = Some ''true''
      then (Inr (), noteLine SkippedInstall w)
      else
        (case IsCertManagerCRDsInstalled H w of
           (True, w1) \<Rightarrow> (Inr (), noteLine AlreadyInstalled w1)
         | (False, w1) \<Rightarrow> InstallCertManager H (w1\<lparr>shouldCleanup := True\<rparr>)))"

definition teardownCertManager :: "'s hostLib \<Rightarrow> 's host \<Rightarrow> 's host" where
  "teardownCertManager H w =
     (if \<not> shouldCleanup w then noteLine SkippedCleanup w else UninstallCertManager H w)"

text \<open>The functions given to \<open>BeforeSuite\<close> and \<open>AfterSuite\<close>; a failed expectation ends the first.\<close>

definition beforeSuite :: "'s hostLib \<Rightarrow> ('s host, utilError, unit) io" where
  "beforeSuite H =
     andThen (runChecked H (osCommand [''make'', ''docker-build'', ''IMG='' @ managerImage]))
       (\<lambda>_. andThen (LoadImageToKindClusterWithName H managerImage)
         (\<lambda>_. setupCertManager H))"

definition afterSuite :: "'s hostLib \<Rightarrow> 's host \<Rightarrow> 's host" where
  "afterSuite H = teardownCertManager H"

section \<open>What the suite runs\<close>

text \<open>\<open>ranArgs w w' as\<close>: from \<open>w\<close> to \<open>w'\<close> the commands with the arguments \<open>as\<close> ran, and nothing else changed the plan to clean up.\<close>

definition ranArgs :: "'s host \<Rightarrow> 's host \<Rightarrow> string list list \<Rightarrow> bool" where
  "ranArgs w w' as \<longleftrightarrow>
     shouldCleanup w' = shouldCleanup w \<and>
     (\<exists>ks. hostRuns w' = hostRuns w @ ks \<and> map (\<lambda>k. cmdArgs (fst k)) ks = as)"

lemma ranArgs_trans: "ranArgs w w1 as \<Longrightarrow> ranArgs w1 w2 bs \<Longrightarrow> ranArgs w w2 (as @ bs)"
  unfolding ranArgs_def by fastforce

lemma ranArgs_note [simp]: "ranArgs w (noteLine l w') as = ranArgs w w' as"
  by (simp add: ranArgs_def noteLine_def)

lemma ranArgs_warn [simp]: "ranArgs w (warnError e w') as = ranArgs w w' as"
  by (simp add: warnError_def)

lemma cmdArgs_osCommand [simp]: "cmdArgs (osCommand args) = args"
  by (simp add: osCommand_def)

text \<open>Every call of \<open>Run\<close> runs its command once, in the project directory, and reports its error.\<close>

lemma Run_runs:
  assumes "Run H cmd w = ((out, err), w')"
  shows "\<exists>k. hostRuns w' = hostRuns w @ [k] \<and> cmdArgs (fst k) = cmdArgs cmd \<and>
    cmdDir (fst k) = fst (GetProjectDir H (hostState w)) \<and> fst (snd k) = out \<and>
    err = map_option (CommandError (joinStrings '' '' (cmdArgs cmd)) out) (snd (snd k)) \<and>
    shouldCleanup w' = shouldCleanup w"
  using assms by (auto simp: Run_def noteLine_def Let_def split: prod.splits option.splits)

lemma Run_args: "Run H cmd w = (q, w') \<Longrightarrow> ranArgs w w' [cmdArgs cmd]"
  by (cases q) (auto simp: ranArgs_def dest!: Run_runs)

lemma runChecked_args: "runChecked H cmd w = (r, w') \<Longrightarrow> ranArgs w w' [cmdArgs cmd]"
  by (auto simp: runChecked_def dest!: Run_args split: prod.splits option.splits)

lemma LoadImage_args:
  assumes "LoadImageToKindClusterWithName H name w = (r, w')"
  shows "\<exists>kb cl. ranArgs w w' [[kb, ''load'', ''docker-image'', name, ''--name'', cl]]"
  using assms by (auto simp: LoadImageToKindClusterWithName_def Let_def dest!: runChecked_args) blast

lemma runWarned_args:
  assumes "ranArgs w w1 as"
  shows "ranArgs w (runWarned H (osCommand a) w1) (as @ [a])"
proof -
  have "ranArgs w1 (runWarned H (osCommand a) w1) [a]"
    by (auto simp: runWarned_def dest: Run_args split: prod.splits option.splits)
  with assms show ?thesis by (rule ranArgs_trans)
qed

lemma InstallCertManager_args:
  assumes "InstallCertManager H w = (r, w')"
  shows "\<exists>as. ranArgs w w' (installArgs # as) \<and> uninstallArgs \<notin> set as \<and> [''kubectl'', ''get'', ''crds''] \<notin> set as"
proof -
  obtain q w1 where q: "runChecked H (osCommand installArgs) w = (q, w1)" by fastforce
  note first = runChecked_args [OF q, simplified]
  show ?thesis
  proof (cases q)
    case (Inl e)
    with assms q first show ?thesis by (intro exI [of _ "[]"]) (simp add: InstallCertManager_def andThen_def)
  next
    case (Inr u)
    with assms q have "runChecked H (osCommand [''kubectl'', ''wait'', ''deployment.apps/cert-manager-webhook'',
        ''--for'', ''condition=Available'', ''--namespace'', ''cert-manager'', ''--timeout'', ''5m'']) w1 = (r, w')"
      by (simp add: InstallCertManager_def andThen_def)
    from ranArgs_trans [OF first runChecked_args [OF this]] show ?thesis
      by (fastforce simp: uninstallArgs_def)
  qed
qed

lemma UninstallCertManager_args:
  "\<exists>as. ranArgs w (UninstallCertManager H w) (uninstallArgs # as) \<and> [''kubectl'', ''get'', ''crds''] \<notin> set as"
proof -
  have "ranArgs w w []" by (simp add: ranArgs_def)
  from this [THEN runWarned_args, THEN runWarned_args, THEN runWarned_args] show ?thesis
    unfolding UninstallCertManager_def by fastforce
qed

text \<open>A command that lists the CRDs without an error, and among them one of cert-manager.\<close>

definition asksForCRDs :: "ran \<Rightarrow> bool" where
  "asksForCRDs k \<longleftrightarrow> cmdArgs (fst k) = [''kubectl'', ''get'', ''crds'']"

definition seesCertManager :: "ran \<Rightarrow> bool" where
  "seesCertManager k \<longleftrightarrow> snd (snd k) = None \<and> listsCertManager (fst (snd k))"

lemma IsCertManagerCRDsInstalled_runs:
  assumes "IsCertManagerCRDsInstalled H w = (b, w')"
  shows "\<exists>k. hostRuns w' = hostRuns w @ [k] \<and> asksForCRDs k \<and> b = seesCertManager k \<and> shouldCleanup w' = shouldCleanup w"
  using assms unfolding IsCertManagerCRDsInstalled_def asksForCRDs_def seesCertManager_def
  by (fastforce split: prod.splits option.splits dest!: Run_runs)

text \<open>Commands that ran beside the check, the installation and the removal do not matter.\<close>

definition fairCleanup :: "ran list \<Rightarrow> bool" where
  "fairCleanup ks \<longleftrightarrow>
     ((\<exists>k \<in> set ks. cmdArgs (fst k) = uninstallArgs) \<longleftrightarrow> (\<exists>k \<in> set ks. asksForCRDs k \<and> \<not> seesCertManager k)) \<and>
     ((\<exists>k \<in> set ks. cmdArgs (fst k) = uninstallArgs) \<longrightarrow> (\<exists>k \<in> set ks. cmdArgs (fst k) = installArgs))"

lemma fairCleanup_other:
  assumes "list_all (\<lambda>a. a \<noteq> uninstallArgs \<and> a \<noteq> [''kubectl'', ''get'', ''crds'']) (map (\<lambda>k. cmdArgs (fst k)) ks)"
    and "fairCleanup ls"
  shows "fairCleanup (ks @ ls)"
  using assms by (fastforce simp: fairCleanup_def asksForCRDs_def list_all_iff)

lemma fairCleanup_Nil: "fairCleanup []"
  by (simp add: fairCleanup_def)

lemma setup_and_teardown:
  assumes "\<not> shouldCleanup w" and "setupCertManager H w = (r, w1)"
  shows "\<exists>ks. hostRuns (afterSuite H w1) = hostRuns w @ ks \<and> fairCleanup ks"
proof (cases "osLookupEnv H ''CERT_MANAGER_INSTALL_SKIP'' (hostState w) = Some ''true''")
  case True
  with assms fairCleanup_Nil show ?thesis
    by (auto simp: setupCertManager_def afterSuite_def teardownCertManager_def noteLine_def)
next
  case skip: False
  obtain b w2 where check: "IsCertManagerCRDsInstalled H w = (b, w2)" by fastforce
  from IsCertManagerCRDsInstalled_runs [OF this] obtain k where
    k: "hostRuns w2 = hostRuns w @ [k]" "asksForCRDs k" "b = seesCertManager k" "\<not> shouldCleanup w2"
    using assms(1) by auto
  have distinct: "installArgs \<noteq> uninstallArgs" "installArgs \<noteq> [''kubectl'', ''get'', ''crds'']" "uninstallArgs \<noteq> [''kubectl'', ''get'', ''crds'']"
    by (simp_all add: installArgs_def uninstallArgs_def)
  show ?thesis
  proof (cases b)
    case True
    with assms(2) skip check k have "hostRuns (afterSuite H w1) = hostRuns w @ [k]"
      by (auto simp: setupCertManager_def afterSuite_def teardownCertManager_def noteLine_def)
    moreover have "fairCleanup [k]" using k True distinct by (simp add: fairCleanup_def asksForCRDs_def)
    ultimately show ?thesis by blast
  next
    case False
    with assms(2) skip check have "InstallCertManager H (w2\<lparr>shouldCleanup := True\<rparr>) = (r, w1)"
      by (simp add: setupCertManager_def)
    from InstallCertManager_args [OF this] obtain as js where
      "hostRuns w1 = hostRuns w @ k # js" "map (\<lambda>k. cmdArgs (fst k)) js = installArgs # as" "shouldCleanup w1"
      "uninstallArgs \<notin> set as" "[''kubectl'', ''get'', ''crds''] \<notin> set as"
      using k(1) by (auto simp: ranArgs_def)
    moreover obtain us bs where
      "hostRuns (afterSuite H w1) = hostRuns w1 @ us" "map (\<lambda>k. cmdArgs (fst k)) us = uninstallArgs # bs"
      using UninstallCertManager_args [of w1 H] \<open>shouldCleanup w1\<close>
      by (auto simp: ranArgs_def afterSuite_def teardownCertManager_def)
    ultimately have "hostRuns (afterSuite H w1) = hostRuns w @ k # js @ us"
      "installArgs \<in> (\<lambda>k. cmdArgs (fst k)) ` set js" "uninstallArgs \<in> (\<lambda>k. cmdArgs (fst k)) ` set us"
      by (simp_all flip: set_map)
    moreover from this(2) obtain i where i: "i \<in> set js" "cmdArgs (fst i) = installArgs" by (metis imageE)
    moreover from calculation(3) obtain u where u: "u \<in> set us" "cmdArgs (fst u) = uninstallArgs" by (metis imageE)
    moreover have "fairCleanup (k # js @ us)"
      using i u k(2,3) False unfolding fairCleanup_def by fastforce
    ultimately show ?thesis by blast
  qed
qed


section \<open>What uncommenting leaves\<close>

text \<open>Files: a read returns the content, a write that succeeds replaces it and no other file.\<close>

definition lawfulFiles :: "'s hostLib \<Rightarrow> ('s \<Rightarrow> string \<rightharpoonup> string) \<Rightarrow> bool" where
  "lawfulFiles H files \<longleftrightarrow>
     (\<forall>f s c. osReadFile H f s = Inr c \<longrightarrow> files s f = Some c) \<and>
     (\<forall>f c s s'. osWriteFile H f c s = (None, s') \<longrightarrow> files s' = (files s)(f \<mapsto> c))"

lemma trimPrefix_append [simp]: "trimPrefix (pre @ l) pre = l"
  by (simp add: trimPrefix_def)

lemma UncommentCode_Inr:
  assumes "lawfulFiles H files" and "files (hostState w) f = Some content" and "stringIndex content target = Some i"
    and "UncommentCode H f target pre w = (Inr u, w')" and "scanLines target \<noteq> []"
  shows "files (hostState w') = (files (hostState w))(f \<mapsto> take i content
      @ joinStrings [newline] (map (\<lambda>l. trimPrefix l pre) (scanLines target)) @ drop (i + length target) content)"
  using assms unfolding lawfulFiles_def UncommentCode_def
  by (fastforce simp: Let_def neq_Nil_conv split: sum.splits option.splits prod.splits)


section \<open>A host\<close>

text \<open>
  A host with a cert-manager that is not of the suite, a cluster whose CRDs cannot be listed, and
  files that can be read and written.
\<close>

definition demoHost :: "((string \<rightharpoonup> string) \<times> bool) hostLib" where
  "demoHost = \<lparr>osGetwd = \<lambda>s. (''/src/test/e2e'', None), osChdir = \<lambda>d s. (None, s), osEnviron = \<lambda>s. [],
     osLookupEnv = \<lambda>k s. None,
     osExec = \<lambda>c s.
       if cmdArgs c = [''kubectl'', ''get'', ''crds''] then ((''timeout'', Some ''exit status 1''), s)
       else if cmdArgs c = uninstallArgs then (([], None), (fst s, False))
       else (([], None), s),
     osReadFile = \<lambda>f s. (case fst s f of None \<Rightarrow> Inl ''no such file'' | Some c \<Rightarrow> Inr c),
     osWriteFile = \<lambda>f c s. (None, ((fst s)(f \<mapsto> c), snd s))\<rparr>"

definition demoWorld :: "string \<Rightarrow> ((string \<rightharpoonup> string) \<times> bool) host" where
  "demoWorld c = \<lparr>hostState = ([''main.go'' \<mapsto> c], True), hostRuns = [], hostLog = [], shouldCleanup = False\<rparr>"

lemma demoHost_exec:
  "osLookupEnv demoHost k s = None"
  "osExec demoHost c s =
     (if cmdArgs c = [''kubectl'', ''get'', ''crds''] then ((''timeout'', Some ''exit status 1''), s)
      else if cmdArgs c = uninstallArgs then (([], None), (fst s, False))
      else (([], None), s))"
  by (simp_all add: demoHost_def)

lemma Run_demo:
  "Run demoHost cmd w = (let r = osExec demoHost cmd (hostState w) in
     ((fst (fst r), map_option (CommandError (joinStrings '' '' (cmdArgs cmd)) (fst (fst r))) (snd (fst r))),
      (noteLine (RunningCommand (joinStrings '' '' (cmdArgs cmd))) w)\<lparr>hostState := snd r,
         hostRuns := hostRuns w @ [(cmd\<lparr>cmdDir := ''/src'', cmdEnv := [''GO111MODULE=on'']\<rparr>, fst r)]\<rparr>))"
  by (auto simp: Run_def demoHost_def GetProjectDir_def noteLine_def Let_def split: prod.splits)

lemma runs_demo:
  "runChecked demoHost cmd w =
     (if cmdArgs cmd = [''kubectl'', ''get'', ''crds'']
      then (Inl (CommandError ''kubectl get crds'' ''timeout'' ''exit status 1''), snd (Run demoHost cmd w))
      else (Inr (), snd (Run demoHost cmd w)))"
  "shouldCleanup (snd (Run demoHost cmd w)) = shouldCleanup w"
  "hostState (runWarned demoHost cmd w) =
     (if cmdArgs cmd = uninstallArgs then (fst (hostState w), False) else hostState w)"
  by (auto simp: runChecked_def runWarned_def Run_demo demoHost_exec Let_def uninstallArgs_def warnError_def noteLine_def)

lemma demo_suite:
  "\<exists>w1. beforeSuite demoHost w = (Inr (), w1) \<and> shouldCleanup w1"
  "shouldCleanup v \<Longrightarrow> \<not> snd (hostState (afterSuite demoHost v))"
  by (simp_all add: beforeSuite_def andThen_def LoadImageToKindClusterWithName_def setupCertManager_def
      IsCertManagerCRDsInstalled_def InstallCertManager_def afterSuite_def teardownCertManager_def
      UninstallCertManager_def Run_demo [of "osCommand [''kubectl'', ''get'', ''crds'']"]
      runs_demo demoHost_exec Let_def installArgs_def uninstallArgs_def)



end
