(* ===== verification/Spec2Isabelle.thy ===== *)
theory Spec2Isabelle
  imports ArtifactFinal OperatorMem TestUtils
begin

text \<open>
  A verification library for the model operator, a Kubernetes operator with two controllers. One
  turns a \<open>ModelArtifact\<close> into a Job that imports a model, packs it and pushes it to an OCI registry.
  The other turns a \<open>ModelService\<close> into serving Deployments, an endpoint picker (EPP) and the routing
  and monitoring objects around them. \<open>src/cmd/main.go\<close> reads the settings and starts both.

  \<^bold>\<open>Parts.\<close> The theories follow the packages under \<open>src/\<close>; a definition has the name of the Go function
  or type it translates, with a suffix \<open>MA\<close> or \<open>MS\<close> where both controllers have one of that name, and
  a piece of a long function that is a definition of its own is listed with its lines in the manifest.

  \<^item> \<open>Prelude\<close>, \<open>GoStrings\<close>: early returns, sequences of fallible steps, 32-bit integers and the
    string functions of Go that the code calls.
  \<^item> \<open>KubeTypes\<close>, \<open>KubeObjects\<close>, \<open>CrdTypes\<close>: the API objects, one record per struct.
  \<^item> \<open>KubeClient\<close>, \<open>Rbac\<close>, \<open>Conditions\<close>: the client side of the API server, the permission markers of
    the controllers, and status conditions.
  \<^item> \<open>Labels\<close>: \<open>internal/labels\<close>.
  \<^item> \<open>ArtifactJob\<close>, \<open>ArtifactStatus\<close>, \<open>ArtifactReconcile\<close>: \<open>internal/modelartifact\<close> (builders, status
    derivation, operations); \<open>ArtifactController\<close>: \<open>internal/controller/modelartifact_controller.go\<close>.
  \<^item> \<open>ServiceHelpers\<close>, \<open>ServiceDeployment\<close>, \<open>ServiceEPP\<close>, \<open>ServiceRouting\<close>, \<open>ServiceStatus\<close>:
    the pure part of \<open>internal/modelservice\<close>; \<open>EnsureResource\<close> and \<open>ServiceReconcile\<close>: its
    \<open>reconcile.go\<close>; \<open>ServiceController\<close>: \<open>internal/controller/modelservice_controller.go\<close>.
  \<^item> \<open>Operator\<close>: \<open>cmd/main.go\<close> and what each controller watches.
  \<^item> \<open>ArtifactLoop\<close>, \<open>ArtifactSystem\<close>, \<open>ArtifactFinal\<close> and \<open>ServiceStore\<close> up to \<open>ServiceSystem\<close>: the
    properties of the two loops; \<open>PodTypes\<close>: what the API server demands of the workloads built.
  \<^item> \<open>TestUtils\<close>: \<open>test/utils\<close> and the set-up and tear-down of the suite in \<open>test/e2e\<close>, over a host
    whose files and programs are parameters.
  \<^item> \<open>MemServer\<close>, \<open>ArtifactMem\<close>, \<open>ServiceMem\<close>, \<open>OperatorMem\<close>: an executable server that meets every law
    assumed of one, and the witnesses that run on it.

  \<^bold>\<open>State and effects.\<close> A controller keeps no state between two runs: everything is in the API server.
  The server is not code of the repository, so it is a parameter, a record \<open>kindApi\<close> of operations
  per kind over a state of any type. A method of a controller is a function on a \<open>world\<close>, the server
  state and the sequence of calls sent so far, that returns \<open>Inl\<close> the error or \<open>Inr\<close> the result. The
  receiver of the methods is the record \<open>maReconciler\<close> or \<open>msReconciler\<close>, which also holds the
  library functions the code calls (owner references, \<open>SetStatusCondition\<close>, semantic equality,
  SHA-256, \<open>Quantity.String\<close>). Nothing is assumed of these but where a property says so:
  \<open>cooperativeMS\<close> and its counterparts state their documented behaviour, and \<open>willing\<close> that the
  server refuses no call but for a reason the code handles.

  \<^bold>\<open>Interfaces.\<close> The locale \<open>labelScheme\<close> (\<open>Labels\<close>) is what a selector and a set of labels owe each
  other across versions of the operator; the locale \<open>managedKind\<close> (\<open>EnsureResource\<close>) is what the
  generic create-or-update owes to and expects of the \<open>mutateFn\<close> of a kind, and its lemmas on
  convergence are used for every kind through an interpretation. \<open>memLens\<close> (\<open>MemServer\<close>) is the
  place of one kind in the in-memory server.

  \<^bold>\<open>What is shown.\<close>

  \<^item> The loops as a whole. \<open>ServiceStore\<close> gives the specification of the service controller, the
    desired state \<open>inSync\<close> of an abstract store; \<open>ServiceSync\<close> and \<open>ServiceLoop\<close> show that a
    successful reconcile reaches it, \<open>ServiceIdle\<close> that a sync in that state only reads, \<open>ServiceOrder\<close>
    that the EPP Deployment follows its inputs, \<open>ServiceReturns\<close> that the loop fails only with the
    server, \<open>ServiceLoop\<close> that cluster-scoped objects are never orphaned and are removed on deletion.
    \<open>ArtifactLoop\<close> has the same kinds of facts for artifacts: one pipeline per artifact, no work on a
    finished one, a status that is a fixed point. \<open>ServiceRest\<close> shows that a reconciled service is at
    rest; with Istio the one thing it repeats is the update of the DestinationRule.
  \<^item> Errors. \<open>ServiceErrors\<close> accounts for every failure of a reconcile of a service: which step failed,
    that none after it was tried, and how the user sees it.
  \<^item> The controllers in their environment. \<open>ServiceSystem\<close>, \<open>ArtifactSystem\<close> and \<open>ArtifactFinal\<close> define
    the states reached by reconciles of any objects, in any order, by operators of any version, with
    calls that fail at any point (a crash is a run whose later calls fail), between steps of others,
    and prove invariants by induction over these runs: cluster-scoped objects are accounted for, an
    artifact has one pipeline, a finished artifact stays finished. They take a list to show the
    Jobs of the moment; what a list that lags behind does is a theorem of its own.
  \<^item> Permissions. Whatever the server answers, a reconcile sends only requests the markers permit
    (\<open>emits (granted ...)\<close>), the EPP's roles grant nothing more, and the caches may read what they watch.
  \<^item> The objects. In each Pod the mounts, ports, images, accounts and configuration files fit
    together, also across objects: Service, pool, route, monitor and selector find what they name.
    \<open>PodTypes\<close> shows that every workload has the form the API server checks, and exactly when two
    containers of a Pod claim one port.
  \<^item> The status derivations: coherence of phase, condition and message, and the latest message.
  \<^item> What the code does not achieve. Where the model shows that an intention fails (a changed spec of a
    finished artifact, colliding names, a masked outage, a Secret that is asked for and removed),
    there is a theorem for it, and the manifest lists it as a finding.

  \<^bold>\<open>Bounds and termination.\<close> Replica counts, ports and GPU counts are 32-bit words with Go's wrap-around;
  where a property needs that a sum or product fits, it says so. Every loop of the code runs over a
  list or shortens a string, so all functions are total and there is no fuel. A reconcile is one
  run; that it is repeated is the work of controller-runtime.

  \<^bold>\<open>Not modelled.\<close> The work queue, the caches and the event dispatch of controller-runtime (the plan of
  the watches is modelled, not what it triggers); logging; the packages whose types \<open>init\<close> of
  \<open>main.go\<close> registers and the flags of zap and of the kubeconfig, which are
  parameters; the cases of the end-to-end tests, which run a cluster.
\<close>

end
